(* ===== verification/Prelude.thy ===== *)
theory Prelude
  imports Main "HOL-Library.Word" "HOL-Library.Sublist"
begin

text \<open>
  Shared ground of the development: the Go string and integer operations the service
  uses, the state-and-error operations every store and handler is written with, and the
  rules that carry a relation on states through such an operation.

  Go strings are byte strings, and so are HOL strings (a \<^typ>\<open>char\<close> is a byte).
  A time is the number of nanoseconds since Go's zero time, so that \<open>IsZero\<close> is
  \<open>t = 0\<close>; a duration is a number of nanoseconds. Integers are \<^typ>\<open>int\<close>,
  and the machine width is written out wherever the code can reach it.
\<close>

named_theorems op_simps
  \<open>evaluation of the state-and-error operations\<close>
named_theorems steps_intros
  \<open>rules that carry a state relation through an operation\<close>

named_theorems fails_intros
  \<open>rules that bound the errors an operation returns\<close>

section \<open>Strings\<close>

definition has_prefix :: "string \<Rightarrow> string \<Rightarrow> bool" where
  "has_prefix s p \<longleftrightarrow> prefix p s"

definition has_suffix :: "string \<Rightarrow> string \<Rightarrow> bool" where
  "has_suffix s p \<longleftrightarrow> suffix p s"

fun contains :: "string \<Rightarrow> string \<Rightarrow> bool" where
  "contains [] p \<longleftrightarrow> p = []"
| "contains (c # s) p \<longleftrightarrow> prefix p (c # s) \<or> contains s p"

definition contains_any :: "string \<Rightarrow> string \<Rightarrow> bool" where
  "contains_any s cs \<longleftrightarrow> list_ex (\<lambda>c. c \<in> set cs) s"

text \<open>\<open>strings.Trim\<close>, \<open>TrimLeft\<close>, \<open>TrimRight\<close> with an ASCII cutset.\<close>

definition trim_left_set :: "string \<Rightarrow> string \<Rightarrow> string" where
  "trim_left_set cs s = dropWhile (\<lambda>c. c \<in> set cs) s"

definition trim_right_set :: "string \<Rightarrow> string \<Rightarrow> string" where
  "trim_right_set cs s = rev (dropWhile (\<lambda>c. c \<in> set cs) (rev s))"

definition trim_set :: "string \<Rightarrow> string \<Rightarrow> string" where
  "trim_set cs s = trim_right_set cs (trim_left_set cs s)"

text \<open>
  \<open>strings.TrimSpace\<close> drops the Unicode white space at both ends. A white-space rune is
  one of the byte sequences below, and a string starts (ends) with such a rune exactly when
  it starts (ends) with its bytes.
\<close>

definition space_seqs :: "string list" where
  "space_seqs =
     [[CHR 0x20], [CHR 0x09], [CHR 0x0A], [CHR 0x0B], [CHR 0x0C], [CHR 0x0D],
      [CHR 0xC2, CHR 0x85], [CHR 0xC2, CHR 0xA0], [CHR 0xE1, CHR 0x9A, CHR 0x80],
      [CHR 0xE2, CHR 0x80, CHR 0x80], [CHR 0xE2, CHR 0x80, CHR 0x81],
      [CHR 0xE2, CHR 0x80, CHR 0x82], [CHR 0xE2, CHR 0x80, CHR 0x83],
      [CHR 0xE2, CHR 0x80, CHR 0x84], [CHR 0xE2, CHR 0x80, CHR 0x85],
      [CHR 0xE2, CHR 0x80, CHR 0x86], [CHR 0xE2, CHR 0x80, CHR 0x87],
      [CHR 0xE2, CHR 0x80, CHR 0x88], [CHR 0xE2, CHR 0x80, CHR 0x89],
      [CHR 0xE2, CHR 0x80, CHR 0x8A], [CHR 0xE2, CHR 0x80, CHR 0xA8],
      [CHR 0xE2, CHR 0x80, CHR 0xA9], [CHR 0xE2, CHR 0x80, CHR 0xAF],
      [CHR 0xE2, CHR 0x81, CHR 0x9F], [CHR 0xE3, CHR 0x80, CHR 0x80]]"

function drop_seqs :: "string list \<Rightarrow> string \<Rightarrow> string" where
  "drop_seqs ps s =
     (case List.find (\<lambda>p. p \<noteq> [] \<and> prefix p s) ps of
        None \<Rightarrow> s
      | Some p \<Rightarrow> drop_seqs ps (drop (length p) s))"
  by pat_completeness auto
termination
  by (relation "measure (\<lambda>(ps, s). length s)")
     (auto simp: find_Some_iff prefix_def)

declare drop_seqs.simps [simp del]

definition trim_space :: "string \<Rightarrow> string" where
  "trim_space s = rev (drop_seqs (map rev space_seqs) (rev (drop_seqs space_seqs s)))"

text \<open>ASCII lower case and case folding; the strings the service folds are ASCII.\<close>

definition lower_char :: "char \<Rightarrow> char" where
  "lower_char c = (if 65 \<le> (of_char c :: nat) \<and> (of_char c :: nat) \<le> 90
     then char_of ((of_char c :: nat) + 32) else c)"

definition to_lower :: "string \<Rightarrow> string" where
  "to_lower s = map lower_char s"

definition equal_fold :: "string \<Rightarrow> string \<Rightarrow> bool" where
  "equal_fold s t \<longleftrightarrow> to_lower s = to_lower t"

text \<open>\<open>strings.Split\<close> on one byte, and \<open>strings.Cut\<close> / \<open>SplitN(s, sep, 2)\<close>.\<close>

fun split_on :: "char \<Rightarrow> string \<Rightarrow> string list" where
  "split_on c [] = [[]]"
| "split_on c (x # xs) =
     (if x = c then [] # split_on c xs
      else (case split_on c xs of [] \<Rightarrow> [[x]] | y # ys \<Rightarrow> (x # y) # ys))"

definition cut :: "char \<Rightarrow> string \<Rightarrow> string \<times> string option" where
  "cut c s = (takeWhile (\<lambda>x. x \<noteq> c) s,
     (case dropWhile (\<lambda>x. x \<noteq> c) s of [] \<Rightarrow> None | _ # r \<Rightarrow> Some r))"

text \<open>The decimal rendering of \<open>%d\<close>.\<close>

definition digit_char :: "nat \<Rightarrow> char" where
  "digit_char n = char_of (48 + n)"

fun nat_dec :: "nat \<Rightarrow> string" where
  "nat_dec n = (if n < 10 then [digit_char n] else nat_dec (n div 10) @ [digit_char (n mod 10)])"

declare nat_dec.simps [simp del]

definition int_dec :: "int \<Rightarrow> string" where
  "int_dec i = (if i < 0 then CHR ''-'' # nat_dec (nat (- i)) else nat_dec (nat i))"

definition is_hex :: "char \<Rightarrow> bool" where
  "is_hex c \<longleftrightarrow> c \<in> set ''0123456789abcdefABCDEF''"

definition is_lower_hex :: "char \<Rightarrow> bool" where
  "is_lower_hex c \<longleftrightarrow> c \<in> set ''0123456789abcdef''"

subsection \<open>Facts about strings\<close>

lemma trim_set_Nil [simp]: "trim_set cs [] = []"
  by (simp add: trim_set_def trim_left_set_def trim_right_set_def)

lemma rev_dropWhile_rev_eq_take: "\<exists>n. rev (dropWhile P (rev s)) = take n s"
  by (metis dropWhile_eq_drop rev_drop rev_rev_ident)

lemma trim_set_factor: "\<exists>n m. trim_set cs s = take n (drop m s)"
proof -
  have "trim_left_set cs s = drop (length (takeWhile (\<lambda>c. c \<in> set cs) s)) s"
    by (simp add: trim_left_set_def dropWhile_eq_drop)
  then show ?thesis
    unfolding trim_set_def trim_right_set_def
    using rev_dropWhile_rev_eq_take by metis
qed

lemma set_trim_set: "set (trim_set cs s) \<subseteq> set s"
  by (metis set_drop_subset set_take_subset subset_trans trim_set_factor)

lemma trim_set_hd: "trim_set cs s = c # r \<Longrightarrow> c \<notin> set cs"
proof -
  assume t: "trim_set cs s = c # r"
  then obtain d x where d: "trim_left_set cs s = d # x"
    by (cases "trim_left_set cs s") (auto simp: trim_set_def trim_right_set_def)
  then have dn: "d \<notin> set cs"
    by (metis dropWhile_eq_Cons_conv trim_left_set_def)
  from dn have "dropWhile (\<lambda>c. c \<in> set cs) (rev x @ [d]) = dropWhile (\<lambda>c. c \<in> set cs) (rev x) @ [d]"
    by (simp add: dropWhile_append3)
  with t d have "d = c"
    by (simp add: trim_set_def trim_right_set_def)
  with dn show ?thesis by simp
qed

lemma contains_iff: "contains s p \<longleftrightarrow> (\<exists>u v. s = u @ p @ v)"
proof (induction s)
  case Nil
  then show ?case by auto
next
  case (Cons c s)
  note IH = Cons
  show ?case
  proof
    assume "contains (c # s) p"
    then show "\<exists>u v. c # s = u @ p @ v"
    proof (cases "prefix p (c # s)")
      case True
      then show ?thesis by (metis append_Nil prefixE)
    next
      case False
      with \<open>contains (c # s) p\<close> Cons show ?thesis by (metis append_Cons contains.simps(2))
    qed
  next
    assume "\<exists>u v. c # s = u @ p @ v"
    then obtain u v where uv: "c # s = u @ p @ v" by blast
    show "contains (c # s) p"
    proof (cases u)
      case Nil
      with uv have "prefix p (c # s)" by simp
      then show ?thesis by simp
    next
      case (Cons d w)
      with uv have "s = w @ p @ v" by simp
      with IH show ?thesis by auto
    qed
  qed
qed

lemma contains_append_right: "contains s p \<Longrightarrow> contains (s @ t) p"
  by (metis append_assoc contains_iff)

lemma contains_append_left: "contains s p \<Longrightarrow> contains (t @ s) p"
  by (metis append_assoc contains_iff)

lemma contains_single: "contains s [c] \<longleftrightarrow> c \<in> set s"
  by (induction s) auto

lemma contains_any_iff: "contains_any s cs \<longleftrightarrow> (\<exists>c \<in> set s. c \<in> set cs)"
  by (simp add: contains_any_def list_ex_iff)

lemma split_on_nonempty [simp]: "split_on c s \<noteq> []"
  by (induction s) (auto split: list.splits)

lemma length_to_lower [simp]: "length (to_lower s) = length s"
  by (simp add: to_lower_def)

lemma digit_char_inj: "a < 10 \<Longrightarrow> b < 10 \<Longrightarrow> digit_char a = digit_char b \<longleftrightarrow> a = b"
  by (auto simp: digit_char_def char_of_eq_iff take_bit_eq_mod)

lemma digit_char_in: "n < 10 \<Longrightarrow> digit_char n \<in> set ''0123456789''"
proof -
  have "\<forall>k \<in> set [0 ..< 10]. digit_char k \<in> set ''0123456789''" by code_simp
  then show "n < 10 \<Longrightarrow> ?thesis" by simp
qed

lemma nat_dec_nonempty: "nat_dec n \<noteq> []"
  by (subst nat_dec.simps) simp

lemma nat_dec_digits: "set (nat_dec n) \<subseteq> set ''0123456789''"
proof (induction n rule: nat_dec.induct)
  case (1 n)
  show ?case
  proof (cases "n < 10")
    case True
    then show ?thesis using digit_char_in by (subst nat_dec.simps) auto
  next
    case False
    moreover have "digit_char (n mod 10) \<in> set ''0123456789''"
      by (rule digit_char_in) simp
    ultimately show ?thesis using 1 by (subst nat_dec.simps) auto
  qed
qed

lemma nat_dec_inj: "nat_dec n = nat_dec m \<Longrightarrow> n = m"
proof (induction n arbitrary: m rule: nat_dec.induct)
  case (1 n)
  show ?case
  proof (cases "n < 10")
    case True
    then show ?thesis
      using "1.prems"
      by (cases "m < 10")
         (auto simp: nat_dec.simps [of n] nat_dec.simps [of m] digit_char_inj nat_dec_nonempty
           dest: sym [of "[]"])
  next
    case False
    then show ?thesis
    proof (cases "m < 10")
      case True
      with False "1.prems" show ?thesis
        using nat_dec_nonempty by (simp add: nat_dec.simps [of n] nat_dec.simps [of m])
    next
      case m: False
      with False "1.prems" have "nat_dec (n div 10) = nat_dec (m div 10)"
        and "digit_char (n mod 10) = digit_char (m mod 10)"
        by (simp_all add: nat_dec.simps [of n] nat_dec.simps [of m])
      with False "1.IH" have "n div 10 = m div 10" and "n mod 10 = m mod 10"
        by (simp_all add: digit_char_inj)
      then show ?thesis by (metis div_mult_mod_eq)
    qed
  qed
qed

lemma nat_dec_length: "0 < k \<Longrightarrow> n < 10 ^ k \<Longrightarrow> length (nat_dec n) \<le> k"
proof (induction k arbitrary: n)
  case 0
  then show ?case by simp
next
  case (Suc k)
  show ?case
  proof (cases "n < 10")
    case True
    then show ?thesis by (simp add: nat_dec.simps [of n])
  next
    case False
    with Suc.prems have "k \<noteq> 0" by (cases k) auto
    moreover from Suc.prems have "n div 10 < 10 ^ k" by (simp add: less_mult_imp_div_less)
    ultimately have "length (nat_dec (n div 10)) \<le> k" using Suc.IH by simp
    with False show ?thesis by (simp add: nat_dec.simps [of n])
  qed
qed

section \<open>Machine integers\<close>

text \<open>Go's \<open>int64\<close> and \<open>int32\<close>: two's complement values kept as \<^typ>\<open>int\<close>.\<close>

definition max_int64 :: int where
  "max_int64 = 9223372036854775807"

definition max_int32 :: int where
  "max_int32 = 2147483647"

definition in_int64 :: "int \<Rightarrow> bool" where
  "in_int64 i \<longleftrightarrow> - 9223372036854775808 \<le> i \<and> i \<le> 9223372036854775807"

definition in_int32 :: "int \<Rightarrow> bool" where
  "in_int32 i \<longleftrightarrow> - 2147483648 \<le> i \<and> i \<le> 2147483647"

definition wrap64 :: "int \<Rightarrow> int" where
  "wrap64 i = (i + 9223372036854775808) mod 18446744073709551616 - 9223372036854775808"

definition wrap32 :: "int \<Rightarrow> int" where
  "wrap32 i = (i + 2147483648) mod 4294967296 - 2147483648"

text \<open>Go's division rounds towards zero.\<close>

definition trunc_div :: "int \<Rightarrow> int \<Rightarrow> int" where
  "trunc_div a b =
     (let q = \<bar>a\<bar> div \<bar>b\<bar> in if (a < 0) = (b < 0) then q else - q)"

lemma wrap64_range: "in_int64 (wrap64 i)"
  unfolding in_int64_def wrap64_def
  using pos_mod_bound [of 18446744073709551616 "i + 9223372036854775808"]
    pos_mod_sign [of 18446744073709551616 "i + 9223372036854775808"] by linarith

lemma wrap64_id: "in_int64 i \<Longrightarrow> wrap64 i = i"
  by (simp add: in_int64_def wrap64_def)

lemma wrap32_id: "in_int32 i \<Longrightarrow> wrap32 i = i"
  by (simp add: in_int32_def wrap32_def)

lemma trunc_div_nonneg: "0 \<le> a \<Longrightarrow> 0 < b \<Longrightarrow> trunc_div a b = a div b"
  by (simp add: trunc_div_def)

text \<open>Strings by their role: text shown to people, JSON, and keys or digests.\<close>

type_synonym label = string
type_synonym json = string
type_synonym token = string

section \<open>Operations on a state that may fail\<close>

text \<open>
  A method that reads and writes shared state and returns \<open>(value, error)\<close> is a function
  of the state: \<open>Inl\<close> is the error, \<open>Inr\<close> the value, and the state is returned in both
  cases, because a failing method may have written before it failed.
\<close>

type_synonym ('s, 'e, 'a) oper = "'s \<Rightarrow> ('e + 'a) \<times> 's"

definition ret :: "'a \<Rightarrow> ('s, 'e, 'a) oper" where
  "ret x s = (Inr x, s)"

definition throw :: "'e \<Rightarrow> ('s, 'e, 'a) oper" where
  "throw e s = (Inl e, s)"

definition lift :: "'e + 'a \<Rightarrow> ('s, 'e, 'a) oper" where
  "lift r s = (r, s)"

text \<open>\<open>x, err := m(); if err != nil { return err }\<close>, then the rest.\<close>

definition andThen :: "('s, 'e, 'a) oper \<Rightarrow> ('a \<Rightarrow> ('s, 'e, 'b) oper) \<Rightarrow> ('s, 'e, 'b) oper" where
  "andThen m f s = (case m s of (Inl e, t) \<Rightarrow> (Inl e, t) | (Inr x, t) \<Rightarrow> f x t)"

text \<open>\<open>x, err := m()\<close> where both outcomes are inspected.\<close>

definition inspect :: "('s, 'e, 'a) oper \<Rightarrow> ('e + 'a \<Rightarrow> ('s, 'e, 'b) oper) \<Rightarrow> ('s, 'e, 'b) oper" where
  "inspect m f s = (case m s of (r, t) \<Rightarrow> f r t)"

definition mapErr :: "('e \<Rightarrow> 'e) \<Rightarrow> ('s, 'e, 'a) oper \<Rightarrow> ('s, 'e, 'a) oper" where
  "mapErr h m s = (case m s of (Inl e, t) \<Rightarrow> (Inl (h e), t) | (Inr x, t) \<Rightarrow> (Inr x, t))"

lemma ret_apply [simp, op_simps]: "ret x s = (Inr x, s)"
  by (simp add: ret_def)

lemma throw_apply [simp, op_simps]: "throw e s = (Inl e, s)"
  by (simp add: throw_def)

lemma lift_apply [simp, op_simps]: "lift r s = (r, s)"
  by (simp add: lift_def)

lemma andThen_Inr_iff:
  "andThen m f s = (Inr y, u) \<longleftrightarrow> (\<exists>x t. m s = (Inr x, t) \<and> f x t = (Inr y, u))"
  by (auto simp: andThen_def split: prod.splits sum.splits)

lemma andThen_InrE:
  assumes "andThen m f s = (Inr y, u)"
  obtains x t where "m s = (Inr x, t)" and "f x t = (Inr y, u)"
  using assms by (auto simp: andThen_Inr_iff)

lemma inspect_iff: "inspect m f s = p \<longleftrightarrow> (\<exists>r t. m s = (r, t) \<and> f r t = p)"
  by (cases "m s") (simp add: inspect_def)

text \<open>The branches an operation may have taken, from its outcome.\<close>

lemma sum_op_iff: "(case r of Inl e \<Rightarrow> f e | Inr x \<Rightarrow> g x) s = p \<longleftrightarrow>
    (\<exists>e. r = Inl e \<and> f e s = p) \<or> (\<exists>x. r = Inr x \<and> g x s = p)"
  by (cases r) simp_all

lemma option_op_iff: "(case r of None \<Rightarrow> f | Some x \<Rightarrow> g x) s = p \<longleftrightarrow>
    r = None \<and> f s = p \<or> (\<exists>x. r = Some x \<and> g x s = p)"
  by (cases r) simp_all

lemma if_op_iff: "(if c then f else g) s = p \<longleftrightarrow> c \<and> f s = p \<or> \<not> c \<and> g s = p"
  by simp

lemmas op_outcomes = andThen_Inr_iff inspect_iff sum_op_iff option_op_iff if_op_iff

lemma andThen_eval [op_simps]:
  "m s = (Inr x, t) \<Longrightarrow> andThen m f s = f x t"
  "m s = (Inl e, t) \<Longrightarrow> andThen m f s = (Inl e, t)"
  by (simp_all add: andThen_def)

lemma mapErr_Inr_iff [op_simps]: "mapErr h m s = (Inr y, u) \<longleftrightarrow> m s = (Inr y, u)"
  by (auto simp: mapErr_def split: prod.splits sum.splits)

lemma mapErr_eval:
  "m s = (Inr x, t) \<Longrightarrow> mapErr h m s = (Inr x, t)"
  "m s = (Inl e, t) \<Longrightarrow> mapErr h m s = (Inl (h e), t)"
  by (simp_all add: mapErr_def)

lemma snd_mapErr [simp]: "snd (mapErr h m s) = snd (m s)"
  by (simp add: mapErr_def split: prod.splits sum.splits)

text \<open>\<open>steps_in R m\<close>: whatever \<open>m\<close> returns, the state it leaves is \<open>R\<close>-related to the one
  it started from.\<close>

definition steps_in :: "('s \<Rightarrow> 's \<Rightarrow> bool) \<Rightarrow> ('s, 'e, 'a) oper \<Rightarrow> bool" where
  "steps_in R m \<longleftrightarrow> (\<forall>s. R s (snd (m s)))"

lemma steps_inI: "(\<And>s. R s (snd (m s))) \<Longrightarrow> steps_in R m"
  by (simp add: steps_in_def)

lemma steps_in_at: "steps_in R m \<Longrightarrow> R s (snd (m s))"
  by (simp add: steps_in_def)

lemma steps_inD: "steps_in R m \<Longrightarrow> m s = (r, t) \<Longrightarrow> R s t"
  by (metis snd_conv steps_in_def)

lemma steps_if [steps_intros]:
  "(c \<Longrightarrow> steps_in R a) \<Longrightarrow> (\<not> c \<Longrightarrow> steps_in R b) \<Longrightarrow> steps_in R (if c then a else b)"
  by simp

lemma steps_case_prod [steps_intros]:
  "(\<And>a b. steps_in R (f a b)) \<Longrightarrow> steps_in R (case p of (a, b) \<Rightarrow> f a b)"
  by (simp split: prod.split)

lemma steps_case_bool [steps_intros]:
  "steps_in R a \<Longrightarrow> steps_in R b \<Longrightarrow> steps_in R (case c of True \<Rightarrow> a | False \<Rightarrow> b)"
  by (simp split: bool.split)

lemma steps_case_option [steps_intros]:
  "steps_in R a \<Longrightarrow> (\<And>x. steps_in R (f x)) \<Longrightarrow> steps_in R (case p of None \<Rightarrow> a | Some x \<Rightarrow> f x)"
  by (simp split: option.split)

lemma steps_case_sum [steps_intros]:
  "(\<And>x. steps_in R (f x)) \<Longrightarrow> (\<And>x. steps_in R (g x)) \<Longrightarrow>
   steps_in R (case p of Inl x \<Rightarrow> f x | Inr x \<Rightarrow> g x)"
  by (simp split: sum.split)

lemma steps_case_list [steps_intros]:
  "steps_in R a \<Longrightarrow> (\<And>x xs. steps_in R (f x xs)) \<Longrightarrow>
   steps_in R (case p of [] \<Rightarrow> a | x # xs \<Rightarrow> f x xs)"
  by (simp split: list.split)

lemma steps_Let [steps_intros]: "(\<And>x. steps_in R (f x)) \<Longrightarrow> steps_in R (let x = v in f x)"
  by (simp add: Let_def)

lemma steps_mapErr [steps_intros]: "steps_in R m \<Longrightarrow> steps_in R (mapErr h m)"
  by (simp add: steps_in_def)

text \<open>\<open>fails_with P m\<close>: whatever state \<open>m\<close> starts from, an error it returns satisfies \<open>P\<close>.\<close>

definition fails_with :: "('e \<Rightarrow> bool) \<Rightarrow> ('s, 'e, 'a) oper \<Rightarrow> bool" where
  "fails_with P m \<longleftrightarrow> (\<forall>s e t. m s = (Inl e, t) \<longrightarrow> P e)"

lemma fails_ret [fails_intros]: "fails_with P (ret x)"
  by (simp add: fails_with_def)

lemma fails_throw [fails_intros]: "P e \<Longrightarrow> fails_with P (throw e)"
  by (simp add: fails_with_def)

lemma fails_lift [fails_intros]: "(\<And>e. r = Inl e \<Longrightarrow> P e) \<Longrightarrow> fails_with P (lift r)"
  by (simp add: fails_with_def)

lemma fails_andThen [fails_intros]:
  "fails_with P m \<Longrightarrow> (\<And>x. fails_with P (f x)) \<Longrightarrow> fails_with P (andThen m f)"
  by (auto simp: fails_with_def andThen_def split: prod.splits sum.splits)

lemma fails_inspect [fails_intros]: "(\<And>r. fails_with P (f r)) \<Longrightarrow> fails_with P (inspect m f)"
  by (auto simp: fails_with_def inspect_def split: prod.splits)

lemma fails_mapErr [fails_intros]: "(\<And>e. P (h e)) \<Longrightarrow> fails_with P (mapErr h m)"
  by (auto simp: fails_with_def mapErr_def split: prod.splits sum.splits)

lemma fails_branches [fails_intros]:
  "(c \<Longrightarrow> fails_with P a) \<Longrightarrow> (\<not> c \<Longrightarrow> fails_with P b) \<Longrightarrow> fails_with P (if c then a else b)"
  "(\<And>x y. fails_with P (g x y)) \<Longrightarrow> fails_with P (case q of (x, y) \<Rightarrow> g x y)"
  "fails_with P a \<Longrightarrow> (\<And>x. o1 = Some x \<Longrightarrow> fails_with P (k x)) \<Longrightarrow>
     fails_with P (case o1 of None \<Rightarrow> a | Some x \<Rightarrow> k x)"
  "fails_with P a \<Longrightarrow> fails_with P b \<Longrightarrow> fails_with P (case d of True \<Rightarrow> a | False \<Rightarrow> b)"
  "(\<And>x. r = Inl x \<Longrightarrow> fails_with P (i x)) \<Longrightarrow> (\<And>x. fails_with P (j x)) \<Longrightarrow>
     fails_with P (case r of Inl x \<Rightarrow> i x | Inr x \<Rightarrow> j x)"
  by (simp_all split: prod.split option.split bool.split sum.split)

text \<open>
  The interface between a relation on states and the operations: a preorder is kept by
  every sequence of operations that keep it. Invariants (\<open>\<lambda>s t. I s \<longrightarrow> I t\<close>), frames and
  transition relations are all such preorders.
\<close>

locale state_preorder =
  fixes R :: "'s \<Rightarrow> 's \<Rightarrow> bool"
  assumes R_refl: "R s s"
    and R_trans: "R s t \<Longrightarrow> R t u \<Longrightarrow> R s u"
begin

lemma steps_ret: "steps_in R (ret x)"
  by (simp add: steps_in_def R_refl)

lemma steps_throw: "steps_in R (throw e)"
  by (simp add: steps_in_def R_refl)

lemma steps_lift: "steps_in R (lift r)"
  by (simp add: steps_in_def R_refl)

lemma steps_andThen:
  assumes "steps_in R m" and "\<And>x. steps_in R (f x)"
  shows "steps_in R (andThen m f)"
proof (rule steps_inI)
  fix s
  show "R s (snd (andThen m f s))"
  proof (cases "m s")
    case (Pair r t)
    with assms(1) have st: "R s t" by (rule steps_inD)
    show ?thesis
    proof (cases r)
      case (Inl e)
      with Pair st show ?thesis by (simp add: andThen_def)
    next
      case (Inr x)
      have "R t (snd (f x t))" using assms(2) by (simp add: steps_in_def)
      with st Pair Inr show ?thesis by (simp add: andThen_def R_trans)
    qed
  qed
qed

lemma steps_inspect:
  assumes "steps_in R m" and "\<And>r. steps_in R (f r)"
  shows "steps_in R (inspect m f)"
proof (rule steps_inI)
  fix s
  show "R s (snd (inspect m f s))"
  proof (cases "m s")
    case (Pair r t)
    with assms(1) have "R s t" by (rule steps_inD)
    moreover have "R t (snd (f r t))" using assms(2) by (simp add: steps_in_def)
    ultimately show ?thesis using Pair by (simp add: inspect_def R_trans)
  qed
qed

text \<open>The same from one given state, where the value passed on is known.\<close>

lemma at_andThen:
  assumes "R s (snd (m s))" and "\<And>x t. m s = (Inr x, t) \<Longrightarrow> R t (snd (f x t))"
  shows "R s (snd (andThen m f s))"
  using assms by (cases "m s"; cases "fst (m s)") (auto simp: andThen_def intro: R_trans)

lemma at_inspect:
  assumes "R s (snd (m s))" and "\<And>r t. m s = (r, t) \<Longrightarrow> R t (snd (f r t))"
  shows "R s (snd (inspect m f s))"
  using assms by (cases "m s") (auto simp: inspect_def intro: R_trans)

lemmas steps_basic = steps_ret steps_throw steps_lift steps_andThen steps_inspect

end

section \<open>Tables as lists of rows\<close>

text \<open>An \<open>UPDATE\<close> rewrites the rows its \<open>WHERE\<close> clause selects, in place.\<close>

definition upd_rows :: "('r \<Rightarrow> bool) \<Rightarrow> ('r \<Rightarrow> 'r) \<Rightarrow> 'r list \<Rightarrow> 'r list" where
  "upd_rows hit f rows = map (\<lambda>r. if hit r then f r else r) rows"

definition row_count :: "('r \<Rightarrow> bool) \<Rightarrow> 'r list \<Rightarrow> int" where
  "row_count hit rows = int (length (filter hit rows))"

lemma length_upd_rows [simp]: "length (upd_rows hit f rows) = length rows"
  by (simp add: upd_rows_def)

lemma nth_upd_rows [simp]:
  "i < length rows \<Longrightarrow> upd_rows hit f rows ! i = (if hit (rows ! i) then f (rows ! i) else rows ! i)"
  by (simp add: upd_rows_def)

lemma set_upd_rows: "r \<in> set (upd_rows hit f rows) \<longleftrightarrow>
  (\<exists>q \<in> set rows. r = (if hit q then f q else q))"
  by (auto simp: upd_rows_def)

lemma upd_rows_none: "(\<And>r. r \<in> set rows \<Longrightarrow> \<not> hit r) \<Longrightarrow> upd_rows hit f rows = rows"
  by (simp add: upd_rows_def map_idI)

lemma map_key_upd_rows:
  "(\<And>r. hit r \<Longrightarrow> key (f r) = key r) \<Longrightarrow> map key (upd_rows hit f rows) = map key rows"
  by (simp add: upd_rows_def)

lemma filter_upd_rows:
  "(\<And>r. hit r \<Longrightarrow> \<not> P r \<and> \<not> P (f r)) \<Longrightarrow> filter P (upd_rows hit f rows) = filter P rows"
  by (induction rows) (auto simp: upd_rows_def)

lemma row_count_0: "row_count hit rows = 0 \<longleftrightarrow> (\<forall>r \<in> set rows. \<not> hit r)"
  by (auto simp: row_count_def filter_empty_conv)

lemma find_None_iff': "List.find P xs = None \<longleftrightarrow> (\<forall>x \<in> set xs. \<not> P x)"
  by (induction xs) auto

lemma find_SomeD: "List.find P xs = Some x \<Longrightarrow> x \<in> set xs \<and> P x"
  by (induction xs) (auto split: if_splits)

text \<open>With a unique key, a row found by its key is the row with that key.\<close>

lemma distinct_key_eq:
  "distinct (map key rows) \<Longrightarrow> a \<in> set rows \<Longrightarrow> b \<in> set rows \<Longrightarrow> key a = key b \<Longrightarrow> a = b"
  by (metis distinct_map inj_onD)

lemma find_unique_key:
  assumes "distinct (map key rows)" and "r \<in> set rows" and "P r"
    and "\<And>q. q \<in> set rows \<Longrightarrow> P q \<Longrightarrow> key q = key r"
  shows "List.find P rows = Some r"
proof (cases "List.find P rows")
  case None
  with assms show ?thesis by (auto simp: find_None_iff')
next
  case (Some q)
  then have "q \<in> set rows" "P q" by (auto dest: find_SomeD)
  with assms have "q = r" by (metis distinct_key_eq)
  with Some show ?thesis by simp
qed

lemma distinct_only:
  assumes only: "\<And>q. q \<in> set xs \<Longrightarrow> q = r" and "r \<in> set xs" and "distinct xs"
  shows "xs = [r]"
proof (cases xs)
  case Nil
  with assms(2) show ?thesis by simp
next
  case (Cons a ys)
  have "ys = []"
  proof (rule ccontr)
    assume "ys \<noteq> []"
    then have "hd ys \<in> set xs" and "hd ys \<in> set ys" using Cons by simp_all
    then have "hd ys = a" using only Cons by (metis list.set_intros(1))
    with \<open>hd ys \<in> set ys\<close> assms(3) Cons show False by simp
  qed
  with only Cons show ?thesis by simp
qed

lemma row_count_unique:
  assumes "distinct (map key rows)" and "r \<in> set rows" and "hit r"
    and "\<And>q. q \<in> set rows \<Longrightarrow> hit q \<Longrightarrow> key q = key r"
  shows "row_count hit rows = 1"
proof -
  have "\<And>q. q \<in> set (filter hit rows) \<Longrightarrow> q = r"
    using assms by (auto dest: distinct_key_eq)
  moreover have "r \<in> set (filter hit rows)" using assms by simp
  moreover have "distinct (filter hit rows)"
    using assms(1) by (simp add: distinct_map)
  ultimately have "filter hit rows = [r]"
    by (rule distinct_only)
  then show ?thesis by (simp add: row_count_def)
qed

end
