(* ===== verification/Errors.thy ===== *)
theory Errors
  imports Prelude
begin

text \<open>
  The error values of the service (every sentinel of \<open>internal/biz\<close>,
  \<open>internal/identity\<close> and \<open>internal/data/postgres\<close>, the errors of PostgreSQL, of the
  context and of the RPC layer, and \<open>fmt.Errorf("...: %w", err)\<close> wrapping), with
  \<open>errors.Is\<close>, \<open>errors.As\<close> and \<open>Error()\<close>; the functions of code outside the
  repository, gathered in one record that every operation using them takes as an
  argument; and the JSON encoder of the standard library for the values the service
  fingerprints.
\<close>

section \<open>Errors\<close>

text \<open>The status codes of the RPC layer the service uses.\<close>

datatype rpc_code = CodeInternal | CodeUnauthenticated | CodePermissionDenied

text \<open>What the Kubernetes client reports of a failed request (\<open>apierrors.IsNotFound\<close>,
  \<open>IsAlreadyExists\<close>, or neither).\<close>

datatype kube_reason = KubeNotFound | KubeAlreadyExists | KubeOther

datatype gerr =
    ErrInvalidModel | ErrInvalidModelVersion | ErrInvalidBundleImport | ErrModelNotReady
  | ErrModelInUse | ErrReferenceCheckUnavailable
  | ErrFinetuningFactsUnavailable | ErrFinetuningBaseInvalid
  | ErrFinetuningSourceForbidden | ErrFinetuningTargetConflict
  | FinetuningLimitViolation string string int int
  | ErrInvalidSearchRequest
  | ErrRegistrationNotFound | ErrRegistrationConflict | ErrRegistrationTerminal
  | ErrInvalidTransition | ErrLeaseFenced | ErrLeaseLost
  | ErrInvalidEvent | ErrInvalidKey
  | ErrChecksumMismatch | ErrURLExpired | ErrProvider
  | ErrMissingPrincipal | ErrTenantMismatch
  | ErrBundleAggregateMissing
  | ErrUnsupportedSource | ErrImportProvider | ErrObjectMissing | ErrArtifactStoreUnavailable
  | ErrImportJobResultMissing | ErrInvalidTaskInput | ErrVersionBindingRequired
  | ErrMultiTenantStoreUnavailable | ErrKubernetesClientUnavailable | ErrInvalidTenantBucket
  | ErrNoRows | ErrTxClosed | Canceled | DeadlineExceeded
  | PgError string string
  | ConnectError string
  | KError int string string "(string \<times> string) list"
  | GrpcStatus rpc_code string
  | KubeError kube_reason string
  | Plain string
  | Wrap string gerr
  | Noted gerr string
  | Joined gerr string gerr

text \<open>
  \<open>Wrap m e\<close> is \<open>fmt.Errorf("m: %w", e)\<close> and \<open>Noted e m\<close> is \<open>fmt.Errorf("%w: m", e)\<close>;
  \<open>Joined e m f\<close> is \<open>fmt.Errorf("%w: m: %w", e, f)\<close>, of whose two errors \<open>e\<close> is searched first.
  \<open>errors.Is(err, target)\<close> for a sentinel target: the chain of wrapped errors is searched.
\<close>

fun err_is :: "gerr \<Rightarrow> gerr \<Rightarrow> bool" where
  "err_is (Wrap m e) t \<longleftrightarrow> Wrap m e = t \<or> err_is e t"
| "err_is (Noted e m) t \<longleftrightarrow> Noted e m = t \<or> err_is e t"
| "err_is (Joined e m f) t \<longleftrightarrow> Joined e m f = t \<or> err_is e t \<or> err_is f t"
| "err_is e t \<longleftrightarrow> e = t"

text \<open>\<open>errors.As(err, &pgErr)\<close>: the code of the first PostgreSQL error of the chain.\<close>

fun as_pg :: "gerr \<Rightarrow> string option" where
  "as_pg (PgError code m) = Some code"
| "as_pg (Wrap m e) = as_pg e"
| "as_pg (Noted e m) = as_pg e"
| "as_pg (Joined e m f) = (case as_pg e of None \<Rightarrow> as_pg f | Some c \<Rightarrow> Some c)"
| "as_pg e = None"

text \<open>\<open>errors.As(err, &limit)\<close> for the measured limit violations.\<close>

fun as_limit :: "gerr \<Rightarrow> (string \<times> string \<times> int \<times> int) option" where
  "as_limit (FinetuningLimitViolation r l a b) = Some (r, l, a, b)"
| "as_limit (Wrap m e) = as_limit e"
| "as_limit (Noted e m) = as_limit e"
| "as_limit (Joined e m f) = (case as_limit e of None \<Rightarrow> as_limit f | Some c \<Rightarrow> Some c)"
| "as_limit e = None"

text \<open>\<open>apierrors.IsNotFound(err)\<close> and \<open>IsAlreadyExists(err)\<close> look through wrapped errors too.\<close>

fun kube_reason_is :: "kube_reason \<Rightarrow> gerr \<Rightarrow> bool" where
  "kube_reason_is r (KubeError q m) \<longleftrightarrow> q = r"
| "kube_reason_is r (Wrap m e) \<longleftrightarrow> kube_reason_is r e"
| "kube_reason_is r (Noted e m) \<longleftrightarrow> kube_reason_is r e"
| "kube_reason_is r (Joined e m f) \<longleftrightarrow> kube_reason_is r e \<or> kube_reason_is r f"
| "kube_reason_is r e \<longleftrightarrow> False"

text \<open>\<open>kratos errors.New(code, reason, message)\<close>; \<open>BadRequest\<close>, \<open>Unauthorized\<close> and
  \<open>NotFound\<close> are 400, 401 and 404.\<close>

abbreviation kerr :: "int \<Rightarrow> string \<Rightarrow> string \<Rightarrow> gerr" where
  "kerr code reason m \<equiv> KError code reason m []"

lemma err_is_refl [simp]: "err_is e e"
  by (cases e) simp_all

lemma err_is_sentinel:
  "err_is ErrNoRows t \<longleftrightarrow> ErrNoRows = t"
  "err_is (PgError c m) t \<longleftrightarrow> PgError c m = t"
  by simp_all

section \<open>Code outside the repository\<close>

type_synonym uuid = "128 word"

text \<open>
  \<open>x_uuid_parse\<close> and \<open>x_uuid_string\<close> are \<open>uuid.Parse\<close> and \<open>UUID.String\<close> of
  \<open>github.com/google/uuid\<close>; \<open>x_sha256\<close> is the digest of \<open>crypto/sha256\<close> in lower-case
  hexadecimal; \<open>x_jsonb\<close> is the text PostgreSQL returns for a value stored in a \<open>jsonb\<close>
  column (\<open>None\<close> when it rejects the text), \<open>x_jsonb_has\<close> its \<open>?\<close> operator;
  \<open>x_json_strings\<close> is \<open>json.Unmarshal\<close> into a \<open>[]string\<close> (the slice it leaves, and
  its error); \<open>x_lower\<close> is PostgreSQL's
  \<open>lower\<close>; \<open>x_quote\<close> is the \<open>%q\<close> verb, whose tables of printable runes are Go's;
  \<open>x_pg_text\<close> and \<open>x_kratos_text\<close> are the \<open>Error()\<close> texts of the PostgreSQL driver and
  of kratos.
\<close>

record ext =
  x_uuid_parse :: "string \<Rightarrow> gerr + uuid"
  x_uuid_string :: "uuid \<Rightarrow> string"
  x_sha256 :: "string \<Rightarrow> string"
  x_jsonb :: "string \<Rightarrow> string option"
  x_jsonb_has :: "string \<Rightarrow> string \<Rightarrow> bool"
  x_json_strings :: "string \<Rightarrow> string list \<times> gerr option"
  x_lower :: "string \<Rightarrow> string"
  x_quote :: "string \<Rightarrow> string"
  x_pg_text :: "string \<Rightarrow> string \<Rightarrow> string"
  x_kratos_text :: "int \<Rightarrow> string \<Rightarrow> string \<Rightarrow> (string \<times> string) list \<Rightarrow> string"

text \<open>The documented behaviour of the UUID package: the canonical text of a UUID parses back to it.\<close>

definition uuid_roundtrip :: "ext \<Rightarrow> bool" where
  "uuid_roundtrip E \<longleftrightarrow> (\<forall>u. x_uuid_parse E (x_uuid_string E u) = Inr u)"

lemma uuid_string_inj:
  "uuid_roundtrip E \<Longrightarrow> x_uuid_string E u = x_uuid_string E v \<Longrightarrow> u = v"
  by (metis sum.inject(2) uuid_roundtrip_def)

text \<open>\<open>fmt.Errorf("field: %w", err)\<close> around a UUID that does not parse.\<close>

definition parse_field :: "ext \<Rightarrow> string \<Rightarrow> string \<Rightarrow> gerr + uuid" where
  "parse_field E field s =
     (case x_uuid_parse E s of Inl e \<Rightarrow> Inl (Wrap field e) | Inr u \<Rightarrow> Inr u)"

text \<open>\<open>codes.Code.String()\<close>.\<close>

fun rpc_code_text :: "rpc_code \<Rightarrow> string" where
  "rpc_code_text CodeInternal = ''Internal''"
| "rpc_code_text CodeUnauthenticated = ''Unauthenticated''"
| "rpc_code_text CodePermissionDenied = ''PermissionDenied''"

text \<open>\<open>err.Error()\<close>.\<close>

fun error_text :: "ext \<Rightarrow> gerr \<Rightarrow> string" where
  "error_text E ErrInvalidModel = ''invalid model''"
| "error_text E ErrInvalidModelVersion = ''invalid model version''"
| "error_text E ErrInvalidBundleImport = ''invalid model bundle import''"
| "error_text E ErrModelNotReady = ''model version is not ready''"
| "error_text E ErrModelInUse = ''model has active inference references''"
| "error_text E ErrReferenceCheckUnavailable = ''inference reference check unavailable''"
| "error_text E ErrFinetuningFactsUnavailable = ''finetuning facts unavailable''"
| "error_text E ErrFinetuningBaseInvalid = ''BASE_MODEL_INVALID''"
| "error_text E ErrFinetuningSourceForbidden = ''finetuning source access denied''"
| "error_text E ErrFinetuningTargetConflict = ''finetuning target name already exists''"
| "error_text E (FinetuningLimitViolation r l a b) =
     r @ '': '' @ l @ '' actual='' @ int_dec a @ '' limit='' @ int_dec b"
| "error_text E ErrInvalidSearchRequest = ''invalid search request''"
| "error_text E ErrRegistrationNotFound = ''trained artifact registration not found''"
| "error_text E ErrRegistrationConflict =
     ''trained artifact registration conflicts with existing request''"
| "error_text E ErrRegistrationTerminal = ''trained artifact registration is terminal''"
| "error_text E ErrInvalidTransition = ''invalid import task transition''"
| "error_text E ErrLeaseFenced = ''import task lease fenced''"
| "error_text E ErrLeaseLost = ''import task lease lost''"
| "error_text E ErrInvalidEvent = ''invalid audit event''"
| "error_text E ErrInvalidKey = ''invalid idempotency key''"
| "error_text E ErrChecksumMismatch = ''storage checksum mismatch''"
| "error_text E ErrURLExpired = ''storage url expired''"
| "error_text E ErrProvider = ''storage provider error''"
| "error_text E ErrMissingPrincipal = ''trusted principal is required''"
| "error_text E ErrTenantMismatch = ''request tenant does not match trusted principal''"
| "error_text E ErrBundleAggregateMissing = ''model bundle aggregate is not present''"
| "error_text E ErrUnsupportedSource = ''unsupported import source''"
| "error_text E ErrImportProvider = ''import provider error''"
| "error_text E ErrObjectMissing = ''import object missing''"
| "error_text E ErrArtifactStoreUnavailable = ''import artifact store unavailable''"
| "error_text E ErrImportJobResultMissing = ''import job result is missing''"
| "error_text E ErrInvalidTaskInput = ''invalid task input: contains unsafe characters''"
| "error_text E ErrVersionBindingRequired = ''import task requires model version binding''"
| "error_text E ErrMultiTenantStoreUnavailable = ''worker store does not support multi-tenant due scans''"
| "error_text E ErrKubernetesClientUnavailable = ''kubernetes client unavailable''"
| "error_text E ErrNoRows = ''no rows in result set''"
| "error_text E ErrTxClosed = ''tx is closed''"
| "error_text E Canceled = ''context canceled''"
| "error_text E DeadlineExceeded = ''context deadline exceeded''"
| "error_text E (PgError c m) = x_pg_text E c m"
| "error_text E (ConnectError m) = m"
| "error_text E (KError code reason m md) = x_kratos_text E code reason m md"
| "error_text E (GrpcStatus code m) = ''rpc error: code = '' @ rpc_code_text code @ '' desc = '' @ m"
| "error_text E (Plain m) = m"
| "error_text E (KubeError r m) = m"
| "error_text E (Wrap m e) = m @ '': '' @ error_text E e"
| "error_text E (Noted e m) = error_text E e @ '': '' @ m"
| "error_text E (Joined e m f) = error_text E e @ '': '' @ m @ '': '' @ error_text E f"
| "error_text E ErrInvalidTenantBucket = ''invalid tenant bucket''"

section \<open>JSON\<close>

text \<open>
  The string encoding of \<open>json.Marshal\<close>: quotes, backslashes and control bytes are
  escaped, and so are \<open><\<close>, \<open>>\<close>, \<open>&\<close> and the line separators U+2028 and U+2029. The
  strings the service marshals are valid UTF-8 (they come from protobuf fields), so the
  replacement of invalid bytes does not occur.
\<close>

definition hex_digit :: "nat \<Rightarrow> char" where
  "hex_digit n = ''0123456789abcdef'' ! (n mod 16)"

definition json_esc :: "char \<Rightarrow> string" where
  "json_esc c =
     (if c = CHR 0x22 then [CHR 0x5C, CHR 0x22]
      else if c = CHR 0x5C then [CHR 0x5C, CHR 0x5C]
      else if c = CHR 0x08 then [CHR 0x5C, CHR ''b'']
      else if c = CHR 0x0C then [CHR 0x5C, CHR ''f'']
      else if c = CHR 0x0A then [CHR 0x5C, CHR ''n'']
      else if c = CHR 0x0D then [CHR 0x5C, CHR ''r'']
      else if c = CHR 0x09 then [CHR 0x5C, CHR ''t'']
      else if (of_char c :: nat) < 32 \<or> c = CHR ''<'' \<or> c = CHR ''>'' \<or> c = CHR ''&''
      then CHR 0x5C # ''u00'' @ [hex_digit (of_char c div 16), hex_digit (of_char c)]
      else [c])"

definition line_sep :: "string" where
  "line_sep = [CHR 0xE2, CHR 0x80, CHR 0xA8]"

definition para_sep :: "string" where
  "para_sep = [CHR 0xE2, CHR 0x80, CHR 0xA9]"

fun json_escape :: "string \<Rightarrow> string" where
  "json_escape [] = []"
| "json_escape (c # s) =
     (if take 3 (c # s) = line_sep then CHR 0x5C # ''u2028'' @ json_escape (drop 2 s)
      else if take 3 (c # s) = para_sep then CHR 0x5C # ''u2029'' @ json_escape (drop 2 s)
      else json_esc c @ json_escape s)"

definition json_quote :: "string \<Rightarrow> string" where
  "json_quote s = CHR 0x22 # json_escape s @ [CHR 0x22]"

fun join_with :: "string \<Rightarrow> string list \<Rightarrow> string" where
  "join_with sep [] = []"
| "join_with sep [x] = x"
| "join_with sep (x # y # xs) = x @ sep @ join_with sep (y # xs)"

text \<open>A slice: the empty list stands for Go's nil slice (what protobuf decoding yields), so \<open>null\<close>.\<close>

definition json_array :: "string list \<Rightarrow> string" where
  "json_array xs = (if xs = [] then ''null''
     else CHR ''['' # join_with '','' (map json_quote xs) @ '']'')"

text \<open>A struct: its exported fields in declaration order, with their rendered values.\<close>

definition json_object :: "(string \<times> string) list \<Rightarrow> string" where
  "json_object fs = CHR ''{'' # join_with '',''
     (map (\<lambda>(k, v). json_quote k @ '':'' @ v) fs) @ ''}''"

text \<open>The \<open>omitempty\<close> option on a string field.\<close>

definition omit_empty :: "string \<Rightarrow> string \<Rightarrow> (string \<times> string) list" where
  "omit_empty k s = (if s = [] then [] else [(k, json_quote s)])"

text \<open>A \<open>[]byte\<close> field is marshalled in base 64.\<close>

definition b64_char :: "nat \<Rightarrow> char" where
  "b64_char n = (''ABCDEFGHIJKLMNOPQRSTUVWXYZabcdefghijklmnopqrstuvwxyz0123456789+/'' ! n)"

text \<open>The four six-bit groups of three bytes.\<close>

definition sextets :: "nat \<Rightarrow> nat \<Rightarrow> nat \<Rightarrow> nat list" where
  "sextets a b c = [a div 4, (a mod 4) * 16 + b div 16, (b mod 16) * 4 + c div 64, c mod 64]"

fun base64 :: "string \<Rightarrow> string" where
  "base64 [] = []"
| "base64 [a] = map b64_char (take 2 (sextets (of_char a) 0 0)) @ ''==''"
| "base64 [a, b] = map b64_char (take 3 (sextets (of_char a) (of_char b) 0)) @ ''=''"
| "base64 (a # b # c # r) =
     map b64_char (sextets (of_char a) (of_char b) (of_char c)) @ base64 r"

end
