(* ===== verification/Domain.thy ===== *)
theory Domain
  imports Errors
begin

text \<open>
  The domain values and their validation: \<open>internal/biz/model\<close> (versions, artifacts,
  records, bundle imports, searches, registrations), \<open>internal/biz/audit\<close>,
  \<open>internal/biz/idempotency\<close> and \<open>internal/biz/storage\<close>. A Go struct is a record with
  its fields in the source's order, each name prefixed by a letter of its struct; a
  \<open>Validate\<close> method returns the error it reports, \<open>None\<close> for \<open>nil\<close>.
\<close>

section \<open>Model versions and artifacts\<close>

definition VersionPending :: string where "VersionPending = ''pending''"
definition VersionImporting :: string where "VersionImporting = ''importing''"
definition VersionReady :: string where "VersionReady = ''ready''"
definition VersionError :: string where "VersionError = ''error''"
definition VersionDeleted :: string where "VersionDeleted = ''deleted''"

definition is_checksum :: "string \<Rightarrow> bool" where
  "is_checksum s \<longleftrightarrow> length s = 64 \<and> list_all is_hex s"

record version =
  vTenantID :: string
  vID :: string
  vModelID :: string
  vExternalModelID :: string
  vVersion :: string
  vFormat :: string
  vStatus :: string
  vArtifactProvider :: string
  vArtifactReference :: string
  vArtifactSHA256 :: string
  vEngineType :: string
  vEngineImage :: string
  vStartupCommand :: string
  vRecommendedImageID :: string
  vRecommendedImageScope :: string
  vStartupArgs :: "string list"
  vIdempotencyKey :: string
  vSizeBytes :: int
  vIsEncrypted :: bool
  vEncryptAlgo :: string
  vEncryptHint :: string
  vCreatedAt :: int

record artifact =
  aTenantID :: string
  aID :: string
  aModelVersionID :: string
  aProvider :: string
  aReference :: string
  aFormat :: string
  aSHA256 :: string
  aSizeBytes :: int
  aIsEncrypted :: bool
  aEncryptAlgo :: string

definition known_format :: "string \<Rightarrow> bool" where
  "known_format f \<longleftrightarrow> f = ''safetensors'' \<or> f = ''gguf'' \<or> f = ''pytorch''"

definition artifact_validate :: "artifact \<Rightarrow> gerr option" where
  "artifact_validate a =
     (if aTenantID a = [] \<or> aID a = [] \<or> aModelVersionID a = [] \<or> aProvider a = []
         \<or> aReference a = [] \<or> \<not> is_checksum (aSHA256 a) \<or> aSizeBytes a < 0
      then Some ErrInvalidModelVersion
      else if \<not> known_format (aFormat a) then Some ErrInvalidModelVersion
      else None)"

definition model_name_char :: "char \<Rightarrow> bool" where
  "model_name_char c \<longleftrightarrow> c \<in> set ''-.abcdefghijklmnopqrstuvwxyz0123456789''"

definition validate_model_name :: "string \<Rightarrow> gerr option" where
  "validate_model_name name =
     (if length name = 0 \<or> 63 < length name \<or> trim_set '' '' name \<noteq> name
      then Some ErrInvalidModel
      else if \<not> list_all model_name_char name then Some ErrInvalidModel
      else None)"

definition validate_recommended_image :: "string \<Rightarrow> string \<Rightarrow> gerr option" where
  "validate_recommended_image img scope =
     (if img = [] \<and> scope = [] then None
      else if trim_space img = [] \<or> trim_space img \<noteq> img \<or> (scope \<noteq> ''platform'' \<and> scope \<noteq> ''tenant'')
      then Some ErrInvalidModelVersion
      else None)"

definition version_validate :: "version \<Rightarrow> gerr option" where
  "version_validate v =
     (if vTenantID v = [] \<or> vID v = [] \<or> vModelID v = [] \<or> vVersion v = []
      then Some ErrInvalidModelVersion
      else if \<not> known_format (vFormat v) then Some ErrInvalidModelVersion
      else validate_recommended_image (vRecommendedImageID v) (vRecommendedImageScope v))"

definition deployment_input :: "version \<Rightarrow> gerr option" where
  "deployment_input v =
     (case version_validate v of
        Some e \<Rightarrow> Some e
      | None \<Rightarrow>
          if vStatus v \<noteq> VersionReady \<or> vArtifactProvider v = [] \<or> vArtifactReference v = []
             \<or> \<not> is_checksum (vArtifactSHA256 v)
          then Some ErrModelNotReady else None)"

definition crlf :: string where
  "crlf = [CHR 0x0D, CHR 0x0A]"

definition validate_engine :: "string \<Rightarrow> string \<Rightarrow> string list \<Rightarrow> gerr option" where
  "validate_engine engine command args =
     (if engine = [] \<and> command = [] \<and> length args = 0 then None
      else if trim_space engine = [] then Some ErrInvalidModelVersion
      else if trim_space command = [] \<or> contains_any command crlf then Some ErrInvalidModelVersion
      else None)"

definition validate_engine_defaults :: "string \<Rightarrow> string \<Rightarrow> string \<Rightarrow> gerr option" where
  "validate_engine_defaults engine img command =
     (if trim_space engine = [] \<or> trim_space img = [] \<or> trim_space command = []
         \<or> contains_any command crlf
      then Some ErrInvalidModelVersion else None)"

text \<open>\<open>NormalizeVersionStatus\<close>: the UI labels for persisted version states.\<close>

definition normalize_version_status :: "ext \<Rightarrow> string \<Rightarrow> gerr + string" where
  "normalize_version_status E status =
     (if status \<in> {[], ''pending'', ''importing'', ''ready'', ''error''} then Inr status
      else if status = ''downloading'' then Inr ''importing''
      else if status = ''failed'' then Inr ''error''
      else Inl (Plain (''unsupported model version status '' @ x_quote E status)))"

section \<open>Models, bundle imports and searches\<close>

record list_options =
  oStatus :: string
  oKeyword :: string
  oSource :: string
  oCapability :: string
  oLimit :: int
  oOffset :: int
  oBeforeCreatedAt :: int
  oBeforeID :: string

record model_record =
  rTenantID :: string
  rID :: string
  rExternalModelID :: string
  rName :: string
  rDisplayName :: string
  rDescription :: string
  rSource :: string
  rStatus :: string
  rCapabilities :: string
  rTotalSizeBytes :: int
  rIdempotencyKey :: string
  rSourceRepoID :: string
  rErrorMessage :: string
  rCreatedAt :: int
  rUpdatedAt :: int
  rLatestVersion :: "version option"

record bundle_import =
  bTenantID :: string
  bIdempotencyKey :: string
  bName :: string
  bDisplayName :: string
  bDescription :: string
  bExternalModelID :: string
  bCapabilities :: "string list"
  bVersion :: string
  bFormat :: string
  bEngineType :: string
  bEngineImage :: string
  bStartupCommand :: string
  bProvider :: string
  bRepoID :: string
  bRevision :: string
  bRecommendedImageID :: string
  bRecommendedImageScope :: string

definition bundle_validate :: "bundle_import \<Rightarrow> gerr option" where
  "bundle_validate b =
     (if bTenantID b = [] \<or> bIdempotencyKey b = [] \<or> bRepoID b = []
         \<or> validate_model_name (bName b) \<noteq> None
      then Some ErrInvalidBundleImport
      else if bProvider b \<noteq> ''huggingface'' \<and> bProvider b \<noteq> ''modelscope''
      then Some ErrInvalidBundleImport
      else if length (bCapabilities b) = 0 then Some ErrInvalidBundleImport
      else if list_ex (\<lambda>c. trim_space c = []) (bCapabilities b) then Some ErrInvalidBundleImport
      else if trim_space (bVersion b) = [] \<or> trim_space (bFormat b) = []
         \<or> validate_engine_defaults (bEngineType b) (bEngineImage b) (bStartupCommand b) \<noteq> None
      then Some ErrInvalidBundleImport
      else if validate_recommended_image (bRecommendedImageID b) (bRecommendedImageScope b) \<noteq> None
      then Some ErrInvalidBundleImport
      else None)"

record bundle_result =
  uModel :: model_record
  uVersion :: version
  uTaskID :: string
  uTaskType :: string
  uTaskStatus :: string

record search_request =
  qSource :: string
  qKeyword :: string
  qOwner :: string
  qTask :: string
  qLibrary :: string
  qPage :: int
  qPageSize :: int
  qLimit :: int
  qCursor :: string

definition search_validate :: "search_request \<Rightarrow> gerr option" where
  "search_validate r =
     (if qSource r \<noteq> ''modelscope'' \<and> qSource r \<noteq> ''huggingface'' then Some ErrInvalidSearchRequest
      else
        let size0 = qPageSize r;
            size1 = (if size0 = 0 then qLimit r else size0);
            size = (if size1 = 0 then 20 else size1);
            page = (if qPage r = 0 then 1 else qPage r)
        in if trim_space (qKeyword r) = [] \<or> page < 1 \<or> 100 < page \<or> size < 1 \<or> 100 < size
              \<or> 2048 < length (qCursor r)
           then Some ErrInvalidSearchRequest else None)"

record search_result =
  sSource :: string
  sRepoID :: string
  sName :: string
  sDisplayName :: string
  sDescription :: string
  sRevision :: string
  sSizeBytes :: int
  sTags :: "string list"
  sUpdatedAt :: int

record search_page =
  pItems :: "search_result list"
  pNextCursor :: string
  pHasMore :: bool

section \<open>Trained-artifact registrations\<close>

definition RegistrationPending :: string where "RegistrationPending = ''pending''"
definition RegistrationUploaded :: string where "RegistrationUploaded = ''uploaded''"
definition RegistrationReady :: string where "RegistrationReady = ''ready''"
definition RegistrationFailed :: string where "RegistrationFailed = ''failed''"
definition RegistrationAborted :: string where "RegistrationAborted = ''aborted''"

record registration =
  gTenantID :: string
  gID :: string
  gIdempotencyKey :: string
  gRequestFingerprint :: string
  gExecutionID :: string
  gTargetModelID :: string
  gModelName :: string
  gDisplayName :: string
  gDescription :: string
  gCapabilities :: "string list"
  gSourceModelVersionID :: string
  gVersion :: string
  gFileName :: string
  gFormat :: string
  gStoragePath :: string
  gChecksumSHA256 :: string
  gSizeBytes :: int
  gEngineType :: string
  gEngineImage :: string
  gStartupCommand :: string
  gRecommendedImageID :: string
  gRecommendedImageScope :: string
  gStatus :: string
  gErrorMessage :: string
  gModelID :: string
  gModelVersionID :: string
  gCreatedAt :: int
  gUpdatedAt :: int

record registration_result =
  hRegistrationID :: string
  hModelID :: string
  hModelVersionID :: string
  hStatus :: string
  hStoragePath :: string
  hChecksumSHA256 :: string
  hSizeBytes :: int

section \<open>Audit events\<close>

record audit_options =
  auLimit :: int
  auOffset :: int

record event =
  eTenantID :: string
  eActor :: string
  eWorkload :: string
  eRequestID :: string
  eTaskID :: string
  eAction :: string
  eBeforeState :: string
  eAfterState :: string
  eErrorClass :: string
  eID :: string
  eModelID :: string
  eModelVersionID :: string
  eCreatedAt :: int

definition event_result :: "event \<Rightarrow> string" where
  "event_result e =
     (if eErrorClass e \<noteq> [] \<or> eAfterState e = ''failed'' \<or> eAfterState e = ''error'' then ''failed''
      else if has_prefix (eAction e) ''model_import''
              \<and> (eAfterState e = ''pending'' \<or> eAfterState e = ''importing'') then ''accepted''
      else ''succeeded'')"

definition event_validate :: "event \<Rightarrow> gerr option" where
  "event_validate e =
     (if eTenantID e = [] \<or> eActor e = [] \<or> eWorkload e = [] \<or> eRequestID e = [] \<or> eAction e = []
      then Some ErrInvalidEvent
      else if eBeforeState e = [] \<and> eAfterState e = [] \<and> eErrorClass e = []
      then Some ErrInvalidEvent
      else None)"

section \<open>Idempotency keys\<close>

definition key_first :: "char \<Rightarrow> bool" where
  "key_first c \<longleftrightarrow>
     c \<in> set ''ABCDEFGHIJKLMNOPQRSTUVWXYZabcdefghijklmnopqrstuvwxyz0123456789''"

definition key_rest :: "char \<Rightarrow> bool" where
  "key_rest c \<longleftrightarrow> key_first c \<or> c \<in> set ''._:-''"

text \<open>\<open>^[A-Za-z0-9][A-Za-z0-9._:-]{0,127}$\<close>\<close>

fun key_matches :: "string \<Rightarrow> bool" where
  "key_matches [] \<longleftrightarrow> False"
| "key_matches (c # r) \<longleftrightarrow> key_first c \<and> length r \<le> 127 \<and> list_all key_rest r"

definition validate_key :: "string \<Rightarrow> gerr option" where
  "validate_key key = (if \<not> key_matches key then Some ErrInvalidKey else None)"

definition fingerprint :: "ext \<Rightarrow> string \<Rightarrow> string" where
  "fingerprint E payload = x_sha256 E payload"

definition replay_matches :: "string \<Rightarrow> string \<Rightarrow> bool" where
  "replay_matches stored current \<longleftrightarrow> stored \<noteq> [] \<and> stored = current"

section \<open>Object storage\<close>

record upload_request =
  lTenantID :: string
  lObjectRef :: string
  lContentType :: string
  lSizeBytes :: int
  lChecksumSHA256 :: string
  lTTL :: int

record download_request =
  dTenantID :: string
  dObjectRef :: string
  dRequester :: string
  dTTL :: int

record signed_url =
  nURL :: string
  nExpiresAt :: int

record object_verification =
  kSizeBytes :: int
  kSHA256 :: string
  kMatches :: bool

text \<open>A reader is the bytes it delivers, or the error that interrupts it.\<close>

definition verify_reader :: "ext \<Rightarrow> gerr + string \<Rightarrow> string \<Rightarrow> gerr option" where
  "verify_reader E r expected =
     (case r of
        Inl e \<Rightarrow> Some e
      | Inr bytes \<Rightarrow>
          if \<not> equal_fold (x_sha256 E bytes) expected then Some ErrChecksumMismatch else None)"

definition verify_reader_with_size ::
    "ext \<Rightarrow> gerr + string \<Rightarrow> int \<Rightarrow> string \<Rightarrow> gerr + object_verification" where
  "verify_reader_with_size E r expected_size expected =
     (case r of
        Inl e \<Rightarrow> Inl e
      | Inr bytes \<Rightarrow>
          let actual = x_sha256 E bytes; size = int (length bytes) in
          Inr \<lparr>kSizeBytes = size, kSHA256 = actual,
               kMatches = (size = expected_size \<and> equal_fold actual expected)\<rparr>)"

definition validate_signed_url :: "signed_url \<Rightarrow> int \<Rightarrow> gerr option" where
  "validate_signed_url u now =
     (if nURL u = [] \<or> \<not> now < nExpiresAt u then Some ErrURLExpired else None)"

section \<open>What the validators accept\<close>

lemma trim_set_id:
  assumes "list_all (\<lambda>c. c \<notin> set cs) s"
  shows "trim_set cs s = s"
proof -
  have keep: "list_all (\<lambda>c. c \<notin> set cs) x \<Longrightarrow> dropWhile (\<lambda>c. c \<in> set cs) x = x" for x
    by (cases x) simp_all
  have "dropWhile (\<lambda>c. c \<in> set cs) s = s"
    using keep assms by blast
  moreover have "dropWhile (\<lambda>c. c \<in> set cs) (rev s) = rev s"
    using keep [of "rev s"] assms by (simp add: list_all_iff)
  ultimately show ?thesis
    by (simp add: trim_set_def trim_left_set_def trim_right_set_def)
qed

lemma is_checksum_length: "is_checksum s \<Longrightarrow> length s = 64"
  by (simp add: is_checksum_def)

lemma is_checksum_nonempty: "is_checksum s \<Longrightarrow> s \<noteq> []"
  by (auto simp: is_checksum_def)

lemma validate_model_name_None_iff:
  "validate_model_name n = None \<longleftrightarrow> n \<noteq> [] \<and> length n \<le> 63 \<and> list_all model_name_char n"
proof (cases "list_all model_name_char n")
  case True
  then have "list_all (\<lambda>c. c \<notin> set '' '') n"
    by (auto simp: list_all_iff model_name_char_def)
  then have "trim_set '' '' n = n" by (rule trim_set_id)
  with True show ?thesis by (simp add: validate_model_name_def)
qed (simp add: validate_model_name_def)

lemma bundle_validate_error: "bundle_validate b \<noteq> None \<Longrightarrow> bundle_validate b = Some ErrInvalidBundleImport"
  unfolding bundle_validate_def by presburger

lemma key_matches_iff:
  "key_matches k \<longleftrightarrow> k \<noteq> [] \<and> length k \<le> 128 \<and> key_first (hd k) \<and> list_all key_rest (tl k)"
  by (cases k) auto

lemma replay_matches_sym: "replay_matches a b \<Longrightarrow> a = b \<and> b \<noteq> []"
  by (auto simp: replay_matches_def)

end
