(* ===== verification/Task.thy ===== *)
theory Task
  imports Domain
begin

text \<open>
  The import task of \<open>internal/biz/work\<close>: its fields, the transitions \<open>Claim\<close>,
  \<open>Complete\<close> and \<open>Fail\<close> of the lease protocol (\<open>work.go\<close>), and the name of the
  Kubernetes Job of an attempt (\<open>import_job.go\<close>).
\<close>

section \<open>The task and its transitions\<close>

definition TaskPending :: string where "TaskPending = ''pending''"
definition TaskImporting :: string where "TaskImporting = ''importing''"
definition TaskCompleted :: string where "TaskCompleted = ''completed''"
definition TaskFailed :: string where "TaskFailed = ''failed''"

lemmas task_statuses = TaskPending_def TaskImporting_def TaskCompleted_def TaskFailed_def

record task =
  wTenantID :: string
  wID :: string
  wLeaseOwner :: string
  wModelID :: string
  wVersionID :: string
  wTaskType :: string
  wSource :: string
  wRepoID :: string
  wRevision :: string
  wIdempotencyKey :: string
  wLeaseEpoch :: int
  wStatus :: string
  wLeaseUntil :: int
  wAttemptCount :: int
  wProgressPct :: int
  wErrorMessage :: string
  wCreatedAt :: int
  wCompletedAt :: int

definition task_claim :: "task \<Rightarrow> string \<Rightarrow> int \<Rightarrow> int \<Rightarrow> gerr + task" where
  "task_claim t owner now lease =
     (if owner = [] \<or> lease \<le> 0 \<or> (wStatus t \<noteq> TaskPending \<and> wStatus t \<noteq> TaskImporting)
         \<or> (wLeaseUntil t \<noteq> 0 \<and> now < wLeaseUntil t)
      then Inl ErrInvalidTransition
      else Inr (t\<lparr>wStatus := TaskImporting, wLeaseOwner := owner,
                  wLeaseEpoch := wrap64 (wLeaseEpoch t + 1),
                  wLeaseUntil := now + lease,
                  wAttemptCount := wrap64 (wAttemptCount t + 1)\<rparr>))"

definition task_fenced :: "task \<Rightarrow> string \<Rightarrow> int \<Rightarrow> int \<Rightarrow> bool" where
  "task_fenced t owner epoch now \<longleftrightarrow>
     wStatus t \<noteq> TaskImporting \<or> wLeaseOwner t \<noteq> owner \<or> wLeaseEpoch t \<noteq> epoch
     \<or> \<not> now < wLeaseUntil t"

definition task_complete :: "task \<Rightarrow> string \<Rightarrow> int \<Rightarrow> int \<Rightarrow> gerr + task" where
  "task_complete t owner epoch now =
     (if task_fenced t owner epoch now then Inl ErrLeaseFenced
      else Inr (t\<lparr>wStatus := TaskCompleted, wLeaseOwner := [], wLeaseUntil := 0\<rparr>))"

definition task_fail :: "task \<Rightarrow> string \<Rightarrow> int \<Rightarrow> int \<Rightarrow> gerr + task" where
  "task_fail t owner epoch now =
     (if task_fenced t owner epoch now then Inl ErrLeaseFenced
      else Inr (t\<lparr>wStatus := TaskFailed, wLeaseOwner := [], wLeaseUntil := 0\<rparr>))"

lemma task_claim_Inr_iff:
  "task_claim t owner now lease = Inr u \<longleftrightarrow>
     owner \<noteq> [] \<and> 0 < lease \<and> (wStatus t = TaskPending \<or> wStatus t = TaskImporting)
     \<and> (wLeaseUntil t = 0 \<or> wLeaseUntil t \<le> now)
     \<and> u = t\<lparr>wStatus := TaskImporting, wLeaseOwner := owner,
                  wLeaseEpoch := wrap64 (wLeaseEpoch t + 1), wLeaseUntil := now + lease,
                  wAttemptCount := wrap64 (wAttemptCount t + 1)\<rparr>"
  by (auto simp: task_claim_def)

text \<open>The one fact behind fencing: only the current owner and epoch pass the guard.\<close>

lemma not_fenced_unique:
  "\<not> task_fenced t o1 e1 n1 \<Longrightarrow> \<not> task_fenced t o2 e2 n2 \<Longrightarrow> o1 = o2 \<and> e1 = e2"
  by (simp add: task_fenced_def)

definition sample_task :: task where
  "sample_task = \<lparr>wTenantID = ''t'', wID = ''k'', wLeaseOwner = [], wModelID = ''m'',
     wVersionID = ''v'', wTaskType = ''huggingface'', wSource = ''huggingface'', wRepoID = ''a/b'',
     wRevision = ''main'', wIdempotencyKey = ''key'', wLeaseEpoch = 3, wStatus = TaskPending,
     wLeaseUntil = 0, wAttemptCount = 3, wProgressPct = 0, wErrorMessage = [],
     wCreatedAt = 1, wCompletedAt = 0\<rparr>"

text \<open>C29: After a claim, no other owner claims the task before the lease ends, and only the
  claiming owner with the epoch it was given completes or fails it.\<close>

theorem claim_is_exclusive:
  assumes "task_claim t owner now lease = Inr u" and "0 \<le> now" and "now2 < now + lease"
  shows "task_claim u owner2 now2 lease2 = Inl ErrInvalidTransition
    \<and> (isl (task_complete u owner2 epoch now2)
         \<longleftrightarrow> \<not> (owner2 = owner \<and> epoch = wrap64 (wLeaseEpoch t + 1)))
    \<and> (isl (task_fail u owner2 epoch now2)
         \<longleftrightarrow> \<not> (owner2 = owner \<and> epoch = wrap64 (wLeaseEpoch t + 1)))"
proof -
  from assms(1) have u: "u = t\<lparr>wStatus := TaskImporting, wLeaseOwner := owner,
      wLeaseEpoch := wrap64 (wLeaseEpoch t + 1), wLeaseUntil := now + lease,
      wAttemptCount := wrap64 (wAttemptCount t + 1)\<rparr>" and "0 < lease"
    by (simp_all add: task_claim_Inr_iff)
  with assms show ?thesis
    by (auto simp: task_claim_def task_complete_def task_fail_def task_fenced_def)
qed

lemma claim_is_exclusive_witness:
  "task_claim (the (case task_claim sample_task ''w1'' 100 50 of Inr u \<Rightarrow> Some u | _ \<Rightarrow> None))
     ''w2'' 149 50 = Inl ErrInvalidTransition"
proof -
  have c: "task_claim sample_task ''w1'' 100 50 =
    Inr (sample_task\<lparr>wStatus := TaskImporting, wLeaseOwner := ''w1'', wLeaseEpoch := 4,
         wLeaseUntil := 150, wAttemptCount := 4\<rparr>)"
    by (simp add: task_claim_def sample_task_def task_statuses wrap64_def)
  from claim_is_exclusive [OF c, of 149 "''w2''" 50 0] show ?thesis by (simp add: c)
qed

section \<open>The Job of an attempt\<close>

definition import_prefix :: string where
  "import_prefix = ''ani-import-''"

definition strip_dashes :: "string \<Rightarrow> string" where
  "strip_dashes s = filter (\<lambda>c. c \<noteq> CHR ''-'') s"

definition import_job_name :: "string \<Rightarrow> int \<Rightarrow> string" where
  "import_job_name task_id attempt =
     (let clean = to_lower (strip_dashes task_id);
          att = (if attempt < 0 then 0 else attempt);
          suffix = ''-a'' @ int_dec att;
          max_len = 63 - length import_prefix - length suffix;
          clean2 = (if max_len < length clean then take max_len clean else clean)
      in import_prefix @ clean2 @ suffix)"

text \<open>The canonical text of a UUID: five groups of lower-case hexadecimal digits.\<close>

definition canonical_uuid :: "string \<Rightarrow> bool" where
  "canonical_uuid s \<longleftrightarrow>
     map length (split_on CHR ''-'' s) = [8, 4, 4, 4, 12]
     \<and> list_all (list_all is_lower_hex) (split_on CHR ''-'' s)"

lemma join_split_on: "join_with [c] (split_on c s) = s"
proof (induction s)
  case (Cons x xs)
  obtain y ys where "split_on c xs = y # ys"
    by (cases "split_on c xs") auto
  with Cons show ?case by (cases ys) auto
qed simp

lemma filter_split_on: "filter (\<lambda>x. x \<noteq> c) s = concat (split_on c s)"
proof (induction s)
  case (Cons x xs)
  then show ?case by (auto split: list.splits)
qed simp

lemma strip_dashes_concat: "strip_dashes s = concat (split_on CHR ''-'' s)"
  by (simp add: strip_dashes_def filter_split_on)

lemma concat_same_lengths:
  "map length xs = map length ys \<Longrightarrow> concat xs = concat ys \<Longrightarrow> xs = ys"
proof (induction xs arbitrary: ys)
  case (Cons x xs)
  then show ?case by (cases ys) auto
qed simp

lemma canonical_strip_inj:
  assumes "canonical_uuid s" and "canonical_uuid t" and "strip_dashes s = strip_dashes t"
  shows "s = t"
proof -
  have "split_on CHR ''-'' s = split_on CHR ''-'' t"
    using assms by (intro concat_same_lengths) (simp_all add: canonical_uuid_def strip_dashes_concat)
  then show ?thesis by (metis join_split_on)
qed

lemma lower_hex_fixed: "is_lower_hex c \<Longrightarrow> lower_char c = c"
proof -
  have "\<forall>d \<in> set ''0123456789abcdef''. lower_char d = d" by code_simp
  then show "is_lower_hex c \<Longrightarrow> ?thesis" unfolding is_lower_hex_def by (rule bspec)
qed

lemma canonical_strip_length:
  assumes "canonical_uuid s" shows "length (strip_dashes s) = 32"
proof -
  have "length (strip_dashes s) = sum_list (map length (split_on CHR ''-'' s))"
    by (simp add: strip_dashes_concat length_concat)
  with assms show ?thesis by (simp add: canonical_uuid_def)
qed

lemma canonical_strip_hex: "canonical_uuid s \<Longrightarrow> list_all is_lower_hex (strip_dashes s)"
  by (auto simp: canonical_uuid_def strip_dashes_concat list_all_iff)

lemma canonical_strip_lower: "canonical_uuid s \<Longrightarrow> to_lower (strip_dashes s) = strip_dashes s"
  by (metis (mono_tags, lifting) canonical_strip_hex list_all_iff lower_hex_fixed map_idI to_lower_def)

lemma int_dec_nonneg: "0 \<le> i \<Longrightarrow> int_dec i = nat_dec (nat i)"
  by (simp add: int_dec_def)

lemma int_dec_length: "0 \<le> i \<Longrightarrow> i < 10 ^ k \<Longrightarrow> 0 < k \<Longrightarrow> length (int_dec i) \<le> k"
  by (simp add: int_dec_nonneg nat_dec_length nat_less_iff)

text \<open>Below \<open>10\<^sup>18\<close> attempts nothing is cut off, so the name spells out both arguments.\<close>

lemma job_name_canonical:
  assumes "canonical_uuid t" and "0 \<le> a" and "a < 10 ^ 18"
  shows "import_job_name t a = import_prefix @ strip_dashes t @ ''-a'' @ nat_dec (nat a)"
proof -
  have "length (nat_dec (nat a)) \<le> 18"
    using assms int_dec_length [of a 18] by (simp add: int_dec_nonneg)
  then have "\<not> 50 - length (nat_dec (nat a)) < 32" by simp
  with assms show ?thesis
    by (simp add: import_job_name_def Let_def canonical_strip_lower canonical_strip_length
        int_dec_nonneg import_prefix_def)
qed

text \<open>Whatever the task identifier, the Job name of an attempt is at most 63 bytes, the
  limit of a Kubernetes object name.\<close>

theorem job_name_fits:
  assumes "in_int64 attempt"
  shows "length (import_job_name task_id attempt) \<le> 63"
proof -
  define a where "a = (if attempt < 0 then 0 else attempt)"
  have "0 \<le> a" and "a < 10 ^ 19"
    using assms by (simp_all add: a_def in_int64_def)
  then have "length (int_dec a) \<le> 19" by (intro int_dec_length) simp_all
  then show ?thesis
    by (auto simp: import_job_name_def Let_def import_prefix_def a_def [symmetric])
qed

lemma job_name_fits_witness:
  "length (import_job_name (replicate 80 CHR ''A'') 9223372036854775807) \<le> 63"
  by (rule job_name_fits) (simp add: in_int64_def)

lemma job_name_determines:
  assumes "canonical_uuid s" and "canonical_uuid t"
    and "0 \<le> a" and "a < 10 ^ 18" and "0 \<le> b" and "b < 10 ^ 18"
    and "import_job_name s a = import_job_name t b"
  shows "s = t \<and> a = b"
proof -
  from assms have "strip_dashes s @ ''-a'' @ nat_dec (nat a) = strip_dashes t @ ''-a'' @ nat_dec (nat b)"
    by (simp add: job_name_canonical)
  moreover have "length (strip_dashes s) = length (strip_dashes t)"
    using assms by (simp add: canonical_strip_length)
  ultimately have "strip_dashes s = strip_dashes t" and "nat_dec (nat a) = nat_dec (nat b)"
    by simp_all
  with assms show "s = t \<and> a = b"
    by (auto dest: nat_dec_inj canonical_strip_inj)
qed

text \<open>For tasks named by canonical UUIDs the Job name identifies the task and the attempt:
  two attempts of one task, or attempts of two tasks, never share a Job.\<close>

theorem job_name_inj:
  assumes "canonical_uuid s" and "canonical_uuid t"
    and "0 \<le> a" and "a < 10 ^ 18" and "0 \<le> b" and "b < 10 ^ 18"
  shows "import_job_name s a = import_job_name t b \<longleftrightarrow> s = t \<and> a = b"
  using job_name_determines [OF assms] by blast

definition sample_uuid :: string where
  "sample_uuid = ''0a1b2c3d-0000-4000-8000-00000000000f''"

lemma job_name_inj_witness:
  "import_job_name sample_uuid 1 \<noteq> import_job_name sample_uuid 11"
proof -
  have "canonical_uuid sample_uuid"
    by (simp add: canonical_uuid_def sample_uuid_def is_lower_hex_def)
  from job_name_inj [OF this this, of 1 11] show ?thesis by simp
qed

end
