(* ===== verification/Tables.thy ===== *)
theory Tables
  imports Task "HOL-Library.Product_Lexorder"
begin

text \<open>
  The database of the service: the tables of \<open>migrations/\<close> as lists of rows (the row
  structs of \<open>internal/data/postgres/models.go\<close>), their constraints with PostgreSQL's
  error codes, and the four raw operations a statement is made of: reading, inserting a
  row, and updating the rows a condition selects. \<open>stmt\<close> runs one SQL statement and
  \<open>transact\<close> one transaction.

  A statement is atomic. Before it runs, time may pass; the connection may fail before the
  statement reaches the server (\<open>FailBefore\<close>) or after it took effect (\<open>FailAfter\<close>, the
  client sees an error although the change is there). \<open>script\<close> lists these disturbances in
  the order in which they strike; an empty script is a server that answers every statement.
  Timestamps are microseconds, as in PostgreSQL, since Go's zero time; \<open>NULL\<close> is
  \<open>None\<close>.
\<close>

section \<open>Rows\<close>

record model_row =
  m_tenant_id :: uuid
  m_id :: uuid
  m_name :: string
  m_display_name :: string
  m_description :: string
  m_source :: string
  m_source_repo_id :: string
  m_capabilities :: string
  m_status :: string
  m_error_message :: string
  m_total_size_bytes :: int
  m_created_at :: int
  m_updated_at :: int
  m_deleted_at :: "int option"
  m_idempotency_key :: string
  m_request_fingerprint :: string
  m_model_id :: string

record version_row =
  v_tenant_id :: uuid
  v_id :: uuid
  v_model_id :: uuid
  v_version :: string
  v_format :: string
  v_status :: string
  v_is_encrypted :: bool
  v_encrypt_algo :: string
  v_encrypt_hint :: string
  v_size_bytes :: int
  v_checksum_sha256 :: string
  v_engine_type :: string
  v_startup_command :: string
  v_startup_args :: string
  v_error_message :: string
  v_created_at :: int
  v_updated_at :: int
  v_idempotency_key :: string
  v_request_fingerprint :: string
  v_engine_image :: string
  v_recommended_image_id :: string
  v_recommended_image_scope :: string

record artifact_row =
  a_tenant_id :: uuid
  a_id :: uuid
  a_model_version_id :: uuid
  a_provider :: string
  a_reference :: string
  a_format :: string
  a_size_bytes :: int
  a_sha256 :: string
  a_is_encrypted :: bool
  a_encrypt_algo :: string
  a_created_at :: int

record task_row =
  t_tenant_id :: uuid
  t_id :: uuid
  t_model_id :: "uuid option"
  t_model_version_id :: "uuid option"
  t_task_type :: string
  t_source :: string
  t_repo_id :: string
  t_revision :: string
  t_idempotency_key :: string
  t_status :: string
  t_attempt_count :: int
  t_progress_pct :: int
  t_lease_owner :: string
  t_lease_epoch :: int
  t_lease_until :: "int option"
  t_next_attempt_at :: int
  t_error_message :: string
  t_created_at :: int
  t_updated_at :: int
  t_completed_at :: "int option"
  t_request_fingerprint :: string

record audit_row =
  e_tenant_id :: uuid
  e_id :: uuid
  e_actor :: string
  e_workload :: string
  e_request_id :: string
  e_task_id :: "uuid option"
  e_action :: string
  e_before_state :: string
  e_after_state :: string
  e_error_class :: string
  e_created_at :: int
  e_model_id :: "uuid option"
  e_model_version_id :: "uuid option"

record reg_row =
  r_tenant_id :: uuid
  r_id :: uuid
  r_idempotency_key :: string
  r_request_fingerprint :: string
  r_execution_id :: string
  r_target_model_id :: "uuid option"
  r_model_name :: string
  r_display_name :: string
  r_description :: string
  r_capabilities :: string
  r_source_model_version_id :: "uuid option"
  r_version :: string
  r_file_name :: string
  r_format :: string
  r_storage_path :: string
  r_size_bytes :: int
  r_checksum_sha256 :: string
  r_engine_type :: string
  r_engine_image :: string
  r_startup_command :: string
  r_status :: string
  r_error_message :: string
  r_model_id :: "uuid option"
  r_model_version_id :: "uuid option"
  r_created_at :: int
  r_updated_at :: int
  r_recommended_image_id :: string
  r_recommended_image_scope :: string

section \<open>The database, statements and transactions\<close>

datatype fault = NoFault | FailBefore gerr | FailAfter gerr

record db =
  models :: "model_row list"
  versions :: "version_row list"
  artifacts :: "artifact_row list"
  tasks :: "task_row list"
  audits :: "audit_row list"
  regs :: "reg_row list"
  clock :: int
  script :: "(nat \<times> fault) list"

type_synonym 'a dbop = "(db, gerr, 'a) oper"

definition stmt_at :: "'a dbop \<Rightarrow> fault \<Rightarrow> 'a dbop" where
  "stmt_at q fl s =
     (case fl of
        FailBefore e \<Rightarrow> (Inl e, s)
      | NoFault \<Rightarrow> (case q s of (Inl e, t) \<Rightarrow> (Inl e, s) | (Inr x, t) \<Rightarrow> (Inr x, t))
      | FailAfter e \<Rightarrow> (case q s of (Inl e', t) \<Rightarrow> (Inl e', s) | (Inr x, t) \<Rightarrow> (Inl e, t)))"

definition stmt :: "'a dbop \<Rightarrow> 'a dbop" where
  "stmt q s =
     (case script s of
        [] \<Rightarrow> stmt_at q NoFault s
      | (d, fl) # rest \<Rightarrow> stmt_at q fl (s\<lparr>clock := clock s + int d, script := rest\<rparr>))"

text \<open>\<open>BeginTx\<close>, the body, then \<open>Commit\<close>, or \<open>Rollback\<close> when the body or the commit failed.\<close>

definition rollback_to :: "db \<Rightarrow> db \<Rightarrow> db" where
  "rollback_to s t = s\<lparr>clock := clock t, script := script t\<rparr>"

definition commit_from :: "db \<Rightarrow> 'a \<Rightarrow> 'a dbop" where
  "commit_from s x t =
     (case script t of
        [] \<Rightarrow> (Inr x, t)
      | (d, fl) # rest \<Rightarrow>
          let u = t\<lparr>clock := clock t + int d, script := rest\<rparr> in
          (case fl of NoFault \<Rightarrow> (Inr x, u)
           | FailBefore e \<Rightarrow> (Inl e, rollback_to s u)
           | FailAfter e \<Rightarrow> (Inl e, u)))"

definition tx_body :: "'a dbop \<Rightarrow> 'a dbop" where
  "tx_body m s = (case m s of (Inl e, t) \<Rightarrow> (Inl e, rollback_to s t) | (Inr x, t) \<Rightarrow> commit_from s x t)"

definition begin_tx :: "unit dbop" where
  "begin_tx = stmt (ret ())"

definition transact :: "'a dbop \<Rightarrow> 'a dbop" where
  "transact m = andThen begin_tx (\<lambda>_. tx_body m)"

section \<open>Raw operations\<close>

definition pg :: "string \<Rightarrow> gerr" where
  "pg code = PgError code []"

definition rd :: "(db \<Rightarrow> gerr + 'a) \<Rightarrow> 'a dbop" where
  "rd q s = (q s, s)"

definition one :: "'a list \<Rightarrow> gerr + 'a" where
  "one xs = (case xs of [] \<Rightarrow> Inl ErrNoRows | x # _ \<Rightarrow> Inr x)"

text \<open>\<open>LIMIT l OFFSET o\<close>.\<close>

definition limit_offset :: "int \<Rightarrow> int \<Rightarrow> 'a list \<Rightarrow> gerr + 'a list" where
  "limit_offset l k xs =
     (if l < 0 then Inl (pg ''2201W'')
      else if k < 0 then Inl (pg ''2201X'')
      else Inr (take (nat l) (drop (nat k) xs)))"

definition sort_desc :: "('a \<Rightarrow> 'k::linorder) \<Rightarrow> 'a list \<Rightarrow> 'a list" where
  "sort_desc key xs = rev (sort_key key xs)"

text \<open>Keys.\<close>

definition model_key :: "model_row \<Rightarrow> uuid \<times> uuid" where
  "model_key r = (m_tenant_id r, m_id r)"

definition version_key :: "version_row \<Rightarrow> uuid \<times> uuid" where
  "version_key r = (v_tenant_id r, v_id r)"

definition artifact_key :: "artifact_row \<Rightarrow> uuid \<times> uuid" where
  "artifact_key r = (a_tenant_id r, a_id r)"

definition task_key :: "task_row \<Rightarrow> uuid \<times> uuid" where
  "task_key r = (t_tenant_id r, t_id r)"

definition audit_key :: "audit_row \<Rightarrow> uuid \<times> uuid" where
  "audit_key r = (e_tenant_id r, e_id r)"

definition reg_key :: "reg_row \<Rightarrow> uuid \<times> uuid" where
  "reg_key r = (r_tenant_id r, r_id r)"

lemmas key_defs = model_key_def version_key_def artifact_key_def task_key_def audit_key_def
  reg_key_def

definition has_model :: "db \<Rightarrow> uuid \<Rightarrow> uuid \<Rightarrow> bool" where
  "has_model s tn i \<longleftrightarrow> list_ex (\<lambda>m. model_key m = (tn, i)) (models s)"

definition has_version :: "db \<Rightarrow> uuid \<Rightarrow> uuid \<Rightarrow> bool" where
  "has_version s tn i \<longleftrightarrow> list_ex (\<lambda>v. version_key v = (tn, i)) (versions s)"

definition has_task :: "db \<Rightarrow> uuid \<Rightarrow> uuid \<Rightarrow> bool" where
  "has_task s tn i \<longleftrightarrow> list_ex (\<lambda>t. task_key t = (tn, i)) (tasks s)"

definition null_or :: "('a \<Rightarrow> bool) \<Rightarrow> 'a option \<Rightarrow> bool" where
  "null_or P x \<longleftrightarrow> (case x of None \<Rightarrow> True | Some y \<Rightarrow> P y)"

text \<open>The \<open>CHECK\<close> constraints.\<close>

definition image_pair_check :: "string \<Rightarrow> string \<Rightarrow> bool" where
  "image_pair_check i scope \<longleftrightarrow>
     i = [] \<and> scope = []
     \<or> trim_set '' '' i \<noteq> [] \<and> i = trim_set '' '' i \<and> scope \<in> {''platform'', ''tenant''}"

definition model_check :: "model_row \<Rightarrow> bool" where
  "model_check r \<longleftrightarrow>
     m_source r \<in> {''upload'', ''huggingface'', ''modelscope'', ''builtin''}
     \<and> m_status r \<in> {''pending'', ''downloading'', ''ready'', ''error'', ''deleted''}
     \<and> 0 \<le> m_total_size_bytes r"

definition version_check :: "version_row \<Rightarrow> bool" where
  "version_check r \<longleftrightarrow>
     v_format r \<in> {''safetensors'', ''gguf'', ''pytorch''}
     \<and> v_status r \<in> {''pending'', ''importing'', ''ready'', ''error'', ''deleted''}
     \<and> 0 \<le> v_size_bytes r
     \<and> image_pair_check (v_recommended_image_id r) (v_recommended_image_scope r)"

definition artifact_check :: "artifact_row \<Rightarrow> bool" where
  "artifact_check r \<longleftrightarrow> 0 \<le> a_size_bytes r \<and> is_checksum (a_sha256 r)"

definition task_check :: "task_row \<Rightarrow> bool" where
  "task_check r \<longleftrightarrow>
     t_task_type r \<in> {''upload'', ''huggingface'', ''modelscope''}
     \<and> t_status r \<in> {''pending'', ''importing'', ''completed'', ''failed'', ''cancelled''}
     \<and> 0 \<le> t_attempt_count r \<and> 0 \<le> t_progress_pct r \<and> t_progress_pct r \<le> 100
     \<and> 0 \<le> t_lease_epoch r"

definition reg_check :: "reg_row \<Rightarrow> bool" where
  "reg_check r \<longleftrightarrow>
     r_format r \<in> {''safetensors'', ''gguf'', ''pytorch''}
     \<and> 0 < r_size_bytes r \<and> is_checksum (r_checksum_sha256 r)
     \<and> r_status r \<in> {''pending'', ''uploaded'', ''ready'', ''failed'', ''aborted''}
     \<and> image_pair_check (r_recommended_image_id r) (r_recommended_image_scope r)"

text \<open>The unique indexes: whether a row clashes with one already there.\<close>

definition model_clash :: "model_row \<Rightarrow> model_row \<Rightarrow> bool" where
  "model_clash r q \<longleftrightarrow> m_tenant_id q = m_tenant_id r \<and>
     (m_id q = m_id r \<or> m_name q = m_name r
      \<or> m_idempotency_key r \<noteq> [] \<and> m_idempotency_key q = m_idempotency_key r
      \<or> m_model_id r \<noteq> [] \<and> m_model_id q = m_model_id r)"

definition version_clash :: "version_row \<Rightarrow> version_row \<Rightarrow> bool" where
  "version_clash r q \<longleftrightarrow> v_tenant_id q = v_tenant_id r \<and>
     (v_id q = v_id r \<or> v_model_id q = v_model_id r \<and> v_version q = v_version r
      \<or> v_idempotency_key r \<noteq> [] \<and> v_idempotency_key q = v_idempotency_key r)"

definition artifact_clash :: "artifact_row \<Rightarrow> artifact_row \<Rightarrow> bool" where
  "artifact_clash r q \<longleftrightarrow> a_tenant_id q = a_tenant_id r \<and>
     (a_id q = a_id r \<or> a_model_version_id q = a_model_version_id r)"

definition task_clash :: "task_row \<Rightarrow> task_row \<Rightarrow> bool" where
  "task_clash r q \<longleftrightarrow> t_tenant_id q = t_tenant_id r \<and>
     (t_id q = t_id r \<or> t_idempotency_key q = t_idempotency_key r)"

definition reg_clash :: "reg_row \<Rightarrow> reg_row \<Rightarrow> bool" where
  "reg_clash r q \<longleftrightarrow> r_tenant_id q = r_tenant_id r \<and>
     (r_id q = r_id r \<or> r_idempotency_key q = r_idempotency_key r)"

text \<open>The foreign keys of the rows that have some.\<close>

definition task_refs_ok :: "db \<Rightarrow> task_row \<Rightarrow> bool" where
  "task_refs_ok s r \<longleftrightarrow>
     null_or (has_model s (t_tenant_id r)) (t_model_id r)
     \<and> null_or (has_version s (t_tenant_id r)) (t_model_version_id r)"

definition reg_refs_ok :: "db \<Rightarrow> reg_row \<Rightarrow> bool" where
  "reg_refs_ok s r \<longleftrightarrow>
     null_or (has_model s (r_tenant_id r)) (r_target_model_id r)
     \<and> null_or (has_version s (r_tenant_id r)) (r_source_model_version_id r)
     \<and> null_or (has_model s (r_tenant_id r)) (r_model_id r)
     \<and> null_or (has_version s (r_tenant_id r)) (r_model_version_id r)"

text \<open>The rows a constraint rejects: \<open>CHECK\<close> first, then unique indexes, then foreign keys.\<close>

definition reject :: "bool \<Rightarrow> bool \<Rightarrow> bool \<Rightarrow> gerr option" where
  "reject chk uniq refs =
     (if \<not> chk then Some (pg ''23514'')
      else if \<not> uniq then Some (pg ''23505'')
      else if \<not> refs then Some (pg ''23503'')
      else None)"

definition ins_model :: "(int \<Rightarrow> model_row) \<Rightarrow> model_row dbop" where
  "ins_model mk s =
     (let r = mk (clock s) in
      case reject (model_check r) (\<not> list_ex (model_clash r) (models s)) True of
        Some e \<Rightarrow> (Inl e, s)
      | None \<Rightarrow> (Inr r, s\<lparr>models := models s @ [r]\<rparr>))"

definition ins_version :: "(int \<Rightarrow> version_row) \<Rightarrow> version_row dbop" where
  "ins_version mk s =
     (let r = mk (clock s) in
      case reject (version_check r) (\<not> list_ex (version_clash r) (versions s))
             (has_model s (v_tenant_id r) (v_model_id r)) of
        Some e \<Rightarrow> (Inl e, s)
      | None \<Rightarrow> (Inr r, s\<lparr>versions := versions s @ [r]\<rparr>))"

definition ins_artifact :: "(int \<Rightarrow> artifact_row) \<Rightarrow> artifact_row dbop" where
  "ins_artifact mk s =
     (let r = mk (clock s) in
      case reject (artifact_check r) (\<not> list_ex (artifact_clash r) (artifacts s))
             (has_version s (a_tenant_id r) (a_model_version_id r)) of
        Some e \<Rightarrow> (Inl e, s)
      | None \<Rightarrow> (Inr r, s\<lparr>artifacts := artifacts s @ [r]\<rparr>))"

definition ins_task :: "(int \<Rightarrow> task_row) \<Rightarrow> task_row dbop" where
  "ins_task mk s =
     (let r = mk (clock s) in
      case reject (task_check r) (\<not> list_ex (task_clash r) (tasks s)) (task_refs_ok s r) of
        Some e \<Rightarrow> (Inl e, s)
      | None \<Rightarrow> (Inr r, s\<lparr>tasks := tasks s @ [r]\<rparr>))"

definition ins_audit :: "(int \<Rightarrow> audit_row) \<Rightarrow> audit_row dbop" where
  "ins_audit mk s =
     (let r = mk (clock s) in
      case reject True (\<not> list_ex (\<lambda>q. audit_key q = audit_key r) (audits s))
             (null_or (has_task s (e_tenant_id r)) (e_task_id r)) of
        Some e \<Rightarrow> (Inl e, s)
      | None \<Rightarrow> (Inr r, s\<lparr>audits := audits s @ [r]\<rparr>))"

definition ins_reg :: "(int \<Rightarrow> reg_row) \<Rightarrow> reg_row dbop" where
  "ins_reg mk s =
     (let r = mk (clock s) in
      case reject (reg_check r) (\<not> list_ex (reg_clash r) (regs s)) (reg_refs_ok s r) of
        Some e \<Rightarrow> (Inl e, s)
      | None \<Rightarrow> (Inr r, s\<lparr>regs := regs s @ [r]\<rparr>))"

text \<open>
  \<open>UPDATE\<close>: the rows selected are rewritten with the time of the statement; an error of a
  rewritten row (an integer out of range, a violated constraint) fails the statement. The
  result is the list of rewritten rows, so its length is the number of rows affected.
\<close>

definition first_error :: "('r \<Rightarrow> gerr option) \<Rightarrow> 'r list \<Rightarrow> gerr option" where
  "first_error bad rows = (case List.map_filter bad rows of [] \<Rightarrow> None | e # _ \<Rightarrow> Some e)"

definition upd_models ::
    "(model_row \<Rightarrow> gerr option) \<Rightarrow> (db \<Rightarrow> model_row \<Rightarrow> bool) \<Rightarrow> (int \<Rightarrow> model_row \<Rightarrow> model_row)
     \<Rightarrow> model_row list dbop" where
  "upd_models bad hit f s =
     (let new = map (f (clock s)) (filter (hit s) (models s)) in
      case first_error bad new of
        Some e \<Rightarrow> (Inl e, s)
      | None \<Rightarrow> (Inr new, s\<lparr>models := upd_rows (hit s) (f (clock s)) (models s)\<rparr>))"

definition upd_versions ::
    "(db \<Rightarrow> version_row \<Rightarrow> bool) \<Rightarrow> (int \<Rightarrow> version_row \<Rightarrow> version_row) \<Rightarrow> version_row list dbop" where
  "upd_versions hit f s =
     (Inr (map (f (clock s)) (filter (hit s) (versions s))),
      s\<lparr>versions := upd_rows (hit s) (f (clock s)) (versions s)\<rparr>)"

definition upd_tasks ::
    "(db \<Rightarrow> task_row \<Rightarrow> gerr option) \<Rightarrow> (db \<Rightarrow> task_row \<Rightarrow> bool) \<Rightarrow> (int \<Rightarrow> task_row \<Rightarrow> task_row)
     \<Rightarrow> task_row list dbop" where
  "upd_tasks bad hit f s =
     (let new = map (f (clock s)) (filter (hit s) (tasks s)) in
      case first_error (bad s) new of
        Some e \<Rightarrow> (Inl e, s)
      | None \<Rightarrow> (Inr new, s\<lparr>tasks := upd_rows (hit s) (f (clock s)) (tasks s)\<rparr>))"

definition upd_regs ::
    "(db \<Rightarrow> reg_row \<Rightarrow> bool) \<Rightarrow> (int \<Rightarrow> reg_row \<Rightarrow> reg_row) \<Rightarrow> reg_row list dbop" where
  "upd_regs hit f s =
     (let new = map (f (clock s)) (filter (hit s) (regs s)) in
      if list_all (reg_refs_ok s) new
      then (Inr new, s\<lparr>regs := upd_rows (hit s) (f (clock s)) (regs s)\<rparr>)
      else (Inl (pg ''23503''), s))"

definition no_error :: "'r \<Rightarrow> gerr option" where
  "no_error r = None"

definition rows_affected :: "'r list dbop \<Rightarrow> int dbop" where
  "rows_affected q = andThen q (\<lambda>rows. ret (int (length rows)))"

end
