(* ===== verification/Rules.thy ===== *)
theory Rules
  imports Tables
begin

text \<open>
  Relations between database states and the rules that carry them through statements and
  transactions. A \<^term>\<open>R\<close> that is a preorder, tolerates the passing of time and never
  turns the clock back is kept by every statement and transaction whose raw operations
  keep it (locale \<open>db_relation\<close>). Three such relations are used throughout: every row
  evolves legally (\<open>evolves\<close>), the rows of other tenants stay (\<open>frame\<close>), and the
  constraints of the schema together with the readiness invariant are preserved
  (\<open>keeps_ok\<close>).
\<close>

locale db_relation = state_preorder R for R :: "db \<Rightarrow> db \<Rightarrow> bool" +
  assumes R_time: "clock s \<le> c \<Longrightarrow> R s (s\<lparr>clock := c, script := l\<rparr>)"
    and R_clock: "R s t \<Longrightarrow> clock s \<le> clock t"
begin

lemma steps_rd: "steps_in R (rd q)"
  by (simp add: steps_in_def rd_def R_refl)

lemma steps_stmt_at: "steps_in R q \<Longrightarrow> steps_in R (stmt_at q fl)"
  by (rule steps_inI)
     (auto simp: stmt_at_def R_refl split: fault.splits prod.splits sum.splits dest: steps_inD)

lemma steps_stmt:
  assumes "steps_in R q"
  shows "steps_in R (stmt q)"
proof (rule steps_inI)
  fix s
  have at: "R u (snd (stmt_at q fl u))" for fl u
    using steps_stmt_at [OF assms] by (simp add: steps_in_def)
  show "R s (snd (stmt q s))"
  proof (cases "script s")
    case (Cons d rest)
    obtain k fl where d: "d = (k, fl)" by (cases d)
    have "R s (s\<lparr>clock := clock s + int k, script := rest\<rparr>)" by (rule R_time) simp
    with at show ?thesis using Cons d by (auto simp: stmt_def intro: R_trans)
  qed (simp add: stmt_def at)
qed

lemma steps_commit:
  assumes "R s t"
  shows "R s (snd (commit_from s x t))"
proof (cases "script t")
  case (Cons d rest)
  obtain k fl where d: "d = (k, fl)" by (cases d)
  have "R t (t\<lparr>clock := clock t + int k, script := rest\<rparr>)" by (rule R_time) simp
  then have "R s (t\<lparr>clock := clock t + int k, script := rest\<rparr>)" by (rule R_trans [OF assms])
  moreover have "clock s \<le> clock t + int k" using R_clock [OF assms] by simp
  ultimately show ?thesis
    using Cons d by (auto simp: commit_from_def rollback_to_def Let_def R_time split: fault.splits)
qed (use assms in \<open>simp add: commit_from_def\<close>)

lemma rel_tx_body:
  assumes "R s (snd (m s))"
  shows "R s (snd (tx_body m s))"
proof (cases "m s")
  case (Pair r t)
  with assms have "R s t" by simp
  with Pair show ?thesis
    by (cases r) (simp_all add: tx_body_def steps_commit rollback_to_def R_time R_clock)
qed

lemma steps_tx_body: "steps_in R m \<Longrightarrow> steps_in R (tx_body m)"
  by (simp add: steps_in_def rel_tx_body)

lemma steps_begin: "steps_in R begin_tx"
  by (simp add: begin_tx_def steps_stmt steps_ret)

lemma steps_transact: "steps_in R m \<Longrightarrow> steps_in R (transact m)"
  by (simp add: transact_def steps_andThen steps_begin steps_tx_body)

lemma steps_rows_affected: "steps_in R q \<Longrightarrow> steps_in R (rows_affected q)"
  by (simp add: rows_affected_def steps_andThen steps_ret)

lemmas steps_db = steps_basic steps_rd steps_stmt steps_begin steps_tx_body steps_transact
  steps_rows_affected

end

section \<open>Legal evolution of the rows\<close>

definition grows :: "('r \<Rightarrow> 'r \<Rightarrow> bool) \<Rightarrow> 'r list \<Rightarrow> 'r list \<Rightarrow> bool" where
  "grows P xs ys \<longleftrightarrow> length xs \<le> length ys \<and> (\<forall>i < length xs. P (xs ! i) (ys ! i))"

text \<open>A deleted model stays deleted; what identifies a model never changes.\<close>

definition model_evolves :: "model_row \<Rightarrow> model_row \<Rightarrow> bool" where
  "model_evolves a b \<longleftrightarrow>
     model_key b = model_key a \<and> m_name b = m_name a \<and> m_model_id b = m_model_id a
     \<and> m_idempotency_key b = m_idempotency_key a
     \<and> m_request_fingerprint b = m_request_fingerprint a
     \<and> (m_status a = ''deleted'' \<longrightarrow> m_status b = ''deleted'')
     \<and> m_total_size_bytes a \<le> m_total_size_bytes b"

text \<open>
  Version states: \<open>deleted\<close> is final, \<open>ready\<close> only becomes \<open>deleted\<close>, and no operation
  moves a version to \<open>importing\<close>.
\<close>

definition status_step :: "string \<Rightarrow> string \<Rightarrow> bool" where
  "status_step a b \<longleftrightarrow> a = b \<or> b = VersionDeleted
     \<or> (a \<noteq> VersionDeleted \<and> a \<noteq> VersionReady \<and> b \<noteq> VersionImporting)"

text \<open>What a version is made of never changes, its checksum is written once, and the size of a
  ready (or deleted) version is final.\<close>

definition version_evolves :: "version_row \<Rightarrow> version_row \<Rightarrow> bool" where
  "version_evolves a b \<longleftrightarrow>
     version_key b = version_key a \<and> v_model_id b = v_model_id a \<and> v_version b = v_version a
     \<and> v_format b = v_format a \<and> v_idempotency_key b = v_idempotency_key a
     \<and> v_request_fingerprint b = v_request_fingerprint a
     \<and> status_step (v_status a) (v_status b)
     \<and> (v_checksum_sha256 a \<noteq> [] \<longrightarrow> v_checksum_sha256 b = v_checksum_sha256 a)
     \<and> (v_status a \<in> {VersionReady, VersionDeleted} \<longrightarrow>
          v_checksum_sha256 b = v_checksum_sha256 a \<and> v_size_bytes b = v_size_bytes a)"

text \<open>
  The lease protocol: the epoch never decreases, a completed task is final, and a task is
  held (\<open>importing\<close>) under an unchanged epoch only by the owner that already held it.
\<close>

definition task_evolves :: "task_row \<Rightarrow> task_row \<Rightarrow> bool" where
  "task_evolves a b \<longleftrightarrow>
     task_key b = task_key a \<and> t_idempotency_key b = t_idempotency_key a
     \<and> t_request_fingerprint b = t_request_fingerprint a
     \<and> t_task_type b = t_task_type a \<and> t_source b = t_source a
     \<and> t_repo_id b = t_repo_id a \<and> t_revision b = t_revision a
     \<and> t_lease_epoch a \<le> t_lease_epoch b
     \<and> (t_status a = TaskCompleted \<longrightarrow> b = a)
     \<and> (t_lease_epoch b = t_lease_epoch a \<and> t_status b = TaskImporting \<longrightarrow>
          t_status a = TaskImporting \<and> t_lease_owner b = t_lease_owner a)
     \<and> (t_model_version_id a \<noteq> None \<longrightarrow> t_model_version_id b = t_model_version_id a
          \<and> t_model_id b = t_model_id a)"

text \<open>Registrations: \<open>ready\<close>, \<open>failed\<close> and \<open>aborted\<close> are final, \<open>pending\<close> is never re-entered.\<close>

definition terminal_reg :: "string \<Rightarrow> bool" where
  "terminal_reg st \<longleftrightarrow> st = RegistrationReady \<or> st = RegistrationFailed \<or> st = RegistrationAborted"

definition reg_evolves :: "reg_row \<Rightarrow> reg_row \<Rightarrow> bool" where
  "reg_evolves a b \<longleftrightarrow>
     reg_key b = reg_key a \<and> r_idempotency_key b = r_idempotency_key a
     \<and> r_request_fingerprint b = r_request_fingerprint a
     \<and> r_storage_path b = r_storage_path a \<and> r_checksum_sha256 b = r_checksum_sha256 a
     \<and> r_size_bytes b = r_size_bytes a
     \<and> (terminal_reg (r_status a) \<longrightarrow> b = a)
     \<and> (r_status b = RegistrationPending \<longrightarrow> r_status a = RegistrationPending)"

definition evolves :: "db \<Rightarrow> db \<Rightarrow> bool" where
  "evolves s t \<longleftrightarrow>
     clock s \<le> clock t
     \<and> grows model_evolves (models s) (models t)
     \<and> grows version_evolves (versions s) (versions t)
     \<and> grows (=) (artifacts s) (artifacts t)
     \<and> grows task_evolves (tasks s) (tasks t)
     \<and> grows (=) (audits s) (audits t)
     \<and> grows reg_evolves (regs s) (regs t)"

lemma grows_refl: "(\<And>x. P x x) \<Longrightarrow> grows P xs xs"
  by (simp add: grows_def)

lemma grows_trans:
  "(\<And>x y z. P x y \<Longrightarrow> P y z \<Longrightarrow> P x z) \<Longrightarrow> grows P xs ys \<Longrightarrow> grows P ys zs \<Longrightarrow> grows P xs zs"
  unfolding grows_def by (meson le_trans less_le_trans)

lemma grows_append: "(\<And>x. P x x) \<Longrightarrow> grows P xs (xs @ ys)"
  by (simp add: grows_def nth_append)

lemma grows_upd:
  "(\<And>x. P x x) \<Longrightarrow> (\<And>x. hit x \<Longrightarrow> P x (f x)) \<Longrightarrow> grows P xs (upd_rows hit f xs)"
  by (simp add: grows_def)

lemma model_evolves_refl: "model_evolves x x"
  by (simp add: model_evolves_def)

lemma version_evolves_refl: "version_evolves x x"
  by (simp add: version_evolves_def status_step_def)

lemma task_evolves_refl: "task_evolves x x"
  by (simp add: task_evolves_def)

lemma reg_evolves_refl: "reg_evolves x x"
  by (simp add: reg_evolves_def)

lemma model_evolves_trans: "model_evolves x y \<Longrightarrow> model_evolves y z \<Longrightarrow> model_evolves x z"
  by (auto simp: model_evolves_def)

lemma status_step_trans: "status_step a b \<Longrightarrow> status_step b c \<Longrightarrow> status_step a c"
  by (auto simp: status_step_def VersionDeleted_def VersionReady_def VersionImporting_def)

lemma status_step_frozen:
  "status_step a b \<Longrightarrow> a \<in> {VersionReady, VersionDeleted} \<Longrightarrow> b \<in> {VersionReady, VersionDeleted}"
  by (auto simp: status_step_def)

lemma version_evolves_trans:
  assumes "version_evolves x y" and "version_evolves y z"
  shows "version_evolves x z"
proof -
  have "v_status x \<in> {VersionReady, VersionDeleted} \<Longrightarrow> v_status y \<in> {VersionReady, VersionDeleted}"
    using assms(1) status_step_frozen unfolding version_evolves_def by blast
  moreover have "status_step (v_status x) (v_status z)"
    using assms status_step_trans unfolding version_evolves_def by blast
  ultimately show ?thesis
    using assms unfolding version_evolves_def by metis
qed

lemma task_evolves_trans:
  assumes a: "task_evolves x y" and b: "task_evolves y z"
  shows "task_evolves x z"
proof (cases "t_status x = TaskCompleted")
  case True
  with a have "y = x" unfolding task_evolves_def by blast
  with b show ?thesis by blast
next
  case c: False
  have e: "t_lease_epoch x \<le> t_lease_epoch z"
    "t_lease_epoch z = t_lease_epoch x \<Longrightarrow> t_lease_epoch y = t_lease_epoch x"
    using a b unfolding task_evolves_def by linarith+
  show ?thesis using a b c e unfolding task_evolves_def by metis
qed

lemma reg_evolves_trans:
  assumes a: "reg_evolves x y" and b: "reg_evolves y z"
  shows "reg_evolves x z"
proof (cases "terminal_reg (r_status x)")
  case True
  with a have "y = x" unfolding reg_evolves_def by blast
  with b show ?thesis by blast
next
  case False
  then show ?thesis using a b unfolding reg_evolves_def by metis
qed
interpretation ev: db_relation evolves
proof
  show "evolves s s" for s
    by (simp add: evolves_def grows_refl model_evolves_refl version_evolves_refl
        task_evolves_refl reg_evolves_refl)
  show "evolves s u" if "evolves s t" and "evolves t u" for s t u
    using that unfolding evolves_def
    by (auto intro: grows_trans [of model_evolves] grows_trans [of version_evolves]
        grows_trans [of task_evolves] grows_trans [of reg_evolves] grows_trans [of "(=)"]
        model_evolves_trans version_evolves_trans task_evolves_trans reg_evolves_trans)
  show "evolves s (s\<lparr>clock := c, script := l\<rparr>)" if "clock s \<le> c" for s c l
    using that by (simp add: evolves_def grows_refl model_evolves_refl version_evolves_refl
        task_evolves_refl reg_evolves_refl)
  show "clock s \<le> clock t" if "evolves s t" for s t
    using that by (simp add: evolves_def)
qed

lemmas evolve_refls = model_evolves_refl version_evolves_refl task_evolves_refl reg_evolves_refl

lemma ev_ins_model: "steps_in evolves (ins_model mk)"
  by (rule steps_inI) (simp add: ins_model_def Let_def evolves_def grows_append grows_refl
      evolve_refls split: option.split)

lemma ev_ins_version: "steps_in evolves (ins_version mk)"
  by (rule steps_inI) (simp add: ins_version_def Let_def evolves_def grows_append grows_refl
      evolve_refls split: option.split)

lemma ev_ins_artifact: "steps_in evolves (ins_artifact mk)"
  by (rule steps_inI) (simp add: ins_artifact_def Let_def evolves_def grows_append grows_refl
      evolve_refls split: option.split)

lemma ev_ins_task: "steps_in evolves (ins_task mk)"
  by (rule steps_inI) (simp add: ins_task_def Let_def evolves_def grows_append grows_refl
      evolve_refls split: option.split)

lemma ev_ins_audit: "steps_in evolves (ins_audit mk)"
  by (rule steps_inI) (simp add: ins_audit_def Let_def evolves_def grows_append grows_refl
      evolve_refls split: option.split)

lemma ev_ins_reg: "steps_in evolves (ins_reg mk)"
  by (rule steps_inI) (simp add: ins_reg_def Let_def evolves_def grows_append grows_refl
      evolve_refls split: option.split)

lemma ev_upd_models:
  "(\<And>s r. hit s r \<Longrightarrow> model_evolves r (f (clock s) r)) \<Longrightarrow> steps_in evolves (upd_models bad hit f)"
  by (rule steps_inI) (simp add: upd_models_def Let_def evolves_def grows_upd grows_refl
      evolve_refls split: option.split)

lemma ev_upd_versions:
  "(\<And>s r. hit s r \<Longrightarrow> version_evolves r (f (clock s) r)) \<Longrightarrow> steps_in evolves (upd_versions hit f)"
  by (rule steps_inI) (simp add: upd_versions_def evolves_def grows_upd grows_refl evolve_refls)

lemma ev_upd_tasks:
  "(\<And>s r. hit s r \<Longrightarrow> task_evolves r (f (clock s) r)) \<Longrightarrow> steps_in evolves (upd_tasks bad hit f)"
  by (rule steps_inI) (simp add: upd_tasks_def Let_def evolves_def grows_upd grows_refl
      evolve_refls split: option.split)

lemma ev_upd_regs:
  "(\<And>s r. hit s r \<Longrightarrow> reg_evolves r (f (clock s) r)) \<Longrightarrow> steps_in evolves (upd_regs hit f)"
  by (rule steps_inI) (simp add: upd_regs_def Let_def evolves_def grows_upd grows_refl evolve_refls)

lemmas ev_raw = ev_ins_model ev_ins_version ev_ins_artifact ev_ins_task ev_ins_audit ev_ins_reg

section \<open>The rows of other tenants\<close>

definition frame :: "uuid \<Rightarrow> db \<Rightarrow> db \<Rightarrow> bool" where
  "frame tn s t \<longleftrightarrow>
     clock s \<le> clock t
     \<and> filter (\<lambda>r. m_tenant_id r \<noteq> tn) (models t) = filter (\<lambda>r. m_tenant_id r \<noteq> tn) (models s)
     \<and> filter (\<lambda>r. v_tenant_id r \<noteq> tn) (versions t) = filter (\<lambda>r. v_tenant_id r \<noteq> tn) (versions s)
     \<and> filter (\<lambda>r. a_tenant_id r \<noteq> tn) (artifacts t) = filter (\<lambda>r. a_tenant_id r \<noteq> tn) (artifacts s)
     \<and> filter (\<lambda>r. t_tenant_id r \<noteq> tn) (tasks t) = filter (\<lambda>r. t_tenant_id r \<noteq> tn) (tasks s)
     \<and> filter (\<lambda>r. e_tenant_id r \<noteq> tn) (audits t) = filter (\<lambda>r. e_tenant_id r \<noteq> tn) (audits s)
     \<and> filter (\<lambda>r. r_tenant_id r \<noteq> tn) (regs t) = filter (\<lambda>r. r_tenant_id r \<noteq> tn) (regs s)"

interpretation fr: db_relation "frame tn"
  by unfold_locales (simp_all add: frame_def)

lemma fr_ins_model: "(\<And>c. m_tenant_id (mk c) = tn) \<Longrightarrow> steps_in (frame tn) (ins_model mk)"
  by (rule steps_inI) (simp add: ins_model_def Let_def frame_def split: option.split)

lemma fr_ins_version: "(\<And>c. v_tenant_id (mk c) = tn) \<Longrightarrow> steps_in (frame tn) (ins_version mk)"
  by (rule steps_inI) (simp add: ins_version_def Let_def frame_def split: option.split)

lemma fr_ins_artifact: "(\<And>c. a_tenant_id (mk c) = tn) \<Longrightarrow> steps_in (frame tn) (ins_artifact mk)"
  by (rule steps_inI) (simp add: ins_artifact_def Let_def frame_def split: option.split)

lemma fr_ins_task: "(\<And>c. t_tenant_id (mk c) = tn) \<Longrightarrow> steps_in (frame tn) (ins_task mk)"
  by (rule steps_inI) (simp add: ins_task_def Let_def frame_def split: option.split)

lemma fr_ins_audit: "(\<And>c. e_tenant_id (mk c) = tn) \<Longrightarrow> steps_in (frame tn) (ins_audit mk)"
  by (rule steps_inI) (simp add: ins_audit_def Let_def frame_def split: option.split)

lemma fr_ins_reg: "(\<And>c. r_tenant_id (mk c) = tn) \<Longrightarrow> steps_in (frame tn) (ins_reg mk)"
  by (rule steps_inI) (simp add: ins_reg_def Let_def frame_def split: option.split)

lemma fr_upd_models:
  "(\<And>s c r. hit s r \<Longrightarrow> m_tenant_id r = tn \<and> m_tenant_id (f c r) = tn) \<Longrightarrow>
   steps_in (frame tn) (upd_models bad hit f)"
  by (rule steps_inI) (simp add: upd_models_def Let_def frame_def filter_upd_rows split: option.split)

lemma fr_upd_versions:
  "(\<And>s c r. hit s r \<Longrightarrow> v_tenant_id r = tn \<and> v_tenant_id (f c r) = tn) \<Longrightarrow>
   steps_in (frame tn) (upd_versions hit f)"
  by (rule steps_inI) (simp add: upd_versions_def frame_def filter_upd_rows)

lemma fr_upd_tasks:
  "(\<And>s c r. hit s r \<Longrightarrow> t_tenant_id r = tn \<and> t_tenant_id (f c r) = tn) \<Longrightarrow>
   steps_in (frame tn) (upd_tasks bad hit f)"
  by (rule steps_inI) (simp add: upd_tasks_def Let_def frame_def filter_upd_rows split: option.split)

lemma fr_upd_regs:
  "(\<And>s c r. hit s r \<Longrightarrow> r_tenant_id r = tn \<and> r_tenant_id (f c r) = tn) \<Longrightarrow>
   steps_in (frame tn) (upd_regs hit f)"
  by (rule steps_inI) (simp add: upd_regs_def Let_def frame_def filter_upd_rows)

lemmas fr_ins = fr_ins_model fr_ins_version fr_ins_artifact fr_ins_task fr_ins_audit fr_ins_reg
lemmas fr_upd = fr_upd_models fr_upd_versions fr_upd_tasks fr_upd_regs

section \<open>The schema and the readiness invariant\<close>

definition model_keys :: "db \<Rightarrow> (uuid \<times> uuid) set" where
  "model_keys s = model_key ` set (models s)"

definition version_keys :: "db \<Rightarrow> (uuid \<times> uuid) set" where
  "version_keys s = version_key ` set (versions s)"

definition task_keys :: "db \<Rightarrow> (uuid \<times> uuid) set" where
  "task_keys s = task_key ` set (tasks s)"

text \<open>A version is offered as ready only with an artifact whose checksum is the version's.\<close>

definition backed :: "artifact_row list \<Rightarrow> version_row \<Rightarrow> bool" where
  "backed as v \<longleftrightarrow> list_ex (\<lambda>a. a_tenant_id a = v_tenant_id v \<and> a_model_version_id a = v_id v
     \<and> a_sha256 a = v_checksum_sha256 v \<and> is_checksum (a_sha256 a)) as"

definition ready_backed :: "artifact_row list \<Rightarrow> version_row \<Rightarrow> bool" where
  "ready_backed as v \<longleftrightarrow> (v_status v = VersionReady \<longrightarrow> backed as v)"

text \<open>A task is held exactly while it is importing, and has a completion time exactly when
  it is completed.\<close>

definition task_inv :: "task_row \<Rightarrow> bool" where
  "task_inv r \<longleftrightarrow>
     (t_status r = TaskImporting \<longleftrightarrow> t_lease_until r \<noteq> None)
     \<and> (t_status r = TaskCompleted \<longleftrightarrow> t_completed_at r \<noteq> None)
     \<and> (t_status r = TaskCompleted \<longrightarrow> t_progress_pct r = 100)"

definition reg_inv :: "reg_row \<Rightarrow> bool" where
  "reg_inv r \<longleftrightarrow>
     (r_status r = RegistrationReady \<longrightarrow> r_model_id r \<noteq> None \<and> r_model_version_id r \<noteq> None)"

definition null_in :: "'a \<Rightarrow> 'b option \<Rightarrow> ('a \<times> 'b) set \<Rightarrow> bool" where
  "null_in a x K \<longleftrightarrow> null_or (\<lambda>b. (a, b) \<in> K) x"

definition models_ok :: "model_row list \<Rightarrow> bool" where
  "models_ok ms \<longleftrightarrow> distinct (map model_key ms) \<and> (\<forall>r \<in> set ms. model_check r)"

definition versions_ok :: "(uuid \<times> uuid) set \<Rightarrow> artifact_row list \<Rightarrow> version_row list \<Rightarrow> bool" where
  "versions_ok mks as vs \<longleftrightarrow> distinct (map version_key vs) \<and>
     (\<forall>r \<in> set vs. version_check r \<and> (v_tenant_id r, v_model_id r) \<in> mks \<and> ready_backed as r)"

definition artifacts_ok :: "(uuid \<times> uuid) set \<Rightarrow> artifact_row list \<Rightarrow> bool" where
  "artifacts_ok vks as \<longleftrightarrow> distinct (map artifact_key as) \<and>
     (\<forall>r \<in> set as. artifact_check r \<and> (a_tenant_id r, a_model_version_id r) \<in> vks)"

definition tasks_ok :: "(uuid \<times> uuid) set \<Rightarrow> (uuid \<times> uuid) set \<Rightarrow> task_row list \<Rightarrow> bool" where
  "tasks_ok mks vks ts \<longleftrightarrow> distinct (map task_key ts) \<and>
     (\<forall>r \<in> set ts. task_check r \<and> task_inv r \<and> null_in (t_tenant_id r) (t_model_id r) mks
        \<and> null_in (t_tenant_id r) (t_model_version_id r) vks)"

definition audits_ok :: "(uuid \<times> uuid) set \<Rightarrow> audit_row list \<Rightarrow> bool" where
  "audits_ok tks es \<longleftrightarrow> distinct (map audit_key es) \<and>
     (\<forall>r \<in> set es. null_in (e_tenant_id r) (e_task_id r) tks)"

definition regs_ok :: "(uuid \<times> uuid) set \<Rightarrow> (uuid \<times> uuid) set \<Rightarrow> reg_row list \<Rightarrow> bool" where
  "regs_ok mks vks rs \<longleftrightarrow> distinct (map reg_key rs) \<and>
     (\<forall>r \<in> set rs. reg_check r \<and> reg_inv r
        \<and> null_in (r_tenant_id r) (r_target_model_id r) mks
        \<and> null_in (r_tenant_id r) (r_source_model_version_id r) vks
        \<and> null_in (r_tenant_id r) (r_model_id r) mks
        \<and> null_in (r_tenant_id r) (r_model_version_id r) vks)"

definition db_ok :: "db \<Rightarrow> bool" where
  "db_ok s \<longleftrightarrow>
     models_ok (models s)
     \<and> versions_ok (model_keys s) (artifacts s) (versions s)
     \<and> artifacts_ok (version_keys s) (artifacts s)
     \<and> tasks_ok (model_keys s) (version_keys s) (tasks s)
     \<and> audits_ok (task_keys s) (audits s)
     \<and> regs_ok (model_keys s) (version_keys s) (regs s)"

definition keeps_ok :: "db \<Rightarrow> db \<Rightarrow> bool" where
  "keeps_ok s t \<longleftrightarrow> clock s \<le> clock t \<and> (db_ok s \<longrightarrow> db_ok t)"

interpretation ok: db_relation keeps_ok
  by unfold_locales
     (auto simp: keeps_ok_def db_ok_def model_keys_def version_keys_def task_keys_def)

lemma has_model_iff: "has_model s tn i \<longleftrightarrow> (tn, i) \<in> model_keys s"
  unfolding has_model_def model_keys_def list_ex_iff image_iff by metis

lemma has_version_iff: "has_version s tn i \<longleftrightarrow> (tn, i) \<in> version_keys s"
  unfolding has_version_def version_keys_def list_ex_iff image_iff by metis

lemma has_task_iff: "has_task s tn i \<longleftrightarrow> (tn, i) \<in> task_keys s"
  unfolding has_task_def task_keys_def list_ex_iff image_iff by metis

lemma null_in_mono: "null_in a x K \<Longrightarrow> K \<subseteq> L \<Longrightarrow> null_in a x L"
  by (cases x) (auto simp: null_in_def null_or_def)

lemma null_or_keys:
  "null_or (has_model s a) x \<longleftrightarrow> null_in a x (model_keys s)"
  "null_or (has_version s a) x \<longleftrightarrow> null_in a x (version_keys s)"
  "null_or (has_task s a) x \<longleftrightarrow> null_in a x (task_keys s)"
  by (cases x; simp add: null_or_def null_in_def has_model_iff has_version_iff has_task_iff)+

lemma ready_backed_mono: "ready_backed as v \<Longrightarrow> set as \<subseteq> set bs \<Longrightarrow> ready_backed bs v"
  by (auto simp: ready_backed_def backed_def list_ex_iff)

lemma versions_ok_mono:
  "versions_ok K as vs \<Longrightarrow> K \<subseteq> L \<Longrightarrow> set as \<subseteq> set bs \<Longrightarrow> versions_ok L bs vs"
  unfolding versions_ok_def using ready_backed_mono by blast

lemma artifacts_ok_mono: "artifacts_ok K as \<Longrightarrow> K \<subseteq> L \<Longrightarrow> artifacts_ok L as"
  unfolding artifacts_ok_def by blast

lemma tasks_ok_mono: "tasks_ok K V ts \<Longrightarrow> K \<subseteq> L \<Longrightarrow> V \<subseteq> W \<Longrightarrow> tasks_ok L W ts"
  unfolding tasks_ok_def by (meson null_in_mono)

lemma audits_ok_mono: "audits_ok K es \<Longrightarrow> K \<subseteq> L \<Longrightarrow> audits_ok L es"
  unfolding audits_ok_def by (meson null_in_mono)

lemma regs_ok_mono: "regs_ok K V rs \<Longrightarrow> K \<subseteq> L \<Longrightarrow> V \<subseteq> W \<Longrightarrow> regs_ok L W rs"
  unfolding regs_ok_def by (meson null_in_mono)

lemmas ok_monos = versions_ok_mono artifacts_ok_mono tasks_ok_mono audits_ok_mono regs_ok_mono

lemma reject_None_iff: "reject a b c = None \<longleftrightarrow> a \<and> b \<and> c"
  by (simp add: reject_def)

lemma distinct_snoc_key:
  "distinct (map key rows) \<Longrightarrow> \<not> list_ex (\<lambda>q. key q = key r) rows \<Longrightarrow> distinct (map key (rows @ [r]))"
  by (auto simp: list_ex_iff)

lemma ok_ins_model: "steps_in keeps_ok (ins_model mk)"
proof (rule steps_inI)
  fix s :: db
  let ?r = "mk (clock s)"
  show "keeps_ok s (snd (ins_model mk s))"
  proof (cases "reject (model_check ?r) (\<not> list_ex (model_clash ?r) (models s)) True")
    case None
    then have c: "model_check ?r" and u: "\<not> list_ex (model_clash ?r) (models s)"
      by (simp_all add: reject_None_iff)
    from u have "\<not> list_ex (\<lambda>q. model_key q = model_key ?r) (models s)"
      by (auto simp: list_ex_iff model_clash_def model_key_def)
    with c have "models_ok (models s) \<Longrightarrow> models_ok (models s @ [?r])"
      using distinct_snoc_key [of model_key "models s" ?r] by (auto simp: models_ok_def)
    moreover have "model_keys s \<subseteq> model_keys (s\<lparr>models := models s @ [?r]\<rparr>)"
      by (auto simp: model_keys_def)
    ultimately show ?thesis
      using None unfolding ins_model_def Let_def keeps_ok_def db_ok_def
      by (auto simp: version_keys_def task_keys_def intro: ok_monos)
  qed (simp add: ins_model_def Let_def ok.R_refl)
qed

lemma ok_ins_version:
  assumes "\<And>c. v_status (mk c) \<noteq> VersionReady"
  shows "steps_in keeps_ok (ins_version mk)"
proof (rule steps_inI)
  fix s :: db
  let ?r = "mk (clock s)"
  show "keeps_ok s (snd (ins_version mk s))"
  proof (cases "reject (version_check ?r) (\<not> list_ex (version_clash ?r) (versions s))
             (has_model s (v_tenant_id ?r) (v_model_id ?r))")
    case None
    then have c: "version_check ?r" and u: "\<not> list_ex (version_clash ?r) (versions s)"
      and f: "(v_tenant_id ?r, v_model_id ?r) \<in> model_keys s"
      by (simp_all add: reject_None_iff has_model_iff)
    from u have "\<not> list_ex (\<lambda>q. version_key q = version_key ?r) (versions s)"
      by (auto simp: list_ex_iff version_clash_def version_key_def)
    with c f have "versions_ok (model_keys s) (artifacts s) (versions s) \<Longrightarrow>
        versions_ok (model_keys s) (artifacts s) (versions s @ [?r])"
      using distinct_snoc_key [of version_key "versions s" ?r] assms
      by (auto simp: versions_ok_def ready_backed_def)
    moreover have "version_keys s \<subseteq> version_keys (s\<lparr>versions := versions s @ [?r]\<rparr>)"
      by (auto simp: version_keys_def)
    ultimately show ?thesis
      using None unfolding ins_version_def Let_def keeps_ok_def db_ok_def
      by (auto simp: model_keys_def task_keys_def intro: ok_monos)
  qed (simp add: ins_version_def Let_def ok.R_refl)
qed

lemma ok_ins_artifact: "steps_in keeps_ok (ins_artifact mk)"
proof (rule steps_inI)
  fix s :: db
  let ?r = "mk (clock s)"
  show "keeps_ok s (snd (ins_artifact mk s))"
  proof (cases "reject (artifact_check ?r) (\<not> list_ex (artifact_clash ?r) (artifacts s))
             (has_version s (a_tenant_id ?r) (a_model_version_id ?r))")
    case None
    then have c: "artifact_check ?r" and u: "\<not> list_ex (artifact_clash ?r) (artifacts s)"
      and f: "(a_tenant_id ?r, a_model_version_id ?r) \<in> version_keys s"
      by (simp_all add: reject_None_iff has_version_iff)
    from u have "\<not> list_ex (\<lambda>q. artifact_key q = artifact_key ?r) (artifacts s)"
      by (auto simp: list_ex_iff artifact_clash_def artifact_key_def)
    with c f have "artifacts_ok (version_keys s) (artifacts s) \<Longrightarrow>
        artifacts_ok (version_keys s) (artifacts s @ [?r])"
      using distinct_snoc_key [of artifact_key "artifacts s" ?r] by (auto simp: artifacts_ok_def)
    then show ?thesis
      using None unfolding ins_artifact_def Let_def keeps_ok_def db_ok_def
      by (auto simp: model_keys_def version_keys_def task_keys_def intro: versions_ok_mono)
  qed (simp add: ins_artifact_def Let_def ok.R_refl)
qed

lemma ok_ins_task:
  assumes "\<And>c. task_inv (mk c)"
  shows "steps_in keeps_ok (ins_task mk)"
proof (rule steps_inI)
  fix s :: db
  let ?r = "mk (clock s)"
  show "keeps_ok s (snd (ins_task mk s))"
  proof (cases "reject (task_check ?r) (\<not> list_ex (task_clash ?r) (tasks s)) (task_refs_ok s ?r)")
    case None
    then have c: "task_check ?r" and u: "\<not> list_ex (task_clash ?r) (tasks s)"
      and f: "task_refs_ok s ?r"
      by (simp_all add: reject_None_iff)
    from u have "\<not> list_ex (\<lambda>q. task_key q = task_key ?r) (tasks s)"
      by (auto simp: list_ex_iff task_clash_def task_key_def)
    with c f have "tasks_ok (model_keys s) (version_keys s) (tasks s) \<Longrightarrow>
        tasks_ok (model_keys s) (version_keys s) (tasks s @ [?r])"
      using distinct_snoc_key [of task_key "tasks s" ?r] assms
      by (auto simp: tasks_ok_def task_refs_ok_def null_or_keys)
    moreover have "task_keys s \<subseteq> task_keys (s\<lparr>tasks := tasks s @ [?r]\<rparr>)"
      by (auto simp: task_keys_def)
    ultimately show ?thesis
      using None unfolding ins_task_def Let_def keeps_ok_def db_ok_def
      by (auto simp: model_keys_def version_keys_def intro: ok_monos)
  qed (simp add: ins_task_def Let_def ok.R_refl)
qed

lemma ok_ins_audit: "steps_in keeps_ok (ins_audit mk)"
proof (rule steps_inI)
  fix s :: db
  let ?r = "mk (clock s)"
  show "keeps_ok s (snd (ins_audit mk s))"
  proof (cases "reject True (\<not> list_ex (\<lambda>q. audit_key q = audit_key ?r) (audits s))
             (null_or (has_task s (e_tenant_id ?r)) (e_task_id ?r))")
    case None
    then have "\<not> list_ex (\<lambda>q. audit_key q = audit_key ?r) (audits s)"
      and "null_in (e_tenant_id ?r) (e_task_id ?r) (task_keys s)"
      by (simp_all add: reject_None_iff null_or_keys)
    then have "audits_ok (task_keys s) (audits s) \<Longrightarrow> audits_ok (task_keys s) (audits s @ [?r])"
      using distinct_snoc_key [of audit_key "audits s" ?r] by (auto simp: audits_ok_def)
    then show ?thesis
      using None unfolding ins_audit_def Let_def keeps_ok_def db_ok_def
      by (auto simp: model_keys_def version_keys_def task_keys_def)
  qed (simp add: ins_audit_def Let_def ok.R_refl)
qed

lemma ok_ins_reg:
  assumes "\<And>c. reg_inv (mk c)"
  shows "steps_in keeps_ok (ins_reg mk)"
proof (rule steps_inI)
  fix s :: db
  let ?r = "mk (clock s)"
  show "keeps_ok s (snd (ins_reg mk s))"
  proof (cases "reject (reg_check ?r) (\<not> list_ex (reg_clash ?r) (regs s)) (reg_refs_ok s ?r)")
    case None
    then have c: "reg_check ?r" and u: "\<not> list_ex (reg_clash ?r) (regs s)"
      and f: "reg_refs_ok s ?r"
      by (simp_all add: reject_None_iff)
    from u have "\<not> list_ex (\<lambda>q. reg_key q = reg_key ?r) (regs s)"
      by (auto simp: list_ex_iff reg_clash_def reg_key_def)
    with c f have "regs_ok (model_keys s) (version_keys s) (regs s) \<Longrightarrow>
        regs_ok (model_keys s) (version_keys s) (regs s @ [?r])"
      using distinct_snoc_key [of reg_key "regs s" ?r] assms
      by (auto simp: regs_ok_def reg_refs_ok_def null_or_keys)
    then show ?thesis
      using None unfolding ins_reg_def Let_def keeps_ok_def db_ok_def
      by (auto simp: model_keys_def version_keys_def task_keys_def)
  qed (simp add: ins_reg_def Let_def ok.R_refl)
qed

lemma first_error_None: "first_error bad rows = None \<longleftrightarrow> (\<forall>r \<in> set rows. bad r = None)"
  by (induction rows) (auto simp: first_error_def map_filter_simps split: option.splits)

lemma keys_upd_rows:
  "(\<And>r. hit r \<Longrightarrow> key (f r) = key r) \<Longrightarrow> key ` set (upd_rows hit f rows) = key ` set rows"
  by (metis list.set_map map_key_upd_rows)

lemma ok_upd_models:
  assumes "\<And>s c r. hit s r \<Longrightarrow> model_key (f c r) = model_key r"
    and "\<And>s c r. hit s r \<Longrightarrow> model_check r \<Longrightarrow> bad (f c r) = None \<Longrightarrow> model_check (f c r)"
  shows "steps_in keeps_ok (upd_models bad hit f)"
proof (rule steps_inI)
  fix s :: db
  let ?ms = "upd_rows (hit s) (f (clock s)) (models s)"
  show "keeps_ok s (snd (upd_models bad hit f s))"
  proof (cases "first_error bad (map (f (clock s)) (filter (hit s) (models s)))")
    case None
    then have "\<And>r. r \<in> set (models s) \<Longrightarrow> hit s r \<Longrightarrow> bad (f (clock s) r) = None"
      by (simp add: first_error_None)
    then have "\<And>r. r \<in> set (models s) \<Longrightarrow> hit s r \<Longrightarrow> model_check r \<Longrightarrow> model_check (f (clock s) r)"
      using assms(2) by blast
    then have "models_ok (models s) \<Longrightarrow> \<forall>r \<in> set ?ms. model_check r"
      by (auto simp: models_ok_def set_upd_rows)
    moreover have "map model_key ?ms = map model_key (models s)"
      using assms(1) by (rule map_key_upd_rows)
    ultimately have "models_ok (models s) \<Longrightarrow> models_ok ?ms"
      by (simp add: models_ok_def)
    moreover have "model_keys (s\<lparr>models := ?ms\<rparr>) = model_keys s"
      using assms(1) by (simp add: model_keys_def keys_upd_rows)
    ultimately show ?thesis
      using None by (simp add: upd_models_def Let_def keeps_ok_def db_ok_def version_keys_def
          task_keys_def)
  qed (simp add: upd_models_def Let_def ok.R_refl)
qed

lemma ok_upd_versions:
  assumes "\<And>s c r. hit s r \<Longrightarrow> version_key (f c r) = version_key r \<and> v_model_id (f c r) = v_model_id r"
    and "\<And>s c r. hit s r \<Longrightarrow> version_check r \<Longrightarrow> version_check (f c r)"
    and "\<And>s c r. hit s r \<Longrightarrow> ready_backed (artifacts s) r \<Longrightarrow> artifacts_ok (version_keys s) (artifacts s)
          \<Longrightarrow> ready_backed (artifacts s) (f c r)"
  shows "steps_in keeps_ok (upd_versions hit f)"
proof (rule steps_inI)
  fix s :: db
  let ?vs = "upd_rows (hit s) (f (clock s)) (versions s)"
  have tn: "\<And>c r. hit s r \<Longrightarrow> v_tenant_id (f c r) = v_tenant_id r"
    using assms(1) by (simp add: version_key_def)
  have "versions_ok (model_keys s) (artifacts s) ?vs"
    if v: "versions_ok (model_keys s) (artifacts s) (versions s)"
      and a: "artifacts_ok (version_keys s) (artifacts s)"
  proof -
    have "version_check r \<and> (v_tenant_id r, v_model_id r) \<in> model_keys s \<and> ready_backed (artifacts s) r"
      if "r \<in> set ?vs" for r
    proof -
      from that obtain q where q: "q \<in> set (versions s)"
        and r: "r = (if hit s q then f (clock s) q else q)"
        by (auto simp: set_upd_rows)
      with v have "version_check q" "(v_tenant_id q, v_model_id q) \<in> model_keys s"
        "ready_backed (artifacts s) q"
        by (simp_all add: versions_ok_def)
      with r a assms tn show ?thesis by (cases "hit s q") simp_all
    qed
    moreover have "distinct (map version_key ?vs)"
      using v map_key_upd_rows [of "hit s" version_key "f (clock s)"] assms(1)
      by (simp add: versions_ok_def)
    ultimately show ?thesis by (simp add: versions_ok_def)
  qed
  moreover have "version_keys (s\<lparr>versions := ?vs\<rparr>) = version_keys s"
    using assms(1) by (simp add: version_keys_def keys_upd_rows)
  ultimately show "keeps_ok s (snd (upd_versions hit f s))"
    by (simp add: upd_versions_def keeps_ok_def db_ok_def model_keys_def task_keys_def)
qed

lemma ok_upd_tasks:
  assumes "\<And>s c r. hit s r \<Longrightarrow> task_key (f c r) = task_key r"
    and "\<And>s c r. hit s r \<Longrightarrow> task_check r \<Longrightarrow> task_inv r \<Longrightarrow> bad s (f c r) = None \<Longrightarrow>
          task_check (f c r) \<and> task_inv (f c r)"
    and "\<And>s c r. hit s r \<Longrightarrow> task_refs_ok s r \<Longrightarrow> bad s (f c r) = None \<Longrightarrow> task_refs_ok s (f c r)"
  shows "steps_in keeps_ok (upd_tasks bad hit f)"
proof (rule steps_inI)
  fix s :: db
  let ?ts = "upd_rows (hit s) (f (clock s)) (tasks s)"
  show "keeps_ok s (snd (upd_tasks bad hit f s))"
  proof (cases "first_error (bad s) (map (f (clock s)) (filter (hit s) (tasks s)))")
    case None
    then have "\<And>r. r \<in> set (tasks s) \<Longrightarrow> hit s r \<Longrightarrow> bad s (f (clock s) r) = None"
      by (simp add: first_error_None)
    note good = this
    have "tasks_ok (model_keys s) (version_keys s) ?ts"
      if v: "tasks_ok (model_keys s) (version_keys s) (tasks s)"
    proof -
      have "task_check r \<and> task_inv r \<and> task_refs_ok s r" if "r \<in> set ?ts" for r
      proof -
        from that obtain q where q: "q \<in> set (tasks s)"
          and r: "r = (if hit s q then f (clock s) q else q)"
          by (auto simp: set_upd_rows)
        with v have "task_check q" "task_inv q" "task_refs_ok s q"
          by (simp_all add: tasks_ok_def task_refs_ok_def null_or_keys)
        with q r good assms show ?thesis by (cases "hit s q") simp_all
      qed
      moreover have "distinct (map task_key ?ts)"
        using v map_key_upd_rows [of "hit s" task_key "f (clock s)"] assms(1)
        by (simp add: tasks_ok_def)
      ultimately show ?thesis by (simp add: tasks_ok_def task_refs_ok_def null_or_keys)
    qed
    moreover have "task_keys (s\<lparr>tasks := ?ts\<rparr>) = task_keys s"
      using assms(1) by (simp add: task_keys_def keys_upd_rows)
    ultimately show ?thesis
      using None by (simp add: upd_tasks_def Let_def keeps_ok_def db_ok_def model_keys_def
          version_keys_def)
  qed (simp add: upd_tasks_def Let_def ok.R_refl)
qed

lemma ok_upd_regs:
  assumes "\<And>s c r. hit s r \<Longrightarrow> reg_key (f c r) = reg_key r"
    and "\<And>s c r. hit s r \<Longrightarrow> reg_check r \<Longrightarrow> reg_inv r \<Longrightarrow> reg_check (f c r) \<and> reg_inv (f c r)"
  shows "steps_in keeps_ok (upd_regs hit f)"
proof (rule steps_inI)
  fix s :: db
  let ?rs = "upd_rows (hit s) (f (clock s)) (regs s)"
  show "keeps_ok s (snd (upd_regs hit f s))"
  proof (cases "list_all (reg_refs_ok s) (map (f (clock s)) (filter (hit s) (regs s)))")
    case True
    then have refs: "\<And>q. q \<in> set (regs s) \<Longrightarrow> hit s q \<Longrightarrow> reg_refs_ok s (f (clock s) q)"
      by (simp add: list_all_iff)
    have "regs_ok (model_keys s) (version_keys s) ?rs"
      if v: "regs_ok (model_keys s) (version_keys s) (regs s)"
    proof -
      have "reg_check r \<and> reg_inv r \<and> reg_refs_ok s r" if "r \<in> set ?rs" for r
      proof -
        from that obtain q where q: "q \<in> set (regs s)"
          and r: "r = (if hit s q then f (clock s) q else q)"
          by (auto simp: set_upd_rows)
        with v have "reg_check q" "reg_inv q" "reg_refs_ok s q"
          by (simp_all add: regs_ok_def reg_refs_ok_def null_or_keys)
        with q r refs assms show ?thesis by (cases "hit s q") simp_all
      qed
      moreover have "distinct (map reg_key ?rs)"
        using v map_key_upd_rows [of "hit s" reg_key "f (clock s)"] assms(1)
        by (simp add: regs_ok_def)
      ultimately show ?thesis by (simp add: regs_ok_def reg_refs_ok_def null_or_keys)
    qed
    then show ?thesis
      using True by (simp add: upd_regs_def Let_def keeps_ok_def db_ok_def model_keys_def
          version_keys_def task_keys_def)
  qed (auto simp: upd_regs_def Let_def ok.R_refl)
qed

lemmas ok_ins = ok_ins_model ok_ins_version ok_ins_artifact ok_ins_task ok_ins_audit ok_ins_reg
lemmas ok_upd = ok_upd_models ok_upd_versions ok_upd_tasks ok_upd_regs

end
