(* ===== verification/Statements.thy ===== *)
theory Statements
  imports Rules
begin

text \<open>
  The SQL statements of \<open>queries/model.sql\<close> as the generated methods of
  \<open>internal/data/postgres/model.sql.go\<close> execute them, one definition per method. A
  statement reads the clock once. A \<open>:one\<close> query without a row returns
  \<^term>\<open>ErrNoRows\<close>, an \<open>:execrows\<close> statement the number of rows affected. Row
  locks (\<open>FOR UPDATE\<close>, \<open>FOR SHARE\<close>) have no effect beyond serialising transactions.
\<close>

section \<open>Reading models and versions\<close>

record joined =
  jv :: version_row
  j_external_model_id :: string
  j_artifact_provider :: string
  j_artifact_reference :: string
  j_artifact_sha256 :: string
  j_artifact_size_bytes :: int

text \<open>\<open>v JOIN m ... JOIN a\<close>.\<close>

definition ready_join :: "db \<Rightarrow> (version_row \<times> model_row \<times> artifact_row) list" where
  "ready_join s =
     [(v, m, a). v \<leftarrow> versions s, m \<leftarrow> models s, a \<leftarrow> artifacts s,
        m_tenant_id m = v_tenant_id v \<and> m_id m = v_model_id v
        \<and> a_tenant_id a = v_tenant_id v \<and> a_model_version_id a = v_id v
        \<and> m_status m \<noteq> ''deleted'' \<and> v_status v = ''ready'' \<and> a_sha256 a \<noteq> []]"

definition joined_of :: "version_row \<times> model_row \<times> artifact_row \<Rightarrow> joined" where
  "joined_of p = (case p of (v, m, a) \<Rightarrow>
     \<lparr>jv = v, j_external_model_id = m_model_id m, j_artifact_provider = a_provider a,
      j_artifact_reference = a_reference a, j_artifact_sha256 = a_sha256 a,
      j_artifact_size_bytes = a_size_bytes a\<rparr>)"

definition sqlGetReadyModelVersion :: "uuid \<Rightarrow> uuid \<Rightarrow> joined dbop" where
  "sqlGetReadyModelVersion tn i = stmt (rd (\<lambda>s. one (map joined_of
     (filter (\<lambda>(v, m, a). v_tenant_id v = tn \<and> v_id v = i) (ready_join s)))))"

definition sqlGetReadyModelVersionByExternalRef :: "uuid \<Rightarrow> string \<Rightarrow> string \<Rightarrow> joined dbop" where
  "sqlGetReadyModelVersionByExternalRef tn ext_id ver = stmt (rd (\<lambda>s. one (map joined_of
     (filter (\<lambda>(v, m, a). v_tenant_id v = tn \<and> m_model_id m = ext_id \<and> v_version v = ver)
        (ready_join s)))))"

definition sqlGetModel :: "uuid \<Rightarrow> uuid \<Rightarrow> model_row dbop" where
  "sqlGetModel tn i = stmt (rd (\<lambda>s. one
     (filter (\<lambda>m. m_tenant_id m = tn \<and> m_id m = i \<and> m_status m \<noteq> ''deleted'') (models s))))"

definition sqlGetModelByExternalID :: "uuid \<Rightarrow> string \<Rightarrow> model_row dbop" where
  "sqlGetModelByExternalID tn ext_id = stmt (rd (\<lambda>s. one
     (filter (\<lambda>m. m_tenant_id m = tn \<and> m_model_id m = ext_id \<and> m_status m \<noteq> ''deleted'')
        (models s))))"

definition sqlGetModelByIdempotency :: "uuid \<Rightarrow> string \<Rightarrow> model_row dbop" where
  "sqlGetModelByIdempotency tn key = stmt (rd (\<lambda>s. one
     (filter (\<lambda>m. m_tenant_id m = tn \<and> m_idempotency_key m = key) (models s))))"

definition model_filter :: "ext \<Rightarrow> uuid \<Rightarrow> list_options \<Rightarrow> model_row \<Rightarrow> bool" where
  "model_filter E tn o1 m \<longleftrightarrow>
     m_tenant_id m = tn \<and> m_status m \<noteq> ''deleted''
     \<and> (oStatus o1 = [] \<or> m_status m = oStatus o1)
     \<and> (oSource o1 = [] \<or> m_source m = oSource o1)
     \<and> (oCapability o1 = [] \<or> x_jsonb_has E (m_capabilities m) (oCapability o1))
     \<and> (oKeyword o1 = []
        \<or> contains (x_lower E (m_name m)) (x_lower E (oKeyword o1))
        \<or> contains (x_lower E (m_display_name m)) (x_lower E (oKeyword o1))
        \<or> contains (x_lower E (m_model_id m)) (x_lower E (oKeyword o1)))"

definition before_ok :: "(int \<times> uuid) option \<Rightarrow> int \<times> uuid \<Rightarrow> bool" where
  "before_ok b k \<longleftrightarrow> (case b of None \<Rightarrow> True | Some p \<Rightarrow> k < p)"

definition sqlListModels ::
    "ext \<Rightarrow> uuid \<Rightarrow> list_options \<Rightarrow> (int \<times> uuid) option \<Rightarrow> int \<Rightarrow> int \<Rightarrow> model_row list dbop" where
  "sqlListModels E tn o1 before page_limit page_offset = stmt (rd (\<lambda>s.
     limit_offset page_limit page_offset
       (sort_desc (\<lambda>m. (m_created_at m, m_id m))
         (filter (\<lambda>m. model_filter E tn o1 m \<and> before_ok before (m_created_at m, m_id m))
           (models s)))))"

definition sqlCountModels :: "ext \<Rightarrow> uuid \<Rightarrow> list_options \<Rightarrow> int dbop" where
  "sqlCountModels E tn o1 = stmt (rd (\<lambda>s. Inr (row_count (model_filter E tn o1) (models s))))"

definition left_artifact :: "db \<Rightarrow> version_row \<Rightarrow> artifact_row option list" where
  "left_artifact s v =
     (case filter (\<lambda>a. a_tenant_id a = v_tenant_id v \<and> a_model_version_id a = v_id v) (artifacts s) of
        [] \<Rightarrow> [None] | as \<Rightarrow> map Some as)"

definition listed_of :: "version_row \<times> model_row \<times> artifact_row option \<Rightarrow> joined" where
  "listed_of p = (case p of (v, m, a) \<Rightarrow>
     \<lparr>jv = v, j_external_model_id = m_model_id m,
      j_artifact_provider = (case a of None \<Rightarrow> [] | Some r \<Rightarrow> a_provider r),
      j_artifact_reference = (case a of None \<Rightarrow> [] | Some r \<Rightarrow> a_reference r),
      j_artifact_sha256 = [], j_artifact_size_bytes = 0\<rparr>)"

definition live_join :: "db \<Rightarrow> uuid \<Rightarrow> (version_row \<times> model_row \<times> artifact_row option) list" where
  "live_join s tn =
     [(v, m, a). v \<leftarrow> versions s, m \<leftarrow> models s, a \<leftarrow> left_artifact s v,
        m_tenant_id m = v_tenant_id v \<and> m_id m = v_model_id v \<and> v_tenant_id v = tn
        \<and> v_status v \<noteq> ''deleted'' \<and> m_status m \<noteq> ''deleted'']"

definition sqlListModelVersions ::
    "uuid \<Rightarrow> uuid \<Rightarrow> string \<Rightarrow> (int \<times> uuid) option \<Rightarrow> int \<Rightarrow> int \<Rightarrow> joined list dbop" where
  "sqlListModelVersions tn mid status before page_limit page_offset = stmt (rd (\<lambda>s.
     limit_offset page_limit page_offset (map listed_of
       (sort_desc (\<lambda>(v, m, a). (v_created_at v, v_id v))
         (filter (\<lambda>(v, m, a). v_model_id v = mid \<and> (status = [] \<or> v_status v = status)
              \<and> before_ok before (v_created_at v, v_id v))
           (live_join s tn))))))"

definition sqlCountModelVersions :: "uuid \<Rightarrow> uuid \<Rightarrow> string \<Rightarrow> int dbop" where
  "sqlCountModelVersions tn mid status = stmt (rd (\<lambda>s. Inr (int (length
     [v. v \<leftarrow> versions s, m \<leftarrow> models s,
        m_tenant_id m = v_tenant_id v \<and> m_id m = v_model_id v \<and> v_tenant_id v = tn
        \<and> v_model_id v = mid \<and> v_status v \<noteq> ''deleted'' \<and> m_status m \<noteq> ''deleted''
        \<and> (status = [] \<or> v_status v = status)]))))"

text \<open>\<open>SELECT DISTINCT ON (v.model_id) ... ORDER BY v.model_id, v.created_at DESC, v.id DESC\<close>:
  the first, hence latest, row of each model.\<close>

fun first_per_model :: "(version_row \<times> 'b) list \<Rightarrow> (version_row \<times> 'b) list" where
  "first_per_model [] = []"
| "first_per_model (p # ps) =
     p # first_per_model (filter (\<lambda>q. v_model_id (fst q) \<noteq> v_model_id (fst p)) ps)"

definition sqlLatestModelVersions :: "uuid \<Rightarrow> uuid list \<Rightarrow> joined list dbop" where
  "sqlLatestModelVersions tn ids = stmt (rd (\<lambda>s. Inr (map listed_of
     (sort_key (\<lambda>(v, m, a). v_model_id v)
       (first_per_model (sort_desc (\<lambda>(v, m, a). (v_created_at v, v_id v))
         (filter (\<lambda>(v, m, a). v_model_id v \<in> set ids) (live_join s tn))))))))"

definition sqlGetModelVersionByIdempotency :: "uuid \<Rightarrow> string \<Rightarrow> version_row dbop" where
  "sqlGetModelVersionByIdempotency tn key = stmt (rd (\<lambda>s. one
     (filter (\<lambda>v. v_tenant_id v = tn \<and> v_idempotency_key v = key) (versions s))))"

text \<open>The statements of the bundle import read the same tables by the same keys.\<close>

definition sqlGetBundleModelByIdempotency :: "uuid \<Rightarrow> string \<Rightarrow> model_row dbop" where
  "sqlGetBundleModelByIdempotency tn key = stmt (rd (\<lambda>s. one
     (filter (\<lambda>m. m_tenant_id m = tn \<and> m_idempotency_key m = key) (models s))))"

definition sqlGetBundleVersionByIdempotency :: "uuid \<Rightarrow> string \<Rightarrow> version_row dbop" where
  "sqlGetBundleVersionByIdempotency tn key = stmt (rd (\<lambda>s. one
     (filter (\<lambda>v. v_tenant_id v = tn \<and> v_idempotency_key v = key) (versions s))))"

definition sqlGetBundleTaskByIdempotency :: "uuid \<Rightarrow> string \<Rightarrow> task_row dbop" where
  "sqlGetBundleTaskByIdempotency tn key = stmt (rd (\<lambda>s. one
     (filter (\<lambda>t. t_tenant_id t = tn \<and> t_idempotency_key t = key) (tasks s))))"

text \<open>A version with the external identifier of its model and its artifact, if it has one.\<close>

definition sqlGetModelVersion :: "uuid \<Rightarrow> uuid \<Rightarrow> (version_row \<times> string \<times> artifact_row option) dbop" where
  "sqlGetModelVersion tn i = stmt (rd (\<lambda>s. one
     [(v, m_model_id m, a). v \<leftarrow> versions s, m \<leftarrow> models s,
        m_tenant_id m = v_tenant_id v \<and> m_id m = v_model_id v \<and> v_tenant_id v = tn \<and> v_id v = i,
        a \<leftarrow> (case filter (\<lambda>a. a_tenant_id a = v_tenant_id v \<and> a_model_version_id a = v_id v) (artifacts s) of
                [] \<Rightarrow> [None] | as \<Rightarrow> map Some as)]))"

definition sqlGetModelVersionForImport :: "uuid \<Rightarrow> uuid \<Rightarrow> string \<Rightarrow> uuid dbop" where
  "sqlGetModelVersionForImport tn mid ver = stmt (rd (\<lambda>s. one (map v_id
     (filter (\<lambda>v. v_tenant_id v = tn \<and> v_model_id v = mid \<and> v_version v = ver
        \<and> v_status v \<in> {''pending'', ''importing'', ''error''}) (versions s)))))"

section \<open>Writing models and versions\<close>

definition jsonb :: "ext \<Rightarrow> string \<Rightarrow> gerr + string" where
  "jsonb E t = (case x_jsonb E t of None \<Rightarrow> Inl (pg ''22P02'') | Some j \<Rightarrow> Inr j)"

definition new_model_row ::
    "uuid \<Rightarrow> uuid \<Rightarrow> string \<Rightarrow> string \<Rightarrow> label \<Rightarrow> label \<Rightarrow> string \<Rightarrow> string \<Rightarrow> json \<Rightarrow>
     token \<Rightarrow> token \<Rightarrow> int \<Rightarrow> model_row" where
  "new_model_row tn i ext_id name display descr src repo caps key fp now =
     \<lparr>m_tenant_id = tn, m_id = i, m_name = name, m_display_name = display,
      m_description = descr, m_source = src, m_source_repo_id = repo, m_capabilities = caps,
      m_status = ''pending'', m_error_message = [], m_total_size_bytes = 0,
      m_created_at = now, m_updated_at = now, m_deleted_at = None,
      m_idempotency_key = key, m_request_fingerprint = fp, m_model_id = ext_id\<rparr>"

definition sqlCreateModel ::
    "ext \<Rightarrow> uuid \<Rightarrow> uuid \<Rightarrow> string \<Rightarrow> string \<Rightarrow> label \<Rightarrow> label \<Rightarrow> string \<Rightarrow> json \<Rightarrow>
     token \<Rightarrow> token \<Rightarrow> model_row dbop" where
  "sqlCreateModel E tn i ext_id name display descr src caps key fp =
     stmt (andThen (lift (jsonb E caps))
       (\<lambda>j. ins_model (new_model_row tn i ext_id name display descr src [] j key fp)))"

definition sqlCreateBundleModel ::
    "ext \<Rightarrow> uuid \<Rightarrow> uuid \<Rightarrow> string \<Rightarrow> string \<Rightarrow> label \<Rightarrow> label \<Rightarrow> string \<Rightarrow> string \<Rightarrow>
     json \<Rightarrow> token \<Rightarrow> token \<Rightarrow> model_row dbop" where
  "sqlCreateBundleModel E tn i ext_id name display descr src repo caps key fp =
     stmt (andThen (lift (jsonb E caps))
       (\<lambda>j. ins_model (new_model_row tn i ext_id name display descr src repo j key fp)))"

definition sqlSoftDeleteModel :: "uuid \<Rightarrow> uuid \<Rightarrow> int dbop" where
  "sqlSoftDeleteModel tn i = stmt (rows_affected (upd_models no_error
     (\<lambda>s m. m_tenant_id m = tn \<and> m_id m = i \<and> m_status m \<noteq> ''deleted'')
     (\<lambda>now m. m\<lparr>m_status := ''deleted'', m_deleted_at := Some now, m_updated_at := now\<rparr>)))"

definition new_version_row ::
    "uuid \<Rightarrow> uuid \<Rightarrow> uuid \<Rightarrow> string \<Rightarrow> string \<Rightarrow> bool \<Rightarrow> string \<Rightarrow> string \<Rightarrow> int \<Rightarrow> string \<Rightarrow> string \<Rightarrow>
     string \<Rightarrow> string \<Rightarrow> string \<Rightarrow> string \<Rightarrow> json \<Rightarrow> token \<Rightarrow> token \<Rightarrow> int \<Rightarrow> version_row" where
  "new_version_row tn i mid ver fmt enc algo hint sz chk eng img rid rscope cmd args key fp now =
     \<lparr>v_tenant_id = tn, v_id = i, v_model_id = mid, v_version = ver, v_format = fmt,
      v_status = ''pending'', v_is_encrypted = enc, v_encrypt_algo = algo, v_encrypt_hint = hint,
      v_size_bytes = sz, v_checksum_sha256 = chk, v_engine_type = eng,
      v_startup_command = cmd, v_startup_args = args, v_error_message = [],
      v_created_at = now, v_updated_at = now, v_idempotency_key = key,
      v_request_fingerprint = fp, v_engine_image = img, v_recommended_image_id = rid,
      v_recommended_image_scope = rscope\<rparr>"

definition sqlCreateModelVersion ::
    "ext \<Rightarrow> uuid \<Rightarrow> uuid \<Rightarrow> uuid \<Rightarrow> string \<Rightarrow> string \<Rightarrow> bool \<Rightarrow> string \<Rightarrow> string \<Rightarrow> int \<Rightarrow>
     string \<Rightarrow> string \<Rightarrow> string \<Rightarrow> string \<Rightarrow> string \<Rightarrow> string \<Rightarrow> json \<Rightarrow> token \<Rightarrow> token \<Rightarrow> version_row dbop" where
  "sqlCreateModelVersion E tn i mid ver fmt enc algo hint sz chk eng img rid rscope cmd args key fp =
     stmt (andThen (lift (jsonb E args)) (\<lambda>j.
       andThen (rd (\<lambda>s. one (filter (\<lambda>m. m_tenant_id m = tn \<and> m_id m = mid
                   \<and> m_status m \<noteq> ''deleted'') (models s)))) (\<lambda>parent.
         ins_version (new_version_row tn i (m_id parent) ver fmt enc algo hint sz chk eng img rid rscope
           cmd j key fp))))"

definition sqlCreateBundleVersion ::
    "ext \<Rightarrow> uuid \<Rightarrow> uuid \<Rightarrow> uuid \<Rightarrow> string \<Rightarrow> string \<Rightarrow> string \<Rightarrow> string \<Rightarrow> string \<Rightarrow>
     string \<Rightarrow> string \<Rightarrow> json \<Rightarrow> token \<Rightarrow> token \<Rightarrow> version_row dbop" where
  "sqlCreateBundleVersion E tn i mid ver fmt eng img rid rscope cmd args key fp =
     stmt (andThen (lift (jsonb E args)) (\<lambda>j.
       ins_version (new_version_row tn i mid ver fmt False [] [] 0 [] eng img rid rscope cmd j key fp)))"

definition unfinished :: "version_row \<Rightarrow> bool" where
  "unfinished v \<longleftrightarrow> v_status v = VersionPending \<or> v_status v = VersionImporting"

definition markable_ready :: "db \<Rightarrow> uuid \<Rightarrow> uuid \<Rightarrow> version_row \<Rightarrow> bool" where
  "markable_ready s tn i v \<longleftrightarrow>
     v_tenant_id v = tn \<and> v_id v = i \<and> unfinished v
     \<and> list_ex (\<lambda>a. a_tenant_id a = v_tenant_id v \<and> a_model_version_id a = v_id v
          \<and> a_reference a \<noteq> [] \<and> a_sha256 a = v_checksum_sha256 v \<and> a_sha256 a \<noteq> [])
        (artifacts s)
     \<and> list_ex (\<lambda>m. m_tenant_id m = v_tenant_id v \<and> m_id m = v_model_id v
          \<and> m_status m \<noteq> ''deleted'') (models s)"

text \<open>One statement: the versions are updated first, then the models joined with them.\<close>

definition sqlMarkModelVersionReady :: "uuid \<Rightarrow> uuid \<Rightarrow> int dbop" where
  "sqlMarkModelVersionReady tn i = stmt (andThen
     (upd_versions (\<lambda>s v. markable_ready s tn i v)
        (\<lambda>now v. v\<lparr>v_status := VersionReady, v_updated_at := now, v_error_message := []\<rparr>))
     (\<lambda>vs. rows_affected (upd_models no_error
        (\<lambda>s m. list_ex (\<lambda>v. m_tenant_id m = v_tenant_id v \<and> m_id m = v_model_id v) vs)
        (\<lambda>now m. m\<lparr>m_status := ''ready'', m_error_message := [], m_updated_at := now\<rparr>))))"

definition sqlMarkModelVersionError :: "uuid \<Rightarrow> uuid \<Rightarrow> string \<Rightarrow> int dbop" where
  "sqlMarkModelVersionError tn i msg = stmt (rows_affected (upd_versions
     (\<lambda>s v. v_tenant_id v = tn \<and> v_id v = i \<and> unfinished v)
     (\<lambda>now v. v\<lparr>v_status := VersionError, v_error_message := msg, v_updated_at := now\<rparr>)))"

text \<open>The lease guard shared by the statements of a task's current holder.\<close>

definition leased :: "db \<Rightarrow> uuid \<Rightarrow> uuid \<Rightarrow> string \<Rightarrow> int \<Rightarrow> task_row \<Rightarrow> bool" where
  "leased s tn i owner epoch t \<longleftrightarrow>
     t_tenant_id t = tn \<and> t_id t = i \<and> t_status t = TaskImporting
     \<and> t_lease_owner t = owner \<and> t_lease_epoch t = epoch
     \<and> (case t_lease_until t of None \<Rightarrow> False | Some u \<Rightarrow> clock s < u)"

definition sqlMarkModelVersionErrorForTask ::
    "uuid \<Rightarrow> uuid \<Rightarrow> uuid \<Rightarrow> string \<Rightarrow> int \<Rightarrow> string \<Rightarrow> (uuid \<times> uuid) dbop" where
  "sqlMarkModelVersionErrorForTask tn i vid owner epoch msg = stmt (andThen
     (upd_versions (\<lambda>s v. unfinished v \<and> list_ex (\<lambda>t. leased s tn i owner epoch t
            \<and> t_model_version_id t = Some vid
            \<and> v_tenant_id v = t_tenant_id t \<and> v_id v = vid) (tasks s))
        (\<lambda>now v. v\<lparr>v_status := VersionError, v_error_message := msg, v_updated_at := now\<rparr>))
     (\<lambda>vs. lift (one (map (\<lambda>v. (v_tenant_id v, v_model_id v)) vs))))"

definition sqlLockModelForVersionError :: "uuid \<Rightarrow> uuid \<Rightarrow> (uuid \<times> uuid) dbop" where
  "sqlLockModelForVersionError tn i = stmt (rd (\<lambda>s. one (map model_key
     (filter (\<lambda>m. m_tenant_id m = tn \<and> m_id m = i) (models s)))))"

definition sqlMarkModelErrorIfNoReady :: "uuid \<Rightarrow> uuid \<Rightarrow> string \<Rightarrow> int dbop" where
  "sqlMarkModelErrorIfNoReady tn i msg = stmt (rows_affected (upd_models no_error
     (\<lambda>s m. m_tenant_id m = tn \<and> m_id m = i
        \<and> m_status m \<in> {''pending'', ''downloading'', ''error''}
        \<and> \<not> list_ex (\<lambda>v. v_tenant_id v = m_tenant_id m \<and> v_model_id v = m_id m
             \<and> v_status v = VersionReady) (versions s))
     (\<lambda>now m. m\<lparr>m_status := ''error'', m_error_message := msg, m_updated_at := now\<rparr>)))"

definition sqlSetModelVersionChecksum :: "uuid \<Rightarrow> uuid \<Rightarrow> string \<Rightarrow> int \<Rightarrow> int dbop" where
  "sqlSetModelVersionChecksum tn i chk sz = stmt (rows_affected (upd_versions
     (\<lambda>s v. v_tenant_id v = tn \<and> v_id v = i
        \<and> (v_checksum_sha256 v = [] \<or> v_checksum_sha256 v = chk)
        \<and> (unfinished v
           \<or> v_status v = VersionReady \<and> v_checksum_sha256 v = chk
             \<and> (sz < 0 \<or> v_size_bytes v = sz)))
     (\<lambda>now v. v\<lparr>v_checksum_sha256 := chk,
        v_size_bytes := (if 0 \<le> sz then sz else v_size_bytes v), v_updated_at := now\<rparr>)))"

section \<open>Artifacts and audit events\<close>

definition sqlCreateModelArtifact ::
    "uuid \<Rightarrow> uuid \<Rightarrow> uuid \<Rightarrow> string \<Rightarrow> string \<Rightarrow> string \<Rightarrow> int \<Rightarrow> string \<Rightarrow> bool \<Rightarrow> string
     \<Rightarrow> artifact_row dbop" where
  "sqlCreateModelArtifact tn i vid provider refr fmt sz sha enc algo = stmt (ins_artifact
     (\<lambda>now. \<lparr>a_tenant_id = tn, a_id = i, a_model_version_id = vid, a_provider = provider,
        a_reference = refr, a_format = fmt, a_size_bytes = sz, a_sha256 = sha,
        a_is_encrypted = enc, a_encrypt_algo = algo, a_created_at = now\<rparr>))"

definition sqlGetModelArtifact :: "uuid \<Rightarrow> uuid \<Rightarrow> artifact_row dbop" where
  "sqlGetModelArtifact tn vid = stmt (rd (\<lambda>s. one
     (filter (\<lambda>a. a_tenant_id a = tn \<and> a_model_version_id a = vid) (artifacts s))))"

text \<open>\<open>NULLIF($6, '00000000-...')\<close>.\<close>

definition nullif_nil :: "uuid \<Rightarrow> uuid option" where
  "nullif_nil u = (if u = 0 then None else Some u)"

definition sqlInsertAuditEvent ::
    "uuid \<Rightarrow> uuid \<Rightarrow> string \<Rightarrow> string \<Rightarrow> string \<Rightarrow> uuid \<Rightarrow> string \<Rightarrow> string \<Rightarrow>
     string \<Rightarrow> string \<Rightarrow> uuid option \<Rightarrow> uuid option \<Rightarrow> audit_row dbop" where
  "sqlInsertAuditEvent tn i actor workload req task action before after cls mid vid = stmt (ins_audit
     (\<lambda>now. \<lparr>e_tenant_id = tn, e_id = i, e_actor = actor, e_workload = workload,
        e_request_id = req, e_task_id = nullif_nil task, e_action = action,
        e_before_state = before, e_after_state = after, e_error_class = cls,
        e_created_at = now, e_model_id = mid, e_model_version_id = vid\<rparr>))"

definition coalesce :: "'a option \<Rightarrow> 'a option \<Rightarrow> 'a option" where
  "coalesce a b = (case a of Some x \<Rightarrow> Some x | None \<Rightarrow> b)"

definition left_task :: "db \<Rightarrow> audit_row \<Rightarrow> task_row option list" where
  "left_task s e =
     (case filter (\<lambda>t. t_tenant_id t = e_tenant_id e \<and> e_task_id e = Some (t_id t)) (tasks s) of
        [] \<Rightarrow> [None] | ts \<Rightarrow> map Some ts)"

text \<open>The rows of the history with their resolved model and version.\<close>

definition resolved_ops :: "db \<Rightarrow> uuid \<Rightarrow> uuid \<Rightarrow> (audit_row \<times> uuid option \<times> uuid option) list" where
  "resolved_ops s tn mid =
     [(e, coalesce (e_model_id e) (Option.bind t t_model_id),
          coalesce (e_model_version_id e) (Option.bind t t_model_version_id)).
        e \<leftarrow> audits s, t \<leftarrow> left_task s e,
        e_tenant_id e = tn \<and> coalesce (e_model_id e) (Option.bind t t_model_id) = Some mid]"

definition sqlListModelOperations ::
    "uuid \<Rightarrow> uuid \<Rightarrow> int \<Rightarrow> int \<Rightarrow> (audit_row \<times> uuid option \<times> uuid option) list dbop" where
  "sqlListModelOperations tn mid page_limit page_offset = stmt (rd (\<lambda>s.
     limit_offset page_limit page_offset
       (sort_desc (\<lambda>(e, m, v). (e_created_at e, e_id e)) (resolved_ops s tn mid))))"

definition sqlCountModelOperations :: "uuid \<Rightarrow> uuid \<Rightarrow> int dbop" where
  "sqlCountModelOperations tn mid = stmt (rd (\<lambda>s. Inr (int (length (resolved_ops s tn mid)))))"

section \<open>Import tasks\<close>

definition new_task_row ::
    "uuid \<Rightarrow> uuid \<Rightarrow> uuid option \<Rightarrow> uuid option \<Rightarrow> string \<Rightarrow> string \<Rightarrow> string \<Rightarrow>
     string \<Rightarrow> token \<Rightarrow> token \<Rightarrow> int \<Rightarrow> task_row" where
  "new_task_row tn i mid vid ty src repo rev1 key fp now =
     \<lparr>t_tenant_id = tn, t_id = i, t_model_id = mid, t_model_version_id = vid,
      t_task_type = ty, t_source = src, t_repo_id = repo, t_revision = rev1,
      t_idempotency_key = key, t_status = TaskPending, t_attempt_count = 0,
      t_progress_pct = 0, t_lease_owner = [], t_lease_epoch = 0, t_lease_until = None,
      t_next_attempt_at = now, t_error_message = [], t_created_at = now, t_updated_at = now,
      t_completed_at = None, t_request_fingerprint = fp\<rparr>"

definition sqlCreateImportTask ::
    "uuid \<Rightarrow> uuid \<Rightarrow> uuid option \<Rightarrow> uuid \<Rightarrow> string \<Rightarrow> string \<Rightarrow> string \<Rightarrow> string \<Rightarrow>
     token \<Rightarrow> token \<Rightarrow> task_row dbop" where
  "sqlCreateImportTask tn i mid vid ty src repo rev1 key fp =
     stmt (ins_task (new_task_row tn i mid (nullif_nil vid) ty src repo rev1 key fp))"

definition sqlCreateBundleTask ::
    "uuid \<Rightarrow> uuid \<Rightarrow> uuid \<Rightarrow> uuid \<Rightarrow> string \<Rightarrow> string \<Rightarrow> string \<Rightarrow> string \<Rightarrow> token \<Rightarrow>
     token \<Rightarrow> task_row dbop" where
  "sqlCreateBundleTask tn i mid vid ty src repo rev1 key fp =
     stmt (ins_task (new_task_row tn i (Some mid) (Some vid) ty src repo rev1 key fp))"

definition sqlGetImportTaskByIdempotency :: "uuid \<Rightarrow> string \<Rightarrow> task_row dbop" where
  "sqlGetImportTaskByIdempotency tn key = stmt (rd (\<lambda>s. one
     (filter (\<lambda>t. t_tenant_id t = tn \<and> t_idempotency_key t = key) (tasks s))))"

definition sqlGetImportTask :: "uuid \<Rightarrow> uuid \<Rightarrow> task_row dbop" where
  "sqlGetImportTask tn i = stmt (rd (\<lambda>s. one
     (filter (\<lambda>t. t_tenant_id t = tn \<and> t_id t = i) (tasks s))))"

text \<open>A task is due when it is unfinished, its next attempt has come and no lease is running.\<close>

definition lease_free :: "int \<Rightarrow> int option \<Rightarrow> bool" where
  "lease_free now l \<longleftrightarrow> (case l of None \<Rightarrow> True | Some u \<Rightarrow> u \<le> now)"

definition due :: "int \<Rightarrow> task_row \<Rightarrow> bool" where
  "due now t \<longleftrightarrow>
     (t_status t = TaskPending \<or> t_status t = TaskImporting)
     \<and> t_next_attempt_at t \<le> now \<and> lease_free now (t_lease_until t)"

definition sqlListDueImportTasks :: "uuid option \<Rightarrow> int \<Rightarrow> task_row list dbop" where
  "sqlListDueImportTasks tn lim = stmt (rd (\<lambda>s. limit_offset lim 0
     (sort_key (\<lambda>t. (t_next_attempt_at t, t_created_at t, t_id t))
       (filter (\<lambda>t. (tn = None \<or> tn = Some (t_tenant_id t)) \<and> due (clock s) t) (tasks s)))))"

definition sqlListDueImportTasksAll :: "int \<Rightarrow> task_row list dbop" where
  "sqlListDueImportTasksAll lim = stmt (rd (\<lambda>s. limit_offset lim 0
     (sort_key (\<lambda>t. (t_next_attempt_at t, t_created_at t, t_id t))
       (filter (\<lambda>t. due (clock s) t) (tasks s)))))"

text \<open>Integer columns out of range (22003) and the foreign keys of an updated task (23503).\<close>

definition task_bad :: "db \<Rightarrow> task_row \<Rightarrow> gerr option" where
  "task_bad s t =
     (if max_int64 < t_lease_epoch t \<or> max_int32 < t_attempt_count t then Some (pg ''22003'')
      else if \<not> task_refs_ok s t then Some (pg ''23503'')
      else None)"

definition sqlClaimImportTask :: "uuid \<Rightarrow> uuid \<Rightarrow> string \<Rightarrow> int \<Rightarrow> task_row dbop" where
  "sqlClaimImportTask tn i owner micros = stmt (andThen (upd_tasks task_bad
     (\<lambda>s t. t_tenant_id t = tn \<and> t_id t = i \<and> due (clock s) t)
     (\<lambda>now t. t\<lparr>t_status := TaskImporting, t_lease_owner := owner,
        t_lease_epoch := t_lease_epoch t + 1, t_lease_until := Some (now + micros),
        t_attempt_count := t_attempt_count t + 1, t_updated_at := now\<rparr>))
     (\<lambda>ts. lift (one ts)))"

definition sqlCompleteImportTask :: "uuid \<Rightarrow> uuid \<Rightarrow> string \<Rightarrow> int \<Rightarrow> int dbop" where
  "sqlCompleteImportTask tn i owner epoch = stmt (rows_affected (upd_tasks task_bad
     (\<lambda>s t. leased s tn i owner epoch t)
     (\<lambda>now t. t\<lparr>t_status := TaskCompleted, t_progress_pct := 100, t_lease_owner := [],
        t_lease_until := None, t_completed_at := Some now, t_error_message := [],
        t_updated_at := now\<rparr>)))"

definition sqlRetryImportTask :: "uuid \<Rightarrow> uuid \<Rightarrow> string \<Rightarrow> int \<Rightarrow> int \<Rightarrow> string \<Rightarrow> int dbop" where
  "sqlRetryImportTask tn i owner epoch micros msg = stmt (rows_affected (upd_tasks task_bad
     (\<lambda>s t. leased s tn i owner epoch t)
     (\<lambda>now t. t\<lparr>t_status := TaskPending, t_lease_owner := [], t_lease_until := None,
        t_next_attempt_at := now + micros, t_error_message := msg, t_updated_at := now\<rparr>)))"

definition sqlFailImportTask :: "uuid \<Rightarrow> uuid \<Rightarrow> string \<Rightarrow> int \<Rightarrow> string \<Rightarrow> int dbop" where
  "sqlFailImportTask tn i owner epoch msg = stmt (rows_affected (upd_tasks task_bad
     (\<lambda>s t. leased s tn i owner epoch t)
     (\<lambda>now t. t\<lparr>t_status := TaskFailed, t_lease_owner := [], t_lease_until := None,
        t_error_message := msg, t_updated_at := now\<rparr>)))"

definition sqlRenewImportTaskLease :: "uuid \<Rightarrow> uuid \<Rightarrow> string \<Rightarrow> int \<Rightarrow> int \<Rightarrow> int dbop" where
  "sqlRenewImportTaskLease tn i owner epoch micros = stmt (rows_affected (upd_tasks task_bad
     (\<lambda>s t. leased s tn i owner epoch t)
     (\<lambda>now t. t\<lparr>t_lease_until := Some (now + micros), t_updated_at := now\<rparr>)))"

definition sqlBindImportTask ::
    "uuid \<Rightarrow> uuid \<Rightarrow> string \<Rightarrow> int \<Rightarrow> uuid \<Rightarrow> uuid \<Rightarrow> int dbop" where
  "sqlBindImportTask tn i owner epoch mid vid = stmt (rows_affected (upd_tasks task_bad
     (\<lambda>s t. leased s tn i owner epoch t \<and> t_model_version_id t = None)
     (\<lambda>now t. t\<lparr>t_model_id := Some mid, t_model_version_id := Some vid, t_updated_at := now\<rparr>)))"

definition failed_task :: "uuid \<Rightarrow> uuid \<Rightarrow> task_row \<Rightarrow> bool" where
  "failed_task tn i t \<longleftrightarrow> t_tenant_id t = tn \<and> t_id t = i \<and> t_status t = TaskFailed"

text \<open>The two updates of the statement read the same snapshot; neither changes what the other reads.\<close>

definition sqlRetryFailedImportTask :: "uuid \<Rightarrow> uuid \<Rightarrow> task_row dbop" where
  "sqlRetryFailedImportTask tn i = stmt (andThen (upd_tasks task_bad (\<lambda>s t. failed_task tn i t)
     (\<lambda>now t. t\<lparr>t_status := TaskPending, t_attempt_count := 0, t_progress_pct := 0,
        t_lease_owner := [], t_lease_until := None, t_next_attempt_at := now,
        t_error_message := [], t_completed_at := None, t_updated_at := now\<rparr>))
     (\<lambda>ts. lift (one ts)))"

definition sqlRetryFailedImportTaskAndResetVersion :: "uuid \<Rightarrow> uuid \<Rightarrow> task_row dbop" where
  "sqlRetryFailedImportTaskAndResetVersion tn i = stmt (andThen
     (upd_versions (\<lambda>s v. v_status v = VersionError \<and> list_ex (\<lambda>t. failed_task tn i t
            \<and> v_tenant_id v = t_tenant_id t \<and> t_model_version_id t = Some (v_id v)) (tasks s))
        (\<lambda>now v. v\<lparr>v_status := VersionPending, v_error_message := [], v_updated_at := now\<rparr>))
     (\<lambda>_. andThen (upd_tasks task_bad (\<lambda>s t. failed_task tn i t)
        (\<lambda>now t. t\<lparr>t_status := TaskPending, t_attempt_count := 0, t_progress_pct := 0,
           t_lease_owner := [], t_lease_until := None, t_next_attempt_at := now,
           t_error_message := [], t_completed_at := None, t_updated_at := now\<rparr>))
        (\<lambda>ts. lift (one ts))))"

end
