(* ===== verification/Samples.thy ===== *)
theory Samples
  imports Rules
begin

text \<open>
  A concrete instance of the external functions and small concrete databases, on which the
  theorems of the development are exercised.
\<close>

text \<open>A UUID is written in unary after a mark, so parsing inverts printing.\<close>

definition sample_parse :: "string \<Rightarrow> gerr + uuid" where
  "sample_parse s = (case s of [] \<Rightarrow> Inl (Plain ''invalid UUID length: 0'')
     | _ # r \<Rightarrow> Inr (of_nat (length r)))"

definition sample_ext :: ext where
  "sample_ext = \<lparr>x_uuid_parse = sample_parse,
     x_uuid_string = (\<lambda>u. CHR ''u'' # replicate (unat u) CHR ''1''),
     x_sha256 = (\<lambda>s. CHR ''#'' # s), x_jsonb = Some, x_jsonb_has = (\<lambda>j x. contains j x),
     x_json_strings = (\<lambda>j. ([], None)), x_lower = to_lower, x_quote = (\<lambda>s. s),
     x_pg_text = (\<lambda>c m. c @ m), x_kratos_text = (\<lambda>c r m md. m)\<rparr>"

lemma sample_roundtrip: "uuid_roundtrip sample_ext"
  by (simp add: uuid_roundtrip_def sample_ext_def sample_parse_def)

definition sample_model_row :: model_row where
  "sample_model_row = \<lparr>m_tenant_id = 1, m_id = 2, m_name = ''qwen'', m_display_name = ''Qwen'',
     m_description = [], m_source = ''huggingface'', m_source_repo_id = ''a/b'',
     m_capabilities = ''[]'', m_status = ''pending'', m_error_message = [],
     m_total_size_bytes = 0, m_created_at = 1, m_updated_at = 1, m_deleted_at = None,
     m_idempotency_key = ''k'', m_request_fingerprint = ''f'', m_model_id = ''qwen''\<rparr>"

definition sample_version_row :: version_row where
  "sample_version_row = \<lparr>v_tenant_id = 1, v_id = 3, v_model_id = 2, v_version = ''v1'',
     v_format = ''safetensors'', v_status = ''pending'', v_is_encrypted = False,
     v_encrypt_algo = [], v_encrypt_hint = [], v_size_bytes = 0, v_checksum_sha256 = [],
     v_engine_type = ''vllm'', v_startup_command = ''serve'', v_startup_args = ''[]'',
     v_error_message = [], v_created_at = 1, v_updated_at = 1, v_idempotency_key = ''k'',
     v_request_fingerprint = ''f'', v_engine_image = ''img'', v_recommended_image_id = [],
     v_recommended_image_scope = []\<rparr>"

definition sample_task_row :: task_row where
  "sample_task_row = \<lparr>t_tenant_id = 1, t_id = 4, t_model_id = Some 2,
     t_model_version_id = Some 3, t_task_type = ''huggingface'', t_source = ''huggingface'',
     t_repo_id = ''a/b'', t_revision = ''main'', t_idempotency_key = ''k'',
     t_status = TaskPending, t_attempt_count = 0, t_progress_pct = 0, t_lease_owner = [],
     t_lease_epoch = 0, t_lease_until = None, t_next_attempt_at = 5, t_error_message = [],
     t_created_at = 1, t_updated_at = 1, t_completed_at = None, t_request_fingerprint = ''f''\<rparr>"

text \<open>A model with a pending version and its import task, at time 10.\<close>

definition sample_db :: db where
  "sample_db = \<lparr>models = [sample_model_row], versions = [sample_version_row], artifacts = [],
     tasks = [sample_task_row], audits = [], regs = [], clock = 10, script = []\<rparr>"

definition empty_db :: db where
  "empty_db = \<lparr>models = [], versions = [], artifacts = [], tasks = [], audits = [],
     regs = [], clock = 10, script = []\<rparr>"

lemma sample_db_ok: "db_ok sample_db"
  by (simp add: db_ok_def sample_db_def models_ok_def versions_ok_def artifacts_ok_def tasks_ok_def
      audits_ok_def regs_ok_def sample_model_row_def sample_version_row_def sample_task_row_def
      model_check_def version_check_def task_check_def task_inv_def image_pair_check_def
      model_keys_def version_keys_def task_keys_def key_defs null_in_def null_or_def
      ready_backed_def VersionReady_def task_statuses)

lemma empty_db_ok: "db_ok empty_db"
  by (simp add: db_ok_def empty_db_def models_ok_def versions_ok_def artifacts_ok_def tasks_ok_def
      audits_ok_def regs_ok_def)

lemmas sample_defs = sample_db_def sample_model_row_def sample_version_row_def sample_task_row_def

lemma sample_parse_simps [simp]:
  "x_uuid_parse sample_ext (c # r) = Inr (of_nat (length r))"
  "x_uuid_parse sample_ext [] = Inl (Plain ''invalid UUID length: 0'')"
  by (simp_all add: sample_ext_def sample_parse_def)

lemma succeeded: "\<not> isl (fst p) \<Longrightarrow> p = (Inr (projr (fst p)), snd p)"
  by (cases p) (auto simp: isl_def split: sum.splits)

end
