(* ===== verification/StatementRules.thy ===== *)
theory StatementRules
  imports Statements Samples
begin

text \<open>
  What every statement does to the relations of \<open>Rules\<close>: rows evolve legally, the rows of
  other tenants stay, the schema and the readiness invariant are kept. The facts are
  collected in \<open>sql_ev\<close>, \<open>sql_fr\<close> and \<open>sql_ok\<close>; \<open>sql_reads\<close> are the statements that
  change no row at all.
\<close>

text \<open>The relation the whole service keeps: from a consistent database every row evolves
  legally and the database stays consistent.\<close>

definition sound :: "db \<Rightarrow> db \<Rightarrow> bool" where
  "sound s t \<longleftrightarrow> clock s \<le> clock t \<and> (db_ok s \<longrightarrow> db_ok t \<and> evolves s t)"

interpretation so: db_relation sound
proof
  show "sound s s" for s
    by (simp add: sound_def ev.R_refl)
  show "sound s u" if "sound s t" and "sound t u" for s t u
    using that ev.R_trans unfolding sound_def by auto
  show "sound s (s\<lparr>clock := c, script := l\<rparr>)" if "clock s \<le> c" for s c l
    using that ev.R_time [OF that] ok.R_time [OF that] by (simp add: sound_def keeps_ok_def)
  show "clock s \<le> clock t" if "sound s t" for s t
    using that by (simp add: sound_def)
qed

lemma steps_sound: "steps_in evolves m \<Longrightarrow> steps_in keeps_ok m \<Longrightarrow> steps_in sound m"
  by (simp add: steps_in_def sound_def keeps_ok_def)

section \<open>Statements that only read\<close>

lemmas sql_read_defs =
  sqlGetReadyModelVersion_def sqlGetReadyModelVersionByExternalRef_def sqlGetModel_def
  sqlGetModelByExternalID_def sqlGetModelByIdempotency_def sqlListModels_def sqlCountModels_def
  sqlListModelVersions_def sqlCountModelVersions_def sqlLatestModelVersions_def
  sqlGetModelVersionByIdempotency_def sqlGetModelVersionForImport_def
  sqlLockModelForVersionError_def sqlGetModelArtifact_def sqlListModelOperations_def
  sqlCountModelOperations_def sqlGetImportTaskByIdempotency_def sqlGetImportTask_def
  sqlListDueImportTasks_def sqlListDueImportTasksAll_def sqlGetBundleModelByIdempotency_def
  sqlGetBundleVersionByIdempotency_def sqlGetBundleTaskByIdempotency_def sqlGetModelVersion_def

context db_relation
begin

lemma sql_reads:
  "steps_in R (sqlGetReadyModelVersion tn i)"
  "steps_in R (sqlGetReadyModelVersionByExternalRef tn x ver)"
  "steps_in R (sqlGetModel tn i)"
  "steps_in R (sqlGetModelByExternalID tn x)"
  "steps_in R (sqlGetModelByIdempotency tn key)"
  "steps_in R (sqlListModels E tn o1 b l k)"
  "steps_in R (sqlCountModels E tn o1)"
  "steps_in R (sqlListModelVersions tn mid st b l k)"
  "steps_in R (sqlCountModelVersions tn mid st)"
  "steps_in R (sqlLatestModelVersions tn ids)"
  "steps_in R (sqlGetModelVersionByIdempotency tn key)"
  "steps_in R (sqlGetModelVersionForImport tn mid ver)"
  "steps_in R (sqlLockModelForVersionError tn i)"
  "steps_in R (sqlGetModelArtifact tn vid)"
  "steps_in R (sqlListModelOperations tn mid l k)"
  "steps_in R (sqlCountModelOperations tn mid)"
  "steps_in R (sqlGetImportTaskByIdempotency tn key)"
  "steps_in R (sqlGetImportTask tn i)"
  "steps_in R (sqlListDueImportTasks t1 l)"
  "steps_in R (sqlListDueImportTasksAll l)"
  "steps_in R (sqlGetBundleModelByIdempotency tn key)"
  "steps_in R (sqlGetBundleVersionByIdempotency tn key)"
  "steps_in R (sqlGetBundleTaskByIdempotency tn key)"
  "steps_in R (sqlGetModelVersion tn i)"
  by (simp_all add: sql_read_defs steps_stmt steps_rd)

end

section \<open>Evolution of the rows\<close>

lemmas evolve_defs = model_evolves_def version_evolves_def task_evolves_def reg_evolves_def

lemmas version_statuses = VersionPending_def VersionImporting_def VersionReady_def
  VersionError_def VersionDeleted_def

lemma sql_ev_insert:
  "steps_in evolves (sqlCreateModel E tn i x n d ds src caps key fp)"
  "steps_in evolves (sqlCreateBundleModel E tn i x n d ds src repo caps key fp)"
  "steps_in evolves (sqlCreateModelVersion E tn i mid ver fmt enc algo hint sz chk eng img rid rs cmd args key fp)"
  "steps_in evolves (sqlCreateBundleVersion E tn i mid ver fmt eng img rid rs cmd args key fp)"
  "steps_in evolves (sqlCreateModelArtifact tn i vid pr refr fmt sz sha enc algo)"
  "steps_in evolves (sqlInsertAuditEvent tn i a w rq tk ac b af cls m1 v1)"
  "steps_in evolves (sqlCreateImportTask tn i m1 vid ty src repo rv key fp)"
  "steps_in evolves (sqlCreateBundleTask tn i mid vid ty src repo rv key fp)"
  by (simp_all add: sqlCreateModel_def sqlCreateBundleModel_def sqlCreateModelVersion_def
      sqlCreateBundleVersion_def sqlCreateModelArtifact_def sqlInsertAuditEvent_def
      sqlCreateImportTask_def sqlCreateBundleTask_def ev.steps_db ev_raw)

lemma sql_ev_soft_delete: "steps_in evolves (sqlSoftDeleteModel tn i)"
  unfolding sqlSoftDeleteModel_def
  by (intro ev.steps_stmt ev.steps_rows_affected ev_upd_models)
     (simp add: model_evolves_def model_key_def)

lemma sql_ev_version_error: "steps_in evolves (sqlMarkModelVersionError tn i msg)"
  unfolding sqlMarkModelVersionError_def
  by (intro ev.steps_stmt ev.steps_rows_affected ev_upd_versions)
     (auto simp: version_evolves_def version_key_def unfinished_def status_step_def version_statuses)

lemma sql_ev_version_error_task:
  "steps_in evolves (sqlMarkModelVersionErrorForTask tn i vid owner epoch msg)"
  unfolding sqlMarkModelVersionErrorForTask_def
  by (intro ev.steps_stmt ev.steps_andThen ev.steps_lift ev_upd_versions)
     (auto simp: version_evolves_def version_key_def unfinished_def status_step_def version_statuses)

lemma sql_ev_model_error: "steps_in evolves (sqlMarkModelErrorIfNoReady tn i msg)"
  unfolding sqlMarkModelErrorIfNoReady_def
  by (intro ev.steps_stmt ev.steps_rows_affected ev_upd_models)
     (auto simp: model_evolves_def model_key_def)

lemma sql_ev_checksum: "steps_in evolves (sqlSetModelVersionChecksum tn i chk sz)"
  unfolding sqlSetModelVersionChecksum_def
  by (intro ev.steps_stmt ev.steps_rows_affected ev_upd_versions)
     (auto simp: version_evolves_def version_key_def unfinished_def status_step_def version_statuses)

lemma sql_ev_claim: "steps_in evolves (sqlClaimImportTask tn i owner us)"
  unfolding sqlClaimImportTask_def
  by (intro ev.steps_stmt ev.steps_andThen ev.steps_lift ev_upd_tasks)
     (auto simp: task_evolves_def task_key_def due_def task_statuses)

lemma sql_ev_held:
  "steps_in evolves (sqlCompleteImportTask tn i owner epoch)"
  "steps_in evolves (sqlRetryImportTask tn i owner epoch us msg)"
  "steps_in evolves (sqlFailImportTask tn i owner epoch msg)"
  "steps_in evolves (sqlRenewImportTaskLease tn i owner epoch us)"
  "steps_in evolves (sqlBindImportTask tn i owner epoch mid vid)"
  unfolding sqlCompleteImportTask_def sqlRetryImportTask_def sqlFailImportTask_def
    sqlRenewImportTaskLease_def sqlBindImportTask_def
  by (intro ev.steps_stmt ev.steps_rows_affected ev_upd_tasks,
      simp add: task_evolves_def task_key_def leased_def task_statuses)+

lemma sql_ev_retry_failed: "steps_in evolves (sqlRetryFailedImportTaskAndResetVersion tn i)"
  unfolding sqlRetryFailedImportTaskAndResetVersion_def
  by (intro ev.steps_stmt ev.steps_andThen ev.steps_lift ev_upd_tasks ev_upd_versions)
     (auto simp: version_evolves_def version_key_def task_evolves_def task_key_def
        failed_task_def status_step_def version_statuses task_statuses)

lemmas sql_ev = sql_ev_insert sql_ev_soft_delete sql_ev_version_error sql_ev_version_error_task
  sql_ev_model_error sql_ev_checksum sql_ev_claim sql_ev_held sql_ev_retry_failed ev.sql_reads

section \<open>Consistency\<close>

lemma sql_ok_insert:
  "steps_in keeps_ok (sqlCreateModel E tn i x n d ds src caps key fp)"
  "steps_in keeps_ok (sqlCreateBundleModel E tn i x n d ds src repo caps key fp)"
  "steps_in keeps_ok (sqlCreateModelVersion E tn i mid ver fmt enc algo hint sz chk eng img rid rs cmd args key fp)"
  "steps_in keeps_ok (sqlCreateBundleVersion E tn i mid ver fmt eng img rid rs cmd args key fp)"
  "steps_in keeps_ok (sqlCreateModelArtifact tn i vid pr refr fmt sz sha enc algo)"
  "steps_in keeps_ok (sqlInsertAuditEvent tn i a w rq tk ac b af cls m1 v1)"
  "steps_in keeps_ok (sqlCreateImportTask tn i m1 vid ty src repo rv key fp)"
  "steps_in keeps_ok (sqlCreateBundleTask tn i mid vid ty src repo rv key fp)"
  by (simp_all add: sqlCreateModel_def sqlCreateBundleModel_def sqlCreateModelVersion_def
      sqlCreateBundleVersion_def sqlCreateModelArtifact_def sqlInsertAuditEvent_def
      sqlCreateImportTask_def sqlCreateBundleTask_def ok.steps_db ok_ins new_version_row_def
      new_task_row_def task_inv_def version_statuses task_statuses)

lemma sql_ok_soft_delete: "steps_in keeps_ok (sqlSoftDeleteModel tn i)"
  unfolding sqlSoftDeleteModel_def
  by (intro ok.steps_stmt ok.steps_rows_affected ok_upd_models) (simp_all add: model_key_def model_check_def)

lemma sql_ok_version_error: "steps_in keeps_ok (sqlMarkModelVersionError tn i msg)"
  unfolding sqlMarkModelVersionError_def
  by (intro ok.steps_stmt ok.steps_rows_affected ok_upd_versions)
     (simp_all add: version_key_def version_check_def ready_backed_def version_statuses)

lemma sql_ok_version_error_task:
  "steps_in keeps_ok (sqlMarkModelVersionErrorForTask tn i vid owner epoch msg)"
  unfolding sqlMarkModelVersionErrorForTask_def
  by (intro ok.steps_stmt ok.steps_andThen ok.steps_lift ok_upd_versions)
     (simp_all add: version_key_def version_check_def ready_backed_def version_statuses)

lemma sql_ok_model_error: "steps_in keeps_ok (sqlMarkModelErrorIfNoReady tn i msg)"
  unfolding sqlMarkModelErrorIfNoReady_def
  by (intro ok.steps_stmt ok.steps_rows_affected ok_upd_models) (simp_all add: model_key_def model_check_def)

lemma sql_ok_checksum: "steps_in keeps_ok (sqlSetModelVersionChecksum tn i chk sz)"
  unfolding sqlSetModelVersionChecksum_def
  by (intro ok.steps_stmt ok.steps_rows_affected ok_upd_versions)
     (auto simp: version_key_def version_check_def ready_backed_def backed_def unfinished_def
        version_statuses)

lemma sql_ok_claim: "steps_in keeps_ok (sqlClaimImportTask tn i owner us)"
  unfolding sqlClaimImportTask_def
  by (intro ok.steps_stmt ok.steps_andThen ok.steps_lift ok_upd_tasks)
     (auto simp: task_key_def task_check_def task_inv_def task_refs_ok_def task_statuses due_def)

lemma sql_ok_held:
  "steps_in keeps_ok (sqlCompleteImportTask tn i owner epoch)"
  "steps_in keeps_ok (sqlRetryImportTask tn i owner epoch us msg)"
  "steps_in keeps_ok (sqlFailImportTask tn i owner epoch msg)"
  "steps_in keeps_ok (sqlRenewImportTaskLease tn i owner epoch us)"
  unfolding sqlCompleteImportTask_def sqlRetryImportTask_def sqlFailImportTask_def
    sqlRenewImportTaskLease_def
  by (intro ok.steps_stmt ok.steps_rows_affected ok_upd_tasks,
      simp_all add: task_key_def task_check_def task_inv_def task_refs_ok_def leased_def task_statuses)+

lemma sql_ok_bind: "steps_in keeps_ok (sqlBindImportTask tn i owner epoch mid vid)"
  unfolding sqlBindImportTask_def
  by (intro ok.steps_stmt ok.steps_rows_affected ok_upd_tasks)
     (simp_all add: task_key_def task_check_def task_inv_def task_bad_def split: if_splits)

lemma sql_ok_retry_failed: "steps_in keeps_ok (sqlRetryFailedImportTaskAndResetVersion tn i)"
  unfolding sqlRetryFailedImportTaskAndResetVersion_def
  by (intro ok.steps_stmt ok.steps_andThen ok.steps_lift ok_upd_tasks ok_upd_versions)
     (simp_all add: version_key_def version_check_def ready_backed_def version_statuses
        task_key_def task_check_def task_inv_def task_refs_ok_def failed_task_def task_statuses)

text \<open>Marking a version ready: the artifact it needs is the one its guard found, and the model it
  makes ready is, by the primary key, the live one its guard found.\<close>

lemma artifacts_ok_checksum:
  "artifacts_ok K as \<Longrightarrow> a \<in> set as \<Longrightarrow> is_checksum (a_sha256 a)"
  by (simp add: artifacts_ok_def artifact_check_def)

lemma markable_backed:
  assumes "markable_ready s tn i v" and "artifacts_ok K (artifacts s)"
  shows "backed (artifacts s) v"
  using assms artifacts_ok_checksum unfolding markable_ready_def backed_def list_ex_iff by blast

lemma ok_raw_mark_ready:
  "steps_in keeps_ok (andThen (upd_versions (\<lambda>s v. markable_ready s tn i v)
        (\<lambda>now v. v\<lparr>v_status := VersionReady, v_updated_at := now, v_error_message := []\<rparr>))
     (\<lambda>vs. rows_affected (upd_models no_error
        (\<lambda>s m. list_ex (\<lambda>v. m_tenant_id m = v_tenant_id v \<and> m_id m = v_model_id v) vs)
        (\<lambda>now m. m\<lparr>m_status := ''ready'', m_error_message := [], m_updated_at := now\<rparr>))))"
proof (intro ok.steps_andThen ok.steps_rows_affected ok_upd_versions ok_upd_models)
  fix s c r
  assume "markable_ready s tn i r" and "artifacts_ok (version_keys s) (artifacts s)"
  then have "backed (artifacts s) r" by (rule markable_backed)
  then show "ready_backed (artifacts s)
      (r\<lparr>v_status := VersionReady, v_updated_at := c, v_error_message := []\<rparr>)"
    by (simp add: ready_backed_def backed_def)
qed (simp_all add: version_key_def version_check_def version_statuses model_key_def model_check_def)

lemma sql_ok_mark_ready: "steps_in keeps_ok (sqlMarkModelVersionReady tn i)"
  unfolding sqlMarkModelVersionReady_def by (rule ok.steps_stmt [OF ok_raw_mark_ready])

lemma upd_models_no_error:
  "upd_models no_error hit f s =
     (Inr (map (f (clock s)) (filter (hit s) (models s))),
      s\<lparr>models := upd_rows (hit s) (f (clock s)) (models s)\<rparr>)"
  by (simp add: upd_models_def Let_def first_error_None [THEN iffD2] no_error_def)

lemma sql_sound_mark_ready: "steps_in sound (sqlMarkModelVersionReady tn i)"
proof -
  define f where "f = (\<lambda>now v. v\<lparr>v_status := VersionReady, v_updated_at := now,
      v_error_message := []\<rparr> :: version_row)"
  define g where "g = (\<lambda>now m. m\<lparr>m_status := ''ready'', m_error_message := [],
      m_updated_at := now\<rparr> :: model_row)"
  define q where "q = andThen (upd_versions (\<lambda>s v. markable_ready s tn i v) f)
     (\<lambda>vs. rows_affected (upd_models no_error
        (\<lambda>s m. list_ex (\<lambda>v. m_tenant_id m = v_tenant_id v \<and> m_id m = v_model_id v) vs) g))"
  have whole: "sqlMarkModelVersionReady tn i = stmt q"
    by (simp add: sqlMarkModelVersionReady_def q_def f_def g_def)
  have ev: "evolves s (snd (q s))" if "db_ok s" for s
  proof -
    let ?vs = "map (f (clock s)) (filter (markable_ready s tn i) (versions s))"
    let ?hit = "\<lambda>m. list_ex (\<lambda>v. m_tenant_id m = v_tenant_id v \<and> m_id m = v_model_id v) ?vs"
    have live: "m_status m \<noteq> ''deleted''" if m: "m \<in> set (models s)" and "?hit m" for m
    proof -
      from \<open>?hit m\<close> obtain v where "markable_ready s tn i v"
        and k: "m_tenant_id m = v_tenant_id v" "m_id m = v_model_id v"
        by (auto simp: list_ex_iff f_def)
      then obtain m2 where m2: "m2 \<in> set (models s)" "model_key m2 = model_key m"
        "m_status m2 \<noteq> ''deleted''"
        by (auto simp: markable_ready_def list_ex_iff model_key_def)
      moreover have "distinct (map model_key (models s))"
        using \<open>db_ok s\<close> by (simp add: db_ok_def models_ok_def)
      ultimately have "m2 = m" using m by (metis distinct_key_eq)
      with m2 show ?thesis by simp
    qed
    have "grows model_evolves (models s) (upd_rows ?hit (g (clock s)) (models s))"
      using live
      by (auto simp: grows_def model_evolves_def model_key_def g_def)
    moreover have "grows version_evolves (versions s)
        (upd_rows (markable_ready s tn i) (f (clock s)) (versions s))"
      by (rule grows_upd [OF version_evolves_refl])
         (auto simp: version_evolves_def version_key_def markable_ready_def unfinished_def f_def
            status_step_def version_statuses)
    ultimately show ?thesis
      by (simp add: q_def andThen_def upd_versions_def rows_affected_def upd_models_no_error
          evolves_def grows_refl evolve_refls)
  qed
  have "steps_in keeps_ok q"
    unfolding q_def f_def g_def by (rule ok_raw_mark_ready)
  then have "steps_in sound q"
    using ev by (simp add: steps_in_def sound_def keeps_ok_def)
  then show ?thesis unfolding whole by (rule so.steps_stmt)
qed

lemma sql_sound:
  "steps_in sound (sqlCreateModel E tn i x n d ds src caps key fp)"
  "steps_in sound (sqlCreateBundleModel E tn i x n d ds src repo caps key fp)"
  "steps_in sound (sqlCreateModelVersion E tn i mid ver fmt enc algo hint sz chk eng img rid rs cmd args key fp)"
  "steps_in sound (sqlCreateBundleVersion E tn i mid ver fmt eng img rid rs cmd args key fp)"
  "steps_in sound (sqlCreateModelArtifact tn i vid pr refr fmt sz sha enc algo)"
  "steps_in sound (sqlInsertAuditEvent tn i a w rq tk ac b af cls m1 v1)"
  "steps_in sound (sqlCreateImportTask tn i m1 vid ty src repo rv key fp)"
  "steps_in sound (sqlCreateBundleTask tn i mid vid ty src repo rv key fp)"
  "steps_in sound (sqlSoftDeleteModel tn i)"
  "steps_in sound (sqlMarkModelVersionError tn i msg)"
  "steps_in sound (sqlMarkModelVersionErrorForTask tn i vid owner epoch msg)"
  "steps_in sound (sqlMarkModelErrorIfNoReady tn i msg)"
  "steps_in sound (sqlSetModelVersionChecksum tn i chk sz)"
  "steps_in sound (sqlClaimImportTask tn i owner us)"
  "steps_in sound (sqlCompleteImportTask tn i owner epoch)"
  "steps_in sound (sqlRetryImportTask tn i owner epoch us msg)"
  "steps_in sound (sqlFailImportTask tn i owner epoch msg)"
  "steps_in sound (sqlRenewImportTaskLease tn i owner epoch us)"
  "steps_in sound (sqlBindImportTask tn i owner epoch mid vid)"
  "steps_in sound (sqlRetryFailedImportTaskAndResetVersion tn i)"
  by (rule steps_sound, rule sql_ev, rule sql_ok_insert sql_ok_soft_delete sql_ok_version_error
      sql_ok_version_error_task sql_ok_model_error sql_ok_checksum sql_ok_claim sql_ok_held
      sql_ok_bind sql_ok_retry_failed)+

lemmas sql_so = sql_sound sql_sound_mark_ready so.sql_reads

section \<open>The rows of other tenants\<close>

lemma sql_fr_insert:
  "steps_in (frame tn) (sqlCreateModel E tn i x n d ds src caps key fp)"
  "steps_in (frame tn) (sqlCreateBundleModel E tn i x n d ds src repo caps key fp)"
  "steps_in (frame tn) (sqlCreateModelVersion E tn i mid ver fmt enc algo hint sz chk eng img rid rs cmd args key fp)"
  "steps_in (frame tn) (sqlCreateBundleVersion E tn i mid ver fmt eng img rid rs cmd args key fp)"
  "steps_in (frame tn) (sqlCreateModelArtifact tn i vid pr refr fmt sz sha enc algo)"
  "steps_in (frame tn) (sqlInsertAuditEvent tn i a w rq tk ac b af cls m1 v1)"
  "steps_in (frame tn) (sqlCreateImportTask tn i m1 vid ty src repo rv key fp)"
  "steps_in (frame tn) (sqlCreateBundleTask tn i mid vid ty src repo rv key fp)"
  by (simp_all add: sqlCreateModel_def sqlCreateBundleModel_def sqlCreateModelVersion_def
      sqlCreateBundleVersion_def sqlCreateModelArtifact_def sqlInsertAuditEvent_def
      sqlCreateImportTask_def sqlCreateBundleTask_def fr.steps_db fr_ins new_version_row_def
      new_task_row_def new_model_row_def)

lemma sql_fr_update:
  "steps_in (frame tn) (sqlSoftDeleteModel tn i)"
  "steps_in (frame tn) (sqlMarkModelVersionError tn i msg)"
  "steps_in (frame tn) (sqlMarkModelErrorIfNoReady tn i msg)"
  "steps_in (frame tn) (sqlSetModelVersionChecksum tn i chk sz)"
  "steps_in (frame tn) (sqlCompleteImportTask tn i owner epoch)"
  "steps_in (frame tn) (sqlRetryImportTask tn i owner epoch us msg)"
  "steps_in (frame tn) (sqlFailImportTask tn i owner epoch msg)"
  "steps_in (frame tn) (sqlRenewImportTaskLease tn i owner epoch us)"
  "steps_in (frame tn) (sqlBindImportTask tn i owner epoch mid vid)"
  unfolding sqlSoftDeleteModel_def sqlMarkModelVersionError_def sqlMarkModelErrorIfNoReady_def
    sqlSetModelVersionChecksum_def sqlCompleteImportTask_def sqlRetryImportTask_def
    sqlFailImportTask_def sqlRenewImportTaskLease_def sqlBindImportTask_def
  by (intro fr.steps_stmt fr.steps_rows_affected fr_upd, simp add: leased_def)+

lemma sql_fr_compound:
  "steps_in (frame tn) (sqlClaimImportTask tn i owner us)"
  "steps_in (frame tn) (sqlMarkModelVersionErrorForTask tn i vid owner epoch msg)"
  "steps_in (frame tn) (sqlRetryFailedImportTaskAndResetVersion tn i)"
  unfolding sqlClaimImportTask_def sqlMarkModelVersionErrorForTask_def
    sqlRetryFailedImportTaskAndResetVersion_def
  by (intro fr.steps_stmt fr.steps_andThen fr.steps_lift fr_upd;
      auto simp: leased_def failed_task_def list_ex_iff)+

lemma frame_upd_models:
  assumes "\<And>m. hit s m \<Longrightarrow> m_tenant_id m = tn \<and> (\<forall>c. m_tenant_id (f c m) = tn)"
  shows "frame tn s (snd (upd_models no_error hit f s))"
  using assms by (simp add: upd_models_no_error frame_def filter_upd_rows)

lemma after_update:
  assumes "frame tn s (snd (m s))" and "fst (m s) = Inr x"
    and "frame tn (snd (m s)) (snd (k x (snd (m s))))"
  shows "frame tn s (snd (andThen m (\<lambda>y. rows_affected (k y)) s))"
proof (cases "m s")
  case (Pair r t)
  with assms have "r = Inr x" and "frame tn s (snd (k x t))" by (simp_all, metis fr.R_trans)
  with Pair show ?thesis
    by (auto simp: andThen_def rows_affected_def split: prod.split sum.split)
qed

lemma sql_fr_mark_ready: "steps_in (frame tn) (sqlMarkModelVersionReady tn i)"
  unfolding sqlMarkModelVersionReady_def
proof (rule fr.steps_stmt, rule steps_inI)
  fix s :: db
  let ?f = "\<lambda>now v. v\<lparr>v_status := VersionReady, v_updated_at := now, v_error_message := []\<rparr> :: version_row"
  let ?g = "\<lambda>now m. m\<lparr>m_status := ''ready'', m_error_message := [], m_updated_at := now\<rparr> :: model_row"
  let ?vs = "map (?f (clock s)) (filter (markable_ready s tn i) (versions s))"
  let ?u = "upd_versions (\<lambda>s v. markable_ready s tn i v) ?f s"
  have "frame tn s (snd ?u)"
    by (rule steps_inD [where r = "fst ?u"], rule fr_upd_versions) (simp_all add: markable_ready_def)
  moreover have "fst ?u = Inr ?vs"
    by (simp add: upd_versions_def)
  moreover have "frame tn (snd ?u) (snd (upd_models no_error
        (\<lambda>s m. list_ex (\<lambda>v. m_tenant_id m = v_tenant_id v \<and> m_id m = v_model_id v) ?vs) ?g (snd ?u)))"
  proof (rule frame_upd_models)
    fix m :: model_row
    assume "list_ex (\<lambda>v. m_tenant_id m = v_tenant_id v \<and> m_id m = v_model_id v) ?vs"
    then obtain v where "v \<in> set ?vs" and "m_tenant_id m = v_tenant_id v"
      unfolding list_ex_iff by blast
    then have "m_tenant_id m = tn"
      by (auto simp: markable_ready_def)
    then show "m_tenant_id m = tn \<and> (\<forall>c. m_tenant_id (?g c m) = tn)" by simp
  qed
  ultimately show "frame tn s (snd (andThen (upd_versions (\<lambda>s v. markable_ready s tn i v) ?f)
     (\<lambda>vs. rows_affected (upd_models no_error
        (\<lambda>s m. list_ex (\<lambda>v. m_tenant_id m = v_tenant_id v \<and> m_id m = v_model_id v) vs) ?g)) s))"
    by (rule after_update)
qed

lemmas sql_fr = sql_fr_insert sql_fr_update sql_fr_compound sql_fr_mark_ready fr.sql_reads

end
