(* ===== verification/WorkStore.thy ===== *)
theory WorkStore
  imports StatementRules
begin

text \<open>
  The task store, \<open>internal/data/postgres/work_store.go\<close>, method by method, over the
  connection pool (whose \<open>BeginTx\<close> is the path \<open>RetryFailed\<close> takes). The lemmas show that
  every method keeps the relations of \<open>Rules\<close>, that a worker whose lease was taken over
  (or given up) can no longer change its task, that a claim is exclusive while it lasts, and
  that the SQL of the lease protocol refines the transitions of \<open>Task\<close>.
\<close>

section \<open>The methods\<close>

definition parse_ids :: "ext \<Rightarrow> string \<Rightarrow> string \<Rightarrow> gerr + uuid \<times> uuid" where
  "parse_ids E tenant_id task_id =
     (case parse_field E ''tenant_id'' tenant_id of
        Inl e \<Rightarrow> Inl e
      | Inr t \<Rightarrow> (case parse_field E ''task_id'' task_id of Inl e \<Rightarrow> Inl e | Inr i \<Rightarrow> Inr (t, i)))"

definition nullable_uuid_string :: "ext \<Rightarrow> uuid option \<Rightarrow> string" where
  "nullable_uuid_string E v = (case v of None \<Rightarrow> [] | Some u \<Rightarrow> x_uuid_string E u)"

text \<open>A \<open>timestamptz\<close> as a Go time: the zero time for \<open>NULL\<close>, nanoseconds otherwise.\<close>

definition go_time :: "int option \<Rightarrow> int" where
  "go_time t = (case t of None \<Rightarrow> 0 | Some u \<Rightarrow> u * 1000)"

definition microseconds :: "int \<Rightarrow> int" where
  "microseconds d = trunc_div d 1000"

definition task_from_row :: "ext \<Rightarrow> task_row \<Rightarrow> task" where
  "task_from_row E r =
     \<lparr>wTenantID = x_uuid_string E (t_tenant_id r), wID = x_uuid_string E (t_id r),
      wLeaseOwner = t_lease_owner r, wModelID = nullable_uuid_string E (t_model_id r),
      wVersionID = nullable_uuid_string E (t_model_version_id r),
      wTaskType = t_task_type r, wSource = t_source r, wRepoID = t_repo_id r,
      wRevision = t_revision r, wIdempotencyKey = t_idempotency_key r,
      wLeaseEpoch = t_lease_epoch r, wStatus = t_status r,
      wLeaseUntil = go_time (t_lease_until r), wAttemptCount = t_attempt_count r,
      wProgressPct = t_progress_pct r, wErrorMessage = t_error_message r,
      wCreatedAt = go_time (Some (t_created_at r)), wCompletedAt = go_time (t_completed_at r)\<rparr>"

definition task_payload :: "task \<Rightarrow> string" where
  "task_payload t = wTaskType t @ [CHR 0x00] @ wSource t @ [CHR 0x00] @ wRepoID t @ [CHR 0x00]
     @ wRevision t @ [CHR 0x00] @ wIdempotencyKey t"

definition optional_uuid :: "ext \<Rightarrow> string \<Rightarrow> string \<Rightarrow> gerr + uuid option" where
  "optional_uuid E field s =
     (if s = [] then Inr None
      else (case parse_field E field s of Inl e \<Rightarrow> Inl e | Inr u \<Rightarrow> Inr (Some u)))"

definition work_create :: "ext \<Rightarrow> task \<Rightarrow> task dbop" where
  "work_create E t =
     andThen (lift (parse_ids E (wTenantID t) (wID t))) (\<lambda>(tn, i).
     andThen (lift (optional_uuid E ''model_id'' (wModelID t))) (\<lambda>mid.
     andThen (lift (optional_uuid E ''version_id'' (wVersionID t))) (\<lambda>vid0.
     let vid = (case vid0 of None \<Rightarrow> 0 | Some u \<Rightarrow> u);
         fp = fingerprint E (task_payload t) in
     inspect (sqlGetImportTaskByIdempotency tn (wIdempotencyKey t)) (\<lambda>found.
       case found of
         Inr r \<Rightarrow> if \<not> replay_matches (t_request_fingerprint r) fp
                  then throw (PgError ''23505'' ''idempotency key payload conflict'')
                  else ret (task_from_row E r)
       | Inl e \<Rightarrow>
           if \<not> err_is e ErrNoRows then throw e
           else inspect (sqlCreateImportTask tn i mid vid (wTaskType t) (wSource t) (wRepoID t)
                  (wRevision t) (wIdempotencyKey t) fp) (\<lambda>made.
             case made of
               Inr r \<Rightarrow> ret
                 \<lparr>wTenantID = wTenantID t, wID = wID t, wLeaseOwner = [], wModelID = wModelID t,
                  wVersionID = wVersionID t, wTaskType = t_task_type r, wSource = t_source r,
                  wRepoID = t_repo_id r, wRevision = t_revision r,
                  wIdempotencyKey = t_idempotency_key r, wLeaseEpoch = t_lease_epoch r,
                  wStatus = t_status r, wLeaseUntil = 0, wAttemptCount = t_attempt_count r,
                  wProgressPct = 0, wErrorMessage = [], wCreatedAt = 0, wCompletedAt = 0\<rparr>
             | Inl e2 \<Rightarrow>
                 (case e2 of
                    PgError code m \<Rightarrow>
                      if code = ''23505'' then
                        inspect (sqlGetImportTaskByIdempotency tn (wIdempotencyKey t)) (\<lambda>again.
                          case again of
                            Inr r \<Rightarrow> if replay_matches (t_request_fingerprint r) fp
                                     then ret (task_from_row E r) else throw e2
                          | Inl _ \<Rightarrow> throw e2)
                      else throw e2
                  | _ \<Rightarrow> throw e2))))))"

definition work_get :: "ext \<Rightarrow> string \<Rightarrow> string \<Rightarrow> task dbop" where
  "work_get E tenant_id task_id =
     andThen (lift (parse_ids E tenant_id task_id)) (\<lambda>(tn, i).
     andThen (sqlGetImportTask tn i) (\<lambda>r. ret (task_from_row E r)))"

definition work_retry_failed :: "ext \<Rightarrow> string \<Rightarrow> string \<Rightarrow> task dbop" where
  "work_retry_failed E tenant_id task_id =
     andThen (lift (parse_ids E tenant_id task_id)) (\<lambda>(tn, i).
     andThen begin_tx (\<lambda>_.
     inspect (tx_body (sqlRetryFailedImportTaskAndResetVersion tn i)) (\<lambda>res.
       case res of
         Inr r \<Rightarrow> ret (task_from_row E r)
       | Inl e \<Rightarrow>
           if err_is e ErrNoRows then
             inspect (work_get E tenant_id task_id) (\<lambda>cur.
               case cur of
                 Inr t \<Rightarrow> if wStatus t \<noteq> TaskFailed then throw ErrInvalidTransition else throw e
               | Inl _ \<Rightarrow> throw e)
           else throw e)))"

definition work_claim :: "ext \<Rightarrow> string \<Rightarrow> string \<Rightarrow> string \<Rightarrow> int \<Rightarrow> task dbop" where
  "work_claim E tenant_id task_id owner lease =
     andThen (lift (parse_ids E tenant_id task_id)) (\<lambda>(tn, i).
     inspect (sqlClaimImportTask tn i owner (microseconds lease)) (\<lambda>res.
       case res of
         Inl e \<Rightarrow> if err_is e ErrNoRows then throw ErrLeaseLost else throw e
       | Inr r \<Rightarrow> ret ((task_from_row E r)\<lparr>wTenantID := tenant_id, wID := task_id,
                        wProgressPct := 0, wErrorMessage := [], wCreatedAt := 0,
                        wCompletedAt := 0\<rparr>)))"

definition due_limit :: "int \<Rightarrow> int" where
  "due_limit l = (if l \<le> 0 \<or> 1000 < l then 100 else l)"

definition due_task :: "ext \<Rightarrow> task_row \<Rightarrow> task" where
  "due_task E r = (task_from_row E r)\<lparr>wProgressPct := 0, wErrorMessage := [], wCreatedAt := 0,
     wCompletedAt := 0\<rparr>"

definition work_list_due :: "ext \<Rightarrow> string \<Rightarrow> int \<Rightarrow> task list dbop" where
  "work_list_due E tenant_id l =
     andThen (lift (optional_uuid E ''tenant_id'' tenant_id)) (\<lambda>tn.
     andThen (sqlListDueImportTasks tn (due_limit l)) (\<lambda>rs. ret (map (due_task E) rs)))"

definition work_list_due_all :: "ext \<Rightarrow> int \<Rightarrow> task list dbop" where
  "work_list_due_all E l =
     andThen (sqlListDueImportTasksAll (due_limit l)) (\<lambda>rs. ret (map (due_task E) rs))"

text \<open>\<open>if n != 1 { return ErrLeaseLost }\<close>, after each of the holder's statements.\<close>

definition one_row :: "int dbop \<Rightarrow> unit dbop" where
  "one_row q = andThen q (\<lambda>n. if n \<noteq> 1 then throw ErrLeaseLost else ret ())"

definition work_renew :: "ext \<Rightarrow> string \<Rightarrow> string \<Rightarrow> string \<Rightarrow> int \<Rightarrow> int \<Rightarrow> unit dbop" where
  "work_renew E tenant_id task_id owner epoch lease =
     andThen (lift (parse_ids E tenant_id task_id)) (\<lambda>(tn, i).
       one_row (sqlRenewImportTaskLease tn i owner epoch (microseconds lease)))"

definition work_bind ::
    "ext \<Rightarrow> string \<Rightarrow> string \<Rightarrow> string \<Rightarrow> int \<Rightarrow> string \<Rightarrow> string \<Rightarrow> unit dbop" where
  "work_bind E tenant_id task_id owner epoch model_id version_id =
     andThen (lift (parse_ids E tenant_id task_id)) (\<lambda>(tn, i).
     andThen (lift (parse_field E ''model_id'' model_id)) (\<lambda>mid.
     andThen (lift (parse_field E ''model_version_id'' version_id)) (\<lambda>vid.
       one_row (sqlBindImportTask tn i owner epoch mid vid))))"

definition work_complete :: "ext \<Rightarrow> string \<Rightarrow> string \<Rightarrow> string \<Rightarrow> int \<Rightarrow> unit dbop" where
  "work_complete E tenant_id task_id owner epoch =
     andThen (lift (parse_ids E tenant_id task_id)) (\<lambda>(tn, i).
       one_row (sqlCompleteImportTask tn i owner epoch))"

definition work_retry ::
    "ext \<Rightarrow> string \<Rightarrow> string \<Rightarrow> string \<Rightarrow> int \<Rightarrow> int \<Rightarrow> string \<Rightarrow> unit dbop" where
  "work_retry E tenant_id task_id owner epoch after msg =
     andThen (lift (parse_ids E tenant_id task_id)) (\<lambda>(tn, i).
       one_row (sqlRetryImportTask tn i owner epoch (microseconds after) msg))"

definition work_fail :: "ext \<Rightarrow> string \<Rightarrow> string \<Rightarrow> string \<Rightarrow> int \<Rightarrow> string \<Rightarrow> unit dbop" where
  "work_fail E tenant_id task_id owner epoch msg =
     andThen (lift (parse_ids E tenant_id task_id)) (\<lambda>(tn, i).
       one_row (sqlFailImportTask tn i owner epoch msg))"

lemmas work_defs = work_create_def work_get_def work_retry_failed_def work_claim_def
  work_list_due_def work_list_due_all_def work_renew_def work_bind_def work_complete_def
  work_retry_def work_fail_def

section \<open>The relations the methods keep\<close>

lemma steps_case_gerr [steps_intros]:
  "(\<And>c m. steps_in R (f c m)) \<Longrightarrow> steps_in R g \<Longrightarrow>
   steps_in R (case e of PgError c m \<Rightarrow> f c m | _ \<Rightarrow> g)"
  by (cases e) simp_all

lemma so_one_row: "steps_in sound q \<Longrightarrow> steps_in sound (one_row q)"
  unfolding one_row_def by (intro so.steps_andThen steps_if so.steps_throw so.steps_ret)

lemma so_work:
  "steps_in sound (work_create E t)"
  "steps_in sound (work_get E a b)"
  "steps_in sound (work_retry_failed E a b)"
  "steps_in sound (work_claim E a b owner lease)"
  "steps_in sound (work_list_due E a l)"
  "steps_in sound (work_list_due_all E l)"
  "steps_in sound (work_renew E a b owner epoch lease)"
  "steps_in sound (work_bind E a b owner epoch x y)"
  "steps_in sound (work_complete E a b owner epoch)"
  "steps_in sound (work_retry E a b owner epoch after msg)"
  "steps_in sound (work_fail E a b owner epoch msg)"
  unfolding work_defs
  by (intro so.steps_basic so.steps_begin so.steps_tx_body so_one_row sql_so steps_intros)+

lemma fr_one_row: "steps_in (frame tn) q \<Longrightarrow> steps_in (frame tn) (one_row q)"
  unfolding one_row_def by (intro fr.steps_andThen steps_if fr.steps_throw fr.steps_ret)

text \<open>Parsed first, the tenant of the request is the tenant of every statement.\<close>

lemma steps_after_lift:
  assumes "state_preorder R" and "\<And>x. p = Inr x \<Longrightarrow> steps_in R (f x)"
  shows "steps_in R (andThen (lift p) f)"
  using assms state_preorder.R_refl [OF assms(1)]
  by (cases p) (auto simp: steps_in_def andThen_def)

lemma frame_preorder: "state_preorder (frame tn)"
  by unfold_locales

lemma parse_ids_tenant:
  "x_uuid_parse E a = Inr tn \<Longrightarrow> parse_ids E a b = Inr (t, i) \<Longrightarrow> t = tn"
  by (auto simp: parse_ids_def parse_field_def split: sum.splits)

lemma fr_work:
  assumes "x_uuid_parse E a = Inr tn"
  shows "steps_in (frame tn) (work_get E a b)"
    and "steps_in (frame tn) (work_retry_failed E a b)"
    and "steps_in (frame tn) (work_claim E a b owner lease)"
    and "steps_in (frame tn) (work_renew E a b owner epoch lease)"
    and "steps_in (frame tn) (work_bind E a b owner epoch x y)"
    and "steps_in (frame tn) (work_complete E a b owner epoch)"
    and "steps_in (frame tn) (work_retry E a b owner epoch after msg)"
    and "steps_in (frame tn) (work_fail E a b owner epoch msg)"
    and "wTenantID t = a \<Longrightarrow> steps_in (frame tn) (work_create E t)"
proof -
  note tenant = parse_ids_tenant [OF assms]
  show g: "steps_in (frame tn) (work_get E a b)"
    unfolding work_get_def
    by (rule steps_after_lift [OF frame_preorder])
       (auto dest!: tenant intro!: fr.steps_basic sql_fr steps_case_prod)
  show "steps_in (frame tn) (work_retry_failed E a b)"
    unfolding work_retry_failed_def
    by (rule steps_after_lift [OF frame_preorder])
       (auto dest!: tenant intro!: fr.steps_basic fr.steps_begin fr.steps_tx_body sql_fr g steps_intros)
  show "steps_in (frame tn) (work_claim E a b owner lease)"
    unfolding work_claim_def
    by (rule steps_after_lift [OF frame_preorder])
       (auto dest!: tenant intro!: fr.steps_basic sql_fr steps_intros)
  show "steps_in (frame tn) (work_bind E a b owner epoch x y)"
    unfolding work_bind_def
    by (rule steps_after_lift [OF frame_preorder])
       (auto dest!: tenant intro!: fr.steps_basic fr_one_row sql_fr steps_intros)
  show "steps_in (frame tn) (work_renew E a b owner epoch lease)"
    "steps_in (frame tn) (work_complete E a b owner epoch)"
    "steps_in (frame tn) (work_retry E a b owner epoch after msg)"
    "steps_in (frame tn) (work_fail E a b owner epoch msg)"
    unfolding work_renew_def work_complete_def work_retry_def work_fail_def
    by (rule steps_after_lift [OF frame_preorder],
        auto dest!: tenant intro!: fr_one_row sql_fr)+
  show "steps_in (frame tn) (work_create E t)" if "wTenantID t = a"
    unfolding work_create_def that
    by (rule steps_after_lift [OF frame_preorder])
       (auto dest!: tenant simp: Let_def intro!: fr.steps_basic sql_fr steps_intros)
qed

end
