(* ===== verification/LeaseProtocol.thy ===== *)
theory LeaseProtocol
  imports WorkStore
begin

text \<open>
  The guarantees of the lease protocol of the import tasks: fencing of workers that lost
  their lease, exclusiveness of a claim, and refinement of the transitions of \<open>Task\<close> by
  the SQL of the task store.
\<close>

section \<open>Statements that match no row\<close>

definition same_tables :: "db \<Rightarrow> db \<Rightarrow> bool" where
  "same_tables s t \<longleftrightarrow>
     models t = models s \<and> versions t = versions s \<and> artifacts t = artifacts s
     \<and> tasks t = tasks s \<and> audits t = audits s \<and> regs t = regs s"

lemma same_tables_refl [simp]: "same_tables s s"
  by (simp add: same_tables_def)

lemma stmt_Inr:
  assumes "stmt q s = (Inr x, t)"
  obtains c l where "clock s \<le> c" and "q (s\<lparr>clock := c, script := l\<rparr>) = (Inr x, t)"
proof (cases "script s")
  case Nil
  then have "q s = (Inr x, t)"
    using assms by (auto simp: stmt_def stmt_at_def split: prod.splits sum.splits)
  moreover have "s\<lparr>clock := clock s, script := script s\<rparr> = s" by simp
  ultimately have "q (s\<lparr>clock := clock s, script := script s\<rparr>) = (Inr x, t)" by metis
  then show ?thesis using that [of "clock s" "script s"] by simp
next
  case (Cons d rest)
  obtain k fl where d: "d = (k, fl)" by (cases d)
  with Cons assms have "q (s\<lparr>clock := clock s + int k, script := rest\<rparr>) = (Inr x, t)"
    by (auto simp: stmt_def stmt_at_def split: fault.splits prod.splits sum.splits)
  then show ?thesis using that [of "clock s + int k" rest] by simp
qed

lemma stmt_nil: "script s = [] \<Longrightarrow> q s = (Inr x, t) \<Longrightarrow> stmt q s = (Inr x, t)"
  by (simp add: stmt_def stmt_at_def)

lemma stmt_nil_err: "script s = [] \<Longrightarrow> q s = (Inl e, t) \<Longrightarrow> stmt q s = (Inl e, s)"
  by (simp add: stmt_def stmt_at_def)

lemma upd_tasks_none:
  "(\<And>r. r \<in> set (tasks s) \<Longrightarrow> \<not> hit s r) \<Longrightarrow> upd_tasks bad hit f s = (Inr [], s)"
  by (simp add: upd_tasks_def upd_rows_none first_error_None [THEN iffD2] filter_False)

lemma stmt_idle:
  assumes q: "\<And>c l. q (s\<lparr>clock := c, script := l\<rparr>) = (Inr x, s\<lparr>clock := c, script := l\<rparr>)"
  obtains r t where "stmt q s = (r, t)" and "same_tables s t" and "r = Inr x \<or> isl r"
    and "script s = [] \<Longrightarrow> r = Inr x \<and> t = s"
proof -
  have q0: "q s = (Inr x, s)" using q [where c = "clock s" and l = "script s"] by simp
  show ?thesis
  proof (cases "script s")
    case Nil
    with q0 have "stmt q s = (Inr x, s)" by (simp add: stmt_nil)
    then show ?thesis by (rule that) simp_all
  next
    case (Cons d rest)
    obtain k fl where d: "d = (k, fl)" by (cases d)
    let ?u = "s\<lparr>clock := clock s + int k, script := rest\<rparr>"
    have same: "same_tables s ?u" by (simp add: same_tables_def)
    have "stmt q s = stmt_at q fl ?u" using Cons d by (simp add: stmt_def)
    then have "stmt q s = (case fl of NoFault \<Rightarrow> Inr x | FailBefore e \<Rightarrow> Inl e | FailAfter e \<Rightarrow> Inl e, ?u)"
      by (cases fl) (simp_all add: stmt_at_def q)
    then show ?thesis
      by (rule that) (use same Cons in \<open>simp_all split: fault.split\<close>)
  qed
qed

section \<open>Fencing\<close>

text \<open>An epoch is fenced at a task when a later one was handed out, or it was given back.\<close>

definition fenced_row :: "int \<Rightarrow> task_row \<Rightarrow> bool" where
  "fenced_row e r \<longleftrightarrow> e < t_lease_epoch r \<or> t_lease_epoch r = e \<and> t_status r \<noteq> TaskImporting"

lemma fenced_stable: "task_evolves a b \<Longrightarrow> fenced_row e a \<Longrightarrow> fenced_row e b"
  unfolding task_evolves_def fenced_row_def by (metis less_le_trans order_le_less)

definition fenced :: "db \<Rightarrow> uuid \<Rightarrow> uuid \<Rightarrow> int \<Rightarrow> bool" where
  "fenced s tn i e \<longleftrightarrow> list_ex (\<lambda>r. task_key r = (tn, i) \<and> fenced_row e r) (tasks s)"

lemma sound_tasks: "sound s t \<Longrightarrow> db_ok s \<Longrightarrow> db_ok t \<and> grows task_evolves (tasks s) (tasks t)"
  by (simp add: sound_def evolves_def)

lemma fenced_sound:
  assumes "sound s t" and "db_ok s" and "fenced s tn i e"
  shows "fenced t tn i e"
proof -
  from assms(3) obtain k where k: "k < length (tasks s)" "task_key (tasks s ! k) = (tn, i)"
    "fenced_row e (tasks s ! k)"
    unfolding fenced_def list_ex_iff by (metis in_set_conv_nth)
  from sound_tasks [OF assms(1,2)] have "length (tasks s) \<le> length (tasks t)"
    and "task_evolves (tasks s ! k) (tasks t ! k)"
    using k by (simp_all add: grows_def)
  with k have "task_key (tasks t ! k) = (tn, i)" and "fenced_row e (tasks t ! k)"
    using fenced_stable unfolding task_evolves_def by metis+
  moreover have "tasks t ! k \<in> set (tasks t)"
    using k \<open>length (tasks s) \<le> length (tasks t)\<close> by simp
  ultimately show ?thesis unfolding fenced_def list_ex_iff by blast
qed

lemma fenced_not_leased:
  assumes "db_ok s" and "fenced s tn i e" and "r \<in> set (tasks s)"
  shows "\<not> leased (s\<lparr>clock := c, script := l\<rparr>) tn i owner e r"
proof
  assume held: "leased (s\<lparr>clock := c, script := l\<rparr>) tn i owner e r"
  from assms(2) obtain q where q: "q \<in> set (tasks s)" "task_key q = (tn, i)" "fenced_row e q"
    unfolding fenced_def list_ex_iff by blast
  moreover have "task_key r = (tn, i)" using held by (simp add: leased_def task_key_def)
  moreover have "distinct (map task_key (tasks s))" using assms(1) by (simp add: db_ok_def tasks_ok_def)
  ultimately have "q = r" using assms(3) by (metis distinct_key_eq)
  with q held show False by (auto simp: fenced_row_def leased_def)
qed

text \<open>A rejected call changes no row; the reason is the lost lease unless the connection failed.\<close>

definition rejects :: "unit dbop \<Rightarrow> db \<Rightarrow> bool" where
  "rejects m s \<longleftrightarrow>
     (case m s of
        (Inl e, t) \<Rightarrow> same_tables s t \<and> (script s = [] \<longrightarrow> e = ErrLeaseLost)
      | (Inr _, t) \<Rightarrow> False)"

lemma one_row_rejects:
  assumes "\<And>c l r. r \<in> set (tasks s) \<Longrightarrow> \<not> hit (s\<lparr>clock := c, script := l\<rparr>) r"
  shows "rejects (one_row (stmt (rows_affected (upd_tasks bad hit f)))) s"
proof -
  have "rows_affected (upd_tasks bad hit f) (s\<lparr>clock := c, script := l\<rparr>)
      = (Inr 0, s\<lparr>clock := c, script := l\<rparr>)" for c l
    using assms upd_tasks_none [of "s\<lparr>clock := c, script := l\<rparr>" hit bad f]
    by (simp add: rows_affected_def andThen_def)
  then obtain r t where "stmt (rows_affected (upd_tasks bad hit f)) s = (r, t)"
    "same_tables s t" "r = Inr 0 \<or> isl r" "script s = [] \<Longrightarrow> r = Inr 0 \<and> t = s"
    by (rule stmt_idle) blast
  then show ?thesis
    by (cases r) (auto simp: rejects_def one_row_def andThen_def)
qed

lemma parse_ids_Inr:
  "x_uuid_parse E a = Inr tn \<Longrightarrow> x_uuid_parse E b = Inr i \<Longrightarrow> parse_ids E a b = Inr (tn, i)"
  by (simp add: parse_ids_def parse_field_def)

lemma andThen_lift_Inr [simp]: "andThen (lift (Inr x)) f = f x"
  by (rule ext) (simp add: andThen_def)

lemma fenced_rejects:
  assumes "db_ok s" and "fenced s tn i e"
    and "x_uuid_parse E a = Inr tn" and "x_uuid_parse E b = Inr i"
  shows "rejects (work_complete E a b owner e) s"
    and "rejects (work_fail E a b owner e msg) s"
    and "rejects (work_retry E a b owner e after msg) s"
    and "rejects (work_renew E a b owner e lease) s"
    and "x_uuid_parse E x = Inr mid \<Longrightarrow> x_uuid_parse E y = Inr vid \<Longrightarrow>
         rejects (work_bind E a b owner e x y) s"
proof -
  have no: "\<not> leased (s\<lparr>clock := c, script := l\<rparr>) tn i owner e r" if "r \<in> set (tasks s)" for c l r
    using fenced_not_leased [OF assms(1,2) that] .
  show "rejects (work_complete E a b owner e) s" "rejects (work_fail E a b owner e msg) s"
    "rejects (work_retry E a b owner e after msg) s" "rejects (work_renew E a b owner e lease) s"
    by (simp_all add: work_complete_def work_fail_def work_retry_def work_renew_def
        parse_ids_Inr [OF assms(3,4)] sqlCompleteImportTask_def sqlFailImportTask_def
        sqlRetryImportTask_def sqlRenewImportTaskLease_def one_row_rejects no)
  show "rejects (work_bind E a b owner e x y) s"
    if "x_uuid_parse E x = Inr mid" and "x_uuid_parse E y = Inr vid"
    using that by (simp add: work_bind_def parse_ids_Inr [OF assms(3,4)] parse_field_def
        sqlBindImportTask_def one_row_rejects no)
qed

section \<open>What the calls of the protocol do\<close>

lemma andThen_Inr:
  assumes "andThen m f s = (Inr y, u)"
  obtains x t where "m s = (Inr x, t)" and "f x t = (Inr y, u)"
  using assms by (auto simp: andThen_Inr_iff)

lemma inspect_def': "inspect m f s = f (fst (m s)) (snd (m s))"
  by (simp add: inspect_def split: prod.split)

definition claimed_row :: "string \<Rightarrow> int \<Rightarrow> int \<Rightarrow> task_row \<Rightarrow> task_row" where
  "claimed_row owner micros now t =
     t\<lparr>t_status := TaskImporting, t_lease_owner := owner,
       t_lease_epoch := t_lease_epoch t + 1, t_lease_until := Some (now + micros),
       t_attempt_count := t_attempt_count t + 1, t_updated_at := now\<rparr>"

lemma sqlClaim_eq: "sqlClaimImportTask tn i owner micros = stmt (andThen (upd_tasks task_bad
     (\<lambda>s t. t_tenant_id t = tn \<and> t_id t = i \<and> due (clock s) t) (claimed_row owner micros))
     (\<lambda>ts. lift (one ts)))"
  by (simp add: sqlClaimImportTask_def claimed_row_def [abs_def] fun_eq_iff)

lemma one_Inr: "one xs = Inr x \<longleftrightarrow> (\<exists>ys. xs = x # ys)"
  by (cases xs) (auto simp: one_def)

lemma work_claim_Inr:
  assumes "work_claim E a b owner lease s = (Inr tk, t)"
    and "x_uuid_parse E a = Inr tn" and "x_uuid_parse E b = Inr i"
  obtains r where "r \<in> set (tasks s)" and "t_tenant_id r = tn" and "t_id r = i"
    and "due (clock t) r" and "clock s \<le> clock t"
    and "claimed_row owner (microseconds lease) (clock t) r \<in> set (tasks t)"
    and "wLeaseEpoch tk = t_lease_epoch r + 1"
    and "tk = (task_from_row E (claimed_row owner (microseconds lease) (clock t) r))
           \<lparr>wTenantID := a, wID := b, wProgressPct := 0, wErrorMessage := [], wCreatedAt := 0,
            wCompletedAt := 0\<rparr>"
proof -
  let ?m = "microseconds lease"
  from assms obtain x where x: "sqlClaimImportTask tn i owner ?m s = (Inr x, t)"
    and tk: "tk = (task_from_row E x)\<lparr>wTenantID := a, wID := b, wProgressPct := 0,
            wErrorMessage := [], wCreatedAt := 0, wCompletedAt := 0\<rparr>"
    by (cases "sqlClaimImportTask tn i owner ?m s")
       (auto simp: work_claim_def parse_ids_Inr inspect_def' split: sum.splits if_splits)
  from x [unfolded sqlClaim_eq] obtain c l where c: "clock s \<le> c"
    and q: "andThen (upd_tasks task_bad (\<lambda>s t. t_tenant_id t = tn \<and> t_id t = i \<and> due (clock s) t)
        (claimed_row owner ?m)) (\<lambda>ts. lift (one ts)) (s\<lparr>clock := c, script := l\<rparr>) = (Inr x, t)"
    by (rule stmt_Inr)
  let ?hit = "\<lambda>t. t_tenant_id t = tn \<and> t_id t = i \<and> due c t"
  from q have t: "t = s\<lparr>clock := c, script := l, tasks := upd_rows ?hit (claimed_row owner ?m c) (tasks s)\<rparr>"
    and hd: "one (map (claimed_row owner ?m c) (filter ?hit (tasks s))) = Inr x"
    by (auto simp: andThen_def upd_tasks_def Let_def split: option.splits prod.splits sum.splits)
  from hd obtain r rs where fr: "filter ?hit (tasks s) = r # rs" and xr: "x = claimed_row owner ?m c r"
    by (auto simp: one_Inr)
  from fr have "r \<in> set (filter ?hit (tasks s))" by simp
  then have r: "r \<in> set (tasks s)" "?hit r" by simp_all
  have "clock t = c" using t by simp
  moreover have "claimed_row owner ?m c r \<in> set (tasks t)"
    using r t by (auto simp: set_upd_rows)
  ultimately show ?thesis
    using that [of r] r xr tk c by (simp add: claimed_row_def task_from_row_def)
qed

text \<open>A successful call of the holder found the task leased and rewrote it.\<close>

lemma held_Inr:
  assumes "one_row (stmt (rows_affected (upd_tasks bad hit f))) s = (Inr x, t)"
  obtains r c l where "clock s \<le> c" and "r \<in> set (tasks s)"
    and "hit (s\<lparr>clock := c, script := l\<rparr>) r" and "f c r \<in> set (tasks t)"
proof -
  from assms obtain u where st: "stmt (rows_affected (upd_tasks bad hit f)) s = (Inr 1, u)" and "t = u"
    by (auto simp: one_row_def andThen_Inr_iff split: if_splits)
  from st obtain c l where c: "clock s \<le> c"
    and q: "rows_affected (upd_tasks bad hit f) (s\<lparr>clock := c, script := l\<rparr>) = (Inr 1, u)"
    by (rule stmt_Inr)
  let ?s = "s\<lparr>clock := c, script := l\<rparr>"
  from q have u: "tasks u = upd_rows (hit ?s) (f c) (tasks s)"
    and n: "int (length (filter (hit ?s) (tasks s))) = 1"
    by (auto simp: rows_affected_def andThen_def upd_tasks_def Let_def
        split: option.splits prod.splits sum.splits)
  from n have "filter (hit ?s) (tasks s) \<noteq> []" by auto
  then obtain r where "r \<in> set (tasks s)" and "hit ?s r"
    by (meson filter_False)
  moreover from this u have "f c r \<in> set (tasks u)" by (auto simp: set_upd_rows)
  ultimately show ?thesis using that [of c r l] c \<open>t = u\<close> by simp
qed

lemma fencedI:
  "q \<in> set (tasks t) \<Longrightarrow> task_key q = (tn, i) \<Longrightarrow> fenced_row e q \<Longrightarrow> fenced t tn i e"
  unfolding fenced_def list_ex_iff by blast

lemma released_fenced:
  assumes "x_uuid_parse E a = Inr tn" and "x_uuid_parse E b = Inr i"
    and "work_complete E a b owner e s = (Inr x, t)
       \<or> work_fail E a b owner e msg s = (Inr x, t)
       \<or> work_retry E a b owner e after msg s = (Inr x, t)"
  shows "fenced t tn i e"
  using assms(3)
proof (elim disjE)
  assume "work_complete E a b owner e s = (Inr x, t)"
  then show ?thesis
    unfolding work_complete_def parse_ids_Inr [OF assms(1,2)] andThen_lift_Inr split
      sqlCompleteImportTask_def
    by (rule held_Inr)
       (erule fencedI, simp_all add: leased_def task_key_def fenced_row_def task_statuses)
next
  assume "work_fail E a b owner e msg s = (Inr x, t)"
  then show ?thesis
    unfolding work_fail_def parse_ids_Inr [OF assms(1,2)] andThen_lift_Inr split
      sqlFailImportTask_def
    by (rule held_Inr)
       (erule fencedI, simp_all add: leased_def task_key_def fenced_row_def task_statuses)
next
  assume "work_retry E a b owner e after msg s = (Inr x, t)"
  then show ?thesis
    unfolding work_retry_def parse_ids_Inr [OF assms(1,2)] andThen_lift_Inr split
      sqlRetryImportTask_def
    by (rule held_Inr)
       (erule fencedI, simp_all add: leased_def task_key_def fenced_row_def task_statuses)
qed

lemma claimed_fenced:
  assumes "x_uuid_parse E a = Inr tn" and "x_uuid_parse E b = Inr i"
    and "work_claim E a b owner lease s = (Inr tk, t)" and "e < wLeaseEpoch tk"
  shows "fenced t tn i e"
proof -
  from assms(3,1,2) obtain r where "claimed_row owner (microseconds lease) (clock t) r \<in> set (tasks t)"
    and "t_tenant_id r = tn" "t_id r = i" "wLeaseEpoch tk = t_lease_epoch r + 1"
    by (rule work_claim_Inr)
  then show ?thesis
    using assms(4) unfolding fenced_def list_ex_iff
    by (intro bexI) (auto simp: claimed_row_def task_key_def fenced_row_def)
qed

section \<open>Refinement of the transitions of the task\<close>

lemma filter_unique:
  assumes "distinct (map key rows)" and "r \<in> set rows"
  shows "filter (\<lambda>q. key q = key r \<and> P q) rows = (if P r then [r] else [])"
proof (cases "P r")
  case True
  have "filter (\<lambda>q. key q = key r \<and> P q) rows = [r]"
  proof (rule distinct_only)
    show "q = r" if "q \<in> set (filter (\<lambda>q. key q = key r \<and> P q) rows)" for q
      using that distinct_key_eq [OF assms(1) _ assms(2)] by auto
    show "r \<in> set (filter (\<lambda>q. key q = key r \<and> P q) rows)" using assms(2) True by simp
    show "distinct (filter (\<lambda>q. key q = key r \<and> P q) rows)"
      using assms(1) by (simp add: distinct_map)
  qed
  with True show ?thesis by simp
next
  case False
  have "\<not> (key q = key r \<and> P q)" if "q \<in> set rows" for q
    using that False distinct_key_eq [OF assms(1) that assms(2)] by auto
  with False show ?thesis by (simp add: filter_False)
qed

lemma task_filter_unique:
  assumes "db_ok s" and "r \<in> set (tasks s)" and "t_tenant_id r = tn" and "t_id r = i"
  shows "filter (\<lambda>t. t_tenant_id t = tn \<and> t_id t = i \<and> P t) (tasks s) = (if P r then [r] else [])"
proof -
  have "distinct (map task_key (tasks s))"
    using assms(1) by (simp add: db_ok_def tasks_ok_def)
  from filter_unique [OF this assms(2), of P] assms(3,4) show ?thesis
    by (simp add: task_key_def conj_assoc)
qed

text \<open>The state the lease protocol of \<open>Task\<close> is about.\<close>

definition protocol :: "task \<Rightarrow> string \<times> string \<times> int \<times> int" where
  "protocol t = (wStatus t, wLeaseOwner t, wLeaseEpoch t, wLeaseUntil t)"

definition in_range :: "task_row \<Rightarrow> bool" where
  "in_range r \<longleftrightarrow> 0 \<le> t_lease_epoch r \<and> t_lease_epoch r < max_int64
     \<and> 0 \<le> t_attempt_count r \<and> t_attempt_count r < max_int32"

text \<open>A due task is claimed by whoever asks first.\<close>

lemma sql_claim_due:
  assumes ok: "db_ok s" and quiet: "script s = []"
    and r: "r \<in> set (tasks s)" "t_tenant_id r = tn" "t_id r = i" "in_range r"
    and due: "due (clock s) r"
  shows "sqlClaimImportTask tn i owner m s = (Inr (claimed_row owner m (clock s) r),
    s\<lparr>tasks := upd_rows (\<lambda>t. t_tenant_id t = tn \<and> t_id t = i \<and> due (clock s) t)
      (claimed_row owner m (clock s)) (tasks s)\<rparr>)"
proof -
  have "filter (\<lambda>t. t_tenant_id t = tn \<and> t_id t = i \<and> due (clock s) t) (tasks s) = [r]"
    using task_filter_unique [OF ok r(1-3), of "due (clock s)"] due by simp
  moreover have "task_refs_ok s r"
    using ok r(1) by (simp add: db_ok_def tasks_ok_def task_refs_ok_def null_or_keys)
  then have "task_bad s (claimed_row owner m (clock s) r) = None"
    using r(4) by (simp add: task_bad_def in_range_def claimed_row_def task_refs_ok_def)
  ultimately show ?thesis
    unfolding sqlClaim_eq
    by (intro stmt_nil [OF quiet])
       (simp add: andThen_def upd_tasks_def first_error_def map_filter_simps one_def)
qed

lemma microseconds_whole: "0 \<le> d \<Longrightarrow> d mod 1000 = 0 \<Longrightarrow> microseconds d * 1000 = d"
  using div_mult_mod_eq [of d 1000] by (simp add: microseconds_def trunc_div_nonneg)

lemma lease_free_go_time:
  "0 \<le> c \<Longrightarrow> lease_free c u \<longleftrightarrow> \<not> (go_time u \<noteq> 0 \<and> c * 1000 < go_time u)"
  by (cases u) (auto simp: lease_free_def go_time_def)

lemma claimed_task:
  "task_from_row E (claimed_row owner m now r) = (task_from_row E r)\<lparr>wStatus := TaskImporting,
     wLeaseOwner := owner, wLeaseEpoch := t_lease_epoch r + 1, wLeaseUntil := now * 1000 + m * 1000,
     wAttemptCount := t_attempt_count r + 1\<rparr>"
  by (simp add: task_from_row_def claimed_row_def go_time_def distrib_right)

lemma task_claim_row:
  assumes "0 \<le> now" and "in_range r"
  shows "task_claim (task_from_row E r) owner (now * 1000) lease =
    (if owner \<noteq> [] \<and> 0 < lease \<and> (t_status r = TaskPending \<or> t_status r = TaskImporting)
        \<and> lease_free now (t_lease_until r)
     then Inr ((task_from_row E r)\<lparr>wStatus := TaskImporting, wLeaseOwner := owner,
       wLeaseEpoch := t_lease_epoch r + 1, wLeaseUntil := now * 1000 + lease,
       wAttemptCount := t_attempt_count r + 1\<rparr>)
     else Inl ErrInvalidTransition)"
proof -
  have "in_int64 (t_lease_epoch r + 1)" and "in_int64 (t_attempt_count r + 1)"
    using assms(2) by (simp_all add: in_range_def in_int64_def max_int64_def max_int32_def)
  then show ?thesis
    using lease_free_go_time [OF assms(1), of "t_lease_until r"]
    by (auto simp: task_claim_def task_from_row_def wrap64_id)
qed

lemma claim_due:
  assumes ok: "db_ok s" and quiet: "script s = []"
    and r: "r \<in> set (tasks s)" "t_tenant_id r = tn" "t_id r = i" "in_range r"
    and E: "x_uuid_parse E a = Inr tn" "x_uuid_parse E b = Inr i" and due: "due (clock s) r"
  shows "work_claim E a b owner lease s =
    (Inr ((task_from_row E (claimed_row owner (microseconds lease) (clock s) r))
       \<lparr>wTenantID := a, wID := b, wProgressPct := 0, wErrorMessage := [], wCreatedAt := 0, wCompletedAt := 0\<rparr>),
     s\<lparr>tasks := map (\<lambda>t. if task_key t = (tn, i) then claimed_row owner (microseconds lease) (clock s) r else t)
        (tasks s)\<rparr>)"
proof -
  have "distinct (map task_key (tasks s))"
    using ok by (simp add: db_ok_def tasks_ok_def)
  then have "t = r" if "t \<in> set (tasks s)" "t_tenant_id t = tn" "t_id t = i" for t
    using distinct_key_eq [of task_key "tasks s" t r] that r(1-3) by (simp add: task_key_def)
  then have "upd_rows (\<lambda>t. t_tenant_id t = tn \<and> t_id t = i \<and> due (clock s) t)
      (claimed_row owner (microseconds lease) (clock s)) (tasks s)
    = map (\<lambda>t. if task_key t = (tn, i) then claimed_row owner (microseconds lease) (clock s) r else t) (tasks s)"
    using due by (auto simp: upd_rows_def task_key_def)
  with sql_claim_due [OF ok quiet r due, of owner "microseconds lease"] show ?thesis
    by (simp add: work_claim_def parse_ids_Inr [OF E] inspect_def')
qed

lemma claim_not_due:
  assumes ok: "db_ok s" and quiet: "script s = []"
    and r: "r \<in> set (tasks s)" "t_tenant_id r = tn" "t_id r = i"
    and E: "x_uuid_parse E a = Inr tn" "x_uuid_parse E b = Inr i" and due: "\<not> due (clock s) r"
  shows "work_claim E a b owner lease s = (Inl ErrLeaseLost, s)"
proof -
  have "filter (\<lambda>t. t_tenant_id t = tn \<and> t_id t = i \<and> due (clock s) t) (tasks s) = []"
    using task_filter_unique [OF ok r, of "due (clock s)"] due by simp
  then have "\<not> (t_tenant_id q = tn \<and> t_id q = i \<and> due (clock s) q)" if "q \<in> set (tasks s)" for q
    using that by (metis (mono_tags, lifting) empty_filter_conv)
  then have "andThen (upd_tasks task_bad (\<lambda>s t. t_tenant_id t = tn \<and> t_id t = i \<and> due (clock s) t)
       (claimed_row owner (microseconds lease))) (\<lambda>ts. lift (one ts)) s = (Inl ErrNoRows, s)"
    by (simp add: andThen_def upd_tasks_none one_def)
  then have "sqlClaimImportTask tn i owner (microseconds lease) s = (Inl ErrNoRows, s)"
    unfolding sqlClaim_eq by (rule stmt_nil_err [OF quiet])
  then show ?thesis
    by (simp add: work_claim_def parse_ids_Inr [OF E] inspect_def')
qed

text \<open>C22: Claiming an import task in the database against the \<open>Claim\<close> transition of the task, for
  every owner and duration, on a working connection. A task that is not due is refused with the
  lost lease and nothing changes; the transition refuses it too unless only its next attempt
  lies ahead, which the transition does not know of. A due task is claimed: its row, and no
  other, becomes exactly the result of the transition for the duration cut to microseconds,
  and the task returned is that result with the identifiers of the caller and without the four
  fields the method leaves out. The statement does not check owner and duration: for an empty
  owner or a duration that is not positive it claims although the transition refuses.\<close>

theorem claim_refines:
  assumes ok: "db_ok s" and quiet: "script s = []" and now: "0 \<le> clock s"
    and r: "r \<in> set (tasks s)" "t_tenant_id r = tn" "t_id r = i" "in_range r"
    and E: "x_uuid_parse E a = Inr tn" "x_uuid_parse E b = Inr i"
  shows "if due (clock s) r
    then \<exists>q u. work_claim E a b owner lease s =
          (Inr (u\<lparr>wTenantID := a, wID := b, wProgressPct := 0, wErrorMessage := [], wCreatedAt := 0,
             wCompletedAt := 0\<rparr>),
           s\<lparr>tasks := map (\<lambda>t. if task_key t = (tn, i) then q else t) (tasks s)\<rparr>)
        \<and> task_key q = (tn, i) \<and> task_from_row E q = u
        \<and> u = (task_from_row E r)\<lparr>wStatus := TaskImporting, wLeaseOwner := owner,
             wLeaseEpoch := t_lease_epoch r + 1,
             wLeaseUntil := clock s * 1000 + microseconds lease * 1000,
             wAttemptCount := t_attempt_count r + 1\<rparr>
        \<and> (owner \<noteq> [] \<and> 0 < microseconds lease \<longrightarrow>
             task_claim (task_from_row E r) owner (clock s * 1000) (microseconds lease * 1000) = Inr u)
        \<and> (owner = [] \<or> lease \<le> 0 \<longrightarrow>
             task_claim (task_from_row E r) owner (clock s * 1000) lease = Inl ErrInvalidTransition)
    else work_claim E a b owner lease s = (Inl ErrLeaseLost, s)
        \<and> (t_next_attempt_at r \<le> clock s \<longrightarrow>
             task_claim (task_from_row E r) owner (clock s * 1000) lease = Inl ErrInvalidTransition)"
proof (cases "due (clock s) r")
  case True
  have "task_key (claimed_row owner (microseconds lease) (clock s) r) = (tn, i)"
    using r by (simp add: task_key_def claimed_row_def)
  moreover have "t_status r = TaskPending \<or> t_status r = TaskImporting" "lease_free (clock s) (t_lease_until r)"
    using True by (simp_all add: due_def)
  ultimately show ?thesis
    unfolding if_P [OF True] claim_due [OF ok quiet r E True]
    by (intro exI [of _ "claimed_row owner (microseconds lease) (clock s) r"]
          exI [of _ "task_from_row E (claimed_row owner (microseconds lease) (clock s) r)"])
       (simp add: claimed_task task_claim_row [OF now r(4)])
next
  case False
  then show ?thesis
    unfolding if_not_P [OF False] claim_not_due [OF ok quiet r(1-3) E False]
    by (auto simp: task_claim_row [OF now r(4)] due_def)
qed

lemma leased_iff:
  assumes "0 \<le> clock s" and "t_tenant_id r = tn" and "t_id r = i"
  shows "leased s tn i owner e r \<longleftrightarrow> \<not> task_fenced (task_from_row E r) owner e (clock s * 1000)"
  using assms by (cases "t_lease_until r")
    (auto simp: leased_def task_fenced_def task_from_row_def go_time_def)

lemma held_refines:
  assumes ok: "db_ok s" and quiet: "script s = []" and now: "0 \<le> clock s"
    and r: "r \<in> set (tasks s)" "t_tenant_id r = tn" "t_id r = i"
    and f: "task_bad s (f (clock s) r) = None"
  shows "one_row (stmt (rows_affected (upd_tasks task_bad (\<lambda>s t. leased s tn i owner e t) f))) s =
    (if task_fenced (task_from_row E r) owner e (clock s * 1000) then (Inl ErrLeaseLost, s)
     else (Inr (), s\<lparr>tasks := upd_rows (leased s tn i owner e) (f (clock s)) (tasks s)\<rparr>))"
proof -
  have "leased s tn i owner e = (\<lambda>t. t_tenant_id t = tn \<and> t_id t = i \<and> leased s tn i owner e t)"
    by (auto simp: leased_def fun_eq_iff)
  then have hits: "filter (leased s tn i owner e) (tasks s)
      = (if leased s tn i owner e r then [r] else [])"
    using task_filter_unique [OF ok r, of "leased s tn i owner e"] by metis
  show ?thesis
  proof (cases "leased s tn i owner e r")
    case True
    then have "rows_affected (upd_tasks task_bad (\<lambda>s t. leased s tn i owner e t) f) s
       = (Inr 1, s\<lparr>tasks := upd_rows (leased s tn i owner e) (f (clock s)) (tasks s)\<rparr>)"
      using hits f
      by (simp add: rows_affected_def andThen_def upd_tasks_def first_error_def map_filter_simps)
    then have "stmt (rows_affected (upd_tasks task_bad (\<lambda>s t. leased s tn i owner e t) f)) s
       = (Inr 1, s\<lparr>tasks := upd_rows (leased s tn i owner e) (f (clock s)) (tasks s)\<rparr>)"
      by (rule stmt_nil [OF quiet])
    then show ?thesis
      using True leased_iff [OF now r(2,3), of owner e E] by (simp add: one_row_def andThen_def)
  next
    case False
    with hits have "\<not> leased s tn i owner e q" if "q \<in> set (tasks s)" for q
      using that by (metis empty_filter_conv)
    then have "rows_affected (upd_tasks task_bad (\<lambda>s t. leased s tn i owner e t) f) s = (Inr 0, s)"
      by (simp add: rows_affected_def andThen_def upd_tasks_none)
    then have "stmt (rows_affected (upd_tasks task_bad (\<lambda>s t. leased s tn i owner e t) f)) s
       = (Inr 0, s)"
      by (rule stmt_nil [OF quiet])
    then show ?thesis
      using False leased_iff [OF now r(2,3), of owner e E] by (simp add: one_row_def andThen_def)
  qed
qed

lemma claim_refines_witness:
  "\<exists>u. task_claim (task_from_row sample_ext sample_task_row) ''w'' (clock sample_db * 1000) 60000000000 = Inr u
     \<and> snd (work_claim sample_ext ''u1'' ''u1111'' ''w'' 60000000000 sample_db) \<noteq> sample_db"
proof -
  have due: "due (clock sample_db) sample_task_row"
    by (simp add: due_def sample_defs lease_free_def task_statuses)
  have m: "microseconds 60000000000 = 60000000" by (simp add: microseconds_def trunc_div_nonneg)
  have "sample_task_row \<in> set (tasks sample_db)" "in_range sample_task_row"
    by (simp_all add: sample_defs in_range_def max_int64_def max_int32_def)
  from claim_refines [OF sample_db_ok _ _ this(1) _ _ this(2), of 1 4 sample_ext "''u1''" "''u1111''" "''w''"
      60000000000] due m
  obtain q u where "work_claim sample_ext ''u1'' ''u1111'' ''w'' 60000000000 sample_db =
      (Inr u, sample_db\<lparr>tasks := map (\<lambda>t. if task_key t = (1, 4) then q else t) (tasks sample_db)\<rparr>)"
    and u: "wStatus (task_from_row sample_ext q) = TaskImporting"
    and c: "task_claim (task_from_row sample_ext sample_task_row) ''w'' (clock sample_db * 1000) 60000000000
      = Inr (task_from_row sample_ext q)"
    by (auto simp: sample_defs)
  moreover from u have "q \<noteq> sample_task_row"
    by (auto simp: task_from_row_def sample_defs task_statuses)
  ultimately show ?thesis
    by (auto simp: sample_defs task_key_def)
qed

text \<open>What the guarantees look like from outside: a call either is rejected with the lost
  lease and leaves the database alone, or moves the task as \<open>Task\<close> says.\<close>

definition refines_task :: "ext \<Rightarrow> (unit dbop) \<Rightarrow> db \<Rightarrow> uuid \<Rightarrow> uuid \<Rightarrow> gerr + task \<Rightarrow> bool" where
  "refines_task E m s tn i spec \<longleftrightarrow>
     (case spec of
        Inl _ \<Rightarrow> m s = (Inl ErrLeaseLost, s)
      | Inr u \<Rightarrow> fst (m s) = Inr () \<and>
          list_ex (\<lambda>q. task_key q = (tn, i) \<and> protocol (task_from_row E q) = protocol u)
            (tasks (snd (m s))))"

lemma task_bad_update:
  assumes "db_ok s" and "r \<in> set (tasks s)"
    and "t_lease_epoch q = t_lease_epoch r" and "t_attempt_count q = t_attempt_count r"
    and "t_tenant_id q = t_tenant_id r" and "t_model_id q = t_model_id r"
    and "t_model_version_id q = t_model_version_id r"
    and "in_range r"
  shows "task_bad s q = None"
proof -
  have "task_refs_ok s r"
    using assms(1,2) by (simp add: db_ok_def tasks_ok_def task_refs_ok_def null_or_keys)
  with assms show ?thesis by (simp add: task_bad_def in_range_def task_refs_ok_def)
qed

lemma refines_taskI:
  assumes "m s = (if fen then (Inl ErrLeaseLost, s) else (Inr (), t))"
    and "spec = (if fen then Inl x else Inr u)"
    and "\<not> fen \<Longrightarrow> q \<in> set (tasks t) \<and> task_key q = (tn, i)
           \<and> protocol (task_from_row E q) = protocol u"
  shows "refines_task E m s tn i spec"
  using assms unfolding refines_task_def list_ex_iff by (cases fen) auto

text \<open>C23: Completing or failing an import task in the database are the transitions of the task: a
  worker whose lease is fenced gets the lost lease and changes nothing, otherwise the status,
  owner, epoch and lease of the stored task become those of the transition.\<close>

theorem finish_refines:
  assumes ok: "db_ok s" and quiet: "script s = []" and now: "0 \<le> clock s"
    and r: "r \<in> set (tasks s)" "t_tenant_id r = tn" "t_id r = i" and range: "in_range r"
    and E: "x_uuid_parse E a = Inr tn" "x_uuid_parse E b = Inr i"
  shows "refines_task E (work_complete E a b owner e) s tn i
           (task_complete (task_from_row E r) owner e (clock s * 1000))
    \<and> refines_task E (work_fail E a b owner e msg) s tn i
           (task_fail (task_from_row E r) owner e (clock s * 1000))"
proof
  let ?fen = "task_fenced (task_from_row E r) owner e (clock s * 1000)"
  note leased = leased_iff [OF now r(2,3), of owner e E]
  show "refines_task E (work_complete E a b owner e) s tn i
           (task_complete (task_from_row E r) owner e (clock s * 1000))"
  proof -
    let ?f = "\<lambda>now t. t\<lparr>t_status := TaskCompleted, t_progress_pct := 100, t_lease_owner := [],
        t_lease_until := None, t_completed_at := Some now, t_error_message := [],
        t_updated_at := now\<rparr>"
    have "task_bad s (?f (clock s) r) = None"
      by (rule task_bad_update [OF ok r(1)]) (use range in simp_all)
    note run = held_refines [where f = ?f and owner = owner and e = e and E = E, OF ok quiet now r this]
    show ?thesis
      unfolding work_complete_def parse_ids_Inr [OF E] andThen_lift_Inr split sqlCompleteImportTask_def
      by (rule refines_taskI [where s = s and q = "?f (clock s) r" and x = ErrLeaseFenced
            and u = "(task_from_row E r)\<lparr>wStatus := TaskCompleted, wLeaseOwner := [], wLeaseUntil := 0\<rparr>"], rule run)
         (use r leased in \<open>auto simp: task_complete_def set_upd_rows protocol_def task_from_row_def
            task_key_def go_time_def\<close>)
  qed
  show "refines_task E (work_fail E a b owner e msg) s tn i
           (task_fail (task_from_row E r) owner e (clock s * 1000))"
  proof -
    let ?f = "\<lambda>now t. t\<lparr>t_status := TaskFailed, t_lease_owner := [], t_lease_until := None,
        t_error_message := msg, t_updated_at := now\<rparr>"
    have "task_bad s (?f (clock s) r) = None"
      by (rule task_bad_update [OF ok r(1)]) (use range in simp_all)
    note run = held_refines [where f = ?f and owner = owner and e = e and E = E, OF ok quiet now r this]
    show ?thesis
      unfolding work_fail_def parse_ids_Inr [OF E] andThen_lift_Inr split sqlFailImportTask_def
      by (rule refines_taskI [where s = s and q = "?f (clock s) r" and x = ErrLeaseFenced
            and u = "(task_from_row E r)\<lparr>wStatus := TaskFailed, wLeaseOwner := [], wLeaseUntil := 0\<rparr>"], rule run)
         (use r leased in \<open>auto simp: task_fail_def set_upd_rows protocol_def task_from_row_def
            task_key_def go_time_def\<close>)
  qed
qed

definition held_db :: db where
  "held_db = sample_db\<lparr>tasks := [sample_task_row\<lparr>t_status := TaskImporting, t_lease_owner := ''w'',
     t_lease_epoch := 1, t_attempt_count := 1, t_lease_until := Some 20\<rparr>]\<rparr>"

lemma held_db_ok: "db_ok held_db"
  using sample_db_ok
  by (simp add: db_ok_def held_db_def sample_defs models_ok_def versions_ok_def tasks_ok_def
      audits_ok_def regs_ok_def task_check_def task_inv_def model_keys_def version_keys_def
      task_keys_def key_defs task_statuses)

lemma finish_refines_witness:
  "refines_task sample_ext (work_complete sample_ext ''u1'' ''u1111'' ''w'' 1) held_db 1 4
     (task_complete (task_from_row sample_ext (hd (tasks held_db))) ''w'' 1 (clock held_db * 1000))
   \<and> refines_task sample_ext (work_fail sample_ext ''u1'' ''u1111'' ''w'' 1 ''why'') held_db 1 4
     (task_fail (task_from_row sample_ext (hd (tasks held_db))) ''w'' 1 (clock held_db * 1000))"
  by (rule finish_refines [OF held_db_ok])
     (simp_all add: held_db_def sample_defs in_range_def max_int64_def max_int32_def)

end
