(* ===== verification/VersionStore.thy ===== *)
theory VersionStore
  imports LeaseProtocol
begin

text \<open>
  The version store, \<open>internal/data/postgres/version_store.go\<close>, over the connection pool:
  reading ready versions, creating versions idempotently, listing, and the transitions
  \<open>MarkReady\<close>, \<open>MarkError\<close>, \<open>MarkErrorAndMaybeModel\<close> and \<open>SetChecksum\<close>. Also the
  helpers \<open>parseModelIDs\<close> and \<open>listBoundary\<close> of \<open>model_store.go\<close> that it uses.
\<close>

section \<open>Helpers\<close>

definition parse_model_ids :: "ext \<Rightarrow> string \<Rightarrow> string \<Rightarrow> gerr + uuid \<times> uuid" where
  "parse_model_ids E tenant_id model_id =
     (case parse_field E ''tenant_id'' tenant_id of
        Inl e \<Rightarrow> Inl e
      | Inr t \<Rightarrow> (case parse_field E ''model_id'' model_id of Inl e \<Rightarrow> Inl e | Inr i \<Rightarrow> Inr (t, i)))"

text \<open>The boundary is passed to the server in microseconds.\<close>

definition list_boundary :: "ext \<Rightarrow> list_options \<Rightarrow> gerr + (int \<times> uuid) option" where
  "list_boundary E o1 =
     (if oLimit o1 < 1 \<or> 1001 < oLimit o1 then Inl (Plain ''invalid list limit'')
      else if oBeforeID o1 = [] \<and> oBeforeCreatedAt o1 = 0 then Inr None
      else (case x_uuid_parse E (oBeforeID o1) of
              Inl _ \<Rightarrow> Inl (Plain ''invalid list boundary'')
            | Inr i \<Rightarrow> if i = 0 \<or> oBeforeCreatedAt o1 = 0 then Inl (Plain ''invalid list boundary'')
                       else Inr (Some (oBeforeCreatedAt o1 div 1000, i))))"

definition resolved_version_size :: "int \<Rightarrow> int \<Rightarrow> int" where
  "resolved_version_size version_size artifact_size =
     (if 0 < artifact_size then artifact_size else version_size)"

definition lenient_args :: "ext \<Rightarrow> string \<Rightarrow> string list" where
  "lenient_args E raw = (if raw = [] then [] else fst (x_json_strings E raw))"

definition version_from_row :: "ext \<Rightarrow> version_row \<Rightarrow> string \<Rightarrow> version" where
  "version_from_row E r tenant =
     \<lparr>vTenantID = tenant, vID = x_uuid_string E (v_id r),
      vModelID = x_uuid_string E (v_model_id r), vExternalModelID = [],
      vVersion = v_version r, vFormat = v_format r, vStatus = v_status r,
      vArtifactProvider = [], vArtifactReference = [], vArtifactSHA256 = v_checksum_sha256 r,
      vEngineType = v_engine_type r, vEngineImage = v_engine_image r,
      vStartupCommand = v_startup_command r, vRecommendedImageID = v_recommended_image_id r,
      vRecommendedImageScope = v_recommended_image_scope r,
      vStartupArgs = lenient_args E (v_startup_args r), vIdempotencyKey = [],
      vSizeBytes = v_size_bytes r, vIsEncrypted = v_is_encrypted r,
      vEncryptAlgo = v_encrypt_algo r, vEncryptHint = v_encrypt_hint r,
      vCreatedAt = go_time (Some (v_created_at r))\<rparr>"

text \<open>What a ready version is deployed with: the artifact's digest and its size when it has one.\<close>

definition ready_version :: "ext \<Rightarrow> string \<Rightarrow> string \<Rightarrow> joined \<Rightarrow> string list \<Rightarrow> version" where
  "ready_version E tenant i r args =
     (version_from_row E (jv r) tenant)
       \<lparr>vID := i, vExternalModelID := j_external_model_id r,
        vArtifactProvider := j_artifact_provider r,
        vArtifactReference := j_artifact_reference r, vArtifactSHA256 := j_artifact_sha256 r,
        vStartupArgs := args,
        vSizeBytes := resolved_version_size (v_size_bytes (jv r)) (j_artifact_size_bytes r)\<rparr>"

definition listed_version :: "ext \<Rightarrow> joined \<Rightarrow> version" where
  "listed_version E r =
     (version_from_row E (jv r) (x_uuid_string E (v_tenant_id (jv r))))
       \<lparr>vExternalModelID := j_external_model_id r, vArtifactProvider := j_artifact_provider r,
        vArtifactReference := j_artifact_reference r\<rparr>"

section \<open>Reading\<close>

definition get_version :: "ext \<Rightarrow> string \<Rightarrow> string \<Rightarrow> version dbop" where
  "get_version E tenant i =
     andThen (lift (parse_model_ids E tenant i)) (\<lambda>(t, vid).
     andThen (sqlGetReadyModelVersion t vid) (\<lambda>r.
       ret (ready_version E tenant i r (fst (x_json_strings E (v_startup_args (jv r)))))))"

text \<open>The boolean ownership check of \<open>GetFinetuningSource\<close>.\<close>

definition foreign_version :: "db \<Rightarrow> uuid \<Rightarrow> uuid \<Rightarrow> bool" where
  "foreign_version s tn i \<longleftrightarrow>
     list_ex (\<lambda>v. v_id v = i \<and> v_tenant_id v \<noteq> tn \<and> v_status v \<noteq> ''deleted''
        \<and> list_ex (\<lambda>m. m_tenant_id m = v_tenant_id v \<and> m_id m = v_model_id v
             \<and> m_status m \<noteq> ''deleted'' \<and> m_deleted_at m = None) (models s)) (versions s)
     \<and> \<not> has_version s tn i"

definition get_finetuning_source :: "ext \<Rightarrow> string \<Rightarrow> string \<Rightarrow> version dbop" where
  "get_finetuning_source E tenant i =
     inspect (get_version E tenant i) (\<lambda>res.
       case res of
         Inr v \<Rightarrow> ret v
       | Inl e \<Rightarrow>
           if \<not> err_is e ErrNoRows then throw e
           else andThen (lift (parse_model_ids E tenant i)) (\<lambda>(t, vid).
                andThen (stmt (rd (\<lambda>s. Inr (foreign_version s t vid)))) (\<lambda>foreign.
                  if foreign then throw ErrFinetuningSourceForbidden else throw e)))"

definition get_version_by_external_ref :: "ext \<Rightarrow> string \<Rightarrow> string \<Rightarrow> string \<Rightarrow> version dbop" where
  "get_version_by_external_ref E tenant external_id ver =
     andThen (lift (parse_field E ''tenant_id'' tenant)) (\<lambda>t.
     andThen (sqlGetReadyModelVersionByExternalRef t external_id ver) (\<lambda>r.
       let raw = v_startup_args (jv r) in
       if raw = [] then ret (ready_version E tenant (x_uuid_string E (v_id (jv r))) r [])
       else (case x_json_strings E raw of
               (args, Some e) \<Rightarrow> throw (Wrap ''unmarshal startup_args'' e)
             | (args, None) \<Rightarrow> ret (ready_version E tenant (x_uuid_string E (v_id (jv r))) r args))))"

definition list_versions :: "ext \<Rightarrow> string \<Rightarrow> string \<Rightarrow> list_options \<Rightarrow> version list dbop" where
  "list_versions E tenant model o1 =
     andThen (lift (parse_model_ids E tenant model)) (\<lambda>(t, mid).
     andThen (lift (list_boundary E o1)) (\<lambda>before.
     andThen (sqlListModelVersions t mid (oStatus o1) before (oLimit o1) (wrap32 (oOffset o1))) (\<lambda>rs.
       ret (map (listed_version E) rs))))"

definition count_model_versions :: "ext \<Rightarrow> string \<Rightarrow> string \<Rightarrow> list_options \<Rightarrow> int dbop" where
  "count_model_versions E tenant model o1 =
     andThen (lift (parse_model_ids E tenant model)) (\<lambda>(t, mid).
       sqlCountModelVersions t mid (oStatus o1))"

definition list_versions_page ::
    "ext \<Rightarrow> string \<Rightarrow> string \<Rightarrow> list_options \<Rightarrow> (version list \<times> int) dbop" where
  "list_versions_page E tenant model o1 =
     andThen (lift (parse_model_ids E tenant model)) (\<lambda>(t, mid).
     transact (andThen (sqlCountModelVersions t mid (oStatus o1)) (\<lambda>count.
       andThen (lift (list_boundary E o1)) (\<lambda>before.
       andThen (sqlListModelVersions t mid (oStatus o1) before (oLimit o1) (wrap32 (oOffset o1)))
         (\<lambda>rs. ret (map (listed_version E) rs, count))))))"

section \<open>Writing\<close>

definition version_payload :: "version \<Rightarrow> string" where
  "version_payload v = json_object
     ([(''ModelID'', json_quote (vModelID v)), (''Version'', json_quote (vVersion v)),
       (''Format'', json_quote (vFormat v)),
       (''ArtifactReference'', json_quote (vArtifactReference v)),
       (''ArtifactSHA256'', json_quote (vArtifactSHA256 v)),
       (''EngineType'', json_quote (vEngineType v)),
       (''EngineImage'', json_quote (vEngineImage v)),
       (''StartupCommand'', json_quote (vStartupCommand v)),
       (''StartupArgs'', json_array (vStartupArgs v))]
      @ omit_empty ''RecommendedImageID'' (vRecommendedImageID v)
      @ omit_empty ''RecommendedImageScope'' (vRecommendedImageScope v))"

definition version_fingerprint :: "ext \<Rightarrow> version \<Rightarrow> string" where
  "version_fingerprint E v = fingerprint E (version_payload v)"

text \<open>The parameters name neither \<open>IsEncrypted\<close> nor the other two, so these are Go's zero values.\<close>

definition insert_version :: "ext \<Rightarrow> version \<Rightarrow> uuid \<Rightarrow> uuid \<Rightarrow> uuid \<Rightarrow> version dbop" where
  "insert_version E v t i mid =
     andThen (sqlCreateModelVersion E t i mid (vVersion v) (vFormat v) False [] [] (vSizeBytes v)
        (vArtifactSHA256 v) (vEngineType v) (vEngineImage v) (vRecommendedImageID v)
        (vRecommendedImageScope v) (vStartupCommand v) (json_array (vStartupArgs v))
        (vIdempotencyKey v) (version_fingerprint E v))
       (\<lambda>r. ret (version_from_row E r (vTenantID v)))"

definition create_version :: "ext \<Rightarrow> version \<Rightarrow> version dbop" where
  "create_version E v =
     andThen (lift (parse_model_ids E (vTenantID v) (vID v))) (\<lambda>(t, i).
     andThen (lift (parse_field E ''model_id'' (vModelID v))) (\<lambda>mid.
       if vIdempotencyKey v \<noteq> [] then
         inspect (sqlGetModelVersionByIdempotency t (vIdempotencyKey v)) (\<lambda>found.
           case found of
             Inr r \<Rightarrow> if v_request_fingerprint r \<noteq> version_fingerprint E v
                      then throw (PgError ''23505'' ''idempotency key payload conflict'')
                      else ret (version_from_row E r (vTenantID v))
           | Inl e \<Rightarrow> if \<not> err_is e ErrNoRows then throw e else insert_version E v t i mid)
       else insert_version E v t i mid))"

definition mark_ready :: "ext \<Rightarrow> string \<Rightarrow> string \<Rightarrow> unit dbop" where
  "mark_ready E tenant ver =
     andThen (lift (parse_model_ids E tenant ver)) (\<lambda>(t, i).
     andThen (sqlMarkModelVersionReady t i) (\<lambda>n.
       if n \<noteq> 1 then
         inspect (get_version E tenant ver) (\<lambda>res.
           case res of Inr _ \<Rightarrow> ret () | Inl _ \<Rightarrow> throw ErrNoRows)
       else ret ()))"

definition mark_error :: "ext \<Rightarrow> string \<Rightarrow> string \<Rightarrow> string \<Rightarrow> unit dbop" where
  "mark_error E tenant ver msg =
     andThen (lift (parse_model_ids E tenant ver)) (\<lambda>(t, i).
     andThen (sqlMarkModelVersionError t i msg) (\<lambda>n. if n \<noteq> 1 then throw ErrNoRows else ret ()))"

definition error_tx :: "uuid \<Rightarrow> uuid \<Rightarrow> uuid \<Rightarrow> string \<Rightarrow> int \<Rightarrow> string \<Rightarrow> unit dbop" where
  "error_tx t task i owner epoch msg =
     andThen (sqlMarkModelVersionErrorForTask t task i owner epoch msg) (\<lambda>(_, mid).
     inspect (sqlLockModelForVersionError t mid) (\<lambda>locked.
       case locked of
         Inl e \<Rightarrow> if err_is e ErrNoRows then ret () else throw e
       | Inr _ \<Rightarrow> andThen (sqlMarkModelErrorIfNoReady t mid msg) (\<lambda>_. ret ())))"

definition mark_error_and_maybe_model ::
    "ext \<Rightarrow> string \<Rightarrow> string \<Rightarrow> string \<Rightarrow> string \<Rightarrow> int \<Rightarrow> string \<Rightarrow> unit dbop" where
  "mark_error_and_maybe_model E tenant task_id ver owner epoch msg =
     andThen (lift (parse_model_ids E tenant ver)) (\<lambda>(t, i).
     andThen (lift (parse_field E ''task_id'' task_id)) (\<lambda>task.
       transact (error_tx t task i owner epoch msg)))"

definition set_checksum :: "ext \<Rightarrow> string \<Rightarrow> string \<Rightarrow> string \<Rightarrow> int \<Rightarrow> unit dbop" where
  "set_checksum E tenant ver checksum sz =
     andThen (lift (parse_model_ids E tenant ver)) (\<lambda>(t, i).
     andThen (sqlSetModelVersionChecksum t i checksum sz) (\<lambda>n.
       if n \<noteq> 1 then throw ErrNoRows else ret ()))"

lemmas version_defs = get_version_def get_finetuning_source_def get_version_by_external_ref_def
  list_versions_def count_model_versions_def list_versions_page_def insert_version_def
  create_version_def mark_ready_def mark_error_def error_tx_def mark_error_and_maybe_model_def
  set_checksum_def

section \<open>The relations the methods keep\<close>

lemma so_version:
  "steps_in sound (get_version E a b)"
  "steps_in sound (get_finetuning_source E a b)"
  "steps_in sound (get_version_by_external_ref E a x ver)"
  "steps_in sound (list_versions E a b o1)"
  "steps_in sound (count_model_versions E a b o1)"
  "steps_in sound (list_versions_page E a b o1)"
  "steps_in sound (create_version E v)"
  "steps_in sound (mark_ready E a b)"
  "steps_in sound (mark_error E a b msg)"
  "steps_in sound (mark_error_and_maybe_model E a tk b owner epoch msg)"
  "steps_in sound (set_checksum E a b chk sz)"
  unfolding version_defs
  by (intro so.steps_basic so.steps_transact so.steps_rd so.steps_stmt sql_so steps_intros)+

lemma parse_model_ids_tenant:
  "x_uuid_parse E a = Inr tn \<Longrightarrow> parse_model_ids E a b = Inr (t, i) \<Longrightarrow> t = tn"
  by (auto simp: parse_model_ids_def parse_field_def split: sum.splits)

lemma parse_field_tenant:
  "x_uuid_parse E a = Inr tn \<Longrightarrow> parse_field E f a = Inr t \<Longrightarrow> t = tn"
  by (auto simp: parse_field_def split: sum.splits)

lemma parse_model_ids_Inr:
  "x_uuid_parse E a = Inr tn \<Longrightarrow> x_uuid_parse E b = Inr i \<Longrightarrow> parse_model_ids E a b = Inr (tn, i)"
  by (simp add: parse_model_ids_def parse_field_def)

text \<open>Behind the parsed identifiers the tenant is the caller's.\<close>

lemma fr_after_ids:
  assumes "x_uuid_parse E a = Inr tn" and "\<And>i. steps_in (frame tn) (f (tn, i))"
  shows "steps_in (frame tn) (andThen (lift (parse_model_ids E a b)) f)"
  by (rule steps_after_lift [OF frame_preorder])
     (use assms parse_model_ids_tenant [OF assms(1)] in force)

lemma fr_after_field:
  assumes "x_uuid_parse E a = Inr tn" and "steps_in (frame tn) (f tn)"
  shows "steps_in (frame tn) (andThen (lift (parse_field E fld a)) f)"
  by (rule steps_after_lift [OF frame_preorder])
     (use assms parse_field_tenant [OF assms(1)] in force)

lemma fr_version:
  assumes "x_uuid_parse E a = Inr tn"
  shows "steps_in (frame tn) (get_version E a b)"
    and "steps_in (frame tn) (create_version E (v\<lparr>vTenantID := a\<rparr>))"
    and "steps_in (frame tn) (mark_ready E a b)"
    and "steps_in (frame tn) (mark_error E a b msg)"
    and "steps_in (frame tn) (mark_error_and_maybe_model E a tk b owner epoch msg)"
    and "steps_in (frame tn) (set_checksum E a b chk sz)"
proof -
  note tenant = parse_model_ids_tenant [OF assms]
  show g: "steps_in (frame tn) (get_version E a b)"
    unfolding get_version_def
    by (rule steps_after_lift [OF frame_preorder])
       (auto dest!: tenant intro!: fr.steps_basic sql_fr steps_case_prod)
  show "steps_in (frame tn) (mark_ready E a b)"
    unfolding mark_ready_def
    by (rule steps_after_lift [OF frame_preorder])
       (auto dest!: tenant intro!: fr.steps_basic sql_fr g steps_intros)
  show "steps_in (frame tn) (mark_error E a b msg)" "steps_in (frame tn) (set_checksum E a b chk sz)"
    unfolding mark_error_def set_checksum_def
    by (rule steps_after_lift [OF frame_preorder],
        clarsimp dest!: tenant, intro fr.steps_basic sql_fr steps_intros)+
  show "steps_in (frame tn) (mark_error_and_maybe_model E a tk b owner epoch msg)"
    unfolding mark_error_and_maybe_model_def error_tx_def
    by (rule steps_after_lift [OF frame_preorder])
       (auto dest!: tenant intro!: fr.steps_basic fr.steps_transact sql_fr steps_intros)
  show "steps_in (frame tn) (create_version E (v\<lparr>vTenantID := a\<rparr>))"
    unfolding create_version_def insert_version_def
    by (rule steps_after_lift [OF frame_preorder])
       (auto dest!: tenant intro!: fr.steps_basic sql_fr steps_intros)
qed

end
