(* ===== verification/CatalogStore.thy ===== *)
theory CatalogStore
  imports VersionStore
begin

text \<open>
  The model, catalogue, artifact and audit stores and the import binder of
  \<open>internal/data/postgres\<close> (\<open>model_store.go\<close>, \<open>catalog_store.go\<close>, \<open>artifact_store.go\<close>,
  \<open>audit_store.go\<close>, \<open>import_binder.go\<close>, \<open>finetuning_facts.go\<close>), over the connection
  pool.
\<close>

section \<open>Models\<close>

definition model_payload ::
    "string \<Rightarrow> string \<Rightarrow> label \<Rightarrow> label \<Rightarrow> string \<Rightarrow> json \<Rightarrow> string" where
  "model_payload external_id name display descr src caps = json_object
     [(''ExternalModelID'', json_quote external_id), (''Name'', json_quote name),
      (''DisplayName'', json_quote display), (''Description'', json_quote descr),
      (''Source'', json_quote src),
      (''Capabilities'', CHR 0x22 # base64 caps @ [CHR 0x22])]"

definition create_model_parsed ::
    "ext \<Rightarrow> uuid \<Rightarrow> uuid \<Rightarrow> string \<Rightarrow> string \<Rightarrow> label \<Rightarrow> label \<Rightarrow> string \<Rightarrow> json \<Rightarrow>
     token \<Rightarrow> model_row dbop" where
  "create_model_parsed E tenant i external_id name display descr src caps key =
     (let fp = fingerprint E (model_payload external_id name display descr src caps);
          make = sqlCreateModel E tenant i external_id name display descr src caps key fp in
      if key \<noteq> [] then
        inspect (sqlGetModelByIdempotency tenant key) (\<lambda>found.
          case found of
            Inr r \<Rightarrow> if m_request_fingerprint r \<noteq> fp
                     then throw (PgError ''23505'' ''idempotency key payload conflict'')
                     else ret r
          | Inl e \<Rightarrow> if \<not> err_is e ErrNoRows then throw e else make)
      else make)"

definition store_create_model ::
    "ext \<Rightarrow> string \<Rightarrow> string \<Rightarrow> string \<Rightarrow> label \<Rightarrow> label \<Rightarrow> string \<Rightarrow> json \<Rightarrow> token \<Rightarrow>
     model_row dbop" where
  "store_create_model E tenant_id model_id name display descr src caps key =
     andThen (lift (parse_model_ids E tenant_id model_id)) (\<lambda>(tn, i).
       create_model_parsed E tn i name name display descr src caps key)"

definition store_create_model_with_external_id ::
    "ext \<Rightarrow> string \<Rightarrow> string \<Rightarrow> string \<Rightarrow> string \<Rightarrow> label \<Rightarrow> label \<Rightarrow> string \<Rightarrow> json \<Rightarrow>
     token \<Rightarrow> model_row dbop" where
  "store_create_model_with_external_id E tenant_id internal_id external_id name display descr src
     caps key =
     andThen (lift (parse_model_ids E tenant_id internal_id)) (\<lambda>(tn, i).
       create_model_parsed E tn i external_id name display descr src caps key)"

definition store_get_model :: "ext \<Rightarrow> string \<Rightarrow> string \<Rightarrow> model_row dbop" where
  "store_get_model E tenant_id model_id =
     andThen (lift (parse_model_ids E tenant_id model_id)) (\<lambda>(tn, i). sqlGetModel tn i)"

definition store_get_model_by_external_id :: "ext \<Rightarrow> string \<Rightarrow> string \<Rightarrow> model_row dbop" where
  "store_get_model_by_external_id E tenant_id external_id =
     andThen (lift (parse_field E ''tenant_id'' tenant_id)) (\<lambda>tn.
       sqlGetModelByExternalID tn external_id)"

definition store_list_models :: "ext \<Rightarrow> string \<Rightarrow> list_options \<Rightarrow> model_row list dbop" where
  "store_list_models E tenant_id o1 =
     andThen (lift (parse_field E ''tenant_id'' tenant_id)) (\<lambda>tn.
     andThen (lift (list_boundary E o1)) (\<lambda>before.
       sqlListModels E tn o1 before (oLimit o1) (wrap32 (oOffset o1))))"

definition store_count_models :: "ext \<Rightarrow> string \<Rightarrow> list_options \<Rightarrow> int dbop" where
  "store_count_models E tenant_id o1 =
     andThen (lift (parse_field E ''tenant_id'' tenant_id)) (\<lambda>tn. sqlCountModels E tn o1)"

definition store_list_models_page ::
    "ext \<Rightarrow> string \<Rightarrow> list_options \<Rightarrow> (model_row list \<times> int) dbop" where
  "store_list_models_page E tenant_id o1 =
     transact (andThen (store_count_models E tenant_id o1) (\<lambda>count.
       andThen (store_list_models E tenant_id o1) (\<lambda>rows. ret (rows, count))))"

section \<open>The catalogue\<close>

definition record_of :: "ext \<Rightarrow> model_row \<Rightarrow> model_record" where
  "record_of E r =
     \<lparr>rTenantID = x_uuid_string E (m_tenant_id r), rID = x_uuid_string E (m_id r),
      rExternalModelID = m_model_id r, rName = m_name r, rDisplayName = m_display_name r,
      rDescription = m_description r, rSource = m_source r, rStatus = m_status r,
      rCapabilities = m_capabilities r, rTotalSizeBytes = m_total_size_bytes r,
      rIdempotencyKey = m_idempotency_key r, rSourceRepoID = m_source_repo_id r,
      rErrorMessage = m_error_message r, rCreatedAt = go_time (Some (m_created_at r)),
      rUpdatedAt = go_time (Some (m_updated_at r)), rLatestVersion = None\<rparr>"

definition record_row :: "ext \<Rightarrow> model_row \<Rightarrow> string \<Rightarrow> model_record" where
  "record_row E r tenant = (record_of E r)\<lparr>rTenantID := tenant\<rparr>"

text \<open>\<open>byID[v.ModelID].LatestVersion = &v\<close>, for each row of the query.\<close>

definition attach_latest :: "ext \<Rightarrow> joined list \<Rightarrow> model_record \<Rightarrow> model_record" where
  "attach_latest E rows r =
     (case filter (\<lambda>v. vModelID v = rID r) (map (listed_version E) rows) of
        [] \<Rightarrow> r | vs \<Rightarrow> r\<lparr>rLatestVersion := Some (last vs)\<rparr>)"

fun parse_all :: "ext \<Rightarrow> string list \<Rightarrow> gerr + uuid list" where
  "parse_all E [] = Inr []"
| "parse_all E (x # xs) =
     (case x_uuid_parse E x of
        Inl e \<Rightarrow> Inl e
      | Inr u \<Rightarrow> (case parse_all E xs of Inl e \<Rightarrow> Inl e | Inr us \<Rightarrow> Inr (u # us)))"

definition with_latest_versions ::
    "ext \<Rightarrow> string \<Rightarrow> model_record list \<Rightarrow> model_record list dbop" where
  "with_latest_versions E tenant records =
     (if records = [] then ret []
      else andThen (lift (x_uuid_parse E tenant)) (\<lambda>t.
           andThen (lift (parse_all E (map rID records))) (\<lambda>ids.
           andThen (sqlLatestModelVersions t ids) (\<lambda>rows.
             ret (map (attach_latest E rows) records)))))"

definition catalog_create_model ::
    "ext \<Rightarrow> string \<Rightarrow> string \<Rightarrow> string \<Rightarrow> label \<Rightarrow> label \<Rightarrow> string \<Rightarrow> json \<Rightarrow> token \<Rightarrow>
     model_record dbop" where
  "catalog_create_model E tenant i name display descr src caps key =
     andThen (store_create_model E tenant i name display descr src caps key)
       (\<lambda>r. ret (record_of E r))"

definition catalog_create_model_with_external_id ::
    "ext \<Rightarrow> string \<Rightarrow> string \<Rightarrow> string \<Rightarrow> string \<Rightarrow> label \<Rightarrow> label \<Rightarrow> string \<Rightarrow> json \<Rightarrow>
     token \<Rightarrow> model_record dbop" where
  "catalog_create_model_with_external_id E tenant i external_id name display descr src caps key =
     andThen (store_create_model_with_external_id E tenant i external_id name display descr src caps key)
       (\<lambda>r. ret (record_of E r))"

definition catalog_get_model :: "ext \<Rightarrow> string \<Rightarrow> string \<Rightarrow> model_record dbop" where
  "catalog_get_model E tenant i =
     andThen (store_get_model E tenant i) (\<lambda>r.
     andThen (with_latest_versions E tenant [record_row E r tenant]) (\<lambda>rows. ret (hd rows)))"

definition catalog_get_model_by_external_id :: "ext \<Rightarrow> string \<Rightarrow> string \<Rightarrow> model_record dbop" where
  "catalog_get_model_by_external_id E tenant external_id =
     andThen (store_get_model_by_external_id E tenant external_id) (\<lambda>r.
     andThen (with_latest_versions E tenant [record_of E r]) (\<lambda>rows. ret (hd rows)))"

definition catalog_list_models_page ::
    "ext \<Rightarrow> string \<Rightarrow> list_options \<Rightarrow> (model_record list \<times> int) dbop" where
  "catalog_list_models_page E tenant o1 =
     andThen (store_list_models_page E tenant o1) (\<lambda>(rs, total).
     andThen (with_latest_versions E tenant (map (\<lambda>r. record_row E r tenant) rs)) (\<lambda>out.
       ret (out, total)))"

definition catalog_list_models :: "ext \<Rightarrow> string \<Rightarrow> list_options \<Rightarrow> model_record list dbop" where
  "catalog_list_models E tenant o1 =
     andThen (store_list_models E tenant o1) (\<lambda>rs.
       with_latest_versions E tenant (map (\<lambda>r. record_row E r tenant) rs))"

definition model_name_exists :: "ext \<Rightarrow> string \<Rightarrow> string \<Rightarrow> bool dbop" where
  "model_name_exists E tenant name =
     andThen (lift (x_uuid_parse E tenant)) (\<lambda>i.
       stmt (rd (\<lambda>s. Inr (list_ex (\<lambda>m. m_tenant_id m = i
          \<and> (m_name m = name \<or> m_model_id m = name)) (models s)))))"

section \<open>Artifacts and the audit trail\<close>

definition artifact_from_row :: "ext \<Rightarrow> artifact_row \<Rightarrow> artifact" where
  "artifact_from_row E r =
     \<lparr>aTenantID = x_uuid_string E (a_tenant_id r), aID = x_uuid_string E (a_id r),
      aModelVersionID = x_uuid_string E (a_model_version_id r), aProvider = a_provider r,
      aReference = a_reference r, aFormat = a_format r, aSHA256 = a_sha256 r,
      aSizeBytes = a_size_bytes r, aIsEncrypted = a_is_encrypted r,
      aEncryptAlgo = a_encrypt_algo r\<rparr>"

definition check_valid :: "gerr option \<Rightarrow> gerr + unit" where
  "check_valid r = (case r of None \<Rightarrow> Inr () | Some e \<Rightarrow> Inl e)"

definition create_artifact :: "ext \<Rightarrow> artifact \<Rightarrow> artifact dbop" where
  "create_artifact E a =
     andThen (lift (check_valid (artifact_validate a))) (\<lambda>_.
     andThen (lift (parse_model_ids E (aTenantID a) (aID a))) (\<lambda>(tn, i).
     andThen (lift (parse_field E ''model_version_id'' (aModelVersionID a))) (\<lambda>vid.
     andThen (sqlCreateModelArtifact tn i vid (aProvider a) (aReference a) (aFormat a)
        (aSizeBytes a) (aSHA256 a) (aIsEncrypted a) (aEncryptAlgo a)) (\<lambda>r.
       ret (artifact_from_row E r)))))"

definition get_artifact :: "ext \<Rightarrow> string \<Rightarrow> string \<Rightarrow> artifact dbop" where
  "get_artifact E tenant_id version_id =
     andThen (lift (parse_field E ''tenant_id'' tenant_id)) (\<lambda>tn.
     andThen (lift (parse_field E ''model_version_id'' version_id)) (\<lambda>vid.
     andThen (sqlGetModelArtifact tn vid) (\<lambda>r. ret (artifact_from_row E r))))"

text \<open>The identifier of the new event, \<open>uuid.New()\<close>, is an argument.\<close>

definition audit_insert :: "ext \<Rightarrow> uuid \<Rightarrow> event \<Rightarrow> unit dbop" where
  "audit_insert E fresh e =
     andThen (lift (check_valid (event_validate e))) (\<lambda>_.
     andThen (lift (parse_field E ''tenant_id'' (eTenantID e))) (\<lambda>tn.
     andThen (lift (optional_uuid E ''task_id'' (eTaskID e))) (\<lambda>task0.
     andThen (lift (optional_uuid E ''model_id'' (eModelID e))) (\<lambda>mid.
     andThen (lift (optional_uuid E ''model_version_id'' (eModelVersionID e))) (\<lambda>vid.
     andThen (sqlInsertAuditEvent tn fresh (eActor e) (eWorkload e) (eRequestID e)
        (case task0 of None \<Rightarrow> 0 | Some u \<Rightarrow> u) (eAction e) (eBeforeState e) (eAfterState e)
        (eErrorClass e) mid vid) (\<lambda>_. ret ()))))))"

definition event_from_row ::
    "ext \<Rightarrow> string \<Rightarrow> audit_row \<times> uuid option \<times> uuid option \<Rightarrow> event" where
  "event_from_row E tenant p = (case p of (r, mid, vid) \<Rightarrow>
     \<lparr>eTenantID = tenant, eActor = e_actor r, eWorkload = e_workload r,
      eRequestID = e_request_id r, eTaskID = nullable_uuid_string E (e_task_id r),
      eAction = e_action r, eBeforeState = e_before_state r, eAfterState = e_after_state r,
      eErrorClass = e_error_class r, eID = x_uuid_string E (e_id r),
      eModelID = nullable_uuid_string E mid, eModelVersionID = nullable_uuid_string E vid,
      eCreatedAt = go_time (Some (e_created_at r))\<rparr>)"

definition list_model_operations ::
    "ext \<Rightarrow> string \<Rightarrow> string \<Rightarrow> audit_options \<Rightarrow> (event list \<times> int) dbop" where
  "list_model_operations E tenant model_id o1 =
     andThen (lift (parse_model_ids E tenant model_id)) (\<lambda>(t, m).
     transact (andThen (sqlCountModelOperations t m) (\<lambda>total.
       andThen (sqlListModelOperations t m (auLimit o1) (wrap32 (auOffset o1))) (\<lambda>rows.
         ret (map (event_from_row E tenant) rows, total)))))"

section \<open>Binding a task to existing records\<close>

record metadata =
  xExternalModelID :: string
  xVersion :: string

text \<open>\<open>resolve\<close> is the provider registry with the provider's metadata lookup.\<close>

definition resolve_binding :: "ext \<Rightarrow> (task \<Rightarrow> gerr + metadata) \<Rightarrow> task \<Rightarrow> (string \<times> string) dbop" where
  "resolve_binding E resolve task =
     andThen (lift (resolve task)) (\<lambda>md.
       if trim_space (xExternalModelID md) = [] \<or> trim_space (xVersion md) = []
       then throw (Plain ''provider metadata is incomplete'')
       else andThen (lift (parse_field E ''tenant_id'' (wTenantID task))) (\<lambda>tn.
            andThen (sqlGetModelByExternalID tn (xExternalModelID md)) (\<lambda>m.
            andThen (sqlGetModelVersionForImport tn (m_id m) (xVersion md)) (\<lambda>vid.
              ret (x_uuid_string E (m_id m), x_uuid_string E vid)))))"

section \<open>The relations the methods keep\<close>

lemmas catalog_defs = create_model_parsed_def store_create_model_def
  store_create_model_with_external_id_def store_get_model_def store_get_model_by_external_id_def
  store_list_models_def store_count_models_def store_list_models_page_def
  with_latest_versions_def catalog_create_model_def catalog_create_model_with_external_id_def
  catalog_get_model_def catalog_get_model_by_external_id_def catalog_list_models_page_def
  catalog_list_models_def model_name_exists_def create_artifact_def get_artifact_def
  audit_insert_def list_model_operations_def resolve_binding_def

lemma so_catalog:
  "steps_in sound (catalog_create_model E a b n d ds src caps key)"
  "steps_in sound (catalog_create_model_with_external_id E a b x n d ds src caps key)"
  "steps_in sound (catalog_get_model E a b)"
  "steps_in sound (catalog_get_model_by_external_id E a x)"
  "steps_in sound (catalog_list_models_page E a o1)"
  "steps_in sound (catalog_list_models E a o1)"
  "steps_in sound (store_count_models E a o1)"
  "steps_in sound (model_name_exists E a n)"
  "steps_in sound (create_artifact E art)"
  "steps_in sound (get_artifact E a b)"
  "steps_in sound (audit_insert E fresh e)"
  "steps_in sound (list_model_operations E a b oa)"
  "steps_in sound (resolve_binding E resolve task)"
  unfolding catalog_defs Let_def
  by (intro so.steps_basic so.steps_transact so.steps_rd so.steps_stmt sql_so steps_intros)+

lemma fr_catalog:
  assumes "x_uuid_parse E a = Inr tn"
  shows "steps_in (frame tn) (catalog_create_model E a b n d ds src caps key)"
    and "steps_in (frame tn) (catalog_create_model_with_external_id E a b x n d ds src caps key)"
  unfolding catalog_create_model_def catalog_create_model_with_external_id_def
    store_create_model_def store_create_model_with_external_id_def create_model_parsed_def Let_def
  by (rule fr.steps_andThen, rule fr_after_ids [OF assms], simp only: prod.case,
      intro fr.steps_basic sql_fr steps_intros, intro fr.steps_basic)+

lemma fr_artifact:
  assumes "x_uuid_parse E (aTenantID art) = Inr tn"
  shows "steps_in (frame tn) (create_artifact E art)"
  unfolding create_artifact_def
  by (rule fr.steps_andThen [OF fr.steps_lift], rule fr_after_ids [OF assms], simp only: prod.case,
      intro fr.steps_basic sql_fr)

lemma fr_audit:
  assumes "x_uuid_parse E (eTenantID e) = Inr tn"
  shows "steps_in (frame tn) (audit_insert E fresh e)"
  unfolding audit_insert_def
  by (rule fr.steps_andThen [OF fr.steps_lift], rule fr_after_field [OF assms],
      intro fr.steps_basic sql_fr)

end
