(* ===== verification/Messages.thy ===== *)
theory Messages
  imports CatalogStore
begin

text \<open>
  The request and response messages of \<open>api/model/v1/model.proto\<close> as the handlers read and
  build them (an absent sub-message or optional field is \<open>None\<close>, a scalar has its zero
  value when absent), and the conversions of \<open>internal/service/model.go\<close> from the domain
  values. \<open>Unknown\<close> fields hold the bytes protobuf keeps of fields it does not know.
\<close>

section \<open>Responses\<close>

record version_msg =
  mvId :: string
  mvModelId :: string
  mvVersion :: string
  mvFormat :: string
  mvStatus :: string
  mvChecksumSha256 :: string
  mvStoragePath :: string
  mvEngineType :: string
  mvEngineImage :: string
  mvRecommendedImageId :: string
  mvRecommendedImageScope :: string
  mvStartupCommand :: string
  mvSizeBytes :: int
  mvIsEncrypted :: bool
  mvEncryptAlgo :: string
  mvEncryptHint :: string
  mvCreatedAt :: "int option"

record model_msg =
  mmTenantId :: string
  mmId :: string
  mmModelId :: string
  mmName :: string
  mmDisplayName :: string
  mmDescription :: string
  mmSource :: string
  mmCapabilities :: "string list"
  mmStatus :: string
  mmTotalSizeBytes :: int
  mmSourceRepoId :: string
  mmErrorMessage :: string
  mmCreatedAt :: "int option"
  mmUpdatedAt :: "int option"
  mmVersions :: "version_msg list"

record import_task_msg =
  mtTaskId :: string
  mtTaskType :: string
  mtStatus :: string
  mtModelId :: string
  mtModelVersionId :: string
  mtAttemptCount :: int
  mtProgressPct :: int
  mtErrorMessage :: string
  mtCreatedAt :: "int option"
  mtCompletedAt :: "int option"

record operation_msg =
  moId :: string
  moModelId :: string
  moModelVersionId :: string
  moTaskId :: string
  moAction :: string
  moActor :: string
  moResult :: string
  moBeforeState :: string
  moAfterState :: string
  moErrorClass :: string
  moRequestId :: string
  moCreatedAt :: "int option"

record candidate_msg =
  mcSource :: string
  mcRepoId :: string
  mcName :: string
  mcDisplayName :: string
  mcDescription :: string
  mcRevision :: string
  mcSizeBytes :: int
  mcTags :: "string list"
  mcUpdatedAt :: "int option"

record bundle_msg =
  mbModel :: model_msg
  mbVersion :: version_msg
  mbTask :: import_task_msg

record download_msg =
  mdDownloadUrl :: string
  mdStoragePath :: string
  mdExpiresAt :: int

record upload_msg =
  muUploadUrl :: string
  muStoragePath :: string
  muDocId :: string
  muExpiresAt :: int

record logs_msg =
  mlTaskId :: string
  mlStatus :: string
  mlLogs :: string
  mlAvailable :: bool

definition proto_time :: "int \<Rightarrow> int option" where
  "proto_time t = (if t = 0 then None else Some t)"

definition to_proto_version :: "version \<Rightarrow> version_msg" where
  "to_proto_version v =
     \<lparr>mvId = vID v, mvModelId = (if vExternalModelID v = [] then vModelID v else vExternalModelID v),
      mvVersion = vVersion v, mvFormat = vFormat v, mvStatus = vStatus v,
      mvChecksumSha256 = vArtifactSHA256 v, mvStoragePath = vArtifactReference v,
      mvEngineType = vEngineType v, mvEngineImage = vEngineImage v,
      mvRecommendedImageId = vRecommendedImageID v,
      mvRecommendedImageScope = vRecommendedImageScope v,
      mvStartupCommand = vStartupCommand v, mvSizeBytes = vSizeBytes v,
      mvIsEncrypted = vIsEncrypted v, mvEncryptAlgo = vEncryptAlgo v,
      mvEncryptHint = vEncryptHint v, mvCreatedAt = proto_time (vCreatedAt v)\<rparr>"

definition to_proto_model :: "ext \<Rightarrow> model_record \<Rightarrow> model_msg" where
  "to_proto_model E r =
     \<lparr>mmTenantId = rTenantID r, mmId = rID r,
      mmModelId = (if rExternalModelID r = [] then rName r else rExternalModelID r),
      mmName = rName r, mmDisplayName = rDisplayName r, mmDescription = rDescription r,
      mmSource = rSource r, mmCapabilities = fst (x_json_strings E (rCapabilities r)),
      mmStatus = rStatus r, mmTotalSizeBytes = rTotalSizeBytes r,
      mmSourceRepoId = rSourceRepoID r, mmErrorMessage = rErrorMessage r,
      mmCreatedAt = proto_time (rCreatedAt r), mmUpdatedAt = proto_time (rUpdatedAt r),
      mmVersions = (case rLatestVersion r of None \<Rightarrow> [] | Some v \<Rightarrow> [to_proto_version v])\<rparr>"

definition to_proto_import_task :: "task \<Rightarrow> import_task_msg" where
  "to_proto_import_task t =
     \<lparr>mtTaskId = wID t, mtTaskType = wTaskType t, mtStatus = wStatus t, mtModelId = wModelID t,
      mtModelVersionId = wVersionID t, mtAttemptCount = wrap32 (wAttemptCount t),
      mtProgressPct = wrap32 (wProgressPct t),
      mtErrorMessage = (if wStatus t = TaskCompleted then [] else wErrorMessage t),
      mtCreatedAt = proto_time (wCreatedAt t), mtCompletedAt = proto_time (wCompletedAt t)\<rparr>"

definition to_proto_operation :: "event \<Rightarrow> operation_msg" where
  "to_proto_operation e =
     \<lparr>moId = eID e, moModelId = eModelID e, moModelVersionId = eModelVersionID e,
      moTaskId = eTaskID e, moAction = eAction e, moActor = eActor e,
      moResult = event_result e, moBeforeState = eBeforeState e, moAfterState = eAfterState e,
      moErrorClass = eErrorClass e, moRequestId = eRequestID e,
      moCreatedAt = proto_time (eCreatedAt e)\<rparr>"

definition to_candidate :: "search_result \<Rightarrow> candidate_msg" where
  "to_candidate r =
     \<lparr>mcSource = sSource r, mcRepoId = sRepoID r, mcName = sName r,
      mcDisplayName = sDisplayName r, mcDescription = sDescription r, mcRevision = sRevision r,
      mcSizeBytes = sSizeBytes r, mcTags = sTags r, mcUpdatedAt = proto_time (sUpdatedAt r)\<rparr>"

section \<open>Requests\<close>

record model_selector_req =
  msTenantId :: string
  msModelId :: string

record create_model_req =
  cmTenantId :: string
  cmName :: string
  cmDisplayName :: string
  cmDescription :: string
  cmCapabilities :: "string list"
  cmIdempotencyKey :: string
  cmModelId :: string

record get_version_req =
  gvTenantId :: string
  gvModelVersionId :: string
  gvModelId :: string
  gvVersion :: string

record list_models_req =
  lmTenantId :: string
  lmStatus :: string
  lmKeyword :: string
  lmSource :: string
  lmCapability :: string
  lmPage :: "int option"
  lmPageSize :: "int option"

record search_req =
  srTenantId :: string
  srSource :: string
  srKeyword :: string
  srOwner :: string
  srTask :: string
  srLibrary :: string
  srPage :: "int option"
  srPageSize :: "int option"

record list_versions_req =
  lvTenantId :: string
  lvModelId :: string
  lvPage :: "int option"
  lvPageSize :: "int option"
  lvStatus :: string

record version_selector_req =
  vsTenantId :: string
  vsModelVersionId :: string

record create_version_req =
  cvTenantId :: string
  cvModelId :: string
  cvVersion :: string
  cvFormat :: string
  cvStoragePath :: string
  cvChecksumSha256 :: string
  cvSizeBytes :: int
  cvIsEncrypted :: bool
  cvEncryptAlgo :: string
  cvEncryptHint :: string
  cvIdempotencyKey :: string
  cvEngineType :: string
  cvStartupCommand :: string
  cvEngineImage :: string
  cvRecommendedImageId :: string
  cvRecommendedImageScope :: string

record upload_url_req =
  uuTenantId :: string
  uuModelId :: string
  uuVersion :: string
  uuFileName :: string
  uuSizeBytes :: int
  uuIdempotencyKey :: string
  uuChecksumSha256 :: string

record download_url_req =
  duTenantId :: string
  duModelVersionId :: string
  duRequester :: string

record import_req =
  imTenantId :: string
  imSource :: string
  imRepoId :: string
  imRevision :: string
  imIdempotencyKey :: string
  imModelId :: string
  imModelVersionId :: string

record bundle_model_data =
  bmName :: string
  bmDisplayName :: string
  bmDescription :: string
  bmCapabilities :: "string list"
  bmExternalModelId :: string

record bundle_version_data =
  bvVersion :: string
  bvFormat :: string
  bvEngineType :: string
  bvEngineImage :: string
  bvStartupCommand :: string
  bvRecommendedImageId :: string
  bvRecommendedImageScope :: string

record bundle_source_data =
  bsProvider :: string
  bsRepoId :: string
  bsRevision :: string

record bundle_req =
  brTenantId :: string
  brIdempotencyKey :: string
  brModel :: "bundle_model_data option"
  brVersion :: "bundle_version_data option"
  brSource :: "bundle_source_data option"

record task_req =
  tkTenantId :: string
  tkTaskId :: string

record operations_req =
  opTenantId :: string
  opModelId :: string
  opPage :: "int option"
  opPageSize :: "int option"

section \<open>Pages\<close>

definition no_options :: list_options where
  "no_options = \<lparr>oStatus = [], oKeyword = [], oSource = [], oCapability = [], oLimit = 0,
     oOffset = 0, oBeforeCreatedAt = 0, oBeforeID = []\<rparr>"

text \<open>\<open>resolvePage\<close>: \<open>p\<close> and \<open>size\<close> are \<open>int32\<close> values widened to \<open>int64\<close>.\<close>

definition resolve_page :: "int option \<Rightarrow> int option \<Rightarrow> gerr + list_options" where
  "resolve_page page page_size =
     (let p = (case page of None \<Rightarrow> 1 | Some n \<Rightarrow> n);
          size = (case page_size of None \<Rightarrow> 20 | Some n \<Rightarrow> n)
      in if p < 1 \<or> size < 1 \<or> 100 < size
         then Inl (kerr 400 ''INVALID_ARGUMENT''
                ''page must be positive and page_size must be between 1 and 100'')
         else if trunc_div max_int32 size < p - 1
         then Inl (kerr 400 ''INVALID_ARGUMENT'' ''page offset overflows'')
         else Inr (no_options\<lparr>oLimit := wrap32 size, oOffset := wrap64 ((p - 1) * size)\<rparr>))"

end
