(* ===== verification/Access.thy ===== *)
theory Access
  imports Errors
begin

text \<open>
  Who may call what, and for which tenant: \<open>internal/identity/context.go\<close>,
  \<open>internal/server/identity.go\<close>, and the client-certificate identity, the RPC policy, the
  principal middleware and the call budgets of \<open>cmd/ani-model-service\<close>
  (\<open>grpc_tls.go\<close>, \<open>rpc_policy.go\<close>). A call's \<open>context.Context\<close> is the record \<open>call\<close> of
  the values the service reads from it; a handler is a function of the context and the
  request into an operation, and a middleware a function from handlers to handlers. The TLS
  state of a connection (the verified chains included) is what \<open>crypto/tls\<close> reports.
\<close>

section \<open>Principals\<close>

record principal =
  pTenantID :: string
  pActor :: string
  pWorkload :: string
  pRequestID :: string
  pScopes :: "string list"

definition principal_valid :: "principal \<Rightarrow> bool" where
  "principal_valid p \<longleftrightarrow> pTenantID p \<noteq> [] \<and> pActor p \<noteq> [] \<and> pWorkload p \<noteq> []"

definition has_scope :: "principal \<Rightarrow> string \<Rightarrow> bool" where
  "has_scope p scope \<longleftrightarrow> list_ex (\<lambda>c. c = scope \<or> c = ''*'') (pScopes p)"

text \<open>A certificate's subject alternative names, a connection, and a call.\<close>

record certificate =
  dns_names :: "string list"
  san_uris :: "string list"
  ip_addresses :: "string list"
  email_addresses :: "string list"

record tls_state =
  tls_version :: nat
  verified_chains :: "certificate option list list"
  peer_certificates :: "certificate option list"

datatype peer = OtherConn | TlsConn tls_state

record call =
  c_operation :: "string option"
  c_peer :: "peer option"
  c_metadata :: "(string \<Rightarrow> string list) option"
  c_deadline :: "int option"
  c_principal :: "principal option"

type_synonym ('q, 's, 'a) handler = "call \<Rightarrow> 'q \<Rightarrow> ('s, gerr, 'a) oper"

definition with_principal :: "call \<Rightarrow> principal \<Rightarrow> call" where
  "with_principal ctx p = ctx\<lparr>c_principal := Some p\<rparr>"

definition from_context :: "call \<Rightarrow> gerr + principal" where
  "from_context ctx =
     (case c_principal ctx of
        None \<Rightarrow> Inl ErrMissingPrincipal
      | Some p \<Rightarrow> if principal_valid p then Inr p else Inl ErrMissingPrincipal)"

definition require_tenant :: "call \<Rightarrow> string \<Rightarrow> gerr + principal" where
  "require_tenant ctx request_tenant =
     (case from_context ctx of
        Inl e \<Rightarrow> Inl e
      | Inr p \<Rightarrow> if request_tenant \<noteq> [] \<and> request_tenant \<noteq> pTenantID p
                 then Inl ErrTenantMismatch else Inr p)"

text \<open>\<open>kratoserrors.IsUnauthorized\<close>: the HTTP code of the error, a gRPC status being converted.\<close>

fun is_unauthorized :: "gerr \<Rightarrow> bool" where
  "is_unauthorized (KError code reason m md) \<longleftrightarrow> code = 401"
| "is_unauthorized (GrpcStatus code m) \<longleftrightarrow> code = CodeUnauthenticated"
| "is_unauthorized (Wrap m e) \<longleftrightarrow> is_unauthorized e"
| "is_unauthorized (Noted e m) \<longleftrightarrow> is_unauthorized e"
| "is_unauthorized _ \<longleftrightarrow> False"

definition principal_middleware ::
    "(call \<Rightarrow> gerr + principal) option \<Rightarrow> ('q, 's, 'a) handler \<Rightarrow> ('q, 's, 'a) handler" where
  "principal_middleware resolver next_handler ctx req =
     (case resolver of
        None \<Rightarrow> next_handler ctx req
      | Some resolve \<Rightarrow>
          (case resolve ctx of
             Inl e \<Rightarrow>
               if is_unauthorized e then throw e
               else if err_is e ErrMissingPrincipal
               then throw (kerr 401 ''PRINCIPAL_UNAVAILABLE'' ''trusted principal is unavailable'')
               else throw (kerr 401 ''PRINCIPAL_UNAVAILABLE'' ''trusted principal could not be resolved'')
           | Inr p \<Rightarrow>
               if \<not> principal_valid p
               then throw (kerr 401 ''PRINCIPAL_INVALID'' ''trusted principal is invalid'')
               else next_handler (with_principal ctx p) req))"

section \<open>The client's identity\<close>

definition dns_forbidden :: string where
  "dns_forbidden = [CHR ''*'', CHR '':'', CHR ''/'', CHR 0x5C, CHR '' '', CHR 0x09, CHR 0x0D, CHR 0x0A]"

definition client_dns_identity :: "ext \<Rightarrow> certificate option \<Rightarrow> gerr + string" where
  "client_dns_identity E cert =
     (case cert of
        None \<Rightarrow> Inl (Plain ''client certificate must contain exactly one DNS SAN and no URI, IP, or email SANs'')
      | Some c \<Rightarrow>
          (case dns_names c of
             [dns] \<Rightarrow>
               if san_uris c \<noteq> [] \<or> ip_addresses c \<noteq> [] \<or> email_addresses c \<noteq> []
               then Inl (Plain ''client certificate must contain exactly one DNS SAN and no URI, IP, or email SANs'')
               else if trim_space dns = [] \<or> contains_any dns dns_forbidden
               then Inl (Plain (''invalid client DNS SAN: '' @ x_quote E dns @ '' (wildcards not allowed)''))
               else Inr dns
           | _ \<Rightarrow> Inl (Plain ''client certificate must contain exactly one DNS SAN and no URI, IP, or email SANs'')))"

text \<open>The \<open>VerifyPeerCertificate\<close> callback of the server's TLS configuration.\<close>

definition verify_peer_certificate :: "ext \<Rightarrow> certificate option list list \<Rightarrow> gerr option" where
  "verify_peer_certificate E verified =
     (case verified of
        (leaf # _) # _ \<Rightarrow>
          (case client_dns_identity E leaf of Inl e \<Rightarrow> Some e | Inr _ \<Rightarrow> None)
      | _ \<Rightarrow> Some (Plain ''unverified client certificate chain''))"

definition extract_client_identity :: "ext \<Rightarrow> call \<Rightarrow> gerr + string" where
  "extract_client_identity E ctx =
     (case c_peer ctx of
        None \<Rightarrow> Inl (Plain ''no peer info'')
      | Some OtherConn \<Rightarrow> Inl (Plain ''not a TLS connection'')
      | Some (TlsConn st) \<Rightarrow>
          if tls_version st < 0x0304 then Inl (Plain ''TLS 1.3 is required'')
          else (case verified_chains st of
             (leaf # _) # _ \<Rightarrow>
               if peer_certificates st = [] then Inl (Plain ''no client certificate'')
               else client_dns_identity E leaf
           | _ \<Rightarrow> Inl (Plain ''unverified client certificate chain'')))"

section \<open>The RPC policy\<close>

type_synonym rpc_policy = "string \<Rightarrow> string \<Rightarrow> bool"

definition static_is_allowed :: "(string \<times> string list) list \<Rightarrow> rpc_policy" where
  "static_is_allowed p client rpc =
     (case map_of p client of
        None \<Rightarrow> False
      | Some allowed \<Rightarrow> list_ex (\<lambda>m. m = rpc) allowed)"

definition validated_is_allowed :: "rpc_policy \<Rightarrow> (string \<times> string) list \<Rightarrow> rpc_policy" where
  "validated_is_allowed underlying expected client rpc =
     (case map_of expected client of None \<Rightarrow> False | Some _ \<Rightarrow> underlying client rpc)"

definition governanceClientIdentity :: string where
  "governanceClientIdentity = ''ani-governance''"

definition modeldevClientIdentity :: string where
  "modeldevClientIdentity = ''ani-modeldev-service''"

definition inferenceClientIdentity :: string where
  "inferenceClientIdentity = ''ani-inference.ani.internal''"

definition policy_table :: "(string \<times> string list) list" where
  "policy_table =
     [(inferenceClientIdentity,
        [''/model.v1.ModelService/GetModel'',
         ''/model.v1.ModelService/GetModelVersion'',
         ''/model.v1.ModelService/GetModelDownloadURL'']),
      (modeldevClientIdentity,
        [''/model.v1.ModelService/ResolveFinetuningFacts'',
         ''/model.v1.ModelService/GetTrainedArtifactRegistration'',
         ''/model.v1.ModelService/GetTrainedArtifactUploadURL'',
         ''/model.v1.ModelService/PrepareTrainedArtifact'',
         ''/model.v1.ModelService/CompleteTrainedArtifact'',
         ''/model.v1.ModelService/AbortTrainedArtifact'']),
      (governanceClientIdentity,
        [''/model.v1.ModelService/CreateModel'',
         ''/model.v1.ModelService/GetModel'',
         ''/model.v1.ModelService/ListModels'',
         ''/model.v1.ModelService/DeleteModel'',
         ''/model.v1.ModelService/GetModelVersion'',
         ''/model.v1.ModelService/ListModelVersions'',
         ''/model.v1.ModelService/ListModelOperations'',
         ''/model.v1.ModelService/DeleteModelVersion'',
         ''/model.v1.ModelService/CreateModelVersion'',
         ''/model.v1.ModelService/GetUploadURL'',
         ''/model.v1.ModelService/ImportModel'',
         ''/model.v1.ModelService/ImportModelBundle'',
         ''/model.v1.ModelService/GetImportTask'',
         ''/model.v1.ModelService/GetImportTaskLogs'',
         ''/model.v1.ModelService/RetryImportTask'',
         ''/model.v1.ModelService/GetModelDownloadURL'',
         ''/model.v1.ModelService/SearchExternalModels'',
         ''/model.v1.ModelService/PrepareTrainedArtifact'',
         ''/model.v1.ModelService/CompleteTrainedArtifact'',
         ''/model.v1.ModelService/AbortTrainedArtifact''])]"

definition expected_identities :: "(string \<times> string) list" where
  "expected_identities =
     [(inferenceClientIdentity, ''Inference Service''),
      (governanceClientIdentity, ''Governance Service''),
      (modeldevClientIdentity, ''ModelDev Service'')]"

definition model_service_policy :: rpc_policy where
  "model_service_policy = validated_is_allowed (static_is_allowed policy_table) expected_identities"

definition is_health :: "string \<Rightarrow> bool" where
  "is_health rpc \<longleftrightarrow> rpc = ''/grpc.health.v1.Health/Check'' \<or> rpc = ''/grpc.health.v1.Health/Watch''"

definition rpc_policy_middleware ::
    "ext \<Rightarrow> rpc_policy \<Rightarrow> ('q, 's, 'a) handler \<Rightarrow> ('q, 's, 'a) handler" where
  "rpc_policy_middleware E policy next_handler ctx req =
     (case c_operation ctx of
        None \<Rightarrow> throw (GrpcStatus CodeInternal ''transport context unavailable'')
      | Some rpc \<Rightarrow>
          (case extract_client_identity E ctx of
             Inl e \<Rightarrow> throw (GrpcStatus CodeUnauthenticated
                        (''client identity unavailable: '' @ error_text E e))
           | Inr client \<Rightarrow>
               if is_health rpc then next_handler ctx req
               else if \<not> policy client rpc
               then throw (GrpcStatus CodePermissionDenied
                      (''client '' @ x_quote E client @ '' not authorized for method '' @ x_quote E rpc))
               else next_handler ctx req))"

section \<open>The asserted tenant and actor\<close>

definition single_metadata_value ::
    "ext \<Rightarrow> (string \<Rightarrow> string list) \<Rightarrow> string \<Rightarrow> bool \<Rightarrow> gerr + string" where
  "single_metadata_value E md key required =
     (case md key of
        [] \<Rightarrow> if required then Inl (Plain (''metadata '' @ x_quote E key @ '' is required'')) else Inr []
      | [v] \<Rightarrow>
          let val = trim_space v in
          if val = [] then Inl (Plain (''metadata '' @ x_quote E key @ '' must not be empty''))
          else if contains_any val [CHR 0x0D, CHR 0x0A]
          then Inl (Plain (''metadata '' @ x_quote E key @ '' contains a newline''))
          else Inr val
      | _ \<Rightarrow> Inl (Plain (''metadata '' @ x_quote E key @ '' must contain exactly one value'')))"

text \<open>The loop over the keys, with the value found so far.\<close>

fun consistent_values ::
    "ext \<Rightarrow> (string \<Rightarrow> string list) \<Rightarrow> string \<Rightarrow> string \<Rightarrow> string list \<Rightarrow> gerr + string" where
  "consistent_values E md key0 val [] = Inr val"
| "consistent_values E md key0 val (key # keys) =
     (case single_metadata_value E md key False of
        Inl e \<Rightarrow> Inl e
      | Inr candidate \<Rightarrow>
          if candidate = [] then consistent_values E md key0 val keys
          else if val = [] then consistent_values E md key0 candidate keys
          else if val \<noteq> candidate
          then Inl (Plain (''metadata '' @ x_quote E key0 @ '' and '' @ x_quote E key @ '' conflict''))
          else consistent_values E md key0 val keys)"

definition single_consistent_metadata_value ::
    "ext \<Rightarrow> (string \<Rightarrow> string list) \<Rightarrow> string list \<Rightarrow> gerr + string" where
  "single_consistent_metadata_value E md keys =
     (case consistent_values E md (hd keys) [] keys of
        Inl e \<Rightarrow> Inl e
      | Inr val \<Rightarrow> if val = [] then Inl (Plain (''metadata '' @ x_quote E (hd keys) @ '' is required''))
                   else Inr val)"

definition modeldev_principal :: "ext \<Rightarrow> call \<Rightarrow> gerr + principal" where
  "modeldev_principal E ctx =
     (case c_metadata ctx of
        None \<Rightarrow> Inl (Plain ''incoming metadata unavailable'')
      | Some md \<Rightarrow>
     (case single_metadata_value E md ''x-ani-tenant-id'' True of Inl e \<Rightarrow> Inl e | Inr tenant \<Rightarrow>
     (case single_metadata_value E md ''x-ani-actor'' True of Inl e \<Rightarrow> Inl e | Inr actor \<Rightarrow>
      if \<not> has_prefix actor ''modeldev:'' then Inl (Plain ''modeldev audit actor required'')
      else
     (case single_metadata_value E md ''x-ani-request-id'' True of Inl e \<Rightarrow> Inl e | Inr request \<Rightarrow>
        Inr \<lparr>pTenantID = tenant, pActor = actor, pWorkload = modeldevClientIdentity,
             pRequestID = request, pScopes = []\<rparr>))))"

definition inference_principal :: "ext \<Rightarrow> call \<Rightarrow> gerr + principal" where
  "inference_principal E ctx =
     (case c_metadata ctx of
        None \<Rightarrow> Inl (Plain ''incoming metadata unavailable'')
      | Some md \<Rightarrow>
     (case single_consistent_metadata_value E md [''x-ani-tenant-id'', ''x-tenant-id''] of
        Inl e \<Rightarrow> Inl e | Inr tenant \<Rightarrow>
     (case single_metadata_value E md ''x-ani-request-id'' True of Inl e \<Rightarrow> Inl e | Inr request \<Rightarrow>
        Inr \<lparr>pTenantID = tenant, pActor = ''inference:service'', pWorkload = inferenceClientIdentity,
             pRequestID = request, pScopes = []\<rparr>)))"

definition governance_principal :: "ext \<Rightarrow> call \<Rightarrow> gerr + principal" where
  "governance_principal E ctx =
     (case c_metadata ctx of
        None \<Rightarrow> Inl (Plain ''incoming metadata unavailable'')
      | Some md \<Rightarrow>
     (case single_metadata_value E md ''x-ani-tenant-id'' True of Inl e \<Rightarrow> Inl e | Inr tenant \<Rightarrow>
     (case single_metadata_value E md ''x-ani-actor'' True of Inl e \<Rightarrow> Inl e | Inr actor \<Rightarrow>
      if \<not> has_prefix actor ''governance:''
      then Inl (Plain (''metadata '' @ x_quote E ''x-ani-actor'' @ '' must identify a governance actor''))
      else
     (case single_metadata_value E md ''x-ani-request-id'' True of Inl e \<Rightarrow> Inl e | Inr request \<Rightarrow>
        Inr \<lparr>pTenantID = tenant, pActor = actor, pWorkload = governanceClientIdentity,
             pRequestID = request, pScopes = []\<rparr>))))"

definition bind_principal ::
    "ext \<Rightarrow> string \<Rightarrow> (call \<Rightarrow> gerr + principal) \<Rightarrow> ('q, 's, 'a) handler \<Rightarrow> ('q, 's, 'a) handler" where
  "bind_principal E who principal_of next_handler ctx req =
     (case principal_of ctx of
        Inl e \<Rightarrow> throw (GrpcStatus CodeUnauthenticated
                   (who @ '' identity unavailable: '' @ error_text E e))
      | Inr p \<Rightarrow> next_handler (with_principal ctx p) req)"

definition model_principal_middleware ::
    "ext \<Rightarrow> ('q, 's, 'a) handler \<Rightarrow> ('q, 's, 'a) handler" where
  "model_principal_middleware E next_handler ctx req =
     (if (case c_operation ctx of None \<Rightarrow> False | Some rpc \<Rightarrow> is_health rpc) then next_handler ctx req
      else (case extract_client_identity E ctx of
         Inl e \<Rightarrow> throw (GrpcStatus CodeUnauthenticated
                    (''client identity unavailable: '' @ error_text E e))
       | Inr client \<Rightarrow>
           if client \<noteq> governanceClientIdentity then
             if client = modeldevClientIdentity
             then bind_principal E ''modeldev'' (modeldev_principal E) next_handler ctx req
             else if client = inferenceClientIdentity
             then bind_principal E ''inference'' (inference_principal E) next_handler ctx req
             else next_handler ctx req
           else bind_principal E ''governance'' (governance_principal E) next_handler ctx req))"

section \<open>Call budgets\<close>

text \<open>\<open>context.WithTimeout\<close> keeps the earlier of the two deadlines.\<close>

definition with_timeout :: "int \<Rightarrow> call \<Rightarrow> int \<Rightarrow> call" where
  "with_timeout now ctx d = ctx\<lparr>c_deadline := Some
     (case c_deadline ctx of None \<Rightarrow> now + d | Some t \<Rightarrow> min t (now + d))\<rparr>"

text \<open>
  \<open>verifying\<close> tells of a request whether it is a \<open>GetTrainedArtifactRegistrationRequest\<close> that
  asks for the uploaded object to be verified.
\<close>

definition model_method_budget ::
    "('q \<Rightarrow> bool) \<Rightarrow> int \<Rightarrow> int \<Rightarrow> int \<Rightarrow> ('q, 's, 'a) handler \<Rightarrow> ('q, 's, 'a) handler" where
  "model_method_budget verifying now short resolution next_handler ctx req =
     (let budget = (if c_operation ctx = Some ''/model.v1.ModelService/ResolveFinetuningFacts''
                    then resolution else short);
          caller_deadline =
            (c_operation ctx = Some ''/model.v1.ModelService/CompleteTrainedArtifact''
             \<or> c_operation ctx = Some ''/model.v1.ModelService/GetTrainedArtifactRegistration''
               \<and> verifying req)
      in if caller_deadline then
           (case c_deadline ctx of
              None \<Rightarrow> throw (kerr 400 ''CALLER_DEADLINE_REQUIRED''
                        ''trained object verification requires a caller deadline'')
            | Some _ \<Rightarrow> next_handler ctx req)
         else next_handler (with_timeout now ctx budget) req)"

text \<open>
  The chain \<open>buildAppWithModelService\<close> installs, outermost first (the tracing, logging,
  metrics and recovery middlewares of the library around it pass calls through).
\<close>

definition rpc_chain ::
    "ext \<Rightarrow> ('q \<Rightarrow> bool) \<Rightarrow> int \<Rightarrow> int \<Rightarrow> int \<Rightarrow> ('q, 's, 'a) handler \<Rightarrow> ('q, 's, 'a) handler" where
  "rpc_chain E verifying now short resolution next_handler =
     model_method_budget verifying now short resolution
       (principal_middleware None
         (rpc_policy_middleware E model_service_policy
           (model_principal_middleware E next_handler)))"

end
