(* ===== verification/BundleStore.thy ===== *)
theory BundleStore
  imports CatalogStore
begin

text \<open>
  The aggregate import, \<open>internal/data/postgres/import_bundle_store.go\<close>: a model, its
  version and its import task are created in one transaction, or replayed by their common
  idempotency key. The identifiers \<open>uuid.New()\<close> draws are arguments. The lemmas show
  that the aggregate appears whole or not at all, whatever fails on the way.
\<close>

definition bundle_payload :: "bundle_import \<Rightarrow> string" where
  "bundle_payload b = json_object
     ([(''TenantID'', json_quote (bTenantID b)),
       (''IdempotencyKey'', json_quote (bIdempotencyKey b)),
       (''Name'', json_quote (bName b)), (''DisplayName'', json_quote (bDisplayName b)),
       (''Description'', json_quote (bDescription b)),
       (''ExternalModelID'', json_quote (bExternalModelID b)),
       (''Capabilities'', json_array (bCapabilities b)),
       (''Version'', json_quote (bVersion b)), (''Format'', json_quote (bFormat b)),
       (''EngineType'', json_quote (bEngineType b)),
       (''EngineImage'', json_quote (bEngineImage b)),
       (''StartupCommand'', json_quote (bStartupCommand b)),
       (''Provider'', json_quote (bProvider b)), (''RepoID'', json_quote (bRepoID b)),
       (''Revision'', json_quote (bRevision b))]
      @ omit_empty ''RecommendedImageID'' (bRecommendedImageID b)
      @ omit_empty ''RecommendedImageScope'' (bRecommendedImageScope b))"

definition bundle_fingerprint :: "ext \<Rightarrow> bundle_import \<Rightarrow> string" where
  "bundle_fingerprint E b = fingerprint E (bundle_payload b)"

definition bundle_conflict :: gerr where
  "bundle_conflict = PgError ''23505'' ''model bundle idempotency key payload conflict''"

definition is_unique_violation :: "gerr \<Rightarrow> bool" where
  "is_unique_violation e \<longleftrightarrow> as_pg e = Some ''23505''"

record bundle_ids =
  idModel :: uuid
  idVersion :: uuid
  idTask :: uuid

definition bundle_result_of ::
    "ext \<Rightarrow> bundle_import \<Rightarrow> model_row \<Rightarrow> version_row \<Rightarrow> task_row \<Rightarrow> bundle_result" where
  "bundle_result_of E b m v t =
     \<lparr>uModel = record_of E m,
      uVersion = (version_from_row E v (bTenantID b))\<lparr>vExternalModelID := m_model_id m\<rparr>,
      uTaskID = x_uuid_string E (t_id t), uTaskType = t_task_type t, uTaskStatus = t_status t\<rparr>"

text \<open>The three lookups by idempotency key; all of them run, whatever they return.\<close>

definition bundle_lookups ::
    "uuid \<Rightarrow> string \<Rightarrow> ((gerr + model_row) \<times> (gerr + version_row) \<times> (gerr + task_row)) dbop" where
  "bundle_lookups tn key =
     inspect (sqlGetBundleModelByIdempotency tn key) (\<lambda>m.
     inspect (sqlGetBundleVersionByIdempotency tn key) (\<lambda>v.
     inspect (sqlGetBundleTaskByIdempotency tn key) (\<lambda>t. ret (m, v, t))))"

definition hard_error :: "gerr + 'a \<Rightarrow> gerr option" where
  "hard_error r = (case r of Inr _ \<Rightarrow> None
     | Inl e \<Rightarrow> if err_is e ErrNoRows then None else Some e)"

definition first_hard ::
    "(gerr + model_row) \<times> (gerr + version_row) \<times> (gerr + task_row) \<Rightarrow> gerr option" where
  "first_hard p = (case p of (m, v, t) \<Rightarrow>
     (case hard_error m of Some e \<Rightarrow> Some e
      | None \<Rightarrow> (case hard_error v of Some e \<Rightarrow> Some e | None \<Rightarrow> hard_error t)))"

definition replay_bundle :: "ext \<Rightarrow> bundle_import \<Rightarrow> string \<Rightarrow> bundle_result dbop" where
  "replay_bundle E b fp =
     andThen (lift (x_uuid_parse E (bTenantID b))) (\<lambda>tn.
     transact (andThen (bundle_lookups tn (bIdempotencyKey b)) (\<lambda>p.
       case p of
         (Inr m, Inr v, Inr t) \<Rightarrow>
           if m_request_fingerprint m \<noteq> fp \<or> v_request_fingerprint v \<noteq> fp
              \<or> t_request_fingerprint t \<noteq> fp
           then throw bundle_conflict else ret (bundle_result_of E b m v t)
       | (m, v, t) \<Rightarrow>
           (case first_hard (m, v, t) of
              Some e \<Rightarrow> throw e
            | None \<Rightarrow> if \<not> isl m \<or> \<not> isl v \<or> \<not> isl t then throw bundle_conflict
                      else throw ErrBundleAggregateMissing))))"

definition create_bundle ::
    "ext \<Rightarrow> bundle_import \<Rightarrow> string \<Rightarrow> uuid \<Rightarrow> bundle_ids \<Rightarrow> bundle_result dbop" where
  "create_bundle E b fp tn ids =
     andThen (sqlCreateBundleModel E tn (idModel ids) (bExternalModelID b) (bName b)
        (bDisplayName b) (bDescription b) (bProvider b) (bRepoID b)
        (json_array (bCapabilities b)) (bIdempotencyKey b) fp) (\<lambda>m.
     andThen (sqlCreateBundleVersion E tn (idVersion ids) (idModel ids) (bVersion b) (bFormat b)
        (bEngineType b) (bEngineImage b) (bRecommendedImageID b) (bRecommendedImageScope b)
        (bStartupCommand b) ''[]'' (bIdempotencyKey b) fp) (\<lambda>v.
     andThen (sqlCreateBundleTask tn (idTask ids) (idModel ids) (idVersion ids) (bProvider b)
        (bProvider b) (bRepoID b) (bRevision b) (bIdempotencyKey b) fp) (\<lambda>t.
       ret (bundle_result_of E b m v t))))"

definition import_bundle_tx ::
    "ext \<Rightarrow> bundle_import \<Rightarrow> string \<Rightarrow> uuid \<Rightarrow> bundle_ids \<Rightarrow> bundle_result dbop" where
  "import_bundle_tx E b fp tn ids =
     andThen (bundle_lookups tn (bIdempotencyKey b)) (\<lambda>(m, v, t).
       case first_hard (m, v, t) of
         Some e \<Rightarrow> throw e
       | None \<Rightarrow>
           (case (m, v, t) of
              (Inl _, Inl _, Inl _) \<Rightarrow> create_bundle E b fp tn ids
            | (Inr m1, Inr v1, Inr t1) \<Rightarrow>
                if m_request_fingerprint m1 \<noteq> fp \<or> v_request_fingerprint v1 \<noteq> fp
                   \<or> t_request_fingerprint t1 \<noteq> fp
                then throw bundle_conflict else ret (bundle_result_of E b m1 v1 t1)
            | _ \<Rightarrow> throw bundle_conflict))"

definition import_bundle :: "ext \<Rightarrow> bundle_ids \<Rightarrow> bundle_import \<Rightarrow> bundle_result dbop" where
  "import_bundle E ids b =
     andThen (lift (check_valid (bundle_validate b))) (\<lambda>_.
     andThen (lift (parse_field E ''tenant_id'' (bTenantID b))) (\<lambda>tn.
     let fp = bundle_fingerprint E b in
     inspect (replay_bundle E b fp) (\<lambda>first.
       case first of
         Inr r \<Rightarrow> ret r
       | Inl e \<Rightarrow>
           if \<not> err_is e ErrBundleAggregateMissing then throw e
           else andThen begin_tx (\<lambda>_.
                inspect (tx_body (import_bundle_tx E b fp tn ids)) (\<lambda>made.
                  case made of
                    Inr r \<Rightarrow> ret r
                  | Inl e2 \<Rightarrow>
                      if is_unique_violation e2 then
                        inspect (replay_bundle E b fp) (\<lambda>again.
                          case again of Inr r \<Rightarrow> ret r | Inl _ \<Rightarrow> throw e2)
                      else throw e2)))))"

lemmas bundle_defs = bundle_lookups_def replay_bundle_def create_bundle_def import_bundle_tx_def
  import_bundle_def

lemma so_bundle: "steps_in sound (import_bundle E ids b)"
  unfolding bundle_defs
  by (intro so.steps_db sql_so steps_intros)

lemma fr_bundle:
  assumes "x_uuid_parse E (bTenantID b) = Inr tn"
  shows "steps_in (frame tn) (import_bundle E ids b)"
proof -
  have replay: "steps_in (frame tn) (replay_bundle E b fp)" for fp
    unfolding replay_bundle_def bundle_lookups_def
    by (rule steps_after_lift [OF frame_preorder]) (intro fr.steps_db sql_fr steps_intros)
  have create: "steps_in (frame tn) (import_bundle_tx E b fp tn ids)" for fp
    unfolding import_bundle_tx_def bundle_lookups_def create_bundle_def
    by (intro fr.steps_db sql_fr steps_intros)
  show ?thesis
    unfolding import_bundle_def Let_def
    by (rule fr.steps_andThen [OF fr.steps_lift], rule fr_after_field [OF assms])
       (intro fr.steps_db replay create steps_intros)
qed

section \<open>All or nothing\<close>

text \<open>The aggregate a first import adds: three rows, linked, under one key and fingerprint.\<close>

definition bundle_linked :: "uuid \<Rightarrow> string \<Rightarrow> string \<Rightarrow> model_row \<Rightarrow> version_row \<Rightarrow> task_row \<Rightarrow> bool" where
  "bundle_linked tn key fp m v t \<longleftrightarrow>
     m_tenant_id m = tn \<and> v_tenant_id v = tn \<and> t_tenant_id t = tn
     \<and> v_model_id v = m_id m \<and> t_model_id t = Some (m_id m)
     \<and> t_model_version_id t = Some (v_id v)
     \<and> m_idempotency_key m = key \<and> v_idempotency_key v = key \<and> t_idempotency_key t = key
     \<and> m_request_fingerprint m = fp \<and> v_request_fingerprint v = fp
     \<and> t_request_fingerprint t = fp
     \<and> m_status m = ''pending'' \<and> v_status v = VersionPending \<and> t_status t = TaskPending"

definition adds_bundle :: "uuid \<Rightarrow> string \<Rightarrow> string \<Rightarrow> db \<Rightarrow> db \<Rightarrow> bool" where
  "adds_bundle tn key fp s t \<longleftrightarrow>
     (\<exists>m v k. models t = models s @ [m] \<and> versions t = versions s @ [v]
        \<and> tasks t = tasks s @ [k] \<and> artifacts t = artifacts s \<and> audits t = audits s
        \<and> regs t = regs s \<and> bundle_linked tn key fp m v k)"

lemma same_tables_sym: "same_tables s t \<Longrightarrow> same_tables t s"
  by (simp add: same_tables_def)

lemma same_tables_trans: "same_tables s t \<Longrightarrow> same_tables t u \<Longrightarrow> same_tables s u"
  by (simp add: same_tables_def)

lemma same_tables_time [simp]: "same_tables s (s\<lparr>clock := c, script := l\<rparr>)"
  by (simp add: same_tables_def)

interpretation st: db_relation "\<lambda>s t. same_tables s t \<and> clock s \<le> clock t"
  by unfold_locales (auto simp: same_tables_def)

lemma reads_same_tables:
  assumes "steps_in (\<lambda>s t. same_tables s t \<and> clock s \<le> clock t) m" and "m s = (r, t)"
  shows "same_tables s t"
  using assms by (auto dest: steps_inD)

lemma lookups_same: "steps_in (\<lambda>s t. same_tables s t \<and> clock s \<le> clock t) (bundle_lookups tn key)"
  unfolding bundle_lookups_def by (intro st.steps_db st.sql_reads)

lemma replay_same: "steps_in (\<lambda>s t. same_tables s t \<and> clock s \<le> clock t) (replay_bundle E b fp)"
  unfolding replay_bundle_def by (intro st.steps_db lookups_same steps_intros)

lemma sqlCreateBundleModel_Inr:
  assumes "sqlCreateBundleModel E tn i x n d ds src repo caps key fp s = (Inr m, t)"
  shows "\<exists>j now. m = new_model_row tn i x n d ds src repo j key fp now
    \<and> models t = models s @ [m] \<and> versions t = versions s \<and> artifacts t = artifacts s
    \<and> tasks t = tasks s \<and> audits t = audits s \<and> regs t = regs s"
  using assms unfolding sqlCreateBundleModel_def
  by (elim stmt_Inr) (auto simp: andThen_Inr_iff ins_model_def Let_def split: option.splits)

lemma sqlCreateBundleVersion_Inr:
  assumes "sqlCreateBundleVersion E tn i mid ver fmt eng img rid rs cmd args key fp s = (Inr v, t)"
  shows "\<exists>j now. v = new_version_row tn i mid ver fmt False [] [] 0 [] eng img rid rs cmd j key fp now
    \<and> versions t = versions s @ [v] \<and> models t = models s \<and> artifacts t = artifacts s
    \<and> tasks t = tasks s \<and> audits t = audits s \<and> regs t = regs s"
  using assms unfolding sqlCreateBundleVersion_def
  by (elim stmt_Inr) (auto simp: andThen_Inr_iff ins_version_def Let_def split: option.splits)

lemma sqlCreateBundleTask_Inr:
  assumes "sqlCreateBundleTask tn i mid vid ty src repo rv key fp s = (Inr k, t)"
  shows "\<exists>now. k = new_task_row tn i (Some mid) (Some vid) ty src repo rv key fp now
    \<and> tasks t = tasks s @ [k] \<and> models t = models s \<and> versions t = versions s
    \<and> artifacts t = artifacts s \<and> audits t = audits s \<and> regs t = regs s"
  using assms unfolding sqlCreateBundleTask_def
  by (elim stmt_Inr) (auto simp: ins_task_def Let_def split: option.splits)

lemma create_bundle_Inr:
  assumes "create_bundle E b fp tn ids s = (Inr r, t)"
  shows "adds_bundle tn (bIdempotencyKey b) fp s t"
  using assms unfolding create_bundle_def
  by (elim andThen_Inr)
     (auto dest!: sqlCreateBundleModel_Inr sqlCreateBundleVersion_Inr sqlCreateBundleTask_Inr
        simp: adds_bundle_def bundle_linked_def new_model_row_def new_version_row_def
          new_task_row_def VersionPending_def)

lemma import_bundle_tx_Inr:
  assumes "import_bundle_tx E b fp tn ids s = (Inr r, t)"
  shows "same_tables s t \<or> adds_bundle tn (bIdempotencyKey b) fp s t"
proof -
  from assms obtain m v k u where look: "bundle_lookups tn (bIdempotencyKey b) s = (Inr (m, v, k), u)"
    and rest: "(case first_hard (m, v, k) of
         Some e \<Rightarrow> throw e
       | None \<Rightarrow>
           (case (m, v, k) of
              (Inl _, Inl _, Inl _) \<Rightarrow> create_bundle E b fp tn ids
            | (Inr m1, Inr v1, Inr t1) \<Rightarrow>
                if m_request_fingerprint m1 \<noteq> fp \<or> v_request_fingerprint v1 \<noteq> fp
                   \<or> t_request_fingerprint t1 \<noteq> fp
                then throw bundle_conflict else ret (bundle_result_of E b m1 v1 t1)
            | _ \<Rightarrow> throw bundle_conflict)) u = (Inr r, t)"
    unfolding import_bundle_tx_def by (elim andThen_Inr) (auto split: prod.splits)
  have su: "same_tables s u" by (rule reads_same_tables [OF lookups_same look])
  show ?thesis
  proof (cases "create_bundle E b fp tn ids u = (Inr r, t)")
    case True
    with su have "adds_bundle tn (bIdempotencyKey b) fp s t"
      by (auto dest!: create_bundle_Inr simp: adds_bundle_def same_tables_def)
    then show ?thesis ..
  next
    case False
    with rest have "t = u"
      by (auto split: option.splits sum.splits if_splits)
    with su show ?thesis by simp
  qed
qed

lemma commit_outcome:
  "same_tables t (snd (commit_from s x t)) \<or> same_tables s (snd (commit_from s x t))"
  by (auto simp: commit_from_def rollback_to_def Let_def same_tables_def split: list.splits fault.splits)

lemma tx_body_outcome:
  "same_tables s (snd (tx_body m s))
   \<or> (\<exists>x t. m s = (Inr x, t) \<and> same_tables t (snd (tx_body m s)))"
proof (cases "m s")
  case (Pair r t)
  show ?thesis
  proof (cases r)
    case (Inl e)
    with Pair show ?thesis by (simp add: tx_body_def rollback_to_def)
  next
    case (Inr x)
    with Pair have "tx_body m s = commit_from s x t" by (simp add: tx_body_def)
    with Pair Inr commit_outcome [of t s x] show ?thesis by auto
  qed
qed

lemma import_tx_outcome:
  "same_tables s (snd (tx_body (import_bundle_tx E b fp tn ids) s))
   \<or> adds_bundle tn (bIdempotencyKey b) fp s (snd (tx_body (import_bundle_tx E b fp tn ids) s))"
  using tx_body_outcome [of s "import_bundle_tx E b fp tn ids"] import_bundle_tx_Inr
  unfolding adds_bundle_def same_tables_def by metis

lemma adds_bundle_same:
  "same_tables s s2 \<Longrightarrow> adds_bundle tn key fp s2 t \<Longrightarrow> same_tables t u \<Longrightarrow> adds_bundle tn key fp s u"
  by (auto simp: adds_bundle_def same_tables_def)

lemma begin_same: "begin_tx s = (r, t) \<Longrightarrow> same_tables s t"
  by (rule reads_same_tables [where m = begin_tx]) (simp_all add: st.steps_begin)

text \<open>The state after the call, whatever it returns and whatever failed on the way.\<close>

definition import_state :: "ext \<Rightarrow> bundle_ids \<Rightarrow> bundle_import \<Rightarrow> db \<Rightarrow> db" where
  "import_state E ids b s = snd (import_bundle E ids b s)"

lemma import_bundle_outcome:
  assumes "parse_field E ''tenant_id'' (bTenantID b) = Inr tn"
  shows "same_tables s (snd (import_bundle E ids b s))
    \<or> adds_bundle tn (bIdempotencyKey b) (bundle_fingerprint E b) s (snd (import_bundle E ids b s))"
proof (cases "bundle_validate b")
  case (Some e)
  then show ?thesis by (simp add: import_bundle_def andThen_def check_valid_def)
next
  case None
  let ?fp = "bundle_fingerprint E b"
  let ?add = "adds_bundle tn (bIdempotencyKey b) ?fp"
  obtain r1 s1 where replay: "replay_bundle E b ?fp s = (r1, s1)" by (cases "replay_bundle E b ?fp s")
  have s1: "same_tables s s1" by (rule reads_same_tables [OF replay_same replay])
  obtain r2 s2 where beg: "begin_tx s1 = (r2, s2)" by (cases "begin_tx s1")
  have s2: "same_tables s s2" using s1 begin_same [OF beg] by (rule same_tables_trans)
  obtain r3 s3 where body: "tx_body (import_bundle_tx E b ?fp tn ids) s2 = (r3, s3)"
    by (cases "tx_body (import_bundle_tx E b ?fp tn ids) s2")
  obtain r4 s4 where again: "replay_bundle E b ?fp s3 = (r4, s4)" by (cases "replay_bundle E b ?fp s3")
  have s4: "same_tables s3 s4" by (rule reads_same_tables [OF replay_same again])
  have s3: "same_tables s s3 \<or> ?add s s3"
    using import_tx_outcome [of s2 E b ?fp tn ids] body s2 adds_bundle_same [OF s2 _ same_tables_refl]
    by (auto intro: same_tables_trans)
  then have "same_tables s s4 \<or> ?add s s4"
    using s4 adds_bundle_same [OF same_tables_refl _ s4] same_tables_trans by blast
  then show ?thesis
    using None assms replay s1 beg s2 body s3 again
    by (simp add: import_bundle_def check_valid_def Let_def inspect_def' andThen_def
        split: sum.split)
qed

section \<open>Success is durable, and replayed\<close>

definition stored_bundle ::
    "db \<Rightarrow> uuid \<Rightarrow> string \<Rightarrow> model_row \<Rightarrow> version_row \<Rightarrow> task_row \<Rightarrow> bool" where
  "stored_bundle s tn key m v k \<longleftrightarrow>
     one (filter (\<lambda>m. m_tenant_id m = tn \<and> m_idempotency_key m = key) (models s)) = Inr m
     \<and> one (filter (\<lambda>v. v_tenant_id v = tn \<and> v_idempotency_key v = key) (versions s)) = Inr v
     \<and> one (filter (\<lambda>t. t_tenant_id t = tn \<and> t_idempotency_key t = key) (tasks s)) = Inr k"

definition same_fingerprint :: "string \<Rightarrow> model_row \<Rightarrow> version_row \<Rightarrow> task_row \<Rightarrow> bool" where
  "same_fingerprint fp m v k \<longleftrightarrow>
     m_request_fingerprint m = fp \<and> v_request_fingerprint v = fp \<and> t_request_fingerprint k = fp"

lemma stored_same: "same_tables s t \<Longrightarrow> stored_bundle t tn key m v k \<longleftrightarrow> stored_bundle s tn key m v k"
  by (simp add: stored_bundle_def same_tables_def)

lemma commit_Inr: "commit_from s x t = (Inr y, u) \<Longrightarrow> y = x \<and> same_tables t u"
  by (auto simp: commit_from_def Let_def same_tables_def split: list.splits fault.splits)

lemma tx_body_Inr:
  assumes "tx_body m s = (Inr x, u)"
  obtains t where "m s = (Inr x, t)" and "same_tables t u"
proof (cases "m s")
  case (Pair r t)
  with assms obtain y where "r = Inr y" and "commit_from s y t = (Inr x, u)"
    by (cases r) (auto simp: tx_body_def)
  moreover from this have "y = x \<and> same_tables t u" using commit_Inr by metis
  ultimately show ?thesis using Pair that by simp
qed

text \<open>Whatever a transaction returns, the tables are those before it or those its body left: the
  server may have taken a commit although the client saw an error.\<close>

lemma commit_fate: "same_tables s (snd (commit_from s x t)) \<or> same_tables t (snd (commit_from s x t))"
  by (simp add: commit_from_def Let_def rollback_to_def split: list.split fault.split)

lemma tx_body_fate:
  assumes "tx_body m s = (r, u)"
  shows "same_tables s u \<or> (\<exists>x t. m s = (Inr x, t) \<and> same_tables t u)"
proof -
  obtain q t where m: "m s = (q, t)" by (cases "m s")
  show ?thesis
  proof (cases q)
    case (Inl e)
    with assms m have u: "rollback_to s t = u" by (simp add: tx_body_def)
    have "same_tables s (rollback_to s t)" by (simp add: rollback_to_def)
    then show ?thesis unfolding u by blast
  next
    case (Inr x)
    with assms m have u: "snd (commit_from s x t) = u" by (simp add: tx_body_def)
    show ?thesis using commit_fate [of s x t] m Inr unfolding u by blast
  qed
qed

text \<open>A statement that only reads, when it succeeds, has read the tables it leaves.\<close>

lemma stmt_rd_Inr:
  assumes "stmt (rd q) s = (Inr x, t)"
  shows "q t = Inr x \<and> same_tables s t \<and> clock s \<le> clock t"
proof -
  from assms obtain c l where "clock s \<le> c" and "rd q (s\<lparr>clock := c, script := l\<rparr>) = (Inr x, t)"
    by (elim stmt_Inr)
  then show ?thesis by (auto simp: rd_def same_tables_def)
qed

lemma one_stmt_Inr:
  "stmt (rd q) s = (Inr x, t) \<Longrightarrow> (\<And>c l. q (s\<lparr>clock := c, script := l\<rparr>) = q s) \<Longrightarrow>
   q s = Inr x \<and> same_tables s t"
  by (elim stmt_Inr) (auto simp: rd_def same_tables_def)

lemma bundle_lookups_Inr:
  assumes "bundle_lookups tn key s = (Inr (Inr m, Inr v, Inr k), t)"
  shows "stored_bundle s tn key m v k"
proof -
  obtain rm s1 where 1: "sqlGetBundleModelByIdempotency tn key s = (rm, s1)" by (cases "sqlGetBundleModelByIdempotency tn key s")
  obtain rv s2 where 2: "sqlGetBundleVersionByIdempotency tn key s1 = (rv, s2)"
    by (cases "sqlGetBundleVersionByIdempotency tn key s1")
  obtain rk s3 where 3: "sqlGetBundleTaskByIdempotency tn key s2 = (rk, s3)"
    by (cases "sqlGetBundleTaskByIdempotency tn key s2")
  from assms 1 2 3 have r: "rm = Inr m" "rv = Inr v" "rk = Inr k"
    by (simp_all add: bundle_lookups_def inspect_def)
  from 1 r have "one (filter (\<lambda>m. m_tenant_id m = tn \<and> m_idempotency_key m = key) (models s)) = Inr m
      \<and> same_tables s s1"
    unfolding sqlGetBundleModelByIdempotency_def by (intro one_stmt_Inr) simp_all
  moreover from 2 r have "one (filter (\<lambda>v. v_tenant_id v = tn \<and> v_idempotency_key v = key) (versions s1)) = Inr v
      \<and> same_tables s1 s2"
    unfolding sqlGetBundleVersionByIdempotency_def by (intro one_stmt_Inr) simp_all
  moreover from 3 r have "one (filter (\<lambda>t. t_tenant_id t = tn \<and> t_idempotency_key t = key) (tasks s2)) = Inr k
      \<and> same_tables s2 s3"
    unfolding sqlGetBundleTaskByIdempotency_def by (intro one_stmt_Inr) simp_all
  ultimately show ?thesis by (auto simp: stored_bundle_def same_tables_def)
qed

lemma replay_bundle_Inr:
  assumes "replay_bundle E b fp s = (Inr r, t)" and "x_uuid_parse E (bTenantID b) = Inr tn"
  shows "same_tables s t \<and> (\<exists>m v k. stored_bundle s tn (bIdempotencyKey b) m v k
    \<and> same_fingerprint fp m v k \<and> r = bundle_result_of E b m v k)"
proof -
  from assms obtain s1 s2 p s3 where beg: "begin_tx s = (Inr (), s1)"
    and look: "bundle_lookups tn (bIdempotencyKey b) s1 = (Inr p, s2)"
    and rest: "(case p of
         (Inr m, Inr v, Inr t) \<Rightarrow>
           if m_request_fingerprint m \<noteq> fp \<or> v_request_fingerprint v \<noteq> fp
              \<or> t_request_fingerprint t \<noteq> fp
           then throw bundle_conflict else ret (bundle_result_of E b m v t)
       | (m, v, t) \<Rightarrow>
           (case first_hard (m, v, t) of
              Some e \<Rightarrow> throw e
            | None \<Rightarrow> if \<not> isl m \<or> \<not> isl v \<or> \<not> isl t then throw bundle_conflict
                      else throw ErrBundleAggregateMissing)) s2 = (Inr r, s3)"
    unfolding replay_bundle_def transact_def
    by (auto simp: andThen_Inr_iff elim!: tx_body_Inr)
  from rest obtain m v k where p: "p = (Inr m, Inr v, Inr k)" and "same_fingerprint fp m v k"
    and "r = bundle_result_of E b m v k"
    by (auto simp: same_fingerprint_def split: prod.splits sum.splits option.splits if_splits)
  moreover have "stored_bundle s tn (bIdempotencyKey b) m v k"
    using bundle_lookups_Inr look p stored_same [OF begin_same [OF beg]] by blast
  moreover have "same_tables s t"
    using reads_same_tables [OF replay_same assms(1)] .
  ultimately show ?thesis by blast
qed

lemma create_bundle_stored:
  assumes "create_bundle E b fp tn ids s = (Inr r, t)" and "bIdempotencyKey b \<noteq> []"
  shows "\<exists>m v k. stored_bundle t tn (bIdempotencyKey b) m v k \<and> same_fingerprint fp m v k
    \<and> r = bundle_result_of E b m v k"
proof -
  let ?key = "bIdempotencyKey b"
  from assms(1) obtain m s1 v s2 k where
    1: "sqlCreateBundleModel E tn (idModel ids) (bExternalModelID b) (bName b)
        (bDisplayName b) (bDescription b) (bProvider b) (bRepoID b)
        (json_array (bCapabilities b)) ?key fp s = (Inr m, s1)"
    and 2: "sqlCreateBundleVersion E tn (idVersion ids) (idModel ids) (bVersion b) (bFormat b)
        (bEngineType b) (bEngineImage b) (bRecommendedImageID b) (bRecommendedImageScope b)
        (bStartupCommand b) ''[]'' ?key fp s1 = (Inr v, s2)"
    and 3: "sqlCreateBundleTask tn (idTask ids) (idModel ids) (idVersion ids) (bProvider b)
        (bProvider b) (bRepoID b) (bRevision b) ?key fp s2 = (Inr k, t)"
    and r: "r = bundle_result_of E b m v k"
    unfolding create_bundle_def by (auto simp: andThen_Inr_iff)
  have m: "m_tenant_id m = tn" "m_idempotency_key m = ?key" "m_request_fingerprint m = fp"
    using sqlCreateBundleModel_Inr [OF 1] by (auto simp: new_model_row_def)
  have v: "v_tenant_id v = tn" "v_idempotency_key v = ?key" "v_request_fingerprint v = fp"
    using sqlCreateBundleVersion_Inr [OF 2] by (auto simp: new_version_row_def)
  have k: "t_tenant_id k = tn" "t_idempotency_key k = ?key" "t_request_fingerprint k = fp"
    using sqlCreateBundleTask_Inr [OF 3] by (auto simp: new_task_row_def)
  have "\<not> list_ex (model_clash m) (models s)"
    using 1 unfolding sqlCreateBundleModel_def
    by (elim stmt_Inr) (auto simp: andThen_Inr_iff ins_model_def Let_def reject_None_iff split: option.splits)
  then have fm: "filter (\<lambda>q. m_tenant_id q = tn \<and> m_idempotency_key q = ?key) (models s) = []"
    using m assms(2) by (auto simp: list_ex_iff model_clash_def filter_empty_conv)
  have "\<not> list_ex (version_clash v) (versions s1)"
    using 2 unfolding sqlCreateBundleVersion_def
    by (elim stmt_Inr) (auto simp: andThen_Inr_iff ins_version_def Let_def reject_None_iff split: option.splits)
  then have fv: "filter (\<lambda>q. v_tenant_id q = tn \<and> v_idempotency_key q = ?key) (versions s1) = []"
    using v assms(2) by (auto simp: list_ex_iff version_clash_def filter_empty_conv)
  have "\<not> list_ex (task_clash k) (tasks s2)"
    using 3 unfolding sqlCreateBundleTask_def
    by (elim stmt_Inr) (auto simp: ins_task_def Let_def reject_None_iff split: option.splits)
  then have fk: "filter (\<lambda>q. t_tenant_id q = tn \<and> t_idempotency_key q = ?key) (tasks s2) = []"
    using k by (auto simp: list_ex_iff task_clash_def filter_empty_conv)
  have "models t = models s @ [m]" "versions t = versions s1 @ [v]" "tasks t = tasks s2 @ [k]"
    using sqlCreateBundleModel_Inr [OF 1] sqlCreateBundleVersion_Inr [OF 2]
      sqlCreateBundleTask_Inr [OF 3] by auto
  with fm fv fk m v k have "stored_bundle t tn ?key m v k"
    by (simp add: stored_bundle_def one_def)
  with m v k r show ?thesis by (auto simp: same_fingerprint_def)
qed

lemma import_bundle_tx_stored:
  assumes "import_bundle_tx E b fp tn ids s = (Inr r, t)" and "bIdempotencyKey b \<noteq> []"
  shows "\<exists>m v k. stored_bundle t tn (bIdempotencyKey b) m v k \<and> same_fingerprint fp m v k
    \<and> r = bundle_result_of E b m v k"
proof -
  from assms(1) obtain m v k u where
    look: "bundle_lookups tn (bIdempotencyKey b) s = (Inr (m, v, k), u)"
    and rest: "(case first_hard (m, v, k) of
         Some e \<Rightarrow> throw e
       | None \<Rightarrow>
           (case (m, v, k) of
              (Inl _, Inl _, Inl _) \<Rightarrow> create_bundle E b fp tn ids
            | (Inr m1, Inr v1, Inr t1) \<Rightarrow>
                if m_request_fingerprint m1 \<noteq> fp \<or> v_request_fingerprint v1 \<noteq> fp
                   \<or> t_request_fingerprint t1 \<noteq> fp
                then throw bundle_conflict else ret (bundle_result_of E b m1 v1 t1)
            | _ \<Rightarrow> throw bundle_conflict)) u = (Inr r, t)"
    unfolding import_bundle_tx_def by (elim andThen_Inr) (auto split: prod.splits)
  show ?thesis
  proof (cases "create_bundle E b fp tn ids u = (Inr r, t)")
    case True
    then show ?thesis using assms(2) by (rule create_bundle_stored)
  next
    case False
    with rest obtain m1 v1 k1 where "m = Inr m1" "v = Inr v1" "k = Inr k1" and t: "t = u"
      and "same_fingerprint fp m1 v1 k1" and "r = bundle_result_of E b m1 v1 k1"
      by (auto simp: same_fingerprint_def split: option.splits sum.splits if_splits)
    moreover from this look have "stored_bundle s tn (bIdempotencyKey b) m1 v1 k1"
      by (auto intro: bundle_lookups_Inr)
    ultimately show ?thesis
      using stored_same [OF reads_same_tables [OF lookups_same look]] by auto
  qed
qed

lemma bundle_validate_key: "bundle_validate b = None \<Longrightarrow> bIdempotencyKey b \<noteq> []"
  by (auto simp: bundle_validate_def split: if_splits)

lemma import_bundle_cases:
  assumes "import_bundle E ids b s = (Inr r, t)"
  obtains w where "replay_bundle E b (bundle_fingerprint E b) w = (Inr r, t)"
  | w tn where "parse_field E ''tenant_id'' (bTenantID b) = Inr tn"
      and "tx_body (import_bundle_tx E b (bundle_fingerprint E b) tn ids) w = (Inr r, t)"
  using assms unfolding import_bundle_def Let_def
  by (auto simp: op_outcomes)

lemma import_bundle_stored:
  assumes "import_bundle E ids b s = (Inr r, t)" and "x_uuid_parse E (bTenantID b) = Inr tn"
  shows "bundle_validate b = None \<and>
    (\<exists>m v k. stored_bundle t tn (bIdempotencyKey b) m v k
      \<and> same_fingerprint (bundle_fingerprint E b) m v k \<and> r = bundle_result_of E b m v k)"
proof -
  let ?fp = "bundle_fingerprint E b"
  let ?goal = "\<lambda>t. \<exists>m v k. stored_bundle t tn (bIdempotencyKey b) m v k \<and> same_fingerprint ?fp m v k
      \<and> r = bundle_result_of E b m v k"
  have val: "bundle_validate b = None"
    using assms by (cases "bundle_validate b") (auto simp: import_bundle_def andThen_Inr_iff check_valid_def)
  then have key: "bIdempotencyKey b \<noteq> []" by (rule bundle_validate_key)
  have replayed: "?goal u" if "replay_bundle E b ?fp w = (Inr r, u)" for w u
    using replay_bundle_Inr [OF that assms(2)] stored_same by blast
  have made: "?goal u" if tx: "tx_body (import_bundle_tx E b ?fp tn ids) w = (Inr r, u)" for w u
  proof -
    from tx obtain x where 1: "import_bundle_tx E b ?fp tn ids w = (Inr r, x)"
      and 2: "same_tables x u"
      by (rule tx_body_Inr)
    from import_bundle_tx_stored [OF 1 key] show ?thesis unfolding stored_same [OF 2] .
  qed
  have "?goal t"
    using assms(1)
  proof (rule import_bundle_cases)
    fix w tn2
    assume "parse_field E ''tenant_id'' (bTenantID b) = Inr tn2"
      and "tx_body (import_bundle_tx E b ?fp tn2 ids) w = (Inr r, t)"
    with assms(2) show ?thesis by (intro made) (simp add: parse_field_def)
  qed (rule replayed)
  with val show ?thesis by blast
qed

lemma quiet_begin: "script s = [] \<Longrightarrow> begin_tx s = (Inr (), s)"
  by (simp add: begin_tx_def stmt_def stmt_at_def)

lemma quiet_rd: "script s = [] \<Longrightarrow> stmt (rd q) s = (q s, s)"
  by (cases "q s") (simp_all add: stmt_def stmt_at_def rd_def)

lemma quiet_commit: "script t = [] \<Longrightarrow> commit_from s x t = (Inr x, t)"
  by (simp add: commit_from_def)

lemma quiet_tx_read:
  "script s = [] \<Longrightarrow> m s = (r, s) \<Longrightarrow> transact m s = (r, s)"
  by (cases r) (simp_all add: transact_def andThen_def quiet_begin tx_body_def quiet_commit rollback_to_def)

lemma replay_stored:
  assumes "script s = []" and "x_uuid_parse E (bTenantID b) = Inr tn"
    and "stored_bundle s tn (bIdempotencyKey b) m v k"
  shows "replay_bundle E b fp s =
    (if same_fingerprint fp m v k then Inr (bundle_result_of E b m v k) else Inl bundle_conflict, s)"
proof -
  have look: "bundle_lookups tn (bIdempotencyKey b) s = (Inr (Inr m, Inr v, Inr k), s)"
    using assms(1,3)
    by (simp add: bundle_lookups_def inspect_def sqlGetBundleModelByIdempotency_def
        sqlGetBundleVersionByIdempotency_def sqlGetBundleTaskByIdempotency_def quiet_rd stored_bundle_def)
  show ?thesis
    unfolding replay_bundle_def assms(2) andThen_lift_Inr
    by (rule quiet_tx_read [OF assms(1)]) (simp add: andThen_def look same_fingerprint_def)
qed

lemma import_stored:
  assumes "script s = []" and "x_uuid_parse E (bTenantID b) = Inr tn"
    and "bundle_validate b = None" and "stored_bundle s tn (bIdempotencyKey b) m v k"
  shows "import_bundle E ids b s =
    (if same_fingerprint (bundle_fingerprint E b) m v k
     then Inr (bundle_result_of E b m v k) else Inl bundle_conflict, s)"
  using assms
  by (simp add: import_bundle_def check_valid_def parse_field_def Let_def inspect_def replay_stored
      bundle_conflict_def)

text \<open>C25: A repeated bundle import returns the identifiers of the first one and changes nothing,
  whatever identifiers it drew; another request under the same key is refused as a conflict.\<close>

theorem bundle_import_idempotent:
  assumes "import_bundle E ids b s = (Inr r, t)" and "script t = []"
    and "x_uuid_parse E (bTenantID b) = Inr tn"
  shows "import_bundle E ids2 b t = (Inr r, t)
    \<and> (bTenantID b2 = bTenantID b \<and> bIdempotencyKey b2 = bIdempotencyKey b
        \<and> bundle_validate b2 = None \<and> bundle_fingerprint E b2 \<noteq> bundle_fingerprint E b
       \<longrightarrow> import_bundle E ids2 b2 t = (Inl bundle_conflict, t))"
proof -
  from import_bundle_stored [OF assms(1,3)] obtain m v k
    where val: "bundle_validate b = None"
      and st: "stored_bundle t tn (bIdempotencyKey b) m v k"
      and fp: "same_fingerprint (bundle_fingerprint E b) m v k"
      and r: "r = bundle_result_of E b m v k"
    by blast
  have "import_bundle E ids2 b t = (Inr r, t)"
    using import_stored [OF assms(2,3) val st] fp r by simp
  moreover have "import_bundle E ids2 b2 t = (Inl bundle_conflict, t)"
    if "bTenantID b2 = bTenantID b" "bIdempotencyKey b2 = bIdempotencyKey b"
      "bundle_validate b2 = None" "bundle_fingerprint E b2 \<noteq> bundle_fingerprint E b"
    using import_stored [of t E b2 tn m v k ids2] assms(2,3) that st fp
    by (auto simp: same_fingerprint_def)
  ultimately show ?thesis by blast
qed

definition sample_bundle :: bundle_import where
  "sample_bundle = \<lparr>bTenantID = ''u1'', bIdempotencyKey = ''key'', bName = ''m'',
     bDisplayName = ''M'', bDescription = [], bExternalModelID = ''m'',
     bCapabilities = [''chat''], bVersion = ''v1'', bFormat = ''gguf'', bEngineType = ''vllm'',
     bEngineImage = ''img'', bStartupCommand = ''serve'', bProvider = ''huggingface'',
     bRepoID = ''a/b'', bRevision = ''main'', bRecommendedImageID = [],
     bRecommendedImageScope = []\<rparr>"

definition sample_ids :: bundle_ids where
  "sample_ids = \<lparr>idModel = 7, idVersion = 8, idTask = 9\<rparr>"

lemma bundle_import_idempotent_witness:
  "fst (import_bundle sample_ext (sample_ids\<lparr>idModel := 70, idTask := 90\<rparr>) sample_bundle
      (snd (import_bundle sample_ext sample_ids sample_bundle empty_db)))
   = fst (import_bundle sample_ext sample_ids sample_bundle empty_db)"
proof -
  let ?p = "import_bundle sample_ext sample_ids sample_bundle empty_db"
  have "\<not> isl (fst ?p)" and quiet: "script (snd ?p) = []" by code_simp+
  from succeeded [OF this(1)] have run: "?p = (Inr (projr (fst ?p)), snd ?p)" .
  have tenant: "x_uuid_parse sample_ext (bTenantID sample_bundle) = Inr 1"
    by (simp add: sample_bundle_def)
  from bundle_import_idempotent [OF run quiet tenant, of "sample_ids\<lparr>idModel := 70, idTask := 90\<rparr>" sample_bundle]
    run show ?thesis by (metis fst_conv)
qed

text \<open>C24: A bundle import, whatever fails on the way, leaves either the tables as they were or
  exactly one new model, version and task, linked to each other under the request's key and
  fingerprint; and when it succeeds, the rows it reports are stored.\<close>

theorem bundle_import_atomic:
  assumes "x_uuid_parse E (bTenantID b) = Inr tn"
  shows "(same_tables s (snd (import_bundle E ids b s))
      \<or> adds_bundle tn (bIdempotencyKey b) (bundle_fingerprint E b) s (snd (import_bundle E ids b s)))
    \<and> (\<not> isl (fst (import_bundle E ids b s)) \<longrightarrow>
        (\<exists>m v k. stored_bundle (snd (import_bundle E ids b s)) tn (bIdempotencyKey b) m v k
          \<and> fst (import_bundle E ids b s) = Inr (bundle_result_of E b m v k)))"
proof
  show "same_tables s (snd (import_bundle E ids b s))
      \<or> adds_bundle tn (bIdempotencyKey b) (bundle_fingerprint E b) s (snd (import_bundle E ids b s))"
    by (rule import_bundle_outcome) (simp add: parse_field_def assms)
  show "\<not> isl (fst (import_bundle E ids b s)) \<longrightarrow>
        (\<exists>m v k. stored_bundle (snd (import_bundle E ids b s)) tn (bIdempotencyKey b) m v k
          \<and> fst (import_bundle E ids b s) = Inr (bundle_result_of E b m v k))"
    using import_bundle_stored [OF succeeded assms] by (metis fst_conv succeeded)
qed

text \<open>The connection dies while the commit is under way, after the server took it.\<close>

definition lost_commit_db :: db where
  "lost_commit_db = empty_db\<lparr>script := replicate 11 (1, NoFault) @ [(1, FailAfter Canceled)]\<rparr>"

lemma bundle_import_atomic_witness:
  "isl (fst (import_bundle sample_ext sample_ids sample_bundle lost_commit_db))
   \<and> (same_tables lost_commit_db (snd (import_bundle sample_ext sample_ids sample_bundle lost_commit_db))
      \<or> adds_bundle 1 ''key'' (bundle_fingerprint sample_ext sample_bundle) lost_commit_db
          (snd (import_bundle sample_ext sample_ids sample_bundle lost_commit_db)))"
proof -
  have "x_uuid_parse sample_ext (bTenantID sample_bundle) = Inr 1"
    by (simp add: sample_bundle_def)
  from bundle_import_atomic [OF this, of lost_commit_db sample_ids]
  have "same_tables lost_commit_db (snd (import_bundle sample_ext sample_ids sample_bundle lost_commit_db))
      \<or> adds_bundle 1 ''key'' (bundle_fingerprint sample_ext sample_bundle) lost_commit_db
          (snd (import_bundle sample_ext sample_ids sample_bundle lost_commit_db))"
    by (simp add: sample_bundle_def)
  moreover have "isl (fst (import_bundle sample_ext sample_ids sample_bundle lost_commit_db))"
    by code_simp
  ultimately show ?thesis by blast
qed

end
