(* ===== verification/DeletionStore.thy ===== *)
theory DeletionStore
  imports BundleStore
begin

text \<open>
  Protected deletion, \<open>internal/data/postgres/deletion_store.go\<close>: a model or a version is
  marked deleted only after the inference service, asked about every version concerned in
  batches of 256, reported no active reference. \<open>refs\<close> is that service's
  \<open>HasActiveVersionReferences\<close> (\<open>None\<close> is the nil checker). The pool of the service
  begins transactions itself, so the branch for an enclosing transaction is not modelled.
\<close>

type_synonym reference_checker = "string \<Rightarrow> string list \<Rightarrow> gerr + bool"

definition sqlLockVersionAndModel :: "uuid \<Rightarrow> uuid \<Rightarrow> (uuid \<times> string) dbop" where
  "sqlLockVersionAndModel tn i = stmt (rd (\<lambda>s. one (concat (map (\<lambda>v.
     map (\<lambda>m. (m_id m, m_status m))
       (filter (\<lambda>m. m_tenant_id m = v_tenant_id v \<and> m_id m = v_model_id v) (models s)))
     (filter (\<lambda>v. v_tenant_id v = tn \<and> v_id v = i) (versions s))))))"

definition selects :: "uuid \<Rightarrow> uuid option \<Rightarrow> string \<Rightarrow> model_row \<Rightarrow> bool" where
  "selects tn selected selector m \<longleftrightarrow> m_tenant_id m = tn \<and>
     (case selected of Some i \<Rightarrow> m_id m = i | None \<Rightarrow> m_model_id m = selector)"

definition sqlLockModel :: "uuid \<Rightarrow> uuid option \<Rightarrow> string \<Rightarrow> (uuid \<times> string) dbop" where
  "sqlLockModel tn selected selector = stmt (rd (\<lambda>s. one (map (\<lambda>m. (m_id m, m_status m))
     (filter (selects tn selected selector) (models s)))))"

definition sqlLockVersionStatus :: "uuid \<Rightarrow> uuid \<Rightarrow> string dbop" where
  "sqlLockVersionStatus tn i = stmt (rd (\<lambda>s. one (map v_status
     (filter (\<lambda>v. v_tenant_id v = tn \<and> v_id v = i) (versions s)))))"

definition sqlVersionIds :: "uuid \<Rightarrow> uuid \<Rightarrow> uuid list dbop" where
  "sqlVersionIds tn mid = stmt (rd (\<lambda>s. Inr (sort (map v_id
     (filter (\<lambda>v. v_tenant_id v = tn \<and> v_model_id v = mid) (versions s))))))"

definition sqlDeleteVersion :: "uuid \<Rightarrow> uuid \<Rightarrow> int dbop" where
  "sqlDeleteVersion tn i = stmt (rows_affected (upd_versions
     (\<lambda>s v. v_tenant_id v = tn \<and> v_id v = i)
     (\<lambda>now v. v\<lparr>v_status := VersionDeleted, v_updated_at := now\<rparr>)))"

text \<open>The loop over the batches.\<close>

function check_refs :: "reference_checker \<Rightarrow> string \<Rightarrow> string list \<Rightarrow> gerr + unit" where
  "check_refs f tenant ids =
     (if ids = [] then Inr ()
      else (case f tenant (take 256 ids) of
              Inl _ \<Rightarrow> Inl ErrReferenceCheckUnavailable
            | Inr True \<Rightarrow> Inl ErrModelInUse
            | Inr False \<Rightarrow> check_refs f tenant (drop 256 ids)))"
  by pat_completeness auto
termination
  by (relation "measure (\<lambda>(f, tenant, ids). length ids)") auto

declare check_refs.simps [simp del]

definition delete_version_tx ::
    "ext \<Rightarrow> reference_checker \<Rightarrow> string \<Rightarrow> uuid \<Rightarrow> uuid \<Rightarrow> unit dbop" where
  "delete_version_tx E f tenant tn i =
     andThen (sqlLockVersionAndModel tn i) (\<lambda>(mid, state).
       if state = ''deleted'' then ret ()
       else andThen (sqlLockVersionStatus tn i) (\<lambda>vstate.
         if vstate = ''deleted'' then ret ()
         else andThen (lift (check_refs f tenant [x_uuid_string E i])) (\<lambda>_.
              andThen (sqlDeleteVersion tn i) (\<lambda>_. ret ()))))"

definition delete_model_tx ::
    "ext \<Rightarrow> reference_checker \<Rightarrow> string \<Rightarrow> string \<Rightarrow> uuid \<Rightarrow> uuid option \<Rightarrow> unit dbop" where
  "delete_model_tx E f tenant selector tn selected =
     andThen (sqlLockModel tn selected selector) (\<lambda>(mid, state).
       if state = ''deleted'' then ret ()
       else andThen (sqlVersionIds tn mid) (\<lambda>ids.
            andThen (lift (check_refs f tenant (map (x_uuid_string E) ids))) (\<lambda>_.
            andThen (sqlSoftDeleteModel tn mid) (\<lambda>_. ret ()))))"

definition delete_protected ::
    "ext \<Rightarrow> string \<Rightarrow> string \<Rightarrow> bool \<Rightarrow> reference_checker option \<Rightarrow> unit dbop" where
  "delete_protected E tenant selector version_only refs =
     (case refs of
        None \<Rightarrow> throw ErrReferenceCheckUnavailable
      | Some f \<Rightarrow>
          andThen (lift (x_uuid_parse E tenant)) (\<lambda>tn.
            case x_uuid_parse E selector of
              Inr i \<Rightarrow> if version_only then transact (delete_version_tx E f tenant tn i)
                       else transact (delete_model_tx E f tenant selector tn (Some i))
            | Inl e \<Rightarrow> if version_only then throw e
                       else transact (delete_model_tx E f tenant selector tn None)))"

definition delete_model :: "ext \<Rightarrow> string \<Rightarrow> string \<Rightarrow> reference_checker option \<Rightarrow> unit dbop" where
  "delete_model E tenant selector refs = delete_protected E tenant selector False refs"

definition delete_version :: "ext \<Rightarrow> string \<Rightarrow> string \<Rightarrow> reference_checker option \<Rightarrow> unit dbop" where
  "delete_version E tenant ver refs = delete_protected E tenant ver True refs"

section \<open>Soundness\<close>

lemmas deletion_sql_defs = sqlLockVersionAndModel_def sqlLockModel_def sqlLockVersionStatus_def
  sqlVersionIds_def

context db_relation
begin

lemma deletion_reads:
  "steps_in R (sqlLockVersionAndModel tn i)"
  "steps_in R (sqlLockModel tn selected selector)"
  "steps_in R (sqlLockVersionStatus tn i)"
  "steps_in R (sqlVersionIds tn mid)"
  by (simp_all add: deletion_sql_defs steps_stmt steps_rd)

end

lemma so_delete_version_row: "steps_in sound (sqlDeleteVersion tn i)"
  unfolding sqlDeleteVersion_def
  by (intro so.steps_stmt so.steps_rows_affected steps_sound ev_upd_versions ok_upd_versions)
     (simp_all add: version_evolves_def version_key_def status_step_def version_check_def
        ready_backed_def version_statuses)

lemma fr_delete_version_row: "steps_in (frame tn) (sqlDeleteVersion tn i)"
  unfolding sqlDeleteVersion_def
  by (intro fr.steps_stmt fr.steps_rows_affected fr_upd) simp

lemma so_deletion:
  "steps_in sound (delete_model E tenant selector refs)"
  "steps_in sound (delete_version E tenant ver refs)"
  unfolding delete_model_def delete_version_def delete_protected_def delete_version_tx_def
    delete_model_tx_def
  by (intro so.steps_db so.deletion_reads so_delete_version_row sql_so steps_intros)+

lemma fr_deletion:
  assumes "x_uuid_parse E tenant = Inr tn"
  shows "steps_in (frame tn) (delete_model E tenant selector refs)"
    and "steps_in (frame tn) (delete_version E tenant ver refs)"
  unfolding delete_model_def delete_version_def delete_protected_def delete_version_tx_def
    delete_model_tx_def assms andThen_lift_Inr
  by (intro fr.steps_db fr.deletion_reads fr_delete_version_row sql_fr steps_intros)+

section \<open>Nothing referenced is deleted\<close>

text \<open>The identifiers some batch was asked about and answered without an active reference.\<close>

definition cleared :: "reference_checker \<Rightarrow> string \<Rightarrow> string \<Rightarrow> bool" where
  "cleared f tenant i \<longleftrightarrow> (\<exists>batch. length batch \<le> 256 \<and> i \<in> set batch \<and> f tenant batch = Inr False)"

lemma check_refs_cleared: "check_refs f tenant ids = Inr () \<Longrightarrow> i \<in> set ids \<Longrightarrow> cleared f tenant i"
proof (induction f tenant ids rule: check_refs.induct)
  case (1 f tenant ids)
  then have ans: "f tenant (take 256 ids) = Inr False" and rest: "check_refs f tenant (drop 256 ids) = Inr ()"
    and "ids \<noteq> []"
    by (auto simp: check_refs.simps [of f tenant ids] split: sum.splits bool.splits if_splits)
  show ?case
  proof (cases "i \<in> set (take 256 ids)")
    case True
    with ans show ?thesis unfolding cleared_def by (intro exI [of _ "take 256 ids"]) simp
  next
    case False
    with \<open>i \<in> set ids\<close> have "i \<in> set (drop 256 ids)"
      by (metis UnE append_take_drop_id set_append)
    with "1.IH" [OF \<open>ids \<noteq> []\<close> ans] rest show ?thesis by simp
  qed
qed

definition version_ids :: "db \<Rightarrow> uuid \<Rightarrow> uuid \<Rightarrow> uuid list" where
  "version_ids s tn mid = map v_id (filter (\<lambda>v. v_tenant_id v = tn \<and> v_model_id v = mid) (versions s))"

definition deleted_at :: "int \<Rightarrow> model_row \<Rightarrow> model_row" where
  "deleted_at now m = m\<lparr>m_status := ''deleted'', m_deleted_at := Some now, m_updated_at := now\<rparr>"

text \<open>The only change from \<open>s\<close> to \<open>t\<close> is the deletion of one model that was live.\<close>

definition deletes_model :: "uuid \<Rightarrow> uuid \<Rightarrow> db \<Rightarrow> db \<Rightarrow> bool" where
  "deletes_model tn mid s t \<longleftrightarrow>
     versions t = versions s \<and> artifacts t = artifacts s \<and> tasks t = tasks s
     \<and> audits t = audits s \<and> regs t = regs s
     \<and> (\<exists>now. models t = upd_rows (\<lambda>m. m_tenant_id m = tn \<and> m_id m = mid \<and> m_status m \<noteq> ''deleted'')
          (deleted_at now) (models s))"

lemma deletes_model_same:
  "same_tables s u \<Longrightarrow> deletes_model tn mid u v \<Longrightarrow> same_tables v t \<Longrightarrow> deletes_model tn mid s t"
  by (simp add: deletes_model_def same_tables_def)

lemma soft_delete_Inr:
  assumes "sqlSoftDeleteModel tn mid s = (Inr n, t)"
  shows "deletes_model tn mid s t"
proof -
  from assms obtain c l where
    "rows_affected (upd_models no_error (\<lambda>s m. m_tenant_id m = tn \<and> m_id m = mid \<and> m_status m \<noteq> ''deleted'')
       deleted_at) (s\<lparr>clock := c, script := l\<rparr>) = (Inr n, t)"
    unfolding sqlSoftDeleteModel_def deleted_at_def by (elim stmt_Inr)
  then show ?thesis
    by (auto simp: rows_affected_def andThen_def upd_models_no_error deletes_model_def)
qed

text \<open>The model a request names: by its identifier, or by its external identifier when the text is no UUID.\<close>

definition requested_model :: "ext \<Rightarrow> uuid \<Rightarrow> string \<Rightarrow> model_row \<Rightarrow> bool" where
  "requested_model E tn selector m \<longleftrightarrow> m_tenant_id m = tn \<and>
     (case x_uuid_parse E selector of Inr i \<Rightarrow> m_id m = i | Inl _ \<Rightarrow> m_model_id m = selector)"

lemma one_map_Inr:
  assumes "one (map g (filter P rows)) = Inr x"
  shows "\<exists>r \<in> set rows. P r \<and> g r = x"
  using assms by (cases "filter P rows") (auto simp: one_def filter_eq_Cons_iff)

lemma sqlLockModel_Inr:
  assumes "sqlLockModel tn selected selector s = (Inr (mid, state), u)"
  shows "same_tables s u \<and> (\<exists>m \<in> set (models s). selects tn selected selector m \<and> m_id m = mid)"
proof -
  note read = stmt_rd_Inr [OF assms [unfolded sqlLockModel_def]]
  then have su: "same_tables s u" and "models u = models s" by (simp_all add: same_tables_def)
  with read one_map_Inr [of "\<lambda>m. (m_id m, m_status m)" "selects tn selected selector" "models s" "(mid, state)"]
  show ?thesis by auto
qed

lemma delete_model_tx_Inr:
  assumes "delete_model_tx E f tenant selector tn selected s = (Inr x, t)"
  shows "same_tables s t
    \<or> (\<exists>m \<in> set (models s). selects tn selected selector m \<and> deletes_model tn (m_id m) s t
         \<and> (\<forall>i \<in> set (version_ids s tn (m_id m)). cleared f tenant (x_uuid_string E i)))"
proof -
  from assms obtain mid state u where lock: "sqlLockModel tn selected selector s = (Inr (mid, state), u)"
    and rest: "(if state = ''deleted'' then ret ()
       else andThen (sqlVersionIds tn mid) (\<lambda>ids.
            andThen (lift (check_refs f tenant (map (x_uuid_string E) ids))) (\<lambda>_.
            andThen (sqlSoftDeleteModel tn mid) (\<lambda>_. ret ())))) u = (Inr x, t)"
    by (auto simp: delete_model_tx_def andThen_Inr_iff)
  from sqlLockModel_Inr [OF lock] have su: "same_tables s u"
    and sel: "\<exists>m \<in> set (models s). selects tn selected selector m \<and> m_id m = mid" by blast+
  show ?thesis
  proof (cases "state = ''deleted''")
    case True
    with rest su show ?thesis by simp
  next
    case False
    with rest obtain ids v n w where read: "sqlVersionIds tn mid u = (Inr ids, v)"
      and chk: "check_refs f tenant (map (x_uuid_string E) ids) = Inr ()"
      and del: "sqlSoftDeleteModel tn mid v = (Inr n, t)"
      by (auto simp: andThen_Inr_iff)
    from stmt_rd_Inr [OF read [unfolded sqlVersionIds_def]]
    have uv: "same_tables u v" and ids: "set ids = set (version_ids v tn mid)"
      by (auto simp: version_ids_def)
    have sv: "same_tables s v" using su uv by (rule same_tables_trans)
    then have "set ids = set (version_ids s tn mid)"
      using ids by (simp add: version_ids_def same_tables_def)
    then have "\<forall>i \<in> set (version_ids s tn mid). cleared f tenant (x_uuid_string E i)"
      using check_refs_cleared [OF chk] by auto
    moreover have "deletes_model tn mid s t"
      by (rule deletes_model_same [OF sv soft_delete_Inr [OF del]]) simp
    ultimately show ?thesis using sel by blast
  qed
qed

lemma transact_fate:
  assumes "transact m s = (r, t)"
  shows "same_tables s t \<or> (\<exists>u x v. same_tables s u \<and> m u = (Inr x, v) \<and> same_tables v t)"
proof -
  obtain br u where b: "begin_tx s = (br, u)" by (cases "begin_tx s")
  then have su: "same_tables s u" by (rule begin_same)
  show ?thesis
  proof (cases br)
    case (Inl e)
    with assms b su show ?thesis by (auto simp: transact_def andThen_def)
  next
    case (Inr y)
    with assms b have "tx_body m u = (r, t)" by (simp add: transact_def andThen_def)
    from tx_body_fate [OF this] su show ?thesis using same_tables_trans by blast
  qed
qed



text \<open>C21: Deleting a model changes nothing, whatever fails on the way, unless the inference
  service cleared every version of the model the request names in the tenant; then the only
  change is that this one model is marked deleted.\<close>

theorem deletion_needs_clearance:
  assumes "x_uuid_parse E tenant = Inr tn"
  shows "same_tables s (snd (delete_model E tenant selector (Some f) s))
    \<or> (\<exists>m \<in> set (models s). requested_model E tn selector m
         \<and> deletes_model tn (m_id m) s (snd (delete_model E tenant selector (Some f) s))
         \<and> (\<forall>i \<in> set (version_ids s tn (m_id m)). cleared f tenant (x_uuid_string E i)))"
proof -
  define selected where "selected = (case x_uuid_parse E selector of Inr i \<Rightarrow> Some i | Inl _ \<Rightarrow> None)"
  have sel: "delete_model E tenant selector (Some f) s
      = transact (delete_model_tx E f tenant selector tn selected) s"
    by (simp add: delete_model_def delete_protected_def assms andThen_lift_Inr selected_def split: sum.split)
  have req: "requested_model E tn selector m \<longleftrightarrow> selects tn selected selector m" for m
    by (simp add: selects_def requested_model_def selected_def split: sum.split)
  obtain r t where tx: "transact (delete_model_tx E f tenant selector tn selected) s = (r, t)"
    by (cases "transact (delete_model_tx E f tenant selector tn selected) s")
  then have run: "snd (delete_model E tenant selector (Some f) s) = t" by (simp add: sel)
  from transact_fate [OF tx] show ?thesis
  proof (elim disjE exE conjE)
    fix u x v
    assume su: "same_tables s u" and body: "delete_model_tx E f tenant selector tn selected u = (Inr x, v)"
      and vt: "same_tables v t"
    have ids: "version_ids u tn mid = version_ids s tn mid" for mid
      using su by (simp add: version_ids_def same_tables_def)
    have ms: "models u = models s" using su by (simp add: same_tables_def)
    from delete_model_tx_Inr [OF body] show ?thesis
      unfolding run ids ms using su vt same_tables_trans deletes_model_same unfolding req by metis
  qed (simp add: run)
qed

definition no_references :: reference_checker where
  "no_references tenant ids = Inr False"

lemma deletion_needs_clearance_witness:
  "map m_status (models (snd (delete_model sample_ext ''u1'' ''u11'' (Some no_references) sample_db)))
     = [''deleted'']
   \<and> (same_tables sample_db (snd (delete_model sample_ext ''u1'' ''u11'' (Some no_references) sample_db))
     \<or> (\<exists>m \<in> set (models sample_db). requested_model sample_ext 1 ''u11'' m
         \<and> deletes_model 1 (m_id m) sample_db
            (snd (delete_model sample_ext ''u1'' ''u11'' (Some no_references) sample_db))
         \<and> (\<forall>i \<in> set (version_ids sample_db 1 (m_id m)). cleared no_references ''u1'' (x_uuid_string sample_ext i))))"
proof
  show "map m_status (models (snd (delete_model sample_ext ''u1'' ''u11'' (Some no_references) sample_db)))
     = [''deleted'']"
    by code_simp
qed (rule deletion_needs_clearance, simp)

end
