(* ===== verification/RegistrationStore.thy ===== *)
theory RegistrationStore
  imports BundleStore
begin

text \<open>
  The store of trained-artifact registrations,
  \<open>internal/data/postgres/trained_artifact_store.go\<close>: \<open>Prepare\<close>, the reads,
  \<open>MarkUploaded\<close>, \<open>Complete\<close>, \<open>Fail\<close> and \<open>Abort\<close>, with its SQL. \<open>Complete\<close> is one
  transaction whose deferred error path rolls back and records the failure. A panic of
  \<open>uuid.MustParse\<close> on a stored identifier is the error branch of its parse.
\<close>

section \<open>Rows and statements\<close>

definition reg_from_row :: "ext \<Rightarrow> reg_row \<Rightarrow> registration" where
  "reg_from_row E r =
     \<lparr>gTenantID = x_uuid_string E (r_tenant_id r), gID = x_uuid_string E (r_id r),
      gIdempotencyKey = r_idempotency_key r, gRequestFingerprint = r_request_fingerprint r,
      gExecutionID = r_execution_id r,
      gTargetModelID = nullable_uuid_string E (r_target_model_id r),
      gModelName = r_model_name r, gDisplayName = r_display_name r,
      gDescription = r_description r, gCapabilities = fst (x_json_strings E (r_capabilities r)),
      gSourceModelVersionID = nullable_uuid_string E (r_source_model_version_id r),
      gVersion = r_version r, gFileName = r_file_name r, gFormat = r_format r,
      gStoragePath = r_storage_path r, gChecksumSHA256 = r_checksum_sha256 r,
      gSizeBytes = r_size_bytes r, gEngineType = r_engine_type r,
      gEngineImage = r_engine_image r, gStartupCommand = r_startup_command r,
      gRecommendedImageID = r_recommended_image_id r,
      gRecommendedImageScope = r_recommended_image_scope r, gStatus = r_status r,
      gErrorMessage = r_error_message r, gModelID = nullable_uuid_string E (r_model_id r),
      gModelVersionID = nullable_uuid_string E (r_model_version_id r),
      gCreatedAt = go_time (Some (r_created_at r)), gUpdatedAt = go_time (Some (r_updated_at r))\<rparr>"

definition new_reg_row ::
    "registration \<Rightarrow> uuid \<Rightarrow> uuid \<Rightarrow> uuid option \<Rightarrow> uuid option \<Rightarrow> string \<Rightarrow> int \<Rightarrow> reg_row" where
  "new_reg_row g tn i target source caps now =
     \<lparr>r_tenant_id = tn, r_id = i, r_idempotency_key = gIdempotencyKey g,
      r_request_fingerprint = gRequestFingerprint g, r_execution_id = gExecutionID g,
      r_target_model_id = target, r_model_name = gModelName g,
      r_display_name = gDisplayName g, r_description = gDescription g, r_capabilities = caps,
      r_source_model_version_id = source, r_version = gVersion g, r_file_name = gFileName g,
      r_format = gFormat g, r_storage_path = gStoragePath g, r_size_bytes = gSizeBytes g,
      r_checksum_sha256 = gChecksumSHA256 g, r_engine_type = gEngineType g,
      r_engine_image = gEngineImage g, r_startup_command = gStartupCommand g,
      r_status = RegistrationPending, r_error_message = [], r_model_id = None,
      r_model_version_id = None, r_created_at = now, r_updated_at = now,
      r_recommended_image_id = gRecommendedImageID g,
      r_recommended_image_scope = gRecommendedImageScope g\<rparr>"

definition sqlRegByKey :: "uuid \<Rightarrow> string \<Rightarrow> reg_row dbop" where
  "sqlRegByKey tn key = stmt (rd (\<lambda>s. one
     (filter (\<lambda>r. r_tenant_id r = tn \<and> r_idempotency_key r = key) (regs s))))"

definition sqlRegById :: "uuid \<Rightarrow> uuid \<Rightarrow> reg_row dbop" where
  "sqlRegById tn i = stmt (rd (\<lambda>s. one
     (filter (\<lambda>r. r_tenant_id r = tn \<and> r_id r = i) (regs s))))"

definition sqlInsertReg ::
    "ext \<Rightarrow> registration \<Rightarrow> uuid \<Rightarrow> uuid \<Rightarrow> uuid option \<Rightarrow> uuid option \<Rightarrow> reg_row dbop" where
  "sqlInsertReg E g tn i target source =
     stmt (andThen (lift (jsonb E (json_array (gCapabilities g))))
       (\<lambda>caps. ins_reg (new_reg_row g tn i target source caps)))"

definition open_reg :: "reg_row \<Rightarrow> bool" where
  "open_reg r \<longleftrightarrow> r_status r = RegistrationPending \<or> r_status r = RegistrationUploaded"

definition sqlMarkUploaded :: "uuid \<Rightarrow> uuid \<Rightarrow> int dbop" where
  "sqlMarkUploaded tn i = stmt (rows_affected (upd_regs
     (\<lambda>s r. r_tenant_id r = tn \<and> r_id r = i \<and> r_status r = RegistrationPending)
     (\<lambda>now r. r\<lparr>r_status := RegistrationUploaded, r_updated_at := now, r_error_message := []\<rparr>)))"

definition sqlFailReg :: "uuid \<Rightarrow> uuid \<Rightarrow> string \<Rightarrow> int dbop" where
  "sqlFailReg tn i msg = stmt (rows_affected (upd_regs
     (\<lambda>s r. r_tenant_id r = tn \<and> r_id r = i \<and> open_reg r)
     (\<lambda>now r. r\<lparr>r_status := RegistrationFailed, r_error_message := msg, r_updated_at := now\<rparr>)))"

definition sqlAbortReg :: "uuid \<Rightarrow> uuid \<Rightarrow> string \<Rightarrow> int dbop" where
  "sqlAbortReg tn i msg = stmt (rows_affected (upd_regs
     (\<lambda>s r. r_tenant_id r = tn \<and> r_id r = i \<and> open_reg r)
     (\<lambda>now r. r\<lparr>r_status := RegistrationAborted, r_error_message := msg, r_updated_at := now\<rparr>)))"

definition sqlInsertRegModel :: "ext \<Rightarrow> uuid \<Rightarrow> uuid \<Rightarrow> registration \<Rightarrow> model_row dbop" where
  "sqlInsertRegModel E tn mid g =
     stmt (andThen (lift (jsonb E (json_array (gCapabilities g))))
       (\<lambda>caps. ins_model (new_model_row tn mid (gModelName g) (gModelName g) (gDisplayName g)
          (gDescription g) ''upload'' [] caps [] [])))"

definition sqlLockRegModel :: "uuid \<Rightarrow> uuid \<Rightarrow> uuid dbop" where
  "sqlLockRegModel tn mid = stmt (rd (\<lambda>s. one (map m_id
     (filter (\<lambda>m. m_tenant_id m = tn \<and> m_id m = mid \<and> m_status m \<noteq> ''deleted'') (models s)))))"

definition sqlInsertRegVersion :: "uuid \<Rightarrow> uuid \<Rightarrow> uuid \<Rightarrow> registration \<Rightarrow> version_row dbop" where
  "sqlInsertRegVersion tn vid mid g = stmt (ins_version
     (new_version_row tn vid mid (gVersion g) (gFormat g) False [] [] (gSizeBytes g) (gChecksumSHA256 g)
        (gEngineType g) (gEngineImage g) (gRecommendedImageID g) (gRecommendedImageScope g)
        (gStartupCommand g) ''[]'' [] []))"

definition sqlInsertRegArtifact :: "uuid \<Rightarrow> uuid \<Rightarrow> uuid \<Rightarrow> registration \<Rightarrow> artifact_row dbop" where
  "sqlInsertRegArtifact tn aid vid g =
     sqlCreateModelArtifact tn aid vid ''upload'' (gStoragePath g) (gFormat g) (gSizeBytes g)
       (gChecksumSHA256 g) False []"

definition size_bad :: "model_row \<Rightarrow> gerr option" where
  "size_bad m = (if max_int64 < m_total_size_bytes m then Some (pg ''22003'') else None)"

definition sqlAddModelSize :: "uuid \<Rightarrow> uuid \<Rightarrow> int \<Rightarrow> int dbop" where
  "sqlAddModelSize tn mid sz = stmt (rows_affected (upd_models size_bad
     (\<lambda>s m. m_tenant_id m = tn \<and> m_id m = mid)
     (\<lambda>now m. m\<lparr>m_total_size_bytes := m_total_size_bytes m + sz, m_updated_at := now\<rparr>)))"

definition sqlSetVersionReady :: "uuid \<Rightarrow> uuid \<Rightarrow> int dbop" where
  "sqlSetVersionReady tn vid = stmt (rows_affected (upd_versions
     (\<lambda>s v. v_tenant_id v = tn \<and> v_id v = vid)
     (\<lambda>now v. v\<lparr>v_status := VersionReady, v_updated_at := now, v_error_message := []\<rparr>)))"

definition sqlSetModelReady :: "uuid \<Rightarrow> uuid \<Rightarrow> int dbop" where
  "sqlSetModelReady tn mid = stmt (rows_affected (upd_models no_error
     (\<lambda>s m. m_tenant_id m = tn \<and> m_id m = mid)
     (\<lambda>now m. m\<lparr>m_status := ''ready'', m_updated_at := now, m_error_message := []\<rparr>)))"

definition sqlSetRegReady :: "uuid \<Rightarrow> uuid \<Rightarrow> uuid \<Rightarrow> uuid \<Rightarrow> int dbop" where
  "sqlSetRegReady tn i mid vid = stmt (rows_affected (upd_regs
     (\<lambda>s r. r_tenant_id r = tn \<and> r_id r = i)
     (\<lambda>now r. r\<lparr>r_status := RegistrationReady, r_model_id := Some mid,
        r_model_version_id := Some vid, r_updated_at := now, r_error_message := []\<rparr>)))"

section \<open>The methods\<close>

definition parse_registration_ids :: "ext \<Rightarrow> string \<Rightarrow> string \<Rightarrow> gerr + uuid \<times> uuid" where
  "parse_registration_ids E tenant_id registration_id =
     (case parse_field E ''tenant_id'' tenant_id of
        Inl e \<Rightarrow> Inl e
      | Inr t \<Rightarrow> (case parse_field E ''registration_id'' registration_id of
                   Inl e \<Rightarrow> Inl e | Inr i \<Rightarrow> Inr (t, i)))"

text \<open>\<open>Prepare\<close> calls itself after a unique violation; the fuel bounds the calls.\<close>

fun reg_prepare :: "nat \<Rightarrow> ext \<Rightarrow> registration \<Rightarrow> registration option dbop" where
  "reg_prepare 0 E g = ret None"
| "reg_prepare (Suc n) E g =
     andThen (lift (parse_registration_ids E (gTenantID g) (gID g))) (\<lambda>(tn, i).
     inspect (sqlRegByKey tn (gIdempotencyKey g)) (\<lambda>found.
       case found of
         Inr r \<Rightarrow> if r_request_fingerprint r \<noteq> gRequestFingerprint g
                  then throw ErrRegistrationConflict
                  else ret (Some (reg_from_row E r))
       | Inl e \<Rightarrow>
           if \<not> err_is e ErrNoRows then throw e
           else andThen (lift (optional_uuid E ''target_model_id'' (gTargetModelID g))) (\<lambda>target.
                andThen (lift (optional_uuid E ''source_model_version_id'' (gSourceModelVersionID g))) (\<lambda>source.
                inspect (sqlInsertReg E g tn i target source) (\<lambda>made.
                  case made of
                    Inr r \<Rightarrow> ret (Some (reg_from_row E r))
                  | Inl e2 \<Rightarrow> if as_pg e2 = Some ''23505'' then reg_prepare n E g
                              else throw e2)))))"

definition not_found :: "gerr \<Rightarrow> gerr" where
  "not_found e = (if err_is e ErrNoRows then ErrRegistrationNotFound else e)"

definition reg_get :: "ext \<Rightarrow> string \<Rightarrow> string \<Rightarrow> registration dbop" where
  "reg_get E tenant_id registration_id =
     andThen (lift (parse_registration_ids E tenant_id registration_id)) (\<lambda>(tn, i).
     andThen (mapErr not_found (sqlRegById tn i)) (\<lambda>r. ret (reg_from_row E r)))"

definition reg_get_by_key :: "ext \<Rightarrow> string \<Rightarrow> string \<Rightarrow> registration dbop" where
  "reg_get_by_key E tenant_id key =
     andThen (lift (parse_field E ''tenant_id'' tenant_id)) (\<lambda>tn.
     andThen (mapErr not_found (sqlRegByKey tn key)) (\<lambda>r. ret (reg_from_row E r)))"

definition reg_mark_uploaded :: "ext \<Rightarrow> string \<Rightarrow> string \<Rightarrow> unit dbop" where
  "reg_mark_uploaded E tenant_id registration_id =
     andThen (lift (parse_registration_ids E tenant_id registration_id)) (\<lambda>(tn, i).
     andThen (sqlMarkUploaded tn i) (\<lambda>n.
       if 0 < n then ret ()
       else andThen (reg_get E tenant_id registration_id) (\<lambda>cur.
              if gStatus cur = RegistrationUploaded \<or> gStatus cur = RegistrationReady then ret ()
              else throw ErrRegistrationTerminal)))"

definition reg_fail :: "ext \<Rightarrow> string \<Rightarrow> string \<Rightarrow> string \<Rightarrow> unit dbop" where
  "reg_fail E tenant_id registration_id msg =
     andThen (lift (parse_registration_ids E tenant_id registration_id)) (\<lambda>(tn, i).
     andThen (sqlFailReg tn i msg) (\<lambda>_. ret ()))"

definition reg_abort :: "ext \<Rightarrow> string \<Rightarrow> string \<Rightarrow> string \<Rightarrow> unit dbop" where
  "reg_abort E tenant_id registration_id reason =
     andThen (lift (parse_registration_ids E tenant_id registration_id)) (\<lambda>(tn, i).
     andThen (sqlAbortReg tn i reason) (\<lambda>n.
       if n = 0 then
         inspect (reg_get E tenant_id registration_id) (\<lambda>res.
           case res of
             Inl e \<Rightarrow> if err_is e ErrRegistrationNotFound then throw e else throw ErrRegistrationTerminal
           | Inr _ \<Rightarrow> throw ErrRegistrationTerminal)
       else ret ()))"

definition registration_result_of :: "registration \<Rightarrow> registration_result" where
  "registration_result_of g =
     \<lparr>hRegistrationID = gID g, hModelID = gModelID g, hModelVersionID = gModelVersionID g,
      hStatus = gStatus g, hStoragePath = gStoragePath g, hChecksumSHA256 = gChecksumSHA256 g,
      hSizeBytes = gSizeBytes g\<rparr>"

definition map_registration_write_error :: "gerr \<Rightarrow> gerr" where
  "map_registration_write_error e =
     (if as_pg e = Some ''23505'' then ErrRegistrationConflict else e)"

text \<open>The identifiers drawn by \<open>Complete\<close>: for a new model, the version and the artifact.\<close>

record fresh_ids =
  fModel :: uuid
  fVersion :: uuid
  fArtifact :: uuid

text \<open>The model of the registration: a new one, or the target locked while it is live.\<close>

definition reg_model :: "ext \<Rightarrow> fresh_ids \<Rightarrow> uuid \<Rightarrow> registration \<Rightarrow> uuid dbop" where
  "reg_model E ids tn g =
     (if gTargetModelID g = [] then
        mapErr map_registration_write_error
          (andThen (sqlInsertRegModel E tn (fModel ids) g) (\<lambda>_. ret (fModel ids)))
      else
        andThen (lift (x_uuid_parse E (gTargetModelID g))) (\<lambda>mid.
          mapErr map_registration_write_error
            (andThen (sqlLockRegModel tn mid) (\<lambda>_. ret mid))))"

definition reg_publish ::
    "ext \<Rightarrow> fresh_ids \<Rightarrow> uuid \<Rightarrow> uuid \<Rightarrow> registration \<Rightarrow> registration_result dbop" where
  "reg_publish E ids tn i g =
     andThen (reg_model E ids tn g) (\<lambda>mid.
     andThen (mapErr map_registration_write_error (sqlInsertRegVersion tn (fVersion ids) mid g)) (\<lambda>_.
     andThen (mapErr map_registration_write_error
        (sqlInsertRegArtifact tn (fArtifact ids) (fVersion ids) g)) (\<lambda>_.
     andThen (sqlAddModelSize tn mid (gSizeBytes g)) (\<lambda>_.
     andThen (sqlSetVersionReady tn (fVersion ids)) (\<lambda>_.
     andThen (sqlSetModelReady tn mid) (\<lambda>_.
     andThen (sqlSetRegReady tn i mid (fVersion ids)) (\<lambda>_.
       ret (registration_result_of (g\<lparr>gModelID := x_uuid_string E mid,
         gModelVersionID := x_uuid_string E (fVersion ids), gStatus := RegistrationReady\<rparr>)))))))))"

definition complete_tx ::
    "ext \<Rightarrow> fresh_ids \<Rightarrow> uuid \<Rightarrow> uuid \<Rightarrow> registration_result dbop" where
  "complete_tx E ids tn i =
     andThen (mapErr not_found (sqlRegById tn i)) (\<lambda>r.
       let g = reg_from_row E r in
       if gStatus g = RegistrationReady then ret (registration_result_of g)
       else if gStatus g = RegistrationFailed \<or> gStatus g = RegistrationAborted
       then throw ErrRegistrationTerminal
       else reg_publish E ids tn i g)"

definition reg_complete ::
    "ext \<Rightarrow> fresh_ids \<Rightarrow> string \<Rightarrow> string \<Rightarrow> registration_result dbop" where
  "reg_complete E ids tenant_id registration_id =
     andThen (lift (parse_registration_ids E tenant_id registration_id)) (\<lambda>(tn, i).
     andThen begin_tx (\<lambda>_.
     inspect (tx_body (complete_tx E ids tn i)) (\<lambda>res.
       case res of
         Inr x \<Rightarrow> ret x
       | Inl e \<Rightarrow> inspect (reg_fail E tenant_id registration_id (error_text E e)) (\<lambda>_. throw e))))"

end
