(* ===== verification/RegistrationRules.thy ===== *)
theory RegistrationRules
  imports RegistrationStore
begin

text \<open>
  What the registration store keeps and what its \<open>Complete\<close> achieves. The last statements
  of \<open>Complete\<close> update rows unconditionally and are legal only because of what the
  transaction established before, so they are verified with triples: \<open>triple P m Q\<close> says
  that from a consistent database with \<open>P\<close> the operation moves soundly and leaves \<open>Q\<close>
  when it succeeds.
\<close>

section \<open>Triples\<close>

definition triple :: "(db \<Rightarrow> bool) \<Rightarrow> 'a dbop \<Rightarrow> ('a \<Rightarrow> db \<Rightarrow> bool) \<Rightarrow> bool" where
  "triple P m Q \<longleftrightarrow>
     (\<forall>s. P s \<and> db_ok s \<longrightarrow> sound s (snd (m s)) \<and> (\<forall>x t. m s = (Inr x, t) \<longrightarrow> Q x t))"

definition timeless :: "(db \<Rightarrow> bool) \<Rightarrow> bool" where
  "timeless P \<longleftrightarrow> (\<forall>s c l. P s \<longrightarrow> P (s\<lparr>clock := c, script := l\<rparr>))"

lemma tripleI:
  "(\<And>s. P s \<Longrightarrow> db_ok s \<Longrightarrow> sound s (snd (m s))) \<Longrightarrow>
   (\<And>s x t. P s \<Longrightarrow> db_ok s \<Longrightarrow> m s = (Inr x, t) \<Longrightarrow> Q x t) \<Longrightarrow> triple P m Q"
  unfolding triple_def by blast

lemma tripleD:
  "triple P m Q \<Longrightarrow> P s \<Longrightarrow> db_ok s \<Longrightarrow> sound s (snd (m s)) \<and> (\<forall>x t. m s = (Inr x, t) \<longrightarrow> Q x t)"
  by (simp add: triple_def)

lemma sound_ok: "sound s t \<Longrightarrow> db_ok s \<Longrightarrow> db_ok t"
  by (simp add: sound_def)

lemma triple_ret: "(\<And>s. P s \<Longrightarrow> Q x s) \<Longrightarrow> triple P (ret x) Q"
  by (simp add: triple_def so.R_refl)

lemma triple_throw: "triple P (throw e) Q"
  by (simp add: triple_def so.R_refl)

lemma triple_lift: "(\<And>s x. P s \<Longrightarrow> r = Inr x \<Longrightarrow> Q x s) \<Longrightarrow> triple P (lift r) Q"
  by (simp add: triple_def so.R_refl)

lemma triple_mapErr: "triple P m Q \<Longrightarrow> triple P (mapErr h m) Q"
  by (simp add: triple_def mapErr_Inr_iff)

lemma triple_andThen:
  assumes m: "triple P m Q" and f: "\<And>x. triple (Q x) (f x) Z"
  shows "triple P (andThen m f) Z"
proof (rule tripleI)
  fix s
  assume P: "P s" and ok: "db_ok s"
  obtain r t where mt: "m s = (r, t)" by (cases "m s")
  from tripleD [OF m P ok] mt have st: "sound s t" by simp
  show "sound s (snd (andThen m f s))"
  proof (cases r)
    case (Inr x)
    with tripleD [OF m P ok] mt have "Q x t" by simp
    from tripleD [OF f this sound_ok [OF st ok]] have "sound t (snd (f x t))" by simp
    with st mt Inr show ?thesis by (auto simp: andThen_def intro: so.R_trans)
  qed (use st mt in \<open>simp add: andThen_def\<close>)
next
  fix s y u
  assume P: "P s" and ok: "db_ok s" and "andThen m f s = (Inr y, u)"
  then obtain x t where mt: "m s = (Inr x, t)" and ft: "f x t = (Inr y, u)"
    by (auto simp: andThen_Inr_iff)
  from tripleD [OF m P ok] mt have "Q x t" and "sound s t" by auto
  from tripleD [OF f this(1) sound_ok [OF this(2) ok]] ft show "Z y u" by blast
qed

lemma triple_stmt:
  assumes "timeless P" and q: "triple P q Q"
  shows "triple P (stmt q) Q"
proof (rule tripleI)
  fix s
  assume P: "P s" and ok: "db_ok s"
  have at: "sound u (snd (stmt_at q fl u))" if "P u" "db_ok u" for u fl
    using tripleD [OF q that]
    by (auto simp: stmt_at_def so.R_refl split: fault.splits prod.splits sum.splits)
  show "sound s (snd (stmt q s))"
  proof (cases "script s")
    case Nil
    with at [OF P ok] show ?thesis by (simp add: stmt_def)
  next
    case (Cons d rest)
    obtain k fl where d: "d = (k, fl)" by (cases d)
    let ?u = "s\<lparr>clock := clock s + int k, script := rest\<rparr>"
    have "sound s ?u" by (rule so.R_time) simp
    moreover from this have "sound ?u (snd (stmt_at q fl ?u))"
      using P assms(1) ok sound_ok by (intro at) (auto simp: timeless_def)
    ultimately show ?thesis using Cons d by (auto simp: stmt_def intro: so.R_trans)
  qed
next
  fix s x t
  assume P: "P s" and ok: "db_ok s" and "stmt q s = (Inr x, t)"
  then obtain c l where "clock s \<le> c" and "q (s\<lparr>clock := c, script := l\<rparr>) = (Inr x, t)"
    by (elim stmt_Inr)
  moreover from this have "sound s (s\<lparr>clock := c, script := l\<rparr>)" by (simp add: so.R_time)
  moreover have "P (s\<lparr>clock := c, script := l\<rparr>)" using P assms(1) by (simp add: timeless_def)
  ultimately show "Q x t" using tripleD [OF q] sound_ok ok by blast
qed

lemma triple_weaken: "triple P m Q \<Longrightarrow> (\<And>s. P2 s \<Longrightarrow> P s) \<Longrightarrow> triple P2 m Q"
  unfolding triple_def by blast

lemma triple_tx_body:
  assumes "triple P m Q" and "P s" and "db_ok s"
  shows "sound s (snd (tx_body m s))"
  using so.rel_tx_body tripleD [OF assms] by blast

section \<open>Updates at a state\<close>

lemma filter_set_in: "filter (\<lambda>r. r \<in> set xs \<and> P r) xs = filter P xs"
  by (rule filter_cong) auto

lemma upd_rows_in: "upd_rows (\<lambda>r. r \<in> set xs \<and> P r) f xs = upd_rows P f xs"
  by (simp add: upd_rows_def)

lemma upd_models_at:
  "upd_models bad (\<lambda>u r. u = s \<and> r \<in> set (models s) \<and> hit s r) f s = upd_models bad hit f s"
  by (simp add: upd_models_def Let_def filter_set_in upd_rows_in split: option.split)

lemma upd_versions_at:
  "upd_versions (\<lambda>u r. u = s \<and> r \<in> set (versions s) \<and> hit s r) f s = upd_versions hit f s"
  by (simp add: upd_versions_def filter_set_in upd_rows_in)

lemma upd_regs_at:
  "upd_regs (\<lambda>u r. u = s \<and> r \<in> set (regs s) \<and> hit s r) f s = upd_regs hit f s"
  by (simp add: upd_regs_def Let_def filter_set_in upd_rows_in)

lemma sound_upd_models:
  assumes ev: "\<And>r c. r \<in> set (models s) \<Longrightarrow> hit s r \<Longrightarrow> model_evolves r (f c r)"
    and ck: "\<And>r c. r \<in> set (models s) \<Longrightarrow> hit s r \<Longrightarrow> model_check r \<Longrightarrow> bad (f c r) = None \<Longrightarrow>
        model_check (f c r)"
  shows "sound s (snd (upd_models bad hit f s))"
proof -
  let ?hit = "\<lambda>u r. u = s \<and> r \<in> set (models s) \<and> hit s r"
  have "steps_in evolves (upd_models bad ?hit f)"
    by (rule ev_upd_models) (use ev in blast)
  moreover have "steps_in keeps_ok (upd_models bad ?hit f)"
    by (rule ok_upd_models) (use ev ck model_evolves_def in blast)+
  ultimately have "steps_in sound (upd_models bad ?hit f)" by (rule steps_sound)
  then have "sound s (snd (upd_models bad ?hit f s))" by (simp only: steps_in_def)
  then show ?thesis by (simp only: upd_models_at)
qed

lemma sound_upd_versions:
  assumes ev: "\<And>r c. r \<in> set (versions s) \<Longrightarrow> hit s r \<Longrightarrow> version_evolves r (f c r)"
    and ck: "\<And>r c. r \<in> set (versions s) \<Longrightarrow> hit s r \<Longrightarrow> version_check r \<Longrightarrow> version_check (f c r)"
    and bk: "\<And>r c. r \<in> set (versions s) \<Longrightarrow> hit s r \<Longrightarrow> artifacts_ok (version_keys s) (artifacts s) \<Longrightarrow>
        ready_backed (artifacts s) (f c r)"
  shows "sound s (snd (upd_versions hit f s))"
proof -
  let ?hit = "\<lambda>u r. u = s \<and> r \<in> set (versions s) \<and> hit s r"
  have "steps_in evolves (upd_versions ?hit f)"
    by (rule ev_upd_versions) (use ev in blast)
  moreover have "steps_in keeps_ok (upd_versions ?hit f)"
    by (rule ok_upd_versions) (use ev ck bk version_evolves_def in blast)+
  ultimately have "steps_in sound (upd_versions ?hit f)" by (rule steps_sound)
  then have "sound s (snd (upd_versions ?hit f s))" by (simp only: steps_in_def)
  then show ?thesis by (simp only: upd_versions_at)
qed

lemma sound_upd_regs:
  assumes ev: "\<And>r c. r \<in> set (regs s) \<Longrightarrow> hit s r \<Longrightarrow> reg_evolves r (f c r)"
    and ck: "\<And>r c. r \<in> set (regs s) \<Longrightarrow> hit s r \<Longrightarrow> reg_check r \<Longrightarrow> reg_inv r \<Longrightarrow>
        reg_check (f c r) \<and> reg_inv (f c r)"
  shows "sound s (snd (upd_regs hit f s))"
proof -
  let ?hit = "\<lambda>u r. u = s \<and> r \<in> set (regs s) \<and> hit s r"
  have "steps_in evolves (upd_regs ?hit f)"
    by (rule ev_upd_regs) (use ev in blast)
  moreover have "steps_in keeps_ok (upd_regs ?hit f)"
    by (rule ok_upd_regs) (use ev ck reg_evolves_def in blast)+
  ultimately have "steps_in sound (upd_regs ?hit f)" by (rule steps_sound)
  then have "sound s (snd (upd_regs ?hit f s))" by (simp only: steps_in_def)
  then show ?thesis by (simp only: upd_regs_at)
qed

section \<open>What \<open>Complete\<close> establishes, statement by statement\<close>

definition model_at :: "(model_row \<Rightarrow> bool) \<Rightarrow> uuid \<Rightarrow> uuid \<Rightarrow> db \<Rightarrow> bool" where
  "model_at P tn i s \<longleftrightarrow> list_ex (\<lambda>m. m_tenant_id m = tn \<and> m_id m = i \<and> P m) (models s)"

definition version_at :: "(version_row \<Rightarrow> bool) \<Rightarrow> uuid \<Rightarrow> uuid \<Rightarrow> db \<Rightarrow> bool" where
  "version_at P tn i s \<longleftrightarrow> list_ex (\<lambda>v. v_tenant_id v = tn \<and> v_id v = i \<and> P v) (versions s)"

definition artifact_for :: "string \<Rightarrow> uuid \<Rightarrow> uuid \<Rightarrow> db \<Rightarrow> bool" where
  "artifact_for chk tn vid s \<longleftrightarrow>
     list_ex (\<lambda>a. a_tenant_id a = tn \<and> a_model_version_id a = vid \<and> a_sha256 a = chk) (artifacts s)"

definition reg_at :: "(reg_row \<Rightarrow> bool) \<Rightarrow> uuid \<Rightarrow> uuid \<Rightarrow> db \<Rightarrow> bool" where
  "reg_at P tn i s \<longleftrightarrow> list_ex (\<lambda>r. r_tenant_id r = tn \<and> r_id r = i \<and> P r) (regs s)"

lemmas at_defs = model_at_def version_at_def artifact_for_def reg_at_def

lemma timeless_at [simp]:
  "timeless (model_at P tn i)" "timeless (version_at Q tn i)" "timeless (artifact_for chk tn i)"
  "timeless (reg_at Z tn i)" "timeless (\<lambda>s. True)"
  by (simp_all add: timeless_def at_defs)

lemma timeless_conj [simp]: "timeless P \<Longrightarrow> timeless Q \<Longrightarrow> timeless (\<lambda>s. P s \<and> Q s)"
  by (simp add: timeless_def)

lemma unique_model:
  "db_ok s \<Longrightarrow> a \<in> set (models s) \<Longrightarrow> b \<in> set (models s) \<Longrightarrow> m_tenant_id a = m_tenant_id b \<Longrightarrow>
   m_id a = m_id b \<Longrightarrow> a = b"
  by (rule distinct_key_eq [of model_key]) (simp_all add: db_ok_def models_ok_def model_key_def)

lemma unique_version:
  "db_ok s \<Longrightarrow> a \<in> set (versions s) \<Longrightarrow> b \<in> set (versions s) \<Longrightarrow> v_tenant_id a = v_tenant_id b \<Longrightarrow>
   v_id a = v_id b \<Longrightarrow> a = b"
  by (rule distinct_key_eq [of version_key]) (simp_all add: db_ok_def versions_ok_def version_key_def)

lemma unique_reg:
  "db_ok s \<Longrightarrow> a \<in> set (regs s) \<Longrightarrow> b \<in> set (regs s) \<Longrightarrow> r_tenant_id a = r_tenant_id b \<Longrightarrow>
   r_id a = r_id b \<Longrightarrow> a = b"
  by (rule distinct_key_eq [of reg_key]) (simp_all add: db_ok_def regs_ok_def reg_key_def)

lemma model_at_D:
  "db_ok s \<Longrightarrow> model_at P tn i s \<Longrightarrow> m \<in> set (models s) \<Longrightarrow> m_tenant_id m = tn \<Longrightarrow> m_id m = i \<Longrightarrow> P m"
  unfolding model_at_def list_ex_iff by (metis unique_model)

lemma version_at_D:
  "db_ok s \<Longrightarrow> version_at P tn i s \<Longrightarrow> v \<in> set (versions s) \<Longrightarrow> v_tenant_id v = tn \<Longrightarrow> v_id v = i \<Longrightarrow> P v"
  unfolding version_at_def list_ex_iff by (metis unique_version)

lemma reg_at_D:
  "db_ok s \<Longrightarrow> reg_at P tn i s \<Longrightarrow> r \<in> set (regs s) \<Longrightarrow> r_tenant_id r = tn \<Longrightarrow> r_id r = i \<Longrightarrow> P r"
  unfolding reg_at_def list_ex_iff by (metis unique_reg)

abbreviation pending_with :: "string \<Rightarrow> version_row \<Rightarrow> bool" where
  "pending_with chk v \<equiv> v_status v = VersionPending \<and> v_checksum_sha256 v = chk"

abbreviation ready_with :: "string \<Rightarrow> version_row \<Rightarrow> bool" where
  "ready_with chk v \<equiv> v_status v = VersionReady \<and> v_checksum_sha256 v = chk"

abbreviation live :: "model_row \<Rightarrow> bool" where
  "live m \<equiv> m_status m \<noteq> ''deleted''"

definition registered :: "uuid \<Rightarrow> uuid \<Rightarrow> reg_row \<Rightarrow> bool" where
  "registered mid vid r \<longleftrightarrow> r_status r = RegistrationReady \<and> r_model_id r = Some mid
     \<and> r_model_version_id r = Some vid"

lemmas registration_statuses = RegistrationPending_def RegistrationUploaded_def RegistrationReady_def
  RegistrationFailed_def RegistrationAborted_def

text \<open>A statement known to be sound establishes what its success shows.\<close>

lemma triple_of_sound:
  assumes "steps_in sound m" and "\<And>s x t. P s \<Longrightarrow> db_ok s \<Longrightarrow> m s = (Inr x, t) \<Longrightarrow> Q x t"
  shows "triple P m Q"
  using assms by (intro tripleI) (simp_all add: steps_in_def)

lemma so_insert_raw:
  "steps_in sound (ins_model mk)"
  "(\<And>c. v_status (mkv c) \<noteq> VersionReady) \<Longrightarrow> steps_in sound (ins_version mkv)"
  "steps_in sound (ins_artifact mka)"
  "(\<And>c. reg_inv (mkr c)) \<Longrightarrow> steps_in sound (ins_reg mkr)"
  by (simp_all add: steps_sound ev_raw ok_ins)

lemma triple_model:
  "triple (reg_at open_reg tn i) (reg_model E ids tn g)
     (\<lambda>mid s. reg_at open_reg tn i s \<and> model_at live tn mid s)"
proof -
  let ?J = "reg_at open_reg tn i"
  have new: "triple ?J (sqlInsertRegModel E tn mid g) (\<lambda>_ s. ?J s \<and> model_at live tn mid s)" for mid
    unfolding sqlInsertRegModel_def
    by (rule triple_stmt, simp, rule triple_of_sound, intro so.steps_basic so_insert_raw)
       (auto simp: andThen_Inr_iff ins_model_def Let_def at_defs new_model_row_def split: option.splits)
  have lock: "triple ?J (sqlLockRegModel tn mid) (\<lambda>_ s. ?J s \<and> model_at live tn mid s)" for mid
    unfolding sqlLockRegModel_def
    by (rule triple_stmt, simp, rule triple_of_sound, rule so.steps_rd)
       (auto simp: rd_def one_Inr model_at_def list_ex_iff map_eq_Cons_conv filter_eq_Cons_iff)
  have locked: "triple ?J (andThen (lift (x_uuid_parse E x)) (\<lambda>mid.
          mapErr map_registration_write_error
            (andThen (sqlLockRegModel tn mid) (\<lambda>_. ret mid))))
        (\<lambda>mid s. ?J s \<and> model_at live tn mid s)" for x
    by (rule triple_andThen [where Q = "\<lambda>_. ?J", OF triple_lift])
       (auto intro!: triple_mapErr triple_andThen [OF lock] triple_ret)
  show ?thesis
    unfolding reg_model_def
    by (cases "gTargetModelID g = []")
       (auto intro!: triple_mapErr triple_andThen [OF new] triple_ret locked)
qed

lemma triple_version:
  "triple (\<lambda>s. reg_at open_reg tn i s \<and> model_at live tn mid s) (sqlInsertRegVersion tn vid mid g)
     (\<lambda>_ s. (reg_at open_reg tn i s \<and> model_at live tn mid s)
        \<and> version_at (pending_with (gChecksumSHA256 g)) tn vid s)"
  unfolding sqlInsertRegVersion_def
  by (rule triple_stmt, simp, rule triple_of_sound, rule so_insert_raw)
     (auto simp: ins_version_def Let_def at_defs new_version_row_def version_statuses split: option.splits)

lemma triple_artifact:
  "triple (\<lambda>s. (reg_at open_reg tn i s \<and> model_at live tn mid s) \<and> version_at P tn vid s)
     (sqlInsertRegArtifact tn aid vid g)
     (\<lambda>_ s. ((reg_at open_reg tn i s \<and> model_at live tn mid s) \<and> version_at P tn vid s)
        \<and> artifact_for (gChecksumSHA256 g) tn vid s)"
  unfolding sqlInsertRegArtifact_def sqlCreateModelArtifact_def
  by (rule triple_stmt, simp, rule triple_of_sound, rule so_insert_raw)
     (auto simp: ins_artifact_def Let_def at_defs split: option.splits)

lemma model_at_upd:
  assumes "model_at P tn i s"
    and "\<And>m. P m \<Longrightarrow> \<not> hit m \<Longrightarrow> m_tenant_id m = tn \<Longrightarrow> m_id m = i \<Longrightarrow> Q m"
    and "\<And>m. P m \<Longrightarrow> hit m \<Longrightarrow> Q (f m) \<and> model_key (f m) = model_key m"
  shows "model_at Q tn i (s\<lparr>models := upd_rows hit f (models s)\<rparr>)"
proof -
  from assms(1) obtain m where m: "m \<in> set (models s)" "m_tenant_id m = tn" "m_id m = i" "P m"
    unfolding model_at_def list_ex_iff by blast
  then have "(if hit m then f m else m) \<in> set (upd_rows hit f (models s))"
    by (auto simp: set_upd_rows)
  moreover have "model_key (if hit m then f m else m) = (tn, i)" and "Q (if hit m then f m else m)"
    using m assms(2,3) by (simp_all add: model_key_def)
  ultimately show ?thesis
    unfolding model_at_def list_ex_iff by (auto simp: model_key_def)
qed

lemma version_at_upd:
  assumes "version_at P tn i s"
    and "\<And>m. P m \<Longrightarrow> \<not> hit m \<Longrightarrow> v_tenant_id m = tn \<Longrightarrow> v_id m = i \<Longrightarrow> Q m"
    and "\<And>m. P m \<Longrightarrow> hit m \<Longrightarrow> Q (f m) \<and> version_key (f m) = version_key m"
  shows "version_at Q tn i (s\<lparr>versions := upd_rows hit f (versions s)\<rparr>)"
proof -
  from assms(1) obtain m where m: "m \<in> set (versions s)" "v_tenant_id m = tn" "v_id m = i" "P m"
    unfolding version_at_def list_ex_iff by blast
  then have "(if hit m then f m else m) \<in> set (upd_rows hit f (versions s))"
    by (auto simp: set_upd_rows)
  moreover have "version_key (if hit m then f m else m) = (tn, i)" and "Q (if hit m then f m else m)"
    using m assms(2,3) by (simp_all add: version_key_def)
  ultimately show ?thesis
    unfolding version_at_def list_ex_iff by (auto simp: version_key_def)
qed

lemma reg_at_upd:
  assumes "reg_at P tn i s"
    and "\<And>m. P m \<Longrightarrow> \<not> hit m \<Longrightarrow> r_tenant_id m = tn \<Longrightarrow> r_id m = i \<Longrightarrow> Q m"
    and "\<And>m. P m \<Longrightarrow> hit m \<Longrightarrow> Q (f m) \<and> reg_key (f m) = reg_key m"
  shows "reg_at Q tn i (s\<lparr>regs := upd_rows hit f (regs s)\<rparr>)"
proof -
  from assms(1) obtain m where m: "m \<in> set (regs s)" "r_tenant_id m = tn" "r_id m = i" "P m"
    unfolding reg_at_def list_ex_iff by blast
  then have "(if hit m then f m else m) \<in> set (upd_rows hit f (regs s))"
    by (auto simp: set_upd_rows)
  moreover have "reg_key (if hit m then f m else m) = (tn, i)" and "Q (if hit m then f m else m)"
    using m assms(2,3) by (simp_all add: reg_key_def)
  ultimately show ?thesis
    unfolding reg_at_def list_ex_iff by (auto simp: reg_key_def)
qed

lemma at_other_tables [simp]:
  "model_at P tn i (s\<lparr>versions := vs\<rparr>) = model_at P tn i s"
  "model_at P tn i (s\<lparr>regs := rs\<rparr>) = model_at P tn i s"
  "version_at Q tn i (s\<lparr>models := ms\<rparr>) = version_at Q tn i s"
  "version_at Q tn i (s\<lparr>regs := rs\<rparr>) = version_at Q tn i s"
  "artifact_for chk tn i (s\<lparr>models := ms\<rparr>) = artifact_for chk tn i s"
  "artifact_for chk tn i (s\<lparr>versions := vs\<rparr>) = artifact_for chk tn i s"
  "artifact_for chk tn i (s\<lparr>regs := rs\<rparr>) = artifact_for chk tn i s"
  "reg_at Z tn i (s\<lparr>models := ms\<rparr>) = reg_at Z tn i s"
  "reg_at Z tn i (s\<lparr>versions := vs\<rparr>) = reg_at Z tn i s"
  by (simp_all add: at_defs)

lemma rows_affected_Inr: "rows_affected q s = (Inr n, t) \<Longrightarrow> \<exists>xs. q s = (Inr xs, t)"
  by (auto simp: rows_affected_def andThen_Inr_iff)

lemma snd_rows_affected [simp]: "snd (rows_affected q s) = snd (q s)"
  by (auto simp: rows_affected_def andThen_def split: prod.split sum.split)

lemma triple_rows_affected:
  "triple P q (\<lambda>_. Q) \<Longrightarrow> triple P (rows_affected q) (\<lambda>_. Q)"
  unfolding triple_def using rows_affected_Inr by fastforce

text \<open>Everything the transaction has staged before its last four updates.\<close>

definition staged :: "(model_row \<Rightarrow> bool) \<Rightarrow> (version_row \<Rightarrow> bool) \<Rightarrow> (reg_row \<Rightarrow> bool) \<Rightarrow>
    string \<Rightarrow> uuid \<Rightarrow> uuid \<Rightarrow> uuid \<Rightarrow> uuid \<Rightarrow> db \<Rightarrow> bool" where
  "staged M V Rg chk tn i mid vid s \<longleftrightarrow> model_at M tn mid s \<and> version_at V tn vid s
     \<and> artifact_for chk tn vid s \<and> reg_at Rg tn i s"

lemma timeless_staged [simp]: "timeless (staged M V Rg chk tn i mid vid)"
  by (simp add: timeless_def staged_def at_defs)

lemma triple_size:
  assumes "0 \<le> sz"
  shows "triple (staged live V Rg chk tn i mid vid) (sqlAddModelSize tn mid sz)
    (\<lambda>_. staged live V Rg chk tn i mid vid)"
  unfolding sqlAddModelSize_def
proof (rule triple_stmt, simp, rule triple_rows_affected, rule tripleI)
  let ?f = "\<lambda>now m. m\<lparr>m_total_size_bytes := m_total_size_bytes m + sz, m_updated_at := now\<rparr> :: model_row"
  let ?hit = "\<lambda>(s :: db) m. m_tenant_id m = tn \<and> m_id m = mid"
  fix s :: db
  show "sound s (snd (upd_models size_bad ?hit ?f s))"
    by (rule sound_upd_models)
       (use assms in \<open>simp_all add: model_evolves_def model_key_def model_check_def\<close>)
next
  fix s x t
  assume "staged live V Rg chk tn i mid vid s" and "upd_models size_bad (\<lambda>s m. m_tenant_id m = tn \<and> m_id m = mid)
     (\<lambda>now m. m\<lparr>m_total_size_bytes := m_total_size_bytes m + sz, m_updated_at := now\<rparr>) s = (Inr x, t)"
  then show "staged live V Rg chk tn i mid vid t"
    by (auto simp: upd_models_def Let_def staged_def model_key_def split: option.splits
        intro!: model_at_upd [where P = live])
qed

lemma triple_version_ready:
  "triple (staged M (pending_with chk) Rg chk tn i mid vid) (sqlSetVersionReady tn vid)
    (\<lambda>_. staged M (ready_with chk) Rg chk tn i mid vid)"
  unfolding sqlSetVersionReady_def
proof (rule triple_stmt, simp, rule triple_rows_affected, rule tripleI)
  let ?f = "\<lambda>now v. v\<lparr>v_status := VersionReady, v_updated_at := now, v_error_message := []\<rparr> :: version_row"
  let ?hit = "\<lambda>(s :: db) v. v_tenant_id v = tn \<and> v_id v = vid"
  fix s :: db
  assume st: "staged M (pending_with chk) Rg chk tn i mid vid s" and ok: "db_ok s"
  then have pend: "pending_with chk v" if "v \<in> set (versions s)" "?hit s v" for v
    using version_at_D that unfolding staged_def by blast
  show "sound s (snd (upd_versions ?hit ?f s))"
  proof (rule sound_upd_versions)
    fix r c
    assume "r \<in> set (versions s)" and "?hit s r"
    from pend [OF this] show "version_evolves r (?f c r)"
      by (simp add: version_evolves_def version_key_def status_step_def version_statuses)
  next
    fix r c
    assume r: "r \<in> set (versions s)" "?hit s r"
      and "artifacts_ok (version_keys s) (artifacts s)"
    moreover from this st obtain a where "a \<in> set (artifacts s)" "a_tenant_id a = tn"
      "a_model_version_id a = vid" "a_sha256 a = chk"
      unfolding staged_def artifact_for_def list_ex_iff by blast
    ultimately show "ready_backed (artifacts s) (?f c r)"
      using pend [OF r] artifacts_ok_checksum by (auto simp: ready_backed_def backed_def list_ex_iff)
  qed (simp add: version_check_def version_statuses)
next
  fix s x t
  assume "staged M (pending_with chk) Rg chk tn i mid vid s" and
    "upd_versions (\<lambda>s v. v_tenant_id v = tn \<and> v_id v = vid)
     (\<lambda>now v. v\<lparr>v_status := VersionReady, v_updated_at := now, v_error_message := []\<rparr>) s = (Inr x, t)"
  then show "staged M (ready_with chk) Rg chk tn i mid vid t"
    by (auto simp: upd_versions_def staged_def version_key_def
        intro!: version_at_upd [where P = "pending_with chk"])
qed

lemma triple_model_ready:
  "triple (staged live V Rg chk tn i mid vid) (sqlSetModelReady tn mid)
    (\<lambda>_. staged (\<lambda>m. m_status m = ''ready'') V Rg chk tn i mid vid)"
  unfolding sqlSetModelReady_def
proof (rule triple_stmt, simp, rule triple_rows_affected, rule tripleI)
  let ?f = "\<lambda>now m. m\<lparr>m_status := ''ready'', m_updated_at := now, m_error_message := []\<rparr> :: model_row"
  let ?hit = "\<lambda>(s :: db) m. m_tenant_id m = tn \<and> m_id m = mid"
  fix s :: db
  assume "staged live V Rg chk tn i mid vid s" and "db_ok s"
  then have "live m" if "m \<in> set (models s)" "?hit s m" for m
    using model_at_D that unfolding staged_def by blast
  then show "sound s (snd (upd_models no_error ?hit ?f s))"
    by (intro sound_upd_models) (simp_all add: model_evolves_def model_key_def model_check_def)
next
  fix s x t
  assume "staged live V Rg chk tn i mid vid s" and
    "upd_models no_error (\<lambda>s m. m_tenant_id m = tn \<and> m_id m = mid)
     (\<lambda>now m. m\<lparr>m_status := ''ready'', m_updated_at := now, m_error_message := []\<rparr>) s = (Inr x, t)"
  then show "staged (\<lambda>m. m_status m = ''ready'') V Rg chk tn i mid vid t"
    by (auto simp: upd_models_no_error staged_def model_key_def intro!: model_at_upd [where P = live])
qed

lemma open_not_terminal: "open_reg r \<Longrightarrow> \<not> terminal_reg (r_status r)"
  by (auto simp: open_reg_def terminal_reg_def registration_statuses)

lemma triple_reg_ready:
  "triple (staged M V open_reg chk tn i mid vid) (sqlSetRegReady tn i mid vid)
    (\<lambda>_. staged M V (registered mid vid) chk tn i mid vid)"
  unfolding sqlSetRegReady_def
proof (rule triple_stmt, simp, rule triple_rows_affected, rule tripleI)
  let ?f = "\<lambda>now r. r\<lparr>r_status := RegistrationReady, r_model_id := Some mid,
        r_model_version_id := Some vid, r_updated_at := now, r_error_message := []\<rparr> :: reg_row"
  let ?hit = "\<lambda>(s :: db) r. r_tenant_id r = tn \<and> r_id r = i"
  fix s :: db
  assume "staged M V open_reg chk tn i mid vid s" and "db_ok s"
  then have "open_reg r" if "r \<in> set (regs s)" "?hit s r" for r
    using reg_at_D that unfolding staged_def by blast
  then show "sound s (snd (upd_regs ?hit ?f s))"
    using open_not_terminal
    by (intro sound_upd_regs)
       (simp_all add: reg_evolves_def reg_key_def reg_check_def reg_inv_def registration_statuses)
next
  fix s x t
  assume "staged M V open_reg chk tn i mid vid s" and
    "upd_regs (\<lambda>s r. r_tenant_id r = tn \<and> r_id r = i)
     (\<lambda>now r. r\<lparr>r_status := RegistrationReady, r_model_id := Some mid,
        r_model_version_id := Some vid, r_updated_at := now, r_error_message := []\<rparr>) s = (Inr x, t)"
  then show "staged M V (registered mid vid) chk tn i mid vid t"
    by (auto simp: upd_regs_def Let_def staged_def reg_key_def registered_def split: if_splits
        intro!: reg_at_upd [where P = open_reg])
qed

section \<open>The transaction\<close>

lemma triple_publish:
  assumes "0 \<le> gSizeBytes g"
  shows "triple (reg_at open_reg tn i) (reg_publish E ids tn i g)
    (\<lambda>_ s. \<exists>mid. staged (\<lambda>m. m_status m = ''ready'') (ready_with (gChecksumSHA256 g))
        (registered mid (fVersion ids)) (gChecksumSHA256 g) tn i mid (fVersion ids) s)"
proof -
  let ?chk = "gChecksumSHA256 g" and ?vid = "fVersion ids"
  have last: "triple (staged live (pending_with ?chk) open_reg ?chk tn i mid ?vid)
      (andThen (sqlAddModelSize tn mid (gSizeBytes g)) (\<lambda>_.
       andThen (sqlSetVersionReady tn ?vid) (\<lambda>_.
       andThen (sqlSetModelReady tn mid) (\<lambda>_.
       andThen (sqlSetRegReady tn i mid ?vid) (\<lambda>_. ret y)))))
      (\<lambda>_. staged (\<lambda>m. m_status m = ''ready'') (ready_with ?chk) (registered mid ?vid) ?chk tn i mid ?vid)"
    for mid y
    by (intro triple_andThen [OF triple_size [OF assms]] triple_andThen [OF triple_version_ready]
        triple_andThen [OF triple_model_ready] triple_andThen [OF triple_reg_ready] triple_ret)
  have start: "triple (\<lambda>s. ((reg_at open_reg tn i s \<and> model_at live tn mid s)
        \<and> version_at (pending_with ?chk) tn ?vid s) \<and> artifact_for ?chk tn ?vid s)
      m (\<lambda>_ s. \<exists>mid. Z mid s)"
    if "triple (staged live (pending_with ?chk) open_reg ?chk tn i mid ?vid) m (\<lambda>_. Z mid)" for mid m Z
    using that unfolding triple_def staged_def by blast
  show ?thesis
    unfolding reg_publish_def
    by (rule triple_andThen [OF triple_model], rule triple_andThen [OF triple_mapErr [OF triple_version]],
        rule triple_andThen [OF triple_mapErr [OF triple_artifact]], rule start, rule last)
qed

definition published :: "fresh_ids \<Rightarrow> string \<Rightarrow> uuid \<Rightarrow> uuid \<Rightarrow> db \<Rightarrow> bool" where
  "published ids chk tn i s \<longleftrightarrow>
     list_ex (\<lambda>m. staged (\<lambda>r. m_status r = ''ready'') (ready_with chk) (registered (m_id m) (fVersion ids))
       chk tn i (m_id m) (fVersion ids) s) (models s)"

lemma publishedI:
  assumes "staged (\<lambda>r. m_status r = ''ready'') (ready_with chk) (registered mid (fVersion ids)) chk tn i mid
      (fVersion ids) s"
  shows "published ids chk tn i s"
proof -
  from assms obtain m where "m \<in> set (models s)" and "m_id m = mid"
    unfolding staged_def model_at_def list_ex_iff by blast
  with assms show ?thesis unfolding published_def list_ex_iff by blast
qed

lemma timeless_published [simp]: "timeless (published ids chk tn i)"
  by (simp add: published_def timeless_def staged_def at_defs)

lemma regs_ok_D: "db_ok s \<Longrightarrow> r \<in> set (regs s) \<Longrightarrow> reg_check r \<and> reg_inv r"
  by (simp add: db_ok_def regs_ok_def)

lemma sqlRegById_triple:
  "triple (reg_at P tn i) (sqlRegById tn i) (\<lambda>r s. reg_at (\<lambda>q. P q \<and> q = r) tn i s \<and> reg_check r)"
  unfolding sqlRegById_def
proof (rule triple_stmt, simp, rule triple_of_sound, rule so.steps_rd)
  fix s r t
  assume P: "reg_at P tn i s" and ok: "db_ok s"
    and "rd (\<lambda>s. one (filter (\<lambda>r. r_tenant_id r = tn \<and> r_id r = i) (regs s))) s = (Inr r, t)"
  then have t: "t = s" and "r \<in> set (regs s)" "r_tenant_id r = tn" "r_id r = i"
    by (auto simp: rd_def one_Inr filter_eq_Cons_iff)
  with P ok reg_at_D [OF ok P] regs_ok_D [OF ok] show "reg_at (\<lambda>q. P q \<and> q = r) tn i t \<and> reg_check r"
    unfolding reg_at_def list_ex_iff by blast
qed

lemma complete_triple:
  "triple (reg_at (\<lambda>r. open_reg r \<and> r_checksum_sha256 r = chk) tn i) (complete_tx E ids tn i)
     (\<lambda>_. published ids chk tn i)"
  unfolding complete_tx_def Let_def
proof (rule triple_andThen [OF triple_mapErr [OF sqlRegById_triple]])
  fix r :: reg_row
  let ?g = "reg_from_row E r"
  let ?P = "\<lambda>s. reg_at (\<lambda>q. (open_reg q \<and> r_checksum_sha256 q = chk) \<and> q = r) tn i s \<and> reg_check r"
  have weak: "?P s \<Longrightarrow> reg_at open_reg tn i s \<and> open_reg r \<and> r_checksum_sha256 r = chk \<and> 0 \<le> gSizeBytes ?g"
    for s
    by (auto simp: reg_at_def list_ex_iff reg_check_def reg_from_row_def)
  show "triple ?P (if gStatus ?g = RegistrationReady then ret (registration_result_of ?g)
      else if gStatus ?g = RegistrationFailed \<or> gStatus ?g = RegistrationAborted
      then throw ErrRegistrationTerminal else reg_publish E ids tn i ?g) (\<lambda>_. published ids chk tn i)"
  proof (cases "open_reg r \<and> r_checksum_sha256 r = chk \<and> 0 \<le> gSizeBytes ?g")
    case True
    then have "\<not> terminal_reg (gStatus ?g)" and chk: "gChecksumSHA256 ?g = chk"
      using open_not_terminal by (simp_all add: reg_from_row_def)
    moreover have "triple ?P (reg_publish E ids tn i ?g) (\<lambda>_. published ids chk tn i)"
      using tripleD [OF triple_publish [where ids = ids and g = ?g and tn = tn and i = i and E = E]] True weak
        publishedI unfolding chk by (intro tripleI) blast+
    ultimately show ?thesis by (simp add: terminal_reg_def)
  qed (use weak in \<open>fastforce simp: triple_def\<close>)
qed

end
