(* ===== verification/RegistrationFlow.thy ===== *)
theory RegistrationFlow
  imports RegistrationRules
begin

text \<open>
  What the methods of the registration store keep and achieve: every one is sound and stays
  in its tenant, \<open>Complete\<close> publishes all of model, version, artifact and registration or
  none of it, and \<open>Prepare\<close> is idempotent.
\<close>

section \<open>Soundness\<close>

lemma sqlReg_sound:
  "steps_in sound (sqlInsertReg E g tn i target source)"
  "steps_in sound (sqlMarkUploaded tn i)"
  "steps_in sound (sqlFailReg tn i msg)"
  "steps_in sound (sqlAbortReg tn i msg)"
  "steps_in sound (sqlRegByKey tn key)"
  "steps_in sound (sqlRegById tn i)"
proof -
  have not: "\<not> terminal_reg ''pending''"
    by (simp add: terminal_reg_def registration_statuses)
  show "steps_in sound (sqlInsertReg E g tn i target source)"
    unfolding sqlInsertReg_def
    by (intro so.steps_db so_insert_raw) (simp add: new_reg_row_def reg_inv_def registration_statuses)
  show "steps_in sound (sqlMarkUploaded tn i)"
    unfolding sqlMarkUploaded_def
    by (intro so.steps_stmt so.steps_rows_affected steps_sound ev_upd_regs ok_upd_regs)
       (simp_all add: not reg_evolves_def reg_key_def reg_check_def reg_inv_def registration_statuses)
  show "steps_in sound (sqlFailReg tn i msg)" "steps_in sound (sqlAbortReg tn i msg)"
    unfolding sqlFailReg_def sqlAbortReg_def
    by (intro so.steps_stmt so.steps_rows_affected steps_sound ev_upd_regs ok_upd_regs,
        simp_all add: reg_evolves_def reg_key_def reg_check_def reg_inv_def registration_statuses
          open_not_terminal)+
  show "steps_in sound (sqlRegByKey tn key)" "steps_in sound (sqlRegById tn i)"
    by (simp_all add: sqlRegByKey_def sqlRegById_def so.steps_stmt so.steps_rd)
qed

lemma sqlReg_frame:
  "steps_in (frame tn) (sqlInsertReg E g tn i target source)"
  "steps_in (frame tn) (sqlMarkUploaded tn i)"
  "steps_in (frame tn) (sqlFailReg tn i msg)"
  "steps_in (frame tn) (sqlAbortReg tn i msg)"
  "steps_in (frame tn) (sqlRegByKey tn key)"
  "steps_in (frame tn) (sqlRegById tn i)"
  "steps_in (frame tn) (sqlInsertRegModel E tn mid g)"
  "steps_in (frame tn) (sqlLockRegModel tn mid)"
  "steps_in (frame tn) (sqlInsertRegVersion tn vid mid g)"
  "steps_in (frame tn) (sqlInsertRegArtifact tn aid vid g)"
  "steps_in (frame tn) (sqlAddModelSize tn mid sz)"
  "steps_in (frame tn) (sqlSetVersionReady tn vid)"
  "steps_in (frame tn) (sqlSetModelReady tn mid)"
  "steps_in (frame tn) (sqlSetRegReady tn i mid vid)"
  unfolding sqlInsertReg_def sqlMarkUploaded_def sqlFailReg_def sqlAbortReg_def sqlRegByKey_def
    sqlRegById_def sqlInsertRegModel_def sqlLockRegModel_def sqlInsertRegVersion_def
    sqlInsertRegArtifact_def sqlAddModelSize_def sqlSetVersionReady_def sqlSetModelReady_def
    sqlSetRegReady_def
  by (intro fr.steps_db fr_ins fr_upd sql_fr; simp add: new_reg_row_def new_model_row_def
      new_version_row_def)+

lemma fr_complete_tx: "steps_in (frame tn) (complete_tx E ids tn i)"
  unfolding complete_tx_def reg_publish_def reg_model_def
  by (intro fr.steps_db sqlReg_frame steps_intros)

lemma reg_openI: "reg_check r \<Longrightarrow> \<not> terminal_reg (r_status r) \<Longrightarrow> open_reg r"
  by (auto simp: reg_check_def terminal_reg_def open_reg_def registration_statuses)

lemma so_complete_tx: "steps_in sound (complete_tx E ids tn i)"
proof (rule steps_inI)
  fix s :: db
  let ?any = "\<lambda>_ :: reg_row. True"
  have read: "triple (\<lambda>s. True) (sqlRegById tn i) (\<lambda>r s. reg_at (\<lambda>q. q = r) tn i s \<and> reg_check r)"
    unfolding sqlRegById_def
    by (rule triple_stmt, simp, rule triple_of_sound, rule so.steps_rd)
       (use regs_ok_D in \<open>auto simp: rd_def one_Inr filter_eq_Cons_iff reg_at_def list_ex_iff\<close>)
  have "triple (\<lambda>s. True) (complete_tx E ids tn i) (\<lambda>_ _. True)"
    unfolding complete_tx_def Let_def
  proof (rule triple_andThen [OF triple_mapErr [OF read]])
    fix r :: reg_row
    let ?g = "reg_from_row E r"
    have "triple (reg_at open_reg tn i) (reg_publish E ids tn i ?g) (\<lambda>_ _. True)"
      if "reg_check r"
    proof -
      from that have "0 \<le> gSizeBytes ?g" by (simp add: reg_check_def reg_from_row_def)
      from triple_publish [OF this] show ?thesis unfolding triple_def by blast
    qed
    then have "triple (\<lambda>s. reg_at (\<lambda>q. q = r) tn i s \<and> reg_check r) (reg_publish E ids tn i ?g) (\<lambda>_ _. True)"
      if "\<not> terminal_reg (gStatus ?g)"
      using reg_openI that unfolding triple_def reg_at_def list_ex_iff reg_from_row_def by fastforce
    then show "triple (\<lambda>s. reg_at (\<lambda>q. q = r) tn i s \<and> reg_check r)
        (if gStatus ?g = RegistrationReady then ret (registration_result_of ?g)
         else if gStatus ?g = RegistrationFailed \<or> gStatus ?g = RegistrationAborted
         then throw ErrRegistrationTerminal else reg_publish E ids tn i ?g) (\<lambda>_ _. True)"
      by (auto simp: terminal_reg_def intro: triple_ret triple_throw)
  qed
  then have "db_ok s \<Longrightarrow> sound s (snd (complete_tx E ids tn i s))"
    by (simp add: triple_def)
  moreover have "clock s \<le> clock (snd (complete_tx E ids tn i s))"
    using fr_complete_tx fr.R_clock unfolding steps_in_def by blast
  ultimately show "sound s (snd (complete_tx E ids tn i s))"
    by (simp add: sound_def)
qed

lemma so_prepare: "steps_in sound (reg_prepare n E g)"
proof (induction n)
  case (Suc n)
  then show ?case
    unfolding reg_prepare.simps
    by (intro so.steps_basic sqlReg_sound steps_intros)
qed (simp only: reg_prepare.simps so.steps_ret)

lemma so_registration:
  "steps_in sound (reg_get E a b)"
  "steps_in sound (reg_get_by_key E a key)"
  "steps_in sound (reg_mark_uploaded E a b)"
  "steps_in sound (reg_complete E ids a b)"
  "steps_in sound (reg_fail E a b msg)"
  "steps_in sound (reg_abort E a b msg)"
  unfolding reg_get_def reg_get_by_key_def reg_mark_uploaded_def reg_complete_def reg_fail_def
    reg_abort_def
  by (intro so.steps_basic so.steps_begin so.steps_tx_body so_complete_tx sqlReg_sound steps_intros)+

lemma parse_registration_ids_tenant:
  "x_uuid_parse E a = Inr tn \<Longrightarrow> parse_registration_ids E a b = Inr (t, i) \<Longrightarrow> t = tn"
  by (auto simp: parse_registration_ids_def parse_field_def split: sum.splits)

lemma fr_after_registration:
  assumes "x_uuid_parse E a = Inr tn" and "\<And>i. steps_in (frame tn) (f (tn, i))"
  shows "steps_in (frame tn) (andThen (lift (parse_registration_ids E a b)) f)"
  by (rule steps_after_lift [OF frame_preorder])
     (use assms parse_registration_ids_tenant [OF assms(1)] in force)

lemma fr_prepare:
  assumes "x_uuid_parse E (gTenantID g) = Inr tn"
  shows "steps_in (frame tn) (reg_prepare n E g)"
proof (induction n)
  case (Suc n)
  then show ?case
    unfolding reg_prepare.simps split
    by (intro fr_after_registration [OF assms], unfold split) (intro fr.steps_basic sqlReg_frame steps_intros)
qed (simp only: reg_prepare.simps fr.steps_ret)

lemma fr_registration:
  assumes "x_uuid_parse E a = Inr tn"
  shows "steps_in (frame tn) (reg_get E a b)"
    and "steps_in (frame tn) (reg_get_by_key E a key)"
    and "steps_in (frame tn) (reg_mark_uploaded E a b)"
    and "steps_in (frame tn) (reg_complete E ids a b)"
    and "steps_in (frame tn) (reg_fail E a b msg)"
    and "steps_in (frame tn) (reg_abort E a b msg)"
  unfolding reg_get_def reg_get_by_key_def reg_mark_uploaded_def reg_complete_def reg_fail_def
    reg_abort_def
  by (simp only: split | rule fr_after_registration [OF assms] fr_after_field [OF assms] fr.steps_basic
      fr.steps_begin fr.steps_tx_body fr_complete_tx sqlReg_frame steps_intros)+

section \<open>Publication\<close>

lemma parse_registration_ids_Inr:
  "x_uuid_parse E a = Inr tn \<Longrightarrow> x_uuid_parse E b = Inr i \<Longrightarrow>
   parse_registration_ids E a b = Inr (tn, i)"
  by (simp add: parse_registration_ids_def parse_field_def)

lemma published_same: "same_tables s t \<Longrightarrow> published ids chk tn i s \<Longrightarrow> published ids chk tn i t"
  by (simp add: published_def staged_def at_defs same_tables_def)

lemma reg_at_same: "same_tables s t \<Longrightarrow> reg_at P tn i s \<Longrightarrow> reg_at P tn i t"
  by (simp add: reg_at_def same_tables_def)

lemma begin_sound: "begin_tx s = (r, t) \<Longrightarrow> sound s t"
  using so.steps_begin by (rule steps_inD)

text \<open>Everything but the registrations.\<close>

definition same_but_regs :: "db \<Rightarrow> db \<Rightarrow> bool" where
  "same_but_regs s t \<longleftrightarrow> clock s \<le> clock t \<and> models t = models s \<and> versions t = versions s
     \<and> artifacts t = artifacts s \<and> tasks t = tasks s \<and> audits t = audits s"

interpretation sr: db_relation same_but_regs
  by unfold_locales (auto simp: same_but_regs_def)

lemma sr_upd_regs: "steps_in same_but_regs (upd_regs hit f)"
  by (simp add: steps_in_def upd_regs_def Let_def same_but_regs_def)

lemma sr_fail: "steps_in same_but_regs (reg_fail E a b msg)"
  unfolding reg_fail_def sqlFailReg_def by (intro sr.steps_db sr_upd_regs steps_intros)

lemma published_kept:
  assumes pub: "published ids chk tn i s" and ok: "db_ok s" and so: "sound s t" and same: "same_but_regs s t"
  shows "published ids chk tn i t"
proof -
  from pub obtain m where m: "m \<in> set (models s)"
    and st: "staged (\<lambda>r. m_status r = ''ready'') (ready_with chk) (registered (m_id m) (fVersion ids)) chk tn i
      (m_id m) (fVersion ids) s"
    unfolding published_def list_ex_iff by blast
  then obtain r where r: "r \<in> set (regs s)" "r_tenant_id r = tn" "r_id r = i"
    "registered (m_id m) (fVersion ids) r"
    unfolding staged_def reg_at_def list_ex_iff by blast
  from so ok have "grows reg_evolves (regs s) (regs t)" by (simp add: sound_def evolves_def)
  with r(1) obtain q where "q \<in> set (regs t)" and "reg_evolves r q"
    unfolding grows_def by (metis in_set_conv_nth less_le_trans)
  moreover have "terminal_reg (r_status r)" using r(4) by (simp add: registered_def terminal_reg_def)
  ultimately have "r \<in> set (regs t)" unfolding reg_evolves_def by blast
  with r have "reg_at (registered (m_id m) (fVersion ids)) tn i t"
    unfolding reg_at_def list_ex_iff by blast
  with st m same show ?thesis
    unfolding published_def list_ex_iff staged_def
    by (auto simp: same_but_regs_def model_at_def version_at_def artifact_for_def)
qed

lemma complete_outcome:
  assumes E: "x_uuid_parse E a = Inr tn" "x_uuid_parse E b = Inr i"
    and ok: "db_ok s" and r: "r \<in> set (regs s)" "r_tenant_id r = tn" "r_id r = i" "open_reg r"
    and run: "reg_complete E ids a b s = (res, t)"
  shows "(same_but_regs s t \<or> published ids (r_checksum_sha256 r) tn i t)
    \<and> (\<not> isl res \<longrightarrow> published ids (r_checksum_sha256 r) tn i t)"
proof -
  let ?chk = "r_checksum_sha256 r"
  let ?P = "reg_at (\<lambda>q. open_reg q \<and> r_checksum_sha256 q = ?chk) tn i"
  let ?rest = "\<lambda>_. inspect (tx_body (complete_tx E ids tn i)) (\<lambda>res. case res of
       Inr x \<Rightarrow> ret x | Inl e \<Rightarrow> inspect (reg_fail E a b (error_text E e)) (\<lambda>_. throw e))"
  from run have run': "andThen begin_tx ?rest s = (res, t)"
    by (simp add: reg_complete_def parse_registration_ids_Inr [OF E] andThen_lift_Inr)
  obtain br s1 where b: "begin_tx s = (br, s1)" by (cases "begin_tx s")
  then have s1: "sound s s1" "same_tables s s1" "clock s \<le> clock s1"
    using begin_sound begin_same so.R_clock by blast+
  show ?thesis
  proof (cases br)
    case (Inl e)
    with run' b have "t = s1" and "isl res" by (auto simp: andThen_def)
    with s1 show ?thesis by (simp add: same_but_regs_def same_tables_def)
  next
    case (Inr x)
    from b Inr run' have "?rest () s1 = (res, t)" by (simp add: andThen_def)
    then obtain r2 s2 where body: "tx_body (complete_tx E ids tn i) s1 = (r2, s2)"
      and fin: "(case r2 of Inr x \<Rightarrow> ret x
         | Inl e \<Rightarrow> inspect (reg_fail E a b (error_text E e)) (\<lambda>_. throw e)) s2 = (res, t)"
      by (auto simp: inspect_iff)
    have ok1: "db_ok s1" using s1(1) ok by (rule sound_ok)
    have "?P s" using r by (auto simp: reg_at_def list_ex_iff)
    with s1(2) have P1: "?P s1" by (rule reg_at_same)
    have so2: "sound s1 s2"
      using so.steps_tx_body [OF so_complete_tx] body by (rule steps_inD)
    then have ok2: "db_ok s2" using ok1 by (rule sound_ok)
    have fate: "same_tables s1 s2 \<or> published ids ?chk tn i s2"
      using tx_body_fate [OF body] tripleD [OF complete_triple P1 ok1] published_same by blast
    show ?thesis
    proof (cases r2)
      case (Inr y)
      with fin have t: "t = s2" by simp
      from body Inr obtain u where "complete_tx E ids tn i s1 = (Inr y, u)" and "same_tables u s2"
        by (auto elim: tx_body_Inr)
      then have "published ids ?chk tn i s2"
        using tripleD [OF complete_triple P1 ok1] published_same by blast
      with t show ?thesis by blast
    next
      case (Inl e)
      with fin have t: "t = snd (reg_fail E a b (error_text E e) s2)" and res: "isl res"
        by (auto simp: inspect_def split: prod.splits)
      have sr: "same_but_regs s2 t" and so3: "sound s2 t"
        using sr_fail so_registration(5) unfolding t steps_in_def by blast+
      have "published ids ?chk tn i t" if "published ids ?chk tn i s2"
        using that ok2 so3 sr by (rule published_kept)
      moreover have "same_but_regs s t" if "same_tables s1 s2"
        using that s1 so.R_clock [OF so2] sr by (simp add: same_but_regs_def same_tables_def)
      ultimately show ?thesis using fate res by blast
    qed
  qed
qed

text \<open>C26: Completing a registration publishes the model, its version, the artifact and the
  registration together or none of them, whatever fails on the way, the commit included; and
  when the call succeeds they are published: the version is ready under the registered
  checksum, backed by its artifact, and the registration names it.\<close>

theorem registration_complete_atomic:
  assumes "x_uuid_parse E a = Inr tn" and "x_uuid_parse E b = Inr i"
    and "db_ok s" and "r \<in> set (regs s)" and "r_tenant_id r = tn" and "r_id r = i" and "open_reg r"
  shows "(same_but_regs s (snd (reg_complete E ids a b s))
       \<or> published ids (r_checksum_sha256 r) tn i (snd (reg_complete E ids a b s)))
    \<and> (\<not> isl (fst (reg_complete E ids a b s)) \<longrightarrow>
        published ids (r_checksum_sha256 r) tn i (snd (reg_complete E ids a b s)))"
  using complete_outcome [OF assms prod.collapse [symmetric]] .

definition sample_reg_row :: reg_row where
  "sample_reg_row = \<lparr>r_tenant_id = 1, r_id = 5, r_idempotency_key = ''rk'',
     r_request_fingerprint = ''rf'', r_execution_id = ''x'', r_target_model_id = None,
     r_model_name = ''tuned'', r_display_name = ''Tuned'', r_description = [],
     r_capabilities = ''[]'', r_source_model_version_id = None, r_version = ''v1'',
     r_file_name = ''m.gguf'', r_format = ''gguf'', r_storage_path = ''1/m.gguf'',
     r_size_bytes = 12, r_checksum_sha256 = replicate 64 (CHR ''a''), r_engine_type = ''vllm'',
     r_engine_image = ''img'', r_startup_command = ''serve'', r_status = RegistrationUploaded,
     r_error_message = [], r_model_id = None, r_model_version_id = None, r_created_at = 1,
     r_updated_at = 1, r_recommended_image_id = [], r_recommended_image_scope = []\<rparr>"

definition uploaded_db :: db where
  "uploaded_db = sample_db\<lparr>regs := [sample_reg_row]\<rparr>"

definition sample_fresh :: fresh_ids where
  "sample_fresh = \<lparr>fModel = 21, fVersion = 22, fArtifact = 23\<rparr>"

lemma uploaded_db_ok: "db_ok uploaded_db"
proof -
  have "reg_check sample_reg_row" by code_simp
  moreover have "reg_inv sample_reg_row"
    by (simp add: reg_inv_def sample_reg_row_def registration_statuses)
  ultimately show ?thesis
    using sample_db_ok
    by (simp add: db_ok_def uploaded_db_def regs_ok_def model_keys_def version_keys_def task_keys_def
        sample_reg_row_def null_in_def null_or_def)
qed

lemma registration_complete_atomic_witness:
  "\<not> isl (fst (reg_complete sample_ext sample_fresh ''u1'' ''u11111'' uploaded_db))
   \<and> published sample_fresh (replicate 64 (CHR ''a'')) 1 5
       (snd (reg_complete sample_ext sample_fresh ''u1'' ''u11111'' uploaded_db))"
proof -
  have "\<not> isl (fst (reg_complete sample_ext sample_fresh ''u1'' ''u11111'' uploaded_db))"
    by code_simp
  moreover have "open_reg sample_reg_row"
    by (simp add: open_reg_def sample_reg_row_def)
  ultimately show ?thesis
    using registration_complete_atomic [of sample_ext "''u1''" 1 "''u11111''" 5 uploaded_db
        sample_reg_row sample_fresh] uploaded_db_ok
    by (simp add: uploaded_db_def sample_reg_row_def)
qed

section \<open>Preparation\<close>

text \<open>The registration found under a key, as \<open>Prepare\<close> reads it.\<close>

definition keyed :: "uuid \<Rightarrow> string \<Rightarrow> db \<Rightarrow> gerr + reg_row" where
  "keyed tn key s = one (filter (\<lambda>r. r_tenant_id r = tn \<and> r_idempotency_key r = key) (regs s))"

lemma ins_reg_keyed:
  assumes "ins_reg mk s = (Inr r, t)"
  shows "keyed (r_tenant_id r) (r_idempotency_key r) t = Inr r"
proof -
  from assms have "\<not> list_ex (reg_clash r) (regs s)" and t: "t = s\<lparr>regs := regs s @ [r]\<rparr>"
    by (auto simp: ins_reg_def Let_def reject_None_iff split: option.splits)
  then show ?thesis
    unfolding keyed_def t
    by (simp add: one_def list_ex_iff reg_clash_def)
qed

lemma insert_keyed:
  assumes "sqlInsertReg E g tn i target source s = (Inr r, t)"
  shows "keyed tn (gIdempotencyKey g) t = Inr r \<and> r_request_fingerprint r = gRequestFingerprint g"
proof -
  from assms obtain caps c l where
    "ins_reg (new_reg_row g tn i target source caps) (s\<lparr>clock := c, script := l\<rparr>) = (Inr r, t)"
    unfolding sqlInsertReg_def by (auto elim!: stmt_Inr simp: andThen_Inr_iff)
  moreover from this obtain c2 where "r = new_reg_row g tn i target source caps c2"
    by (auto simp: ins_reg_def Let_def split: option.splits)
  ultimately show ?thesis
    using ins_reg_keyed by (force simp: new_reg_row_def)
qed

lemma by_key_keyed:
  assumes "sqlRegByKey tn key s = (Inr r, t)"
  shows "keyed tn key t = Inr r"
  using assms unfolding sqlRegByKey_def
  by (auto elim!: stmt_Inr simp: rd_def keyed_def)

lemma prepare_stored:
  assumes "x_uuid_parse E (gTenantID g) = Inr tn"
  shows "reg_prepare n E g s = (Inr (Some h), t) \<Longrightarrow>
    \<exists>r. keyed tn (gIdempotencyKey g) t = Inr r \<and> r_request_fingerprint r = gRequestFingerprint g
      \<and> h = reg_from_row E r"
proof (induction n arbitrary: s)
  case (Suc n)
  from Suc.prems show ?case
    using assms Suc.IH
    by (auto simp: op_outcomes dest!: parse_registration_ids_tenant [OF assms] insert_keyed by_key_keyed
        split: if_splits)
qed simp

text \<open>C27: A registration is prepared once: repeating the request returns the stored registration
  and changes nothing, and another request under the same key is refused as a conflict.\<close>

theorem prepare_idempotent:
  assumes run: "reg_prepare n E g s = (Inr (Some h), t)" and quiet: "script t = []"
    and E: "x_uuid_parse E (gTenantID g) = Inr tn" "x_uuid_parse E (gID g2) = Inr i"
    and same: "gTenantID g2 = gTenantID g" "gIdempotencyKey g2 = gIdempotencyKey g"
  shows "reg_prepare (Suc k) E g2 t =
    (if gRequestFingerprint g2 = gRequestFingerprint g then Inr (Some h)
     else Inl ErrRegistrationConflict, t)"
proof -
  from prepare_stored [OF E(1) run] obtain r where r: "keyed tn (gIdempotencyKey g) t = Inr r"
    "r_request_fingerprint r = gRequestFingerprint g" "h = reg_from_row E r" by blast
  have "sqlRegByKey tn (gIdempotencyKey g) t = (Inr r, t)"
    using r(1) quiet by (simp add: sqlRegByKey_def keyed_def quiet_rd)
  moreover have "parse_registration_ids E (gTenantID g2) (gID g2) = Inr (tn, i)"
    using E same by (simp add: parse_registration_ids_Inr)
  ultimately show ?thesis
    using r same by (simp add: andThen_lift_Inr inspect_def)
qed

definition sample_registration :: registration where
  "sample_registration = reg_from_row sample_ext sample_reg_row"

lemma prepare_idempotent_witness:
  "reg_prepare 1 sample_ext (sample_registration\<lparr>gID := ''u11''\<rparr>)
      (snd (reg_prepare 1 sample_ext sample_registration sample_db))
   = reg_prepare 1 sample_ext sample_registration sample_db"
proof -
  let ?p = "reg_prepare 1 sample_ext sample_registration sample_db"
  have "\<not> isl (fst ?p)" and some: "projr (fst ?p) \<noteq> None" and quiet: "script (snd ?p) = []"
    by code_simp+
  from succeeded [OF this(1)] some have run: "?p = (Inr (Some (the (projr (fst ?p)))), snd ?p)"
    by simp
  have ids: "x_uuid_parse sample_ext (gTenantID sample_registration) = Inr 1"
    "x_uuid_parse sample_ext (gID (sample_registration\<lparr>gID := ''u11''\<rparr>)) = Inr 2"
    by code_simp+
  from prepare_idempotent [OF run quiet ids, of 0] run show ?thesis by simp
qed

text \<open>\<open>Prepare\<close> calls itself only after a unique violation. Without another registration under
  its identifier, every call consumes a disturbance, so the calls end.\<close>

definition owns_id :: "uuid \<Rightarrow> uuid \<Rightarrow> string \<Rightarrow> db \<Rightarrow> bool" where
  "owns_id tn i key s \<longleftrightarrow>
     list_all (\<lambda>r. r_tenant_id r = tn \<and> r_id r = i \<longrightarrow> r_idempotency_key r = key) (regs s)"

lemma stmt_script:
  assumes "\<And>u. script (snd (q u)) = script u"
  shows "script (snd (stmt q s)) = tl (script s)"
proof -
  have at: "script (snd (stmt_at q fl u)) = script u" for fl u
    using assms [of u] by (cases "q u", cases "fst (q u)") (simp_all add: stmt_at_def split: fault.split)
  show ?thesis
    by (cases "script s") (simp_all add: stmt_def at split: prod.split)
qed

lemma stmt_keeps:
  assumes "\<And>u. I u \<Longrightarrow> I (snd (q u))" and "timeless I" and "I s"
  shows "I (snd (stmt q s))"
proof -
  have at: "I u \<Longrightarrow> I (snd (stmt_at q fl u))" for fl u
    using assms(1) [of u] by (cases "q u", cases "fst (q u)") (simp_all add: stmt_at_def split: fault.split)
  show ?thesis
    using assms(2,3) by (cases "script s") (auto simp: stmt_def timeless_def at split: prod.split)
qed

lemma by_key_effect:
  "script (snd (sqlRegByKey tn key s)) = tl (script s)"
  "owns_id tn i k s \<Longrightarrow> owns_id tn i k (snd (sqlRegByKey tn key s))"
  unfolding sqlRegByKey_def
  by (rule stmt_script, simp add: rd_def)
     (rule stmt_keeps, simp_all add: rd_def timeless_def owns_id_def)

lemma insert_effect:
  "script (snd (sqlInsertReg E g tn i target source s)) = tl (script s)"
  "owns_id tn i (gIdempotencyKey g) s \<Longrightarrow>
     owns_id tn i (gIdempotencyKey g) (snd (sqlInsertReg E g tn i target source s))"
  unfolding sqlInsertReg_def
   apply (rule stmt_script)
   apply (simp add: andThen_def ins_reg_def Let_def split: sum.split option.split)
  apply (rule stmt_keeps)
    apply (auto simp: andThen_def ins_reg_def Let_def owns_id_def timeless_def new_reg_row_def
      split: sum.split option.split)
  done

text \<open>Undisturbed, an insertion after a read that found nothing meets no unique violation.\<close>

lemma insert_quiet:
  assumes "script s = []" and "owns_id tn i (gIdempotencyKey g) s"
    and "filter (\<lambda>r. r_tenant_id r = tn \<and> r_idempotency_key r = gIdempotencyKey g) (regs s) = []"
    and "sqlInsertReg E g tn i target source s = (Inl e, t)"
  shows "as_pg e \<noteq> Some ''23505''"
proof -
  have "\<not> list_ex (reg_clash (new_reg_row g tn i target source caps (clock s))) (regs s)" for caps
    using assms(2,3) by (auto simp: owns_id_def list_all_iff list_ex_iff reg_clash_def
        new_reg_row_def filter_empty_conv)
  with assms(1,4) show ?thesis
    by (auto simp: sqlInsertReg_def stmt_def stmt_at_def andThen_def ins_reg_def Let_def jsonb_def
        reject_def pg_def split: prod.splits sum.splits option.splits if_splits)
qed

lemma prepare_calls_end:
  assumes E: "parse_registration_ids E (gTenantID g) (gID g) = Inr (tn, i)"
  shows "owns_id tn i (gIdempotencyKey g) s \<Longrightarrow> length (script s) < n \<Longrightarrow>
    fst (reg_prepare n E g s) \<noteq> Inr None"
proof (induction n arbitrary: s)
  case (Suc n)
  let ?key = "gIdempotencyKey g"
  obtain found s1 where f: "sqlRegByKey tn ?key s = (found, s1)"
    by (cases "sqlRegByKey tn ?key s")
  with by_key_effect(1) [of tn ?key s] by_key_effect(2) [OF Suc.prems(1), of ?key]
  have s1: "script s1 = tl (script s)" "owns_id tn i ?key s1"
    by simp_all
  have again: "fst (reg_prepare n E g t) \<noteq> Inr None"
    if ins: "sqlInsertReg E g tn i target source s1 = (Inl e, t)" and dup: "as_pg e = Some ''23505''"
      and missing: "found = Inl ErrNoRows \<or> script s \<noteq> []" for target source e t
  proof (rule Suc.IH)
    from insert_effect [where s = s1] ins s1(2) show "owns_id tn i ?key t"
      by (metis snd_conv)
    have "script t = tl (script s1)"
      using insert_effect(1) ins by (metis snd_conv)
    moreover have "script s \<noteq> []"
    proof
      assume quiet: "script s = []"
      then have "found = Inl ErrNoRows" and "keyed tn ?key s = found" and "s1 = s"
        using missing f by (auto simp: sqlRegByKey_def quiet_rd keyed_def)
      then have "filter (\<lambda>r. r_tenant_id r = tn \<and> r_idempotency_key r = ?key) (regs s1) = []"
        by (simp add: keyed_def one_def split: list.splits)
      with insert_quiet [OF _ s1(2) _ ins] dup quiet \<open>s1 = s\<close> show False by simp
    qed
    ultimately show "length (script t) < n"
      using Suc.prems(2) s1(1) by (cases "script s") auto
  qed
  have "found = Inl ErrNoRows \<or> script s \<noteq> []" if "found = Inl e" "err_is e ErrNoRows" for e
    using that f by (auto simp: sqlRegByKey_def quiet_rd one_def split: list.splits)
  with again f show ?case
    by (auto simp: E andThen_lift_Inr inspect_def andThen_def split: prod.splits sum.splits)
qed simp

text \<open>C28: \<open>Prepare\<close> returns: unless another request already registered the same identifier
  under a different key, as many calls as there are disturbances plus one are enough.\<close>

theorem prepare_returns:
  assumes "x_uuid_parse E (gTenantID g) = Inr tn" and "x_uuid_parse E (gID g) = Inr i"
    and "owns_id tn i (gIdempotencyKey g) s" and "length (script s) < n"
  shows "(\<exists>e. fst (reg_prepare n E g s) = Inl e) \<or> (\<exists>h. fst (reg_prepare n E g s) = Inr (Some h))"
proof -
  from parse_registration_ids_Inr [OF assms(1,2)] assms(3,4)
  have "fst (reg_prepare n E g s) \<noteq> Inr None" by (rule prepare_calls_end)
  then show ?thesis by (metis old.sum.exhaust option.exhaust)
qed

text \<open>The insertion takes effect, but its caller is told of a unique violation.\<close>

definition doubtful_db :: db where
  "doubtful_db = sample_db\<lparr>script := [(1, NoFault), (1, FailAfter (PgError ''23505'' []))]\<rparr>"

lemma prepare_returns_witness:
  "(\<exists>e. fst (reg_prepare 3 sample_ext sample_registration doubtful_db) = Inl e)
   \<or> (\<exists>h. fst (reg_prepare 3 sample_ext sample_registration doubtful_db) = Inr (Some h))"
proof -
  have "x_uuid_parse sample_ext (gTenantID sample_registration) = Inr 1"
    "x_uuid_parse sample_ext (gID sample_registration) = Inr 5"
    "owns_id 1 5 (gIdempotencyKey sample_registration) doubtful_db" "length (script doubtful_db) < 3"
    by code_simp+
  then show ?thesis by (rule prepare_returns)
qed

end
