(* ===== verification/Service.thy ===== *)
theory Service
  imports Messages Access BundleStore DeletionStore RegistrationFlow
begin

text \<open>
  The catalogue, version and import handlers of \<open>internal/service/model.go\<close> and
  \<open>model_operations.go\<close>, one definition per RPC, over the PostgreSQL stores the composition
  root installs (a store field is the boolean \<open>configured\<close>; the optional interfaces the
  handlers ask a store for are the ones those stores implement). The object storage, the
  job-log reader, the provider search and the inference service are arguments: functions
  that answer as they do during the call. The state is the database and the worker's wake
  flag. Identifiers drawn with \<open>uuid.NewString\<close> are arguments.
\<close>

section \<open>State and dependencies\<close>

record world =
  w_db :: db
  w_wake :: bool

type_synonym 'a wop = "(world, gerr, 'a) oper"

definition on_db :: "'a dbop \<Rightarrow> 'a wop" where
  "on_db m w = (case m (w_db w) of (r, d) \<Rightarrow> (r, w\<lparr>w_db := d\<rparr>))"

text \<open>\<open>time.Now()\<close> in nanoseconds; the clock counts microseconds.\<close>

definition go_now :: "int wop" where
  "go_now w = (Inr (clock (w_db w) * 1000), w)"

text \<open>The object storage; \<open>None\<close> where the adapter lacks an optional interface.\<close>

record storage_port =
  st_create_upload_url :: "upload_request \<Rightarrow> gerr + signed_url"
  st_object_exists :: "string \<Rightarrow> string \<Rightarrow> gerr + bool"
  st_verify_checksum :: "string \<Rightarrow> string \<Rightarrow> string \<Rightarrow> gerr option"
  st_create_download_url :: "download_request \<Rightarrow> gerr + signed_url"
  st_verify_object :: "(string \<Rightarrow> string \<Rightarrow> int \<Rightarrow> string \<Rightarrow> gerr + object_verification) option"

record service =
  sReader :: bool
  sVersions :: bool
  sCatalog :: bool
  sStorage :: "storage_port option"
  sArtifacts :: bool
  sWork :: bool
  sTaskReader :: bool
  sTaskLogs :: "(string \<Rightarrow> string \<Rightarrow> gerr + string) option"
  sLogNamespace :: string
  sTaskRetry :: bool
  sAudit :: bool
  sReferences :: "reference_checker option"
  sNotifier :: bool
  sSearcher :: "(search_request \<Rightarrow> gerr + search_page) option"
  sBundleImporter :: bool
  sTrained :: bool

section \<open>Errors\<close>

definition map_identity :: "ext \<Rightarrow> gerr \<Rightarrow> gerr" where
  "map_identity E e =
     (if err_is e ErrMissingPrincipal then kerr 401 ''UNAUTHENTICATED'' (error_text E e)
      else kerr 403 ''TENANT_MISMATCH'' (error_text E e))"

definition map_domain :: "ext \<Rightarrow> gerr \<Rightarrow> gerr" where
  "map_domain E e =
     (if err_is e ErrModelNotReady then kerr 412 ''MODEL_NOT_READY'' (error_text E e)
      else kerr 404 ''MODEL_NOT_FOUND'' (error_text E e))"

fun as_connect_error :: "gerr \<Rightarrow> bool" where
  "as_connect_error (ConnectError m) \<longleftrightarrow> True"
| "as_connect_error (Wrap m e) \<longleftrightarrow> as_connect_error e"
| "as_connect_error (Noted e m) \<longleftrightarrow> as_connect_error e"
| "as_connect_error _ \<longleftrightarrow> False"

definition store_unavailable :: "gerr \<Rightarrow> bool" where
  "store_unavailable e \<longleftrightarrow>
     (if err_is e ErrTxClosed then True
      else (case as_pg e of
              Some code \<Rightarrow> has_prefix code ''08'' \<or> code = ''57P01'' \<or> code = ''57P02''
                 \<or> code = ''57P03'' \<or> code = ''53300'' \<or> code = ''55006''
            | None \<Rightarrow> as_connect_error e))"

definition map_store :: "ext \<Rightarrow> gerr \<Rightarrow> gerr" where
  "map_store E e =
     (if err_is e ErrNoRows then kerr 404 ''MODEL_NOT_FOUND'' ''resource not found''
      else if store_unavailable e
      then kerr 503 ''MODEL_STORE_UNAVAILABLE'' ''model store is unavailable''
      else if as_pg e = Some ''23505'' then kerr 409 ''CONFLICT'' ''resource already exists''
      else kerr 500 ''MODEL_STORE_ERROR'' (error_text E e))"

definition map_deletion :: "ext \<Rightarrow> gerr \<Rightarrow> gerr" where
  "map_deletion E e =
     (if err_is e ErrModelInUse then kerr 409 ''MODEL_IN_USE'' (error_text E ErrModelInUse)
      else if err_is e ErrReferenceCheckUnavailable
      then kerr 503 ''INFERENCE_REFERENCE_CHECK_UNAVAILABLE'' (error_text E ErrReferenceCheckUnavailable)
      else map_store E e)"

section \<open>Shared steps of the handlers\<close>

definition authorize :: "ext \<Rightarrow> call \<Rightarrow> string \<Rightarrow> principal wop" where
  "authorize E ctx request_tenant = mapErr (map_identity E) (lift (require_tenant ctx request_tenant))"

definition unless_configured :: "bool \<Rightarrow> gerr \<Rightarrow> unit wop" where
  "unless_configured c e = (if c then ret () else throw e)"

definition store_missing :: gerr where
  "store_missing = kerr 503 ''MODEL_STORE_UNAVAILABLE'' ''model store is not configured''"

definition bad_selector :: "string \<Rightarrow> bool" where
  "bad_selector s \<longleftrightarrow> s = [] \<or> 255 < length s \<or> trim_space s \<noteq> s \<or> contains_any s crlf"

definition resolve_model :: "ext \<Rightarrow> service \<Rightarrow> string \<Rightarrow> string \<Rightarrow> model_record wop" where
  "resolve_model E sv tenant selector =
     (if bad_selector selector then throw (kerr 400 ''INVALID_ARGUMENT'' ''invalid model_id'')
      else if \<not> sCatalog sv
      then throw (kerr 503 ''MODEL_STORE_UNAVAILABLE'' ''model catalog is not configured'')
      else mapErr (map_store E) (on_db
        (case x_uuid_parse E selector of
           Inr i \<Rightarrow> catalog_get_model E tenant (x_uuid_string E i)
         | Inl _ \<Rightarrow> catalog_get_model_by_external_id E tenant selector)))"

text \<open>\<open>recordAudit\<close>; \<open>event_id\<close> is the identifier the store draws.\<close>

definition record_audit ::
    "ext \<Rightarrow> service \<Rightarrow> uuid \<Rightarrow> principal \<Rightarrow> string \<Rightarrow> string \<Rightarrow> string \<Rightarrow> string \<Rightarrow> string \<Rightarrow>
     token \<Rightarrow> unit wop" where
  "record_audit E sv event_id p action before after task_id model_id version_id =
     (if \<not> sAudit sv then ret ()
      else inspect (on_db (audit_insert E event_id
             \<lparr>eTenantID = pTenantID p, eActor = pActor p, eWorkload = pWorkload p,
              eRequestID = pRequestID p, eTaskID = task_id, eAction = action,
              eBeforeState = before, eAfterState = after, eErrorClass = [], eID = [],
              eModelID = model_id, eModelVersionID = version_id, eCreatedAt = 0\<rparr>)) (\<lambda>res.
           case res of
             Inr _ \<Rightarrow> ret ()
           | Inl _ \<Rightarrow> throw (kerr 500 ''AUDIT_UNAVAILABLE'' ''audit event could not be persisted'')))"

text \<open>\<open>s.notifier.Notify()\<close>: the worker's wake-up channel holds at most one signal.\<close>

definition notify :: "service \<Rightarrow> unit wop" where
  "notify sv w = (Inr (), if sNotifier sv then w\<lparr>w_wake := True\<rparr> else w)"

section \<open>Models\<close>

definition handle_create_model ::
    "ext \<Rightarrow> service \<Rightarrow> string \<Rightarrow> uuid \<Rightarrow> (create_model_req, world, model_msg) handler" where
  "handle_create_model E sv fresh event_id ctx rq =
     andThen (authorize E ctx (cmTenantId rq)) (\<lambda>p.
       if cmName rq = [] \<or> validate_model_name (cmName rq) \<noteq> None
       then throw (kerr 400 ''INVALID_ARGUMENT'' ''invalid model name'')
       else if \<not> sCatalog sv then throw store_missing
       else
         let external_id = (if cmModelId rq = [] then cmName rq else cmModelId rq) in
         if 255 < length external_id \<or> trim_space external_id \<noteq> external_id
            \<or> contains_any external_id crlf
         then throw (kerr 400 ''INVALID_ARGUMENT'' ''invalid model_id'')
         else andThen (mapErr (map_store E) (on_db (catalog_create_model_with_external_id E
                (pTenantID p) fresh external_id (cmName rq) (cmDisplayName rq)
                (cmDescription rq) ''upload'' (json_array (cmCapabilities rq))
                (cmIdempotencyKey rq)))) (\<lambda>r.
              andThen (record_audit E sv event_id p ''model.create'' [] (rStatus r) [] (rID r) [])
                (\<lambda>_. ret (to_proto_model E r))))"

definition handle_get_model ::
    "ext \<Rightarrow> service \<Rightarrow> (model_selector_req, world, model_msg) handler" where
  "handle_get_model E sv ctx rq =
     andThen (authorize E ctx (msTenantId rq)) (\<lambda>p.
     andThen (unless_configured (sCatalog sv) store_missing) (\<lambda>_.
     andThen (resolve_model E sv (pTenantID p) (msModelId rq)) (\<lambda>r.
       ret (to_proto_model E r))))"

definition handle_list_models ::
    "ext \<Rightarrow> service \<Rightarrow> (list_models_req, world, model_msg list \<times> int) handler" where
  "handle_list_models E sv ctx rq =
     andThen (authorize E ctx (lmTenantId rq)) (\<lambda>p.
     andThen (unless_configured (sCatalog sv) store_missing) (\<lambda>_.
     andThen (lift (resolve_page (lmPage rq) (lmPageSize rq))) (\<lambda>o1.
     andThen (mapErr (\<lambda>e. kerr 500 ''MODEL_STORE_ERROR'' (error_text E e))
       (on_db (catalog_list_models_page E (pTenantID p)
          (o1\<lparr>oStatus := lmStatus rq, oKeyword := lmKeyword rq, oSource := lmSource rq,
              oCapability := lmCapability rq\<rparr>)))) (\<lambda>(rs, total).
       ret (map (to_proto_model E) rs, total)))))"

definition bad_candidate :: "string \<Rightarrow> search_result \<Rightarrow> bool" where
  "bad_candidate src r \<longleftrightarrow> sSource r \<noteq> src \<or> trim_space (sRepoID r) = []
     \<or> trim_space (sName r) = [] \<or> trim_space (sRevision r) = []"

definition handle_search_external_models ::
    "ext \<Rightarrow> service \<Rightarrow> (search_req, world, candidate_msg list \<times> bool) handler" where
  "handle_search_external_models E sv ctx rq =
     andThen (authorize E ctx (srTenantId rq)) (\<lambda>_.
     case sSearcher sv of
       None \<Rightarrow> throw (kerr 503 ''MODEL_PROVIDER_UNAVAILABLE'' ''external model search is not configured'')
     | Some search \<Rightarrow>
         andThen (lift (resolve_page (srPage rq) (srPageSize rq))) (\<lambda>o1.
         let page = trunc_div (oOffset o1) (oLimit o1) + 1;
             request = \<lparr>qSource = srSource rq, qKeyword = srKeyword rq, qOwner = srOwner rq,
               qTask = srTask rq, qLibrary = srLibrary rq, qPage = page, qPageSize = oLimit o1,
               qLimit = oLimit o1, qCursor = []\<rparr>
         in if search_validate request \<noteq> None
            then throw (kerr 400 ''INVALID_ARGUMENT'' ''invalid external model search request'')
            else (case search request of
               Inl e \<Rightarrow>
                 if err_is e ErrInvalidSearchRequest
                 then throw (kerr 400 ''INVALID_ARGUMENT'' ''invalid external model search request'')
                 else throw (kerr 502 ''MODEL_PROVIDER_UNAVAILABLE'' ''external model provider is unavailable'')
             | Inr result \<Rightarrow>
                 if list_ex (bad_candidate (qSource request)) (pItems result)
                 then throw (kerr 502 ''MODEL_PROVIDER_INVALID_RESPONSE''
                        ''external model provider returned an invalid candidate'')
                 else ret (map to_candidate (pItems result), pHasMore result))))"

definition handle_delete_model ::
    "ext \<Rightarrow> service \<Rightarrow> (model_selector_req, world, unit) handler" where
  "handle_delete_model E sv ctx rq =
     andThen (authorize E ctx (msTenantId rq)) (\<lambda>p.
     andThen (unless_configured (sCatalog sv) store_missing) (\<lambda>_.
     andThen (unless_configured (sReferences sv \<noteq> None)
       (kerr 503 ''INFERENCE_REFERENCE_CHECK_UNAVAILABLE'' ''inference reference checker is not configured''))
       (\<lambda>_.
       if bad_selector (msModelId rq) then throw (kerr 400 ''INVALID_ARGUMENT'' ''invalid model_id'')
       else mapErr (map_deletion E) (on_db (delete_model E (pTenantID p) (msModelId rq) (sReferences sv))))))"

definition handle_delete_model_version ::
    "ext \<Rightarrow> service \<Rightarrow> (version_selector_req, world, unit) handler" where
  "handle_delete_model_version E sv ctx rq =
     andThen (authorize E ctx (vsTenantId rq)) (\<lambda>p.
     case x_uuid_parse E (vsModelVersionId rq) of
       Inl _ \<Rightarrow> throw (kerr 400 ''INVALID_ARGUMENT'' ''invalid model_version_id'')
     | Inr i \<Rightarrow>
         if i = 0 then throw (kerr 400 ''INVALID_ARGUMENT'' ''invalid model_version_id'')
         else if sReferences sv = None then throw (map_deletion E ErrReferenceCheckUnavailable)
         else if \<not> sCatalog sv
         then throw (kerr 503 ''MODEL_STORE_UNAVAILABLE'' ''protected deletion is not configured'')
         else mapErr (map_deletion E)
                (on_db (delete_version E (pTenantID p) (x_uuid_string E i) (sReferences sv))))"

definition handle_list_model_operations ::
    "ext \<Rightarrow> service \<Rightarrow> (operations_req, world, operation_msg list \<times> int) handler" where
  "handle_list_model_operations E sv ctx rq =
     andThen (authorize E ctx (opTenantId rq)) (\<lambda>p.
     andThen (lift (resolve_page (opPage rq) (opPageSize rq))) (\<lambda>o1.
     andThen (resolve_model E sv (pTenantID p) (opModelId rq)) (\<lambda>m.
     andThen (unless_configured (sAudit sv)
       (kerr 503 ''AUDIT_UNAVAILABLE'' ''operation history is not configured'')) (\<lambda>_.
     andThen (mapErr (map_store E) (on_db (list_model_operations E (pTenantID p) (rID m)
        \<lparr>auLimit = oLimit o1, auOffset = oOffset o1\<rparr>))) (\<lambda>(events, total).
       ret (map to_proto_operation events, total))))))"

end
