(* ===== verification/Minio.thy ===== *)
theory Minio
  imports Service
begin

text \<open>
  The MinIO adapter (\<open>internal/data/storage/minio.go\<close>): where an object of a tenant lies, the
  checks and signed URLs the service asks for, and the buckets. The MinIO client is outside
  the repository: what it answers at a moment is one record, and what its calls on buckets do
  is another, over a state \<open>'k\<close>.
\<close>

text \<open>An error of the client with the status and code \<open>minio.ToErrorResponse\<close> reads from it.\<close>

record minio_error =
  meStatus :: int
  meCode :: string
  meText :: string

record object_info =
  oiSize :: int
  oiVersionID :: string

text \<open>\<open>mc_get\<close> is given the version (empty: the latest); it may fail, and so may the reading.\<close>

record minio_client =
  mc_stat :: "string \<Rightarrow> string \<Rightarrow> minio_error + object_info"
  mc_get :: "string \<Rightarrow> string \<Rightarrow> string \<Rightarrow> minio_error + (minio_error + string)"
  mc_presign_put :: "string \<Rightarrow> string \<Rightarrow> int \<Rightarrow> minio_error + string"
  mc_presign_get :: "string \<Rightarrow> string \<Rightarrow> int \<Rightarrow> minio_error + string"

record 'k bucket_api =
  ba_exists :: "string \<Rightarrow> ('k, minio_error, bool) oper"
  ba_make :: "string \<Rightarrow> ('k, minio_error, unit) oper"
  ba_put :: "string \<Rightarrow> string \<Rightarrow> string \<Rightarrow> int \<Rightarrow> string \<Rightarrow> (string \<times> string) list \<Rightarrow> ('k, minio_error, unit) oper"

record minio_adapter =
  maBucket :: string
  maTenantBuckets :: bool
  maContentLimit :: int

text \<open>\<open>connect\<close> is \<open>minio.New\<close>: \<open>None\<close> when it accepts the endpoint and the credentials.\<close>

type_synonym connector = "string \<Rightarrow> string \<Rightarrow> string \<Rightarrow> bool \<Rightarrow> gerr option"

definition new_minio_adapter ::
    "connector \<Rightarrow> string \<Rightarrow> string \<Rightarrow> string \<Rightarrow> string \<Rightarrow> bool \<Rightarrow> gerr + minio_adapter" where
  "new_minio_adapter connect endpoint access secret_key bucket secure =
     (let endpoint = trim_space endpoint; bucket = trim_space bucket in
      if endpoint = [] \<or> access = [] \<or> secret_key = [] \<or> bucket = []
      then Inl (Plain ''minio endpoint, credentials and bucket are required'')
      else (case connect endpoint access secret_key secure of
              Some e \<Rightarrow> Inl (Wrap ''create minio client'' e)
            | None \<Rightarrow> Inr \<lparr>maBucket = bucket, maTenantBuckets = False, maContentLimit = 0\<rparr>))"

definition new_minio_tenant_adapter ::
    "connector \<Rightarrow> string \<Rightarrow> string \<Rightarrow> string \<Rightarrow> bool \<Rightarrow> gerr + minio_adapter" where
  "new_minio_tenant_adapter connect endpoint access secret_key secure =
     (let endpoint = trim_space endpoint in
      if endpoint = [] \<or> access = [] \<or> secret_key = []
      then Inl (Plain ''minio endpoint and credentials are required'')
      else (case connect endpoint access secret_key secure of
              Some e \<Rightarrow> Inl (Wrap ''create minio client'' e)
            | None \<Rightarrow> Inr \<lparr>maBucket = [], maTenantBuckets = True, maContentLimit = 0\<rparr>))"

definition provider_error :: "minio_error \<Rightarrow> gerr" where
  "provider_error e = Noted ErrProvider (meText e)"

section \<open>Where objects lie\<close>

definition tenant_bucket :: "ext \<Rightarrow> string \<Rightarrow> gerr + string" where
  "tenant_bucket E tenant_id =
     (let t = trim_space tenant_id in
      case x_uuid_parse E t of
        Inl _ \<Rightarrow> Inl (Noted ErrInvalidTenantBucket (x_quote E t))
      | Inr _ \<Rightarrow> Inr (to_lower t))"

definition bucket_for_tenant :: "ext \<Rightarrow> minio_adapter \<Rightarrow> string \<Rightarrow> gerr + string" where
  "bucket_for_tenant E ad tenant_id =
     (if maTenantBuckets ad then tenant_bucket E tenant_id
      else if maBucket ad = [] then Inl (Plain ''minio bucket is not configured'')
      else Inr (maBucket ad))"

definition tenant_name :: "string \<Rightarrow> string" where
  "tenant_name tenant = trim_set ''/'' (trim_space tenant)"

definition tenant_key :: "ext \<Rightarrow> string \<Rightarrow> string \<Rightarrow> gerr + string" where
  "tenant_key E tenant object_ref =
     (let t = tenant_name tenant; key = trim_set ''/'' (trim_space object_ref) in
      if t = [] \<or> key = [] then Inl (Plain ''invalid tenant/object reference: empty value'')
      else if contains t ''/'' then Inl (Plain ''invalid tenant/object reference: tenant contains slash'')
      else if contains key ''..'' \<or> contains key ''./'' \<or> has_prefix key ''/''
      then Inl (Plain ''invalid tenant/object reference: path traversal detected'')
      else let first = fst (cut (CHR ''/'') key) in
      if first \<noteq> t \<and> \<not> isl (x_uuid_parse E t) \<and> \<not> isl (x_uuid_parse E first)
      then Inl (Plain ''object reference belongs to another tenant'')
      else if key = t \<or> has_prefix key (t @ ''/'') then Inr key
      else Inr (t @ ''/'' @ key))"

text \<open>Every method finds the key first and the bucket second.\<close>

definition object_at :: "ext \<Rightarrow> minio_adapter \<Rightarrow> string \<Rightarrow> string \<Rightarrow> gerr + string \<times> string" where
  "object_at E ad tenant object_ref =
     (case tenant_key E tenant object_ref of
        Inl e \<Rightarrow> Inl e
      | Inr key \<Rightarrow> (case bucket_for_tenant E ad tenant of Inl e \<Rightarrow> Inl e | Inr b \<Rightarrow> Inr (b, key)))"

section \<open>Buckets\<close>

definition from_client :: "('k, minio_error, 'a) oper \<Rightarrow> ('k, gerr, 'a) oper" where
  "from_client m k = (case m k of (Inl e, k2) \<Rightarrow> (Inl (provider_error e), k2) | (Inr x, k2) \<Rightarrow> (Inr x, k2))"

definition check_bucket :: "ext \<Rightarrow> 'k bucket_api \<Rightarrow> minio_adapter \<Rightarrow> ('k, gerr, unit) oper" where
  "check_bucket E api ad =
     (if maTenantBuckets ad then throw (Noted ErrProvider ''tenant bucket requires tenant id'')
      else andThen (from_client (ba_exists api (maBucket ad))) (\<lambda>there.
        if there then ret ()
        else throw (Noted ErrProvider (''bucket '' @ x_quote E (maBucket ad) @ '' does not exist''))))"

definition check_tenant_connection :: "ext \<Rightarrow> 'k bucket_api \<Rightarrow> string \<Rightarrow> ('k, gerr, unit) oper" where
  "check_tenant_connection E api tenant =
     andThen (lift (tenant_bucket E tenant)) (\<lambda>b.
     andThen (from_client (ba_exists api b)) (\<lambda>_. ret ()))"

definition bucket_taken :: "minio_error \<Rightarrow> bool" where
  "bucket_taken e \<longleftrightarrow> meCode e = ''BucketAlreadyExists'' \<or> meCode e = ''BucketAlreadyOwnedByYou''
     \<or> meStatus e = 409"

definition make_bucket :: "'k bucket_api \<Rightarrow> string \<Rightarrow> ('k, gerr, unit) oper" where
  "make_bucket api b k =
     (case ba_make api b k of
        (Inr _, k2) \<Rightarrow> (Inr (), k2)
      | (Inl e, k2) \<Rightarrow> (if bucket_taken e then Inr () else Inl (provider_error e), k2))"

definition ensure_bucket :: "ext \<Rightarrow> 'k bucket_api \<Rightarrow> minio_adapter \<Rightarrow> string \<Rightarrow> ('k, gerr, unit) oper" where
  "ensure_bucket E api ad tenant =
     andThen (lift (bucket_for_tenant E ad tenant)) (\<lambda>b.
     andThen (from_client (ba_exists api b)) (\<lambda>there.
       if there then ret () else make_bucket api b))"

definition minio_upload ::
    "ext \<Rightarrow> 'k bucket_api \<Rightarrow> minio_adapter \<Rightarrow> upload_request \<Rightarrow> string \<Rightarrow> ('k, gerr, unit) oper" where
  "minio_upload E api ad rq body =
     andThen (lift (object_at E ad (lTenantID rq) (lObjectRef rq))) (\<lambda>(b, key).
       from_client (ba_put api b key body (if lSizeBytes rq = 0 then -1 else lSizeBytes rq) (lContentType rq)
         (if lChecksumSHA256 rq = [] then [] else [(''X-Amz-Meta-Sha256'', lChecksumSHA256 rq)])))"

section \<open>The port\<close>

definition minio_upload_url ::
    "ext \<Rightarrow> minio_adapter \<Rightarrow> minio_client \<Rightarrow> int \<Rightarrow> upload_request \<Rightarrow> gerr + signed_url" where
  "minio_upload_url E ad mc now rq =
     (let expires = (if lTTL rq = 0 then 900000000000 else lTTL rq) in
      case object_at E ad (lTenantID rq) (lObjectRef rq) of
        Inl e \<Rightarrow> Inl e
      | Inr (b, key) \<Rightarrow>
          (case mc_presign_put mc b key expires of
             Inl e \<Rightarrow> Inl (provider_error e)
           | Inr u \<Rightarrow> Inr \<lparr>nURL = u, nExpiresAt = now + expires\<rparr>))"

definition no_such_object :: "minio_error \<Rightarrow> bool" where
  "no_such_object e \<longleftrightarrow> meStatus e = 404 \<or> meCode e = ''NoSuchKey'' \<or> meCode e = ''NoSuchObject''"

definition minio_object_exists ::
    "ext \<Rightarrow> minio_adapter \<Rightarrow> minio_client \<Rightarrow> string \<Rightarrow> string \<Rightarrow> gerr + bool" where
  "minio_object_exists E ad mc tenant object_ref =
     (case object_at E ad tenant object_ref of
        Inl e \<Rightarrow> Inl e
      | Inr (b, key) \<Rightarrow>
          (case mc_stat mc b key of
             Inl e \<Rightarrow> if no_such_object e then Inr False else Inl (provider_error e)
           | Inr _ \<Rightarrow> Inr True))"

text \<open>The bytes of the latest version, or the error of the request or of the reading.\<close>

definition read_object :: "minio_client \<Rightarrow> string \<Rightarrow> string \<Rightarrow> gerr + string" where
  "read_object mc b key =
     (case mc_get mc b key [] of
        Inl e \<Rightarrow> Inl (provider_error e)
      | Inr (Inl e) \<Rightarrow> Inl (provider_error e)
      | Inr (Inr body) \<Rightarrow> Inr body)"

definition minio_verify_checksum ::
    "ext \<Rightarrow> minio_adapter \<Rightarrow> minio_client \<Rightarrow> string \<Rightarrow> string \<Rightarrow> string \<Rightarrow> gerr option" where
  "minio_verify_checksum E ad mc tenant object_ref expected =
     (case tenant_key E tenant object_ref of
        Inl e \<Rightarrow> Some e
      | Inr key \<Rightarrow>
          if length expected \<noteq> 64 then Some ErrChecksumMismatch
          else (case bucket_for_tenant E ad tenant of
                  Inl e \<Rightarrow> Some e
                | Inr b \<Rightarrow>
                    (case read_object mc b key of
                       Inl e \<Rightarrow> Some e
                     | Inr body \<Rightarrow>
                         if \<not> equal_fold (x_sha256 E body) expected then Some ErrChecksumMismatch else None)))"

definition minio_verify_object ::
    "ext \<Rightarrow> minio_adapter \<Rightarrow> minio_client \<Rightarrow> string \<Rightarrow> string \<Rightarrow> int \<Rightarrow> string \<Rightarrow> gerr + object_verification" where
  "minio_verify_object E ad mc tenant object_ref expected_size expected =
     (case tenant_key E tenant object_ref of
        Inl e \<Rightarrow> Inl e
      | Inr key \<Rightarrow>
          if expected_size \<le> 0 \<or> length expected \<noteq> 64 then Inl ErrChecksumMismatch
          else (case bucket_for_tenant E ad tenant of
                  Inl e \<Rightarrow> Inl e
                | Inr b \<Rightarrow>
                    (case mc_stat mc b key of
                       Inl e \<Rightarrow> Inl (provider_error e)
                     | Inr info \<Rightarrow>
                         (case verify_reader_with_size E (read_object mc b key) expected_size expected of
                            Inl e \<Rightarrow> Inl e
                          | Inr v \<Rightarrow> Inr (if oiSize info \<noteq> kSizeBytes v then v\<lparr>kMatches := False\<rparr> else v)))))"

definition minio_download_url ::
    "ext \<Rightarrow> minio_adapter \<Rightarrow> minio_client \<Rightarrow> int \<Rightarrow> download_request \<Rightarrow> gerr + signed_url" where
  "minio_download_url E ad mc now rq =
     (let expires = (if dTTL rq \<le> 0 \<or> 1800000000000 < dTTL rq then 300000000000 else dTTL rq) in
      case object_at E ad (dTenantID rq) (dObjectRef rq) of
        Inl e \<Rightarrow> Inl e
      | Inr (b, key) \<Rightarrow>
          (case mc_presign_get mc b key expires of
             Inl e \<Rightarrow> Inl (provider_error e)
           | Inr u \<Rightarrow> Inr \<lparr>nURL = u, nExpiresAt = now + expires\<rparr>))"

definition minio_port :: "ext \<Rightarrow> minio_adapter \<Rightarrow> minio_client \<Rightarrow> int \<Rightarrow> storage_port" where
  "minio_port E ad mc now =
     \<lparr>st_create_upload_url = minio_upload_url E ad mc now,
      st_object_exists = minio_object_exists E ad mc,
      st_verify_checksum = minio_verify_checksum E ad mc,
      st_create_download_url = minio_download_url E ad mc now,
      st_verify_object = Some (minio_verify_object E ad mc)\<rparr>"

section \<open>What the port answers\<close>

lemma contains_char: "contains t [c] \<longleftrightarrow> c \<in> set t"
  by (induction t) (auto simp: prefix_def)

lemma takeWhile_segment:
  "c \<notin> set t \<Longrightarrow> takeWhile (\<lambda>x. x \<noteq> c) t = t"
  "c \<notin> set t \<Longrightarrow> takeWhile (\<lambda>x. x \<noteq> c) (t @ c # rest) = t"
  by (induction t) auto

lemma tenant_key_own:
  assumes "tenant_key E tenant r = Inr key"
  shows "takeWhile (\<lambda>c. c \<noteq> CHR ''/'') key = tenant_name tenant" and "tenant_name tenant \<noteq> []"
    and "key = tenant_name tenant \<or> has_prefix key (tenant_name tenant @ ''/'')"
proof -
  let ?t = "tenant_name tenant"
  from assms have t: "?t \<noteq> []" "CHR ''/'' \<notin> set ?t" and k: "key = ?t \<or> has_prefix key (?t @ ''/'')"
    by (auto simp: tenant_key_def Let_def contains_char has_prefix_def split: if_splits)
  show "?t \<noteq> []" by (rule t)
  show "key = ?t \<or> has_prefix key (?t @ ''/'')" by (rule k)
  then consider "key = ?t" | rest where "key = ?t @ CHR ''/'' # rest"
    by (auto simp: has_prefix_def prefix_def)
  then show "takeWhile (\<lambda>c. c \<noteq> CHR ''/'') key = ?t"
    by cases (simp_all only: takeWhile_segment [OF t(2)])
qed

lemma verify_checksum_None:
  assumes "minio_verify_checksum E ad mc tenant r expected = None"
  shows "\<exists>b key body. object_at E ad tenant r = Inr (b, key) \<and> mc_get mc b key [] = Inr (Inr body)
    \<and> equal_fold (x_sha256 E body) expected"
  using assms
  by (auto simp: minio_verify_checksum_def object_at_def read_object_def split: sum.splits if_splits)

lemma verify_object_matches:
  assumes "minio_verify_object E ad mc tenant r n expected = Inr v" and "kMatches v"
  shows "\<exists>b key body. object_at E ad tenant r = Inr (b, key) \<and> mc_get mc b key [] = Inr (Inr body)
    \<and> int (length body) = n \<and> equal_fold (x_sha256 E body) expected"
  using assms
  by (auto simp: minio_verify_object_def object_at_def read_object_def verify_reader_with_size_def Let_def
      split: sum.splits if_splits)

end
