(* ===== verification/KubeJobs.thy ===== *)
theory KubeJobs
  imports Errors
begin

text \<open>
  The import jobs on Kubernetes (\<open>internal/data/kubernetes/import_job.go\<close>): the manifest of a
  job, the client, and the reading of a job's status and logs. The API server and the object
  storage are outside the repository: they are one record of functions over a state \<open>'k\<close>
  of their own, which every call may change.
\<close>

section \<open>Manifests\<close>

type_synonym strmap = "string \<rightharpoonup> string"

datatype volume =
    ClaimVolume string string
  | SecretVolume string string
  | ConfigMapVolume string string "(string \<times> string) list"

record volume_mount =
  mtName :: string
  mtPath :: string
  mtReadOnly :: bool

record import_job_spec =
  spNamespace :: string
  spName :: string
  spImage :: string
  spCommand :: "string list"
  spArgs :: "string list"
  spEnv :: "(string \<times> string) list"
  spEnvFrom :: "string list"
  spVolumes :: "volume list"
  spVolumeMounts :: "volume_mount list"
  spServiceAccountName :: string
  spLabels :: strmap
  spAnnotations :: strmap
  spBackoffLimit :: "int option"
  spActiveDeadlineSeconds :: "int option"
  spTTLSecondsAfterFinished :: "int option"

record container =
  ctName :: string
  ctImage :: string
  ctCommand :: "string list"
  ctArgs :: "string list"
  ctEnv :: "(string \<times> string) list"
  ctEnvFrom :: "string list"
  ctVolumeMounts :: "volume_mount list"

record pod_spec =
  psLabels :: strmap
  psRestartPolicy :: string
  psServiceAccountName :: string
  psVolumes :: "volume list"
  psRunAsNonRoot :: bool
  psRunAsUser :: int
  psRunAsGroup :: int
  psFSGroup :: int
  psFSGroupChangePolicy :: string
  psContainers :: "container list"

record condition =
  cnType :: string
  cnStatus :: string
  cnReason :: string
  cnMessage :: string

record job =
  jbNamespace :: string
  jbName :: string
  jbLabels :: strmap
  jbAnnotations :: strmap
  jbBackoffLimit :: "int option"
  jbActiveDeadlineSeconds :: "int option"
  jbTTLSecondsAfterFinished :: "int option"
  jbPod :: pod_spec
  jbActive :: int
  jbSucceeded :: int
  jbFailed :: int
  jbStartTime :: "int option"
  jbCompletionTime :: "int option"
  jbConditions :: "condition list"

record pvc =
  pvNamespace :: string
  pvName :: string
  pvLabels :: strmap
  pvAnnotations :: strmap
  pvStorageClass :: "string option"
  pvSize :: string

record secret =
  seNamespace :: string
  seName :: string
  seLabels :: strmap
  seAnnotations :: strmap
  seData :: strmap

definition ManagedLabel :: string where
  "ManagedLabel = ''ani.liangzai006.io/import-job''"

definition ImportContainerName :: string where
  "ImportContainerName = ''import''"

text \<open>A manifest has an empty status.\<close>

definition build_import_job :: "import_job_spec \<Rightarrow> gerr + job" where
  "build_import_job sp =
     (if spNamespace sp = [] then Inl (Plain ''import job namespace is required'')
      else if spName sp = [] then Inl (Plain ''import job name is required'')
      else if spImage sp = [] then Inl (Plain ''import job image is required'')
      else
        let labels = (spLabels sp)(ManagedLabel \<mapsto> ''true'')
        in Inr \<lparr>jbNamespace = spNamespace sp, jbName = spName sp, jbLabels = labels,
             jbAnnotations = spAnnotations sp, jbBackoffLimit = spBackoffLimit sp,
             jbActiveDeadlineSeconds = spActiveDeadlineSeconds sp,
             jbTTLSecondsAfterFinished = spTTLSecondsAfterFinished sp,
             jbPod = \<lparr>psLabels = labels, psRestartPolicy = ''Never'',
               psServiceAccountName = spServiceAccountName sp, psVolumes = spVolumes sp,
               psRunAsNonRoot = True, psRunAsUser = 65532, psRunAsGroup = 65532, psFSGroup = 65532,
               psFSGroupChangePolicy = ''OnRootMismatch'',
               psContainers = [\<lparr>ctName = ImportContainerName, ctImage = spImage sp,
                 ctCommand = spCommand sp, ctArgs = spArgs sp, ctEnv = spEnv sp,
                 ctEnvFrom = spEnvFrom sp, ctVolumeMounts = spVolumeMounts sp\<rparr>]\<rparr>,
             jbActive = 0, jbSucceeded = 0, jbFailed = 0, jbStartTime = None,
             jbCompletionTime = None, jbConditions = []\<rparr>)"

section \<open>Status\<close>

datatype job_phase = JobPending | JobRunning | JobSucceeded | JobFailed

record import_job_status =
  isPhase :: job_phase
  isActive :: int
  isSucceeded :: int
  isFailed :: int
  isReason :: string
  isMessage :: string
  isStartTime :: "int option"
  isEndTime :: "int option"

definition apply_condition :: "condition \<Rightarrow> import_job_status \<Rightarrow> import_job_status" where
  "apply_condition c st =
     (if cnStatus c \<noteq> ''True'' then st
      else st\<lparr>isReason := cnReason c, isMessage := cnMessage c,
        isPhase := (if cnType c = ''Complete'' then JobSucceeded
                    else if cnType c = ''Failed'' then JobFailed else isPhase st)\<rparr>)"

definition job_status :: "job \<Rightarrow> import_job_status" where
  "job_status j =
     (let st = fold apply_condition (jbConditions j)
        \<lparr>isPhase = JobPending, isActive = jbActive j, isSucceeded = jbSucceeded j,
         isFailed = jbFailed j, isReason = [], isMessage = [], isStartTime = jbStartTime j,
         isEndTime = jbCompletionTime j\<rparr>
      in if isPhase st \<noteq> JobPending then st
         else if isActive st > 0 then st\<lparr>isPhase := JobRunning\<rparr>
         else if isFailed st > 0 then st\<lparr>isPhase := JobFailed\<rparr>
         else if isSucceeded st > 0 then st\<lparr>isPhase := JobSucceeded\<rparr>
         else st)"

section \<open>The client\<close>

text \<open>\<open>kl_pod_logs\<close> is given the container and the number of lines at the end it asks for.\<close>

record 'k kube =
  kl_create_job :: "string \<Rightarrow> job \<Rightarrow> ('k, gerr, job) oper"
  kl_get_job :: "string \<Rightarrow> string \<Rightarrow> ('k, gerr, job) oper"
  kl_delete_job :: "string \<Rightarrow> string \<Rightarrow> string \<Rightarrow> ('k, gerr, unit) oper"
  kl_create_pvc :: "string \<Rightarrow> pvc \<Rightarrow> ('k, gerr, pvc) oper"
  kl_get_pvc :: "string \<Rightarrow> string \<Rightarrow> ('k, gerr, pvc) oper"
  kl_delete_pvc :: "string \<Rightarrow> string \<Rightarrow> ('k, gerr, unit) oper"
  kl_create_secret :: "string \<Rightarrow> secret \<Rightarrow> ('k, gerr, secret) oper"
  kl_get_secret :: "string \<Rightarrow> string \<Rightarrow> ('k, gerr, secret) oper"
  kl_update_secret :: "string \<Rightarrow> secret \<Rightarrow> ('k, gerr, secret) oper"
  kl_delete_secret :: "string \<Rightarrow> string \<Rightarrow> ('k, gerr, unit) oper"
  kl_list_pods :: "string \<Rightarrow> string \<Rightarrow> ('k, gerr, string list) oper"
  kl_pod_logs :: "string \<Rightarrow> string \<Rightarrow> string \<Rightarrow> int \<Rightarrow> ('k, gerr, string) oper"

text \<open>A method of \<open>ImportJobClient\<close>: the request, its error wrapped with what was attempted.\<close>

definition request ::
    "'k kube option \<Rightarrow> ('k kube \<Rightarrow> ('k, gerr, 'a) oper) \<Rightarrow> string \<Rightarrow> string \<Rightarrow> string \<Rightarrow> ('k, gerr, 'a) oper" where
  "request c call what ns name =
     (case c of
        None \<Rightarrow> throw ErrKubernetesClientUnavailable
      | Some k \<Rightarrow> mapErr (Wrap (what @ '' '' @ ns @ ''/'' @ name)) (call k))"

definition job_create :: "'k kube option \<Rightarrow> import_job_spec \<Rightarrow> ('k, gerr, job) oper" where
  "job_create c sp =
     andThen (lift (build_import_job sp)) (\<lambda>j.
       request c (\<lambda>k. kl_create_job k (spNamespace sp) j) ''create import job'' (spNamespace sp) (spName sp))"

definition job_get :: "'k kube option \<Rightarrow> string \<Rightarrow> string \<Rightarrow> ('k, gerr, job) oper" where
  "job_get c ns name = request c (\<lambda>k. kl_get_job k ns name) ''get import job'' ns name"

definition job_read_status :: "'k kube option \<Rightarrow> string \<Rightarrow> string \<Rightarrow> ('k, gerr, import_job_status) oper" where
  "job_read_status c ns name = andThen (job_get c ns name) (\<lambda>j. ret (job_status j))"

definition job_delete :: "'k kube option \<Rightarrow> string \<Rightarrow> string \<Rightarrow> ('k, gerr, unit) oper" where
  "job_delete c ns name =
     request c (\<lambda>k. kl_delete_job k ns name ''Foreground'') ''delete import job'' ns name"

definition pvc_create :: "'k kube option \<Rightarrow> pvc \<Rightarrow> ('k, gerr, pvc) oper" where
  "pvc_create c p =
     (if c \<noteq> None \<and> (pvNamespace p = [] \<or> pvName p = [])
      then throw (Plain ''import pvc identity is required'')
      else request c (\<lambda>k. kl_create_pvc k (pvNamespace p) p) ''create import pvc'' (pvNamespace p) (pvName p))"

definition pvc_get :: "'k kube option \<Rightarrow> string \<Rightarrow> string \<Rightarrow> ('k, gerr, pvc) oper" where
  "pvc_get c ns name = request c (\<lambda>k. kl_get_pvc k ns name) ''get import pvc'' ns name"

definition pvc_delete :: "'k kube option \<Rightarrow> string \<Rightarrow> string \<Rightarrow> ('k, gerr, unit) oper" where
  "pvc_delete c ns name = request c (\<lambda>k. kl_delete_pvc k ns name) ''delete import pvc'' ns name"

definition secret_create :: "'k kube option \<Rightarrow> secret \<Rightarrow> ('k, gerr, secret) oper" where
  "secret_create c x =
     (if c \<noteq> None \<and> (seNamespace x = [] \<or> seName x = [])
      then throw (Plain ''import secret identity is required'')
      else request c (\<lambda>k. kl_create_secret k (seNamespace x) x) ''create import secret'' (seNamespace x) (seName x))"

definition secret_get :: "'k kube option \<Rightarrow> string \<Rightarrow> string \<Rightarrow> ('k, gerr, secret) oper" where
  "secret_get c ns name = request c (\<lambda>k. kl_get_secret k ns name) ''get import secret'' ns name"

definition secret_update :: "'k kube option \<Rightarrow> secret \<Rightarrow> ('k, gerr, secret) oper" where
  "secret_update c x =
     (if c \<noteq> None \<and> (seNamespace x = [] \<or> seName x = [])
      then throw (Plain ''import secret identity is required'')
      else request c (\<lambda>k. kl_update_secret k (seNamespace x) x) ''update import secret'' (seNamespace x) (seName x))"

definition secret_delete :: "'k kube option \<Rightarrow> string \<Rightarrow> string \<Rightarrow> ('k, gerr, unit) oper" where
  "secret_delete c ns name =
     request c (\<lambda>k. kl_delete_secret k ns name) ''delete import secret'' ns name"

text \<open>The logs of the first pod of the job: its last 200 lines, of which a mebibyte is read.\<close>

definition log_limit :: int where "log_limit = 1048576"

definition read_limited :: "string \<Rightarrow> string" where
  "read_limited data = (if int (length data) \<le> log_limit then data else take (nat log_limit) data)"

definition job_logs :: "'k kube option \<Rightarrow> string \<Rightarrow> string \<Rightarrow> ('k, gerr, string) oper" where
  "job_logs c ns name =
     andThen (request c (\<lambda>k. kl_list_pods k ns (''job-name='' @ name)) ''list import job pods'' ns name) (\<lambda>pods.
       case pods of
         [] \<Rightarrow> throw (Plain (''import job '' @ ns @ ''/'' @ name @ '' has no pod''))
       | pod # _ \<Rightarrow>
           andThen (request c (\<lambda>k. kl_pod_logs k ns pod ImportContainerName 200)
               ''read import job logs'' ns name) (\<lambda>data.
             ret (trim_space (read_limited data))))"

end
