(* ===== verification/ImportExecutor.thy ===== *)
theory ImportExecutor
  imports KubeJobs Service
begin

text \<open>
  The execution of a claimed import task (\<open>internal/worker/kubernetes_executor.go\<close>, with
  \<open>persistArtifact\<close> of \<open>import_executor.go\<close>): the Kubernetes job is created once per attempt
  and watched until it ends, its upload URL being refreshed meanwhile; the object it reports
  is verified and recorded.

  An execution takes hours, and while it runs the lease is renewed by another goroutine,
  other processes use the database and the cluster moves on. \<open>g_moments\<close> is what happens
  between its external calls, one moment after another, until the process is stopped: the
  time that passes, what others do to the database and the cluster, whether the renewal
  ticker fires, and which arm a \<open>select\<close> takes. Every external call is preceded by a
  moment; a \<open>select\<close> on the poll ticker is one.
\<close>

section \<open>The site\<close>

record 'k moment =
  mo_after :: nat
  mo_db :: "db \<Rightarrow> db"
  mo_kube :: "'k \<Rightarrow> 'k"
  mo_renew :: bool
  mo_stop :: bool

record 'k site =
  g_db :: db
  g_kube :: 'k
  g_moments :: "'k moment list"
  g_renewal :: "gerr option"
  g_wake :: bool
  g_ready :: bool

type_synonym ('k, 'a) sop = "('k site, gerr, 'a) oper"

definition at_db :: "'a dbop \<Rightarrow> ('k, 'a) sop" where
  "at_db m s = (case m (g_db s) of (r, d) \<Rightarrow> (r, s\<lparr>g_db := d\<rparr>))"

definition at_kube :: "('k, gerr, 'a) oper \<Rightarrow> ('k, 'a) sop" where
  "at_kube m s = (case m (g_kube s) of (r, k) \<Rightarrow> (r, s\<lparr>g_kube := k\<rparr>))"

definition site_now :: "('k, int) sop" where
  "site_now s = (Inr (clock (g_db s) * 1000), s)"

text \<open>The renewal goroutine renews on a tick, and ends after the first renewal that fails.\<close>

definition renew_tick :: "unit dbop \<Rightarrow> 'k site \<Rightarrow> 'k site" where
  "renew_tick renew s =
     (if g_renewal s \<noteq> None then s
      else (case renew (g_db s) of
              (Inl e, d) \<Rightarrow> s\<lparr>g_db := d, g_renewal := Some e\<rparr>
            | (Inr _, d) \<Rightarrow> s\<lparr>g_db := d\<rparr>))"

definition pass :: "unit dbop \<Rightarrow> 'k moment \<Rightarrow> 'k site \<Rightarrow> 'k site" where
  "pass renew m s =
     (let d = mo_db m (g_db s);
          t = s\<lparr>g_db := d\<lparr>clock := clock d + int (mo_after m)\<rparr>, g_kube := mo_kube m (g_kube s)\<rparr>
      in if mo_renew m then renew_tick renew t else t)"

text \<open>Before an external call; the calls themselves report a context that was cancelled.\<close>

definition meanwhile :: "unit dbop \<Rightarrow> ('k, unit) sop" where
  "meanwhile renew s =
     (case g_moments s of
        [] \<Rightarrow> (Inr (), s)
      | m # ms \<Rightarrow> (Inr (), pass renew m (s\<lparr>g_moments := ms\<rparr>)))"

definition via :: "unit dbop \<Rightarrow> ('k, 'a) sop \<Rightarrow> ('k, 'a) sop" where
  "via renew m = andThen (meanwhile renew) (\<lambda>_. m)"

text \<open>\<open>select\<close> on \<open>ctx.Done()\<close> and the poll ticker; the process is stopped in the end.\<close>

definition pause :: "unit dbop \<Rightarrow> ('k, unit) sop" where
  "pause renew s =
     (case g_moments s of
        [] \<Rightarrow> (Inl Canceled, s)
      | m # ms \<Rightarrow>
          (if mo_stop m then Inl Canceled else Inr (), pass renew m (s\<lparr>g_moments := ms\<rparr>)))"

section \<open>Configuration\<close>

record import_file =
  ifPath :: string
  ifSize :: int

text \<open>What the import job reports (\<open>importer.Result\<close>).\<close>

record import_result =
  irObjectRef :: string
  irFormat :: string
  irChecksumSHA256 :: string
  irSizeBytes :: int

text \<open>
  A provider that may list the files of a repository at a revision. \<open>cfDecode\<close> is
  \<open>json.Unmarshal\<close> into the result structure, \<open>cfQuantity\<close> is \<open>resource.ParseQuantity\<close>,
  \<open>cfFormatTime\<close> and \<open>cfParseTime\<close> are \<open>time.Format\<close> and \<open>time.Parse\<close> with \<open>RFC3339Nano\<close>.
\<close>

type_synonym manifest_source = "string \<Rightarrow> string \<Rightarrow> gerr + import_file list"

record 'k executor =
  cfJobs :: "'k kube option option"
  cfStorage :: "('k \<Rightarrow> storage_port) option"
  cfBuckets :: "(string \<Rightarrow> ('k, gerr, unit) oper) option"
  cfArtifacts :: bool
  cfChecksums :: bool
  cfProviders :: "(string \<Rightarrow> manifest_source option option) option"
  cfNamespace :: string
  cfImage :: string
  cfProviderSecretName :: string
  cfCAConfigMapName :: string
  cfCAConfigMapKey :: string
  cfStorageClass :: string
  cfStorageCAConfigMap :: string
  cfUploadTTL :: int
  cfDecode :: "string \<Rightarrow> gerr + import_result"
  cfQuantity :: "string \<Rightarrow> gerr + string"
  cfFormatTime :: "int \<Rightarrow> string"
  cfParseTime :: "string \<Rightarrow> int option"

section \<open>The task's inputs\<close>

definition source_char :: "char \<Rightarrow> bool" where
  "source_char c \<longleftrightarrow> c \<in> set ''abcdefghijklmnopqrstuvwxyz0123456789_-''"

definition revision_char :: "char \<Rightarrow> bool" where
  "revision_char c \<longleftrightarrow> c \<in> set ''abcdefghijklmnopqrstuvwxyzABCDEFGHIJKLMNOPQRSTUVWXYZ0123456789._/-''"

definition unsafe_chars :: string where
  "unsafe_chars = [CHR 0x0A, CHR 0x0D] @ ''$'' @ [CHR 0x60] @ '';&|<>(){}[]!''"

definition validate_task_inputs :: "ext \<Rightarrow> task \<Rightarrow> gerr option" where
  "validate_task_inputs E t =
     (if wSource t = [] \<or> \<not> list_all source_char (wSource t)
      then Some (Noted ErrInvalidTaskInput (''source '' @ x_quote E (wSource t)))
      else if contains_any (wRepoID t) unsafe_chars
      then Some (Noted ErrInvalidTaskInput ''repo_id contains unsafe characters'')
      else if 512 < length (wRepoID t) then Some (Noted ErrInvalidTaskInput ''repo_id too long'')
      else if wRevision t = [] then None
      else if \<not> list_all revision_char (wRevision t)
      then Some (Noted ErrInvalidTaskInput (''revision '' @ x_quote E (wRevision t)))
      else if 256 < length (wRevision t) then Some (Noted ErrInvalidTaskInput ''revision too long'')
      else None)"

definition import_object_ref :: "task \<Rightarrow> string" where
  "import_object_ref t = ''imports/'' @ wID t @ ''/model.tar''"

definition upload_suffix :: string where
  "upload_suffix = ''-upload''"

definition import_upload_secret_name :: "string \<Rightarrow> string" where
  "import_upload_secret_name job_name =
     (let name = job_name @ upload_suffix in
      if length name \<le> 63 then name
      else trim_right_set ''-'' (take (63 - length upload_suffix) name) @ upload_suffix)"

section \<open>The size of the staging volume\<close>

definition giBytes :: int where "giBytes = 2 ^ 30"
definition minImportHeadroomBytes :: int where "minImportHeadroomBytes = 10 * 2 ^ 30"

fun sum_sizes :: "string \<Rightarrow> int \<Rightarrow> import_file list \<Rightarrow> int option" where
  "sum_sizes wanted acc [] = Some acc"
| "sum_sizes wanted acc (f # fs) =
     (if wanted \<noteq> [] \<and> ifPath f \<noteq> wanted then sum_sizes wanted acc fs
      else if ifSize f < 0 \<or> max_int64 - minImportHeadroomBytes < ifSize f then None
      else if max_int64 - ifSize f < acc then None
      else sum_sizes wanted (wrap64 (acc + ifSize f)) fs)"

definition with_headroom :: "int \<Rightarrow> int option" where
  "with_headroom n =
     (if n \<le> 0 then None
      else let headroom = max (n div 5) minImportHeadroomBytes
           in if max_int64 - headroom < n then None else Some (wrap64 (n + headroom)))"

definition estimate_manifest_size :: "manifest_source \<Rightarrow> task \<Rightarrow> int option" where
  "estimate_manifest_size source t =
     (case source (wRepoID t) (wRevision t) of
        Inl _ \<Rightarrow> None
      | Inr [] \<Rightarrow> None
      | Inr fs \<Rightarrow>
          (case sum_sizes (case snd (cut (CHR ''#'') (wRepoID t)) of None \<Rightarrow> []
                           | Some file \<Rightarrow> trim_set ''/'' file) 0 fs of
             None \<Rightarrow> None
           | Some n \<Rightarrow> with_headroom n))"

text \<open>The sum of an \<open>int64\<close> and a constant wraps; the division truncates.\<close>

definition storage_units :: "int \<Rightarrow> int" where
  "storage_units bytes = trunc_div (wrap64 (wrap64 (bytes + giBytes) - 1)) giBytes"

definition storage_quantity :: "int \<Rightarrow> string" where
  "storage_quantity bytes = int_dec (storage_units bytes) @ ''Gi''"

definition storage_size :: "'k executor \<Rightarrow> task \<Rightarrow> gerr + string" where
  "storage_size cf t =
     (case cfProviders cf of
        None \<Rightarrow> Inl (Plain ''provider manifest is required to estimate import storage'')
      | Some registry \<Rightarrow>
          (case registry (wSource t) of
             None \<Rightarrow> Inl (Wrap ''estimate import storage'' ErrUnsupportedSource)
           | Some None \<Rightarrow> Inl (Plain ''provider manifest is required to estimate import storage'')
           | Some (Some source) \<Rightarrow>
               (case estimate_manifest_size source t of
                  None \<Rightarrow> Inl (Plain ''cannot determine model size from provider manifest'')
                | Some n \<Rightarrow> Inr (storage_quantity n))))"

section \<open>The job\<close>

definition import_env :: "task \<Rightarrow> (string \<times> string) list" where
  "import_env t =
     [(''HOME'', ''/staging''), (''ANI_IMPORT_SOURCE'', wSource t), (''ANI_IMPORT_REPO_ID'', wRepoID t),
      (''ANI_IMPORT_REVISION'', wRevision t), (''ANI_IMPORT_TENANT_ID'', wTenantID t),
      (''ANI_IMPORT_TASK_ID'', wID t), (''ANI_IMPORT_OBJECT_KEY'', import_object_ref t),
      (''ANI_IMPORT_STAGING_DIR'', ''/staging/model''),
      (''ANI_IMPORT_UPLOAD_URL_FILE'', ''/var/run/ani-import-upload/ANI_IMPORT_UPLOAD_URL'')]"

definition task_label :: string where "task_label = ''ani.liangzai006.io/task-id''"
definition tenant_label :: string where "tenant_label = ''ani.liangzai006.io/tenant-id''"
definition object_note :: string where "object_note = ''ani.liangzai006.io/import-object''"
definition expires_note :: string where "expires_note = ''ani.liangzai006.io/upload-expires-at''"

definition import_labels :: "task \<Rightarrow> strmap" where
  "import_labels t = [task_label \<mapsto> wID t, tenant_label \<mapsto> wTenantID t]"

definition base_spec :: "'k executor \<Rightarrow> task \<Rightarrow> string \<Rightarrow> import_job_spec" where
  "base_spec cf t name =
     \<lparr>spNamespace = cfNamespace cf, spName = name, spImage = cfImage cf, spCommand = [], spArgs = [],
      spEnv = import_env t, spEnvFrom = [],
      spVolumes = [ClaimVolume ''staging'' (name @ ''-stage''),
                   SecretVolume ''upload-url'' (import_upload_secret_name name)],
      spVolumeMounts =
        [\<lparr>mtName = ''staging'', mtPath = ''/staging'', mtReadOnly = False\<rparr>,
         \<lparr>mtName = ''upload-url'', mtPath = ''/var/run/ani-import-upload'', mtReadOnly = True\<rparr>],
      spServiceAccountName = ''ani-model-service'', spLabels = import_labels t,
      spAnnotations = [object_note \<mapsto> import_object_ref t], spBackoffLimit = Some 0,
      spActiveDeadlineSeconds = Some 604800, spTTLSecondsAfterFinished = None\<rparr>"

text \<open>A certificate authority mounted from a config map, its path announced to the job.\<close>

definition with_ca :: "string \<Rightarrow> string \<Rightarrow> string \<Rightarrow> string \<times> string \<Rightarrow> import_job_spec \<Rightarrow> import_job_spec" where
  "with_ca volume_name config_map path item sp =
     sp\<lparr>spEnv := spEnv sp @ [(''SSL_CERT_FILE'', path @ ''/'' @ snd item)],
        spVolumes := spVolumes sp @ [ConfigMapVolume volume_name config_map [item]],
        spVolumeMounts := spVolumeMounts sp @
          [\<lparr>mtName = volume_name, mtPath = path, mtReadOnly = True\<rparr>]\<rparr>"

definition full_spec :: "'k executor \<Rightarrow> task \<Rightarrow> string \<Rightarrow> import_job_spec" where
  "full_spec cf t name =
     (let sp1 = (if cfCAConfigMapName cf = [] then base_spec cf t name
                 else with_ca ''import-ca'' (cfCAConfigMapName cf) ''/var/run/ani-import-ca''
                   (if cfCAConfigMapKey cf = [] then ''ca-certificates.crt'' else cfCAConfigMapKey cf,
                    ''ca-certificates.crt'') (base_spec cf t name));
          sp2 = (if cfStorageCAConfigMap cf = [] then sp1
                 else with_ca ''model-storage-ca'' (cfStorageCAConfigMap cf)
                   ''/var/run/ani-model-storage-ca'' (''ca.crt'', ''ca.crt'') sp1)
      in if cfProviderSecretName cf = [] then sp2
         else sp2\<lparr>spEnvFrom := spEnvFrom sp2 @ [cfProviderSecretName cf]\<rparr>)"

definition staging_claim :: "'k executor \<Rightarrow> task \<Rightarrow> import_job_spec \<Rightarrow> string \<Rightarrow> pvc" where
  "staging_claim cf t sp quantity =
     \<lparr>pvNamespace = cfNamespace cf, pvName = spName sp @ ''-stage'', pvLabels = spLabels sp,
      pvAnnotations = [''ani.liangzai006.io/import-task'' \<mapsto> wID t],
      pvStorageClass = (if trim_space (cfStorageClass cf) = [] then None else Some (cfStorageClass cf)),
      pvSize = quantity\<rparr>"

definition job_spec :: "ext \<Rightarrow> 'k executor \<Rightarrow> task \<Rightarrow> gerr + import_job_spec \<times> pvc" where
  "job_spec E cf t =
     (if trim_space (wTenantID t) = [] \<or> wID t = [] \<or> wSource t = [] \<or> wRepoID t = []
      then Inl (Plain ''import task identity and source are required'')
      else if cfNamespace cf = [] \<or> cfImage cf = []
      then Inl (Plain ''import Job namespace and image are required'')
      else (case validate_task_inputs E t of
              Some e \<Rightarrow> Inl e
            | None \<Rightarrow>
                (case storage_size cf t of
                   Inl e \<Rightarrow> Inl e
                 | Inr size_text \<Rightarrow>
                     (case cfQuantity cf size_text of
                        Inl e \<Rightarrow> Inl (Wrap ''import storage size'' e)
                      | Inr quantity \<Rightarrow>
                          let sp = full_spec cf t (import_job_name (wID t) (wAttemptCount t))
                          in Inr (sp, staging_claim cf t sp quantity)))))"

section \<open>The objects of the attempt\<close>

definition call_kube :: "unit dbop \<Rightarrow> ('k, gerr, 'a) oper \<Rightarrow> ('k, 'a) sop" where
  "call_kube renew m = via renew (at_kube m)"

definition ensure_pvc :: "'k kube option \<Rightarrow> unit dbop \<Rightarrow> pvc \<Rightarrow> ('k, pvc) sop" where
  "ensure_pvc c renew p =
     inspect (call_kube renew (pvc_get c (pvNamespace p) (pvName p))) (\<lambda>got.
       case got of
         Inr _ \<Rightarrow> ret p
       | Inl e \<Rightarrow>
           if \<not> kube_reason_is KubeNotFound e then throw e
           else inspect (call_kube renew (pvc_create c p)) (\<lambda>made.
             case made of
               Inr q \<Rightarrow> ret q
             | Inl e2 \<Rightarrow>
                 if kube_reason_is KubeAlreadyExists e2
                 then call_kube renew (pvc_get c (pvNamespace p) (pvName p))
                 else throw e2))"

text \<open>The result of a clean-up is dropped by every caller.\<close>

definition clean :: "unit dbop \<Rightarrow> ('k, gerr, unit) oper \<Rightarrow> ('k, unit) sop" where
  "clean renew m = inspect (call_kube renew m) (\<lambda>_. ret ())"

definition clean_pvc :: "'k kube option \<Rightarrow> unit dbop \<Rightarrow> pvc \<Rightarrow> ('k, unit) sop" where
  "clean_pvc c renew p = clean renew (pvc_delete c (pvNamespace p) (pvName p))"

definition fail_after :: "('k, unit) sop \<Rightarrow> gerr \<Rightarrow> ('k, 'a) sop" where
  "fail_after m e = andThen m (\<lambda>_. throw e)"

definition upload_secret :: "'k executor \<Rightarrow> task \<Rightarrow> import_job_spec \<Rightarrow> signed_url \<Rightarrow> secret" where
  "upload_secret cf t sp u =
     \<lparr>seNamespace = spNamespace sp, seName = import_upload_secret_name (spName sp),
      seLabels = spLabels sp,
      seAnnotations = [object_note \<mapsto> import_object_ref t, expires_note \<mapsto> cfFormatTime cf (nExpiresAt u)],
      seData = [''ANI_IMPORT_UPLOAD_URL'' \<mapsto> nURL u]\<rparr>"

definition signed_upload ::
    "'k executor \<Rightarrow> ('k \<Rightarrow> storage_port) \<Rightarrow> unit dbop \<Rightarrow> task \<Rightarrow> int \<Rightarrow> ('k, signed_url) sop" where
  "signed_upload cf st renew t ttl =
     andThen (call_kube renew (\<lambda>k. (st_create_upload_url (st k)
         \<lparr>lTenantID = wTenantID t, lObjectRef = import_object_ref t,
          lContentType = ''application/x-tar'', lSizeBytes = 0, lChecksumSHA256 = [], lTTL = ttl\<rparr>, k))) (\<lambda>u.
     andThen site_now (\<lambda>now.
       case validate_signed_url u now of Some e \<Rightarrow> throw e | None \<Rightarrow> ret u))"

definition secret_exists_text :: "import_job_spec \<Rightarrow> string \<Rightarrow> gerr" where
  "secret_exists_text sp refusal =
     Plain (''import upload secret '' @ spNamespace sp @ ''/'' @ import_upload_secret_name (spName sp)
       @ '' already exists; '' @ refusal)"

text \<open>The branch of \<open>Execute\<close> for a job that does not exist yet.\<close>

definition start_job ::
    "'k executor \<Rightarrow> 'k kube option \<Rightarrow> ('k \<Rightarrow> storage_port) \<Rightarrow> unit dbop \<Rightarrow> task \<Rightarrow>
     import_job_spec \<Rightarrow> pvc \<Rightarrow> ('k, unit) sop" where
  "start_job cf c st renew t sp p =
     (let drop_pvc = clean_pvc c renew p;
          name = import_upload_secret_name (spName sp);
          drop_secret = clean renew (secret_delete c (spNamespace sp) name)
      in
      inspect (call_kube renew (secret_get c (spNamespace sp) name)) (\<lambda>found.
      case found of
        Inr _ \<Rightarrow> fail_after drop_pvc (secret_exists_text sp ''refusing to reuse without Job'')
      | Inl e \<Rightarrow>
          if \<not> kube_reason_is KubeNotFound e then fail_after drop_pvc e
          else inspect (signed_upload cf st renew t (cfUploadTTL cf)) (\<lambda>up.
          case up of
            Inl e2 \<Rightarrow> fail_after drop_pvc e2
          | Inr u \<Rightarrow>
              inspect (call_kube renew (secret_create c (upload_secret cf t sp u))) (\<lambda>made.
              case made of
                Inl e3 \<Rightarrow> fail_after drop_pvc
                  (if kube_reason_is KubeAlreadyExists e3
                   then secret_exists_text sp ''refusing to overwrite'' else e3)
              | Inr _ \<Rightarrow>
                  inspect (call_kube renew (job_create c sp)) (\<lambda>created.
                  case created of
                    Inr _ \<Rightarrow> ret ()
                  | Inl e4 \<Rightarrow>
                      if \<not> kube_reason_is KubeAlreadyExists e4
                      then fail_after (andThen drop_secret (\<lambda>_. drop_pvc)) e4
                      else inspect (call_kube renew (job_get c (spNamespace sp) (spName sp))) (\<lambda>again.
                        case again of
                          Inr _ \<Rightarrow> ret ()
                        | Inl e5 \<Rightarrow> fail_after (andThen drop_secret (\<lambda>_. drop_pvc)) e5))))))"

text \<open>\<open>refreshUploadSecret\<close>: a URL that expires within ten minutes is signed anew.\<close>

definition refresh_upload_secret ::
    "'k executor \<Rightarrow> 'k kube option \<Rightarrow> ('k \<Rightarrow> storage_port) \<Rightarrow> unit dbop \<Rightarrow> task \<Rightarrow>
     import_job_spec \<Rightarrow> ('k, unit) sop" where
  "refresh_upload_secret cf c st renew t sp =
     andThen (call_kube renew (secret_get c (spNamespace sp) (import_upload_secret_name (spName sp)))) (\<lambda>x.
     case seAnnotations x expires_note of
       None \<Rightarrow> ret ()
     | Some expires_text \<Rightarrow>
         if expires_text = [] then ret ()
         else if (case seLabels x task_label of None \<Rightarrow> [] | Some v \<Rightarrow> v) \<noteq> wID t
            \<or> (case seLabels x tenant_label of None \<Rightarrow> [] | Some v \<Rightarrow> v) \<noteq> wTenantID t
            \<or> (case seAnnotations x object_note of None \<Rightarrow> [] | Some v \<Rightarrow> v) \<noteq> import_object_ref t
         then throw (Plain ''import upload secret identity mismatch'')
         else (case cfParseTime cf expires_text of
             None \<Rightarrow> throw (Plain ''invalid import upload expiration'')
           | Some expires \<Rightarrow>
               andThen site_now (\<lambda>now.
                 if 600000000000 < expires - now then ret ()
                 else andThen (signed_upload cf st renew t 0) (\<lambda>u.
                      andThen (call_kube renew (secret_update c
                        (x\<lparr>seData := (seData x)(''ANI_IMPORT_UPLOAD_URL'' \<mapsto> nURL u),
                           seAnnotations := (seAnnotations x)(expires_note \<mapsto> cfFormatTime cf (nExpiresAt u))\<rparr>)))
                        (\<lambda>_. ret ())))))"

section \<open>The result\<close>

definition result_prefix :: string where
  "result_prefix = ''ANI_IMPORT_RESULT ''"

fun last_result :: "(string \<Rightarrow> gerr + import_result) \<Rightarrow> string list \<Rightarrow> gerr + import_result" where
  "last_result decode [] = Inl ErrImportJobResultMissing"
| "last_result decode (l # ls) =
     (let line = trim_space l in
      if \<not> has_prefix line result_prefix then last_result decode ls
      else (case decode (drop (length result_prefix) line) of
              Inl e \<Rightarrow> Inl (Wrap ''decode import job result'' e)
            | Inr r \<Rightarrow>
                if irObjectRef r = [] \<or> length (irChecksumSHA256 r) \<noteq> 64 \<or> irSizeBytes r < 0
                then Inl ErrImportJobResultMissing else Inr r))"

definition parse_import_result :: "(string \<Rightarrow> gerr + import_result) \<Rightarrow> string \<Rightarrow> gerr + import_result" where
  "parse_import_result decode logs = last_result decode (rev (split_on (CHR 0x0A) logs))"

text \<open>\<open>persistArtifact\<close>: an artifact recorded by an earlier attempt must agree.\<close>

definition wanted_artifact :: "task \<Rightarrow> import_result \<Rightarrow> artifact" where
  "wanted_artifact t r =
     \<lparr>aTenantID = wTenantID t, aID = wID t, aModelVersionID = wVersionID t, aProvider = wSource t,
      aReference = irObjectRef r, aFormat = (if irFormat r = [] then ''pytorch'' else irFormat r),
      aSHA256 = irChecksumSHA256 r, aSizeBytes = irSizeBytes r, aIsEncrypted = False,
      aEncryptAlgo = []\<rparr>"

definition same_content :: "artifact \<Rightarrow> artifact \<Rightarrow> bool" where
  "same_content a b \<longleftrightarrow> aReference a = aReference b \<and> aSHA256 a = aSHA256 b
     \<and> aFormat a = aFormat b \<and> aSizeBytes a = aSizeBytes b"

definition persist_artifact :: "ext \<Rightarrow> bool \<Rightarrow> unit dbop \<Rightarrow> task \<Rightarrow> import_result \<Rightarrow> ('k, unit) sop" where
  "persist_artifact E store renew t r =
     (if wVersionID t = [] then ret ()
      else if \<not> store then throw ErrArtifactStoreUnavailable
      else
        let want = wanted_artifact t r in
        inspect (via renew (at_db (create_artifact E want))) (\<lambda>made.
        case made of
          Inr _ \<Rightarrow> ret ()
        | Inl e \<Rightarrow>
            if as_pg e \<noteq> Some ''23505'' then throw e
            else inspect (via renew (at_db (get_artifact E (wTenantID t) (wVersionID t)))) (\<lambda>got.
              case got of
                Inl _ \<Rightarrow> throw e
              | Inr existing \<Rightarrow>
                  if same_content existing want then ret () else throw ErrChecksumMismatch)))"

definition verify_result ::
    "('k \<Rightarrow> storage_port) \<Rightarrow> unit dbop \<Rightarrow> task \<Rightarrow> import_result \<Rightarrow> ('k, unit) sop" where
  "verify_result st renew t r =
     andThen (call_kube renew (\<lambda>k. (st_object_exists (st k) (wTenantID t) (irObjectRef r), k))) (\<lambda>there.
       if \<not> there then throw ErrObjectMissing
       else call_kube renew (\<lambda>k.
         (case st_verify_checksum (st k) (wTenantID t) (irObjectRef r) (irChecksumSHA256 r) of
            None \<Rightarrow> Inr () | Some e \<Rightarrow> Inl e, k)))"

definition finalize_job ::
    "ext \<Rightarrow> 'k executor \<Rightarrow> 'k kube option \<Rightarrow> ('k \<Rightarrow> storage_port) \<Rightarrow> unit dbop \<Rightarrow> task \<Rightarrow>
     string \<Rightarrow> string \<Rightarrow> ('k, unit) sop" where
  "finalize_job E cf c st renew t ns name =
     andThen (call_kube renew (job_logs c ns name)) (\<lambda>logs.
     andThen (lift (parse_import_result (cfDecode cf) logs)) (\<lambda>r.
     andThen (verify_result st renew t r) (\<lambda>_.
     andThen (persist_artifact E (cfArtifacts cf) renew t r) (\<lambda>_.
       if cfChecksums cf
       then via renew (at_db (set_checksum E (wTenantID t) (wVersionID t) (irChecksumSHA256 r) (irSizeBytes r)))
       else ret ()))))"

section \<open>Watching the job\<close>

definition drop_attempt ::
    "'k kube option \<Rightarrow> unit dbop \<Rightarrow> import_job_spec \<Rightarrow> pvc \<Rightarrow> ('k, unit) sop" where
  "drop_attempt c renew sp p =
     andThen (clean renew (job_delete c (spNamespace sp) (spName sp))) (\<lambda>_.
     andThen (clean_pvc c renew p) (\<lambda>_.
       clean renew (secret_delete c (spNamespace sp) (import_upload_secret_name (spName sp)))))"

text \<open>
  One round of the loop: \<open>None\<close> when the execution ended well, else the time before which
  the upload URL is not looked at again.
\<close>

definition poll_round ::
    "ext \<Rightarrow> 'k executor \<Rightarrow> 'k kube option \<Rightarrow> ('k \<Rightarrow> storage_port) \<Rightarrow> unit dbop \<Rightarrow> task \<Rightarrow>
     import_job_spec \<Rightarrow> pvc \<Rightarrow> int \<Rightarrow> ('k, int option) sop" where
  "poll_round E cf c st renew t sp p next_check =
     andThen (call_kube renew (job_read_status c (spNamespace sp) (spName sp))) (\<lambda>js.
       case isPhase js of
         JobSucceeded \<Rightarrow>
           inspect (finalize_job E cf c st renew t (spNamespace sp) (spName sp)) (\<lambda>r.
           andThen (drop_attempt c renew sp p) (\<lambda>_. andThen (lift r) (\<lambda>_. ret None)))
       | JobFailed \<Rightarrow> fail_after (drop_attempt c renew sp p)
           (Plain (''import job failed: '' @ isReason js @ '': '' @ isMessage js))
       | _ \<Rightarrow>
           andThen site_now (\<lambda>now.
           andThen (if now < next_check then ret next_check
                    else andThen (refresh_upload_secret cf c st renew t sp) (\<lambda>_.
                         andThen site_now (\<lambda>later. ret (later + 30000000000)))) (\<lambda>n.
           andThen (pause renew) (\<lambda>_. ret (Some n)))))"

section \<open>Relations between sites\<close>

text \<open>
  A preorder on sites that the cluster's own changes and the passing of a moment keep is
  kept by every part of an execution whose database calls keep it.
\<close>

locale site_relation = state_preorder R for R :: "'k site \<Rightarrow> 'k site \<Rightarrow> bool" +
  fixes renew :: "unit dbop"
  assumes R_kube: "R s (s\<lparr>g_kube := k\<rparr>)"
    and R_pass: "g_moments s = m # ms \<Longrightarrow> R s (pass renew m (s\<lparr>g_moments := ms\<rparr>))"
begin

lemma steps_at_kube: "steps_in R (at_kube m)"
  by (rule steps_inI) (simp add: at_kube_def R_kube split: prod.split)

lemma steps_site_now: "steps_in R site_now"
  by (simp add: steps_in_def site_now_def R_refl)

lemma steps_meanwhile: "steps_in R (meanwhile renew)"
  by (rule steps_inI) (simp add: meanwhile_def R_refl R_pass split: list.split)

lemma steps_pause: "steps_in R (pause renew)"
  by (rule steps_inI) (simp add: pause_def R_refl R_pass split: list.split)

lemma steps_via: "steps_in R m \<Longrightarrow> steps_in R (via renew m)"
  unfolding via_def by (intro steps_andThen steps_meanwhile)

lemmas steps_call = steps_via [OF steps_at_kube, folded call_kube_def]

lemmas steps_site = steps_basic steps_site_now steps_pause steps_call

lemma steps_clean: "steps_in R (clean renew m)"
  unfolding clean_def by (intro steps_site)

lemma steps_fail_after: "steps_in R m \<Longrightarrow> steps_in R (fail_after m e)"
  unfolding fail_after_def by (intro steps_site)

lemma steps_attempt:
  "steps_in R (ensure_pvc c renew p)"
  "steps_in R (clean_pvc c renew p)"
  "steps_in R (signed_upload cf st renew t ttl)"
  "steps_in R (drop_attempt c renew sp p)"
  "steps_in R (verify_result st renew t r)"
  unfolding ensure_pvc_def clean_pvc_def signed_upload_def drop_attempt_def verify_result_def
  by (intro steps_site steps_intros steps_clean)+

lemma steps_start:
  "steps_in R (start_job cf c st renew t sp p)"
  "steps_in R (refresh_upload_secret cf c st renew t sp)"
  unfolding start_job_def refresh_upload_secret_def Let_def
  by (intro steps_site steps_intros steps_clean steps_fail_after steps_attempt)+

lemma steps_persist:
  assumes "steps_in R (at_db (create_artifact E (wanted_artifact t r)))"
    and "steps_in R (at_db (get_artifact E (wTenantID t) (wVersionID t)))"
  shows "steps_in R (persist_artifact E b renew t r)"
  unfolding persist_artifact_def Let_def
  by (intro steps_site steps_intros steps_via assms)

lemma steps_finalize:
  assumes "\<And>r. steps_in R (at_db (create_artifact E (wanted_artifact t r)))"
    and "steps_in R (at_db (get_artifact E (wTenantID t) (wVersionID t)))"
    and "\<And>chk sz. steps_in R (at_db (set_checksum E (wTenantID t) (wVersionID t) chk sz))"
  shows "steps_in R (finalize_job E cf c st renew t ns name)"
  unfolding finalize_job_def
  by (intro steps_site steps_intros steps_via steps_attempt steps_persist assms)

lemma steps_poll_round:
  assumes "\<And>ns name. steps_in R (finalize_job E cf c st renew t ns name)"
  shows "steps_in R (poll_round E cf c st renew t sp p n)"
proof -
  have arm: "steps_in R (case x of JobSucceeded \<Rightarrow> a | JobFailed \<Rightarrow> b | _ \<Rightarrow> d)"
    if "steps_in R a" "steps_in R b" "steps_in R d" for x and a b d :: "('k, int option) sop"
    using that by (cases x) simp_all
  show ?thesis
    unfolding poll_round_def
    by (intro steps_site steps_intros arm steps_fail_after steps_attempt steps_start assms)
qed

end

text \<open>Moments are only used up.\<close>

definition later :: "'k site \<Rightarrow> 'k site \<Rightarrow> bool" where
  "later s t \<longleftrightarrow> (\<exists>n. g_moments t = drop n (g_moments s))"

lemma later_length: "later s t \<Longrightarrow> length (g_moments t) \<le> length (g_moments s)"
  by (auto simp: later_def)

lemma moments_at_db [simp]: "g_moments (snd (at_db m s)) = g_moments s"
  by (simp add: at_db_def split: prod.split)

lemma moments_pass [simp]: "g_moments (pass renew m s) = g_moments s"
  by (simp add: pass_def renew_tick_def Let_def split: sum.split prod.split)

interpretation lt: site_relation later renew
proof unfold_locales
  show "later s s" for s :: "'k site" by (auto simp: later_def intro: exI [of _ 0])
  show "later s u" if "later s t" "later t u" for s t u :: "'k site"
    using that by (auto simp: later_def)
  show "later s (s\<lparr>g_kube := k\<rparr>)" for s :: "'k site" and k
    by (auto simp: later_def intro: exI [of _ 0])
  show "later s (pass renew m (s\<lparr>g_moments := ms\<rparr>))" if "g_moments s = m # ms" for s :: "'k site" and m ms
    using that by (auto simp: later_def intro: exI [of _ 1])
qed

lemma later_at_db: "steps_in later (at_db m)"
  by (rule steps_inI) (auto simp: later_def intro: exI [of _ 0])

lemma later_poll_round: "steps_in later (poll_round E cf c st renew t sp p n)"
  by (intro lt.steps_poll_round lt.steps_finalize later_at_db)

lemma pause_uses: "pause renew s = (Inr x, t) \<Longrightarrow> length (g_moments t) < length (g_moments s)"
  by (auto simp: pause_def split: list.splits if_splits)

lemma poll_round_uses:
  assumes "poll_round E cf c st renew t sp p n s = (Inr (Some n2), u)"
  shows "length (g_moments u) < length (g_moments s)"
proof -
  have call: "later v w" if "call_kube renew m v = (r, w)" for m :: "('k, gerr, 'b) oper" and r v w
    using steps_inD [OF lt.steps_call that] .
  have paused: "length (g_moments u) < length (g_moments v)"
    if "andThen (pause renew) (\<lambda>_. ret (Some k)) v = (Inr (Some n2), u)" for k v
    using that by (auto simp: andThen_Inr_iff dest: pause_uses)
  have waits: "length (g_moments u) < length (g_moments v)"
    if "(andThen site_now (\<lambda>now.
           andThen (if now < n then ret n
                    else andThen (refresh_upload_secret cf c st renew t sp) (\<lambda>_.
                         andThen site_now (\<lambda>later. ret (later + 30000000000)))) (\<lambda>n.
           andThen (pause renew) (\<lambda>_. ret (Some n))))) v = (Inr (Some n2), u)" for v
  proof -
    from that obtain k x where k: "(if clock (g_db v) * 1000 < n then ret n
                    else andThen (refresh_upload_secret cf c st renew t sp) (\<lambda>_.
                         andThen site_now (\<lambda>later. ret (later + 30000000000)))) v = (Inr k, x)"
      and rest: "andThen (pause renew) (\<lambda>_. ret (Some k)) x = (Inr (Some n2), u)"
      by (auto simp: andThen_Inr_iff [of site_now] andThen_Inr_iff [of "if _ then _ else _"] site_now_def)
    have "steps_in later (if clock (g_db v) * 1000 < n then ret n
                    else andThen (refresh_upload_secret cf c st renew t sp) (\<lambda>_.
                         andThen site_now (\<lambda>later. ret (later + 30000000000))))"
      by (intro steps_intros lt.steps_site lt.steps_start)
    from steps_inD [OF this k] have "later v x" .
    with paused [OF rest] show ?thesis using later_length by fastforce
  qed
  from assms obtain js v where js: "call_kube renew (job_read_status c (spNamespace sp) (spName sp)) s = (Inr js, v)"
    and rest: "(case isPhase js of
         JobSucceeded \<Rightarrow>
           inspect (finalize_job E cf c st renew t (spNamespace sp) (spName sp)) (\<lambda>r.
           andThen (drop_attempt c renew sp p) (\<lambda>_. andThen (lift r) (\<lambda>_. ret None)))
       | JobFailed \<Rightarrow> fail_after (drop_attempt c renew sp p)
           (Plain (''import job failed: '' @ isReason js @ '': '' @ isMessage js))
       | _ \<Rightarrow>
           andThen site_now (\<lambda>now.
           andThen (if now < n then ret n
                    else andThen (refresh_upload_secret cf c st renew t sp) (\<lambda>_.
                         andThen site_now (\<lambda>later. ret (later + 30000000000)))) (\<lambda>n.
           andThen (pause renew) (\<lambda>_. ret (Some n))))) v = (Inr (Some n2), u)"
    unfolding poll_round_def andThen_Inr_iff [of "call_kube renew (job_read_status c (spNamespace sp) (spName sp))"]
    by blast
  have "length (g_moments u) < length (g_moments v)"
    using rest by (cases "isPhase js")
      (auto simp: inspect_iff andThen_Inr_iff [of "drop_attempt c renew sp p"] andThen_Inr_iff [of "lift _"]
        fail_after_def dest: waits)
  with call [OF js] show ?thesis using later_length by fastforce
qed

function poll ::
    "ext \<Rightarrow> 'k executor \<Rightarrow> 'k kube option \<Rightarrow> ('k \<Rightarrow> storage_port) \<Rightarrow> unit dbop \<Rightarrow> task \<Rightarrow>
     import_job_spec \<Rightarrow> pvc \<Rightarrow> int \<Rightarrow> ('k, unit) sop" where
  "poll E cf c st renew t sp p n s =
     (case poll_round E cf c st renew t sp p n s of
        (Inl e, u) \<Rightarrow> (Inl e, u)
      | (Inr None, u) \<Rightarrow> (Inr (), u)
      | (Inr (Some n2), u) \<Rightarrow> poll E cf c st renew t sp p n2 u)"
  by pat_completeness auto
termination
  by (relation "measure (\<lambda>(E, cf, c, st, renew, t, sp, p, n, s). length (g_moments s))")
     (auto dest: poll_round_uses [OF sym])

declare poll.simps [simp del]

text \<open>\<open>Execute\<close>.\<close>

definition run_attempt ::
    "ext \<Rightarrow> 'k executor \<Rightarrow> 'k kube option \<Rightarrow> ('k \<Rightarrow> storage_port) \<Rightarrow> unit dbop \<Rightarrow> task \<Rightarrow>
     import_job_spec \<Rightarrow> pvc \<Rightarrow> ('k, unit) sop" where
  "run_attempt E cf c st renew t sp p =
     andThen (ensure_pvc c renew p) (\<lambda>_.
     andThen (inspect (call_kube renew (job_get c (spNamespace sp) (spName sp))) (\<lambda>got.
        case got of
          Inr _ \<Rightarrow> ret ()
        | Inl e \<Rightarrow> if kube_reason_is KubeNotFound e then start_job cf c st renew t sp p else throw e)) (\<lambda>_.
     andThen site_now (\<lambda>now. poll E cf c st renew t sp p now)))"

definition execute :: "ext \<Rightarrow> 'k executor \<Rightarrow> unit dbop \<Rightarrow> task \<Rightarrow> ('k, unit) sop" where
  "execute E cf renew t =
     (case (cfJobs cf, cfStorage cf) of
        (Some c, Some st) \<Rightarrow>
          andThen (case cfBuckets cf of None \<Rightarrow> ret () | Some ensure \<Rightarrow> call_kube renew (ensure (wTenantID t))) (\<lambda>_.
          andThen (lift (job_spec E cf t)) (\<lambda>(sp, p). run_attempt E cf c st renew t sp p))
      | _ \<Rightarrow> throw (Plain ''kubernetes import executor dependencies are not configured''))"

context site_relation
begin

lemma poll_keeps:
  assumes "\<And>n. steps_in R (poll_round E cf c st renew t sp p n)"
  shows "R s (snd (poll E cf c st renew t sp p n s))"
proof (induction "length (g_moments s)" arbitrary: n s rule: less_induct)
  case less
  obtain r u where round: "poll_round E cf c st renew t sp p n s = (r, u)" by fastforce
  from steps_inD [OF assms round] have su: "R s u" .
  show ?case
  proof (cases r)
    case (Inr k)
    show ?thesis
    proof (cases k)
      case (Some n2)
      with round Inr have "length (g_moments u) < length (g_moments s)" by (auto dest: poll_round_uses)
      from R_trans [OF su less [OF this]] show ?thesis
        by (subst poll.simps) (simp add: round Inr Some)
    qed (simp add: poll.simps [of _ _ _ _ _ _ _ _ _ s] round Inr su)
  qed (simp add: poll.simps [of _ _ _ _ _ _ _ _ _ s] round su)
qed

lemma steps_poll:
  "(\<And>n. steps_in R (poll_round E cf c st renew t sp p n)) \<Longrightarrow> steps_in R (poll E cf c st renew t sp p n)"
  by (rule steps_inI) (rule poll_keeps)

lemma steps_execute:
  assumes "\<And>c st ns name. steps_in R (finalize_job E cf c st renew t ns name)"
  shows "steps_in R (execute E cf renew t)"
  unfolding execute_def run_attempt_def
  by (intro steps_site steps_intros steps_attempt steps_start steps_poll steps_poll_round assms)

end

end
