(* ===== verification/Worker.thy ===== *)
theory Worker
  imports ImportExecutor
begin

text \<open>
  The import worker (\<open>internal/worker/import_worker.go\<close>): one scan of the due tasks, each
  claimed, bound to a version, executed, and completed, deferred or failed, and the loop
  around the scans. The stores are the PostgreSQL ones the composition root installs; the
  executor is an argument, \<^const>\<open>execute\<close> of the import jobs in the service.
\<close>

record worker =
  kTenantID :: string
  kOwner :: string
  kLease :: int
  kBatch :: int
  kMaxAttempts :: int
  kBinder :: "(task \<Rightarrow> gerr + metadata) option"
  kFinalizer :: bool
  kAllTenants :: bool

text \<open>The defaults \<open>Run\<close> fills in.\<close>

definition with_defaults :: "worker \<Rightarrow> worker" where
  "with_defaults w =
     w\<lparr>kLease := (if kLease w \<le> 0 then 60000000000 else kLease w),
       kBatch := (if kBatch w \<le> 0 then 10 else kBatch w),
       kMaxAttempts := (if kMaxAttempts w \<le> 0 then 5 else kMaxAttempts w)\<rparr>"

definition list_due :: "ext \<Rightarrow> worker \<Rightarrow> task list dbop" where
  "list_due E w =
     (if trim_space (kTenantID w) \<noteq> [] then work_list_due E (kTenantID w) (kBatch w)
      else if \<not> kAllTenants w then throw ErrMultiTenantStoreUnavailable
      else work_list_due_all E (kBatch w))"

text \<open>\<open>retryOrFail\<close>; its callers drop its error.\<close>

definition retry_or_fail :: "ext \<Rightarrow> worker \<Rightarrow> task \<Rightarrow> gerr \<Rightarrow> int \<Rightarrow> unit dbop" where
  "retry_or_fail E w t e after =
     (if 0 < kMaxAttempts w \<and> kMaxAttempts w \<le> wAttemptCount t
      then andThen
        (if wVersionID t \<noteq> [] \<and> kFinalizer w
         then inspect (mark_error_and_maybe_model E (wTenantID t) (wID t) (wVersionID t) (kOwner w)
                (wLeaseEpoch t) (error_text E e)) (\<lambda>_. ret ())
         else ret ())
        (\<lambda>_. work_fail E (wTenantID t) (wID t) (kOwner w) (wLeaseEpoch t) (error_text E e))
      else work_retry E (wTenantID t) (wID t) (kOwner w) (wLeaseEpoch t) after (error_text E e))"

definition give_up :: "ext \<Rightarrow> worker \<Rightarrow> task \<Rightarrow> gerr \<Rightarrow> int \<Rightarrow> ('k, unit) sop" where
  "give_up E w t e after = inspect (at_db (retry_or_fail E w t e after)) (\<lambda>_. ret ())"

text \<open>The binding of a claimed task without a version: \<open>None\<close> when the task was given up.\<close>

definition bind_task :: "ext \<Rightarrow> worker \<Rightarrow> task \<Rightarrow> ('k, task option) sop" where
  "bind_task E w t =
     (if wVersionID t \<noteq> [] then ret (Some t)
      else (case kBinder w of
        None \<Rightarrow> andThen (give_up E w t ErrVersionBindingRequired 300000000000) (\<lambda>_. ret None)
      | Some resolve \<Rightarrow>
          inspect (at_db (resolve_binding E resolve t)) (\<lambda>found.
          case found of
            Inl e \<Rightarrow> andThen (give_up E w t e 1000000000) (\<lambda>_. ret None)
          | Inr (mid, vid) \<Rightarrow>
              if mid = [] \<or> vid = []
              then andThen (give_up E w t ErrVersionBindingRequired 1000000000) (\<lambda>_. ret None)
              else inspect (at_db (work_bind E (wTenantID t) (wID t) (kOwner w) (wLeaseEpoch t) mid vid)) (\<lambda>bound.
                case bound of
                  Inl e \<Rightarrow> andThen (give_up E w t e 1000000000) (\<lambda>_. ret None)
                | Inr _ \<Rightarrow> ret (Some (t\<lparr>wModelID := mid, wVersionID := vid\<rparr>))))))"

text \<open>
  An execution with the renewal goroutine beside it: no renewal failed before it, and its
  success counts only if none failed during it.
\<close>

definition fresh_renewal :: "('k, unit) sop" where
  "fresh_renewal s = (Inr (), s\<lparr>g_renewal := None\<rparr>)"

definition lost_lease :: "('k, unit) sop" where
  "lost_lease s = (case g_renewal s of None \<Rightarrow> (Inr (), s) | Some e \<Rightarrow> (Inl e, s))"

type_synonym 'k execution = "unit dbop \<Rightarrow> task \<Rightarrow> ('k, unit) sop"

definition renewal :: "ext \<Rightarrow> worker \<Rightarrow> task \<Rightarrow> unit dbop" where
  "renewal E w t = work_renew E (wTenantID t) (wID t) (kOwner w) (wLeaseEpoch t) (kLease w)"

definition supervised :: "ext \<Rightarrow> worker \<Rightarrow> 'k execution \<Rightarrow> task \<Rightarrow> ('k, unit) sop" where
  "supervised E w ex t =
     andThen fresh_renewal (\<lambda>_. andThen (ex (renewal E w t) t) (\<lambda>_. lost_lease))"

text \<open>What follows a successful execution.\<close>

definition finish_task :: "ext \<Rightarrow> worker \<Rightarrow> task \<Rightarrow> ('k, unit) sop" where
  "finish_task E w t =
     inspect (if kFinalizer w \<and> wVersionID t \<noteq> [] then at_db (mark_ready E (wTenantID t) (wVersionID t))
              else ret ()) (\<lambda>marked.
     case marked of
       Inl e \<Rightarrow> give_up E w t e 1000000000
     | Inr _ \<Rightarrow> inspect (at_db (work_complete E (wTenantID t) (wID t) (kOwner w) (wLeaseEpoch t))) (\<lambda>_. ret ()))"

definition process_claimed :: "ext \<Rightarrow> worker \<Rightarrow> 'k execution \<Rightarrow> task \<Rightarrow> ('k, unit) sop" where
  "process_claimed E w ex t =
     inspect (supervised E w ex t) (\<lambda>r.
     case r of Inl e \<Rightarrow> give_up E w t e 1000000000 | Inr _ \<Rightarrow> finish_task E w t)"

definition process_task :: "ext \<Rightarrow> worker \<Rightarrow> 'k execution \<Rightarrow> task \<Rightarrow> ('k, unit) sop" where
  "process_task E w ex t =
     inspect (at_db (work_claim E (if wTenantID t = [] then kTenantID w else wTenantID t) (wID t)
         (kOwner w) (kLease w))) (\<lambda>c.
     case c of
       Inl _ \<Rightarrow> ret ()
     | Inr t1 \<Rightarrow>
         andThen (bind_task E w t1) (\<lambda>b.
           case b of None \<Rightarrow> ret () | Some t2 \<Rightarrow> process_claimed E w ex t2))"

fun process_tasks :: "ext \<Rightarrow> worker \<Rightarrow> 'k execution \<Rightarrow> task list \<Rightarrow> ('k, unit) sop" where
  "process_tasks E w ex [] = ret ()"
| "process_tasks E w ex (t # ts) = andThen (process_task E w ex t) (\<lambda>_. process_tasks E w ex ts)"

definition run_once :: "ext \<Rightarrow> worker \<Rightarrow> 'k execution \<Rightarrow> ('k, unit) sop" where
  "run_once E w ex = andThen (at_db (list_due E w)) (\<lambda>ts. process_tasks E w ex ts)"

section \<open>The loop\<close>

text \<open>
  After each scan the worker waits for its ticker, a notification or the end of its context.
  \<open>Notify\<close> leaves at most one wake-up; a wait that finds one may take it.
\<close>

datatype wakeup = TickerFired | Notified | ContextDone

definition worker_notify :: "('k, unit) sop" where
  "worker_notify s = (Inr (), s\<lparr>g_wake := True\<rparr>)"

definition report_health :: "bool \<Rightarrow> ('k, unit) sop" where
  "report_health b s = (Inr (), s\<lparr>g_ready := b\<rparr>)"

definition take_wake :: "wakeup \<Rightarrow> ('k, unit) sop" where
  "take_wake a s = (Inr (), case a of Notified \<Rightarrow> s\<lparr>g_wake := False\<rparr> | _ \<Rightarrow> s)"

text \<open>The run is over when the wait finds the context done, or the process is killed.\<close>

fun run_loop :: "ext \<Rightarrow> worker \<Rightarrow> 'k execution \<Rightarrow> wakeup list \<Rightarrow> ('k, unit) sop" where
  "run_loop E w ex [] = throw Canceled"
| "run_loop E w ex (a # as) =
     inspect (run_once E w ex) (\<lambda>r.
     andThen (report_health (\<not> isl r)) (\<lambda>_.
       if a = ContextDone then throw Canceled
       else andThen (take_wake a) (\<lambda>_. run_loop E w ex as)))"

definition worker_run :: "ext \<Rightarrow> worker \<Rightarrow> 'k execution \<Rightarrow> wakeup list \<Rightarrow> ('k, unit) sop" where
  "worker_run E w ex arms =
     inspect (run_loop E (with_defaults w) ex arms) (\<lambda>r.
       andThen (report_health False) (\<lambda>_. lift r))"

end
