(* ===== verification/VersionService.thy ===== *)
theory VersionService
  imports Service
begin

text \<open>
  The version and import handlers of \<open>internal/service/model.go\<close>.
\<close>

section \<open>Versions\<close>

definition blank_model_msg :: model_msg where
  "blank_model_msg = \<lparr>mmTenantId = [], mmId = [], mmModelId = [], mmName = [], mmDisplayName = [],
     mmDescription = [], mmSource = [], mmCapabilities = [], mmStatus = [], mmTotalSizeBytes = 0,
     mmSourceRepoId = [], mmErrorMessage = [], mmCreatedAt = None, mmUpdatedAt = None,
     mmVersions = []\<rparr>"

text \<open>Which of the two selectors of \<open>GetModelVersion\<close> is used, or why neither can be.\<close>

definition select_version :: "ext \<Rightarrow> string \<Rightarrow> get_version_req \<Rightarrow> gerr + version dbop" where
  "select_version E tenant rq =
     (if gvModelVersionId rq \<noteq> [] \<and> (gvModelId rq \<noteq> [] \<or> gvVersion rq \<noteq> [])
      then Inl (kerr 400 ''INVALID_ARGUMENT'' ''model_version_id cannot be combined with model_id/version'')
      else if gvModelVersionId rq \<noteq> [] then Inr (get_version E tenant (gvModelVersionId rq))
      else if gvModelId rq \<noteq> [] \<or> gvVersion rq \<noteq> [] then
        if gvModelId rq = [] \<or> gvVersion rq = []
        then Inl (kerr 400 ''INVALID_ARGUMENT'' ''model_id and version are required together'')
        else Inr (get_version_by_external_ref E tenant (gvModelId rq) (gvVersion rq))
      else Inl (kerr 400 ''INVALID_ARGUMENT'' ''a model version selector is required''))"

definition deployable :: "ext \<Rightarrow> version \<Rightarrow> unit wop" where
  "deployable E v = (case deployment_input v of None \<Rightarrow> ret () | Some e \<Rightarrow> throw (map_domain E e))"

definition handle_get_model_version ::
    "ext \<Rightarrow> service \<Rightarrow> (get_version_req, world, model_msg \<times> version_msg) handler" where
  "handle_get_model_version E sv ctx rq =
     andThen (authorize E ctx (gvTenantId rq)) (\<lambda>p.
     andThen (unless_configured (sReader sv) store_missing) (\<lambda>_.
     andThen (lift (select_version E (pTenantID p) rq)) (\<lambda>q.
     andThen (mapErr (map_domain E) (on_db q)) (\<lambda>v.
     andThen (deployable E v) (\<lambda>_.
       if \<not> sCatalog sv
       then ret (blank_model_msg\<lparr>mmTenantId := pTenantID p, mmId := vModelID v,
                   mmModelId := (if vExternalModelID v = [] then vModelID v else vExternalModelID v)\<rparr>,
                 to_proto_version v)
       else andThen (mapErr (map_store E) (on_db (catalog_get_model E (pTenantID p) (vModelID v)))) (\<lambda>r.
            ret (to_proto_model E r, to_proto_version v)))))))"

text \<open>What \<open>CreateModelVersion\<close> asks the store to insert; \<open>fresh\<close> is the new identifier.\<close>

definition requested_version :: "create_version_req \<Rightarrow> string \<Rightarrow> string \<Rightarrow> model_record \<Rightarrow> version" where
  "requested_version rq tenant fresh m =
     \<lparr>vTenantID = tenant, vID = fresh, vModelID = rID m, vExternalModelID = rExternalModelID m,
      vVersion = cvVersion rq, vFormat = cvFormat rq, vStatus = ''pending'',
      vArtifactProvider = [], vArtifactReference = [], vArtifactSHA256 = cvChecksumSha256 rq,
      vEngineType = cvEngineType rq, vEngineImage = cvEngineImage rq,
      vStartupCommand = cvStartupCommand rq, vRecommendedImageID = cvRecommendedImageId rq,
      vRecommendedImageScope = cvRecommendedImageScope rq, vStartupArgs = [],
      vIdempotencyKey = cvIdempotencyKey rq, vSizeBytes = cvSizeBytes rq, vIsEncrypted = False,
      vEncryptAlgo = [], vEncryptHint = [], vCreatedAt = 0\<rparr>"

definition as_upload :: "version \<Rightarrow> string \<Rightarrow> version" where
  "as_upload v path = v\<lparr>vArtifactProvider := ''upload'', vArtifactReference := path\<rparr>"

text \<open>The checks of the uploaded object before a version is finalized.\<close>

definition verify_upload :: "ext \<Rightarrow> storage_port \<Rightarrow> string \<Rightarrow> create_version_req \<Rightarrow> gerr + unit" where
  "verify_upload E st tenant rq =
     (case st_object_exists st tenant (cvStoragePath rq) of
        Inl e \<Rightarrow> Inl (kerr 502 ''STORAGE_PROVIDER_ERROR'' (error_text E e))
      | Inr False \<Rightarrow> Inl (kerr 404 ''STORAGE_OBJECT_NOT_FOUND'' ''uploaded object was not found'')
      | Inr True \<Rightarrow>
          (case st_verify_checksum st tenant (cvStoragePath rq) (cvChecksumSha256 rq) of
             None \<Rightarrow> Inr ()
           | Some e \<Rightarrow>
               if err_is e ErrChecksumMismatch
               then Inl (kerr 400 ''CHECKSUM_MISMATCH'' ''uploaded object checksum does not match'')
               else Inl (kerr 502 ''STORAGE_PROVIDER_ERROR'' (error_text E e))))"

text \<open>
  The finalization of an upload: the artifact row, then the ready state. \<open>fresh_artifact\<close> is
  the identifier drawn for the artifact.
\<close>

definition finalize_upload ::
    "ext \<Rightarrow> service \<Rightarrow> string \<Rightarrow> string \<Rightarrow> create_version_req \<Rightarrow> version \<Rightarrow> version wop" where
  "finalize_upload E sv fresh_artifact tenant rq r =
     (case (sStorage sv, sArtifacts sv) of
        (Some st, True) \<Rightarrow>
          andThen (lift (verify_upload E st tenant rq)) (\<lambda>_.
          andThen (mapErr (map_store E) (on_db (create_artifact E
             \<lparr>aTenantID = tenant, aID = fresh_artifact, aModelVersionID = vID r,
              aProvider = ''upload'', aReference = cvStoragePath rq, aFormat = cvFormat rq,
              aSHA256 = cvChecksumSha256 rq, aSizeBytes = cvSizeBytes rq,
              aIsEncrypted = cvIsEncrypted rq, aEncryptAlgo = cvEncryptAlgo rq\<rparr>))) (\<lambda>_.
          andThen (mapErr (map_store E) (on_db (mark_ready E tenant (vID r)))) (\<lambda>_.
            ret (as_upload (r\<lparr>vStatus := ''ready''\<rparr>) (cvStoragePath rq)))))
      | _ \<Rightarrow> throw (kerr 503 ''MODEL_DEPENDENCY_UNAVAILABLE''
               ''storage and artifact stores are required to finalize an upload''))"

definition audited_version ::
    "ext \<Rightarrow> service \<Rightarrow> uuid \<Rightarrow> principal \<Rightarrow> version \<Rightarrow> version_msg wop" where
  "audited_version E sv event_id p r =
     andThen (record_audit E sv event_id p ''model_version.create'' [] (vStatus r) [] (vModelID r) (vID r))
       (\<lambda>_. ret (to_proto_version r))"

definition handle_create_model_version ::
    "ext \<Rightarrow> service \<Rightarrow> string \<Rightarrow> string \<Rightarrow> uuid \<Rightarrow>
     (create_version_req, world, version_msg) handler" where
  "handle_create_model_version E sv fresh fresh_artifact event_id ctx rq =
     andThen (authorize E ctx (cvTenantId rq)) (\<lambda>p.
     andThen (unless_configured (sVersions sv) store_missing) (\<lambda>_.
     andThen (resolve_model E sv (pTenantID p) (cvModelId rq)) (\<lambda>m.
     let v = requested_version rq (pTenantID p) fresh m in
     if version_validate v \<noteq> None
        \<or> validate_engine_defaults (vEngineType v) (vEngineImage v) (vStartupCommand v) \<noteq> None
     then throw (kerr 400 ''INVALID_ARGUMENT'' ''invalid model version'')
     else andThen (mapErr (map_store E) (on_db (create_version E v))) (\<lambda>r0.
          let r = r0\<lparr>vExternalModelID := rExternalModelID m\<rparr> in
          if cvStoragePath rq = [] then audited_version E sv event_id p r
          else if vStatus r = ''ready'' then ret (to_proto_version (as_upload r (cvStoragePath rq)))
          else andThen (finalize_upload E sv fresh_artifact (pTenantID p) rq r)
                 (audited_version E sv event_id p)))))"

definition handle_list_model_versions ::
    "ext \<Rightarrow> service \<Rightarrow> (list_versions_req, world, version_msg list \<times> int) handler" where
  "handle_list_model_versions E sv ctx rq =
     andThen (authorize E ctx (lvTenantId rq)) (\<lambda>p.
     andThen (unless_configured (sVersions sv) store_missing) (\<lambda>_.
     andThen (resolve_model E sv (pTenantID p) (lvModelId rq)) (\<lambda>m.
     andThen (lift (resolve_page (lvPage rq) (lvPageSize rq))) (\<lambda>o1.
     andThen (mapErr (\<lambda>e. kerr 400 ''INVALID_ARGUMENT'' (error_text E e))
       (lift (normalize_version_status E (lvStatus rq)))) (\<lambda>status.
     andThen (mapErr (map_store E) (on_db (list_versions_page E (pTenantID p) (rID m)
        (o1\<lparr>oStatus := status\<rparr>)))) (\<lambda>(rs, total).
       ret (map (\<lambda>v. to_proto_version (v\<lparr>vExternalModelID := rExternalModelID m\<rparr>)) rs, total)))))))"

section \<open>Signed URLs\<close>

definition handle_get_model_download_url ::
    "ext \<Rightarrow> service \<Rightarrow> (download_url_req, world, download_msg) handler" where
  "handle_get_model_download_url E sv ctx rq =
     andThen (authorize E ctx (duTenantId rq)) (\<lambda>p.
       case (sReader sv, sStorage sv) of
         (True, Some st) \<Rightarrow>
           andThen (mapErr (map_domain E) (on_db (get_version E (pTenantID p) (duModelVersionId rq)))) (\<lambda>v.
           andThen (deployable E v) (\<lambda>_.
           andThen (mapErr (\<lambda>e. kerr 502 ''STORAGE_PROVIDER_ERROR'' (error_text E e))
             (lift (st_create_download_url st
               \<lparr>dTenantID = pTenantID p, dObjectRef = vArtifactReference v,
                dRequester = (if duRequester rq = [] then pActor p else duRequester rq),
                dTTL = 300000000000\<rparr>))) (\<lambda>u.
           andThen go_now (\<lambda>now.
             case validate_signed_url u now of
               Some e \<Rightarrow> throw (kerr 502 ''STORAGE_INVALID_URL'' (error_text E e))
             | None \<Rightarrow> ret \<lparr>mdDownloadUrl = nURL u, mdStoragePath = vArtifactReference v,
                         mdExpiresAt = nExpiresAt u\<rparr>))))
       | _ \<Rightarrow> throw (kerr 503 ''MODEL_DEPENDENCY_UNAVAILABLE'' ''model or storage provider is not configured''))"

definition bad_file_name :: "string \<Rightarrow> bool" where
  "bad_file_name f \<longleftrightarrow> f = [] \<or> contains_any f [CHR ''/'', CHR 0x5C, CHR 0x0D, CHR 0x0A]"

definition handle_get_upload_url ::
    "ext \<Rightarrow> service \<Rightarrow> string \<Rightarrow> (upload_url_req, world, upload_msg) handler" where
  "handle_get_upload_url E sv fresh ctx rq =
     andThen (authorize E ctx (uuTenantId rq)) (\<lambda>p.
     case sStorage sv of
       None \<Rightarrow> throw (kerr 503 ''STORAGE_UNAVAILABLE'' ''storage provider is not configured'')
     | Some st \<Rightarrow>
         if uuModelId rq = [] \<or> uuVersion rq = [] \<or> bad_file_name (uuFileName rq)
            \<or> uuSizeBytes rq \<le> 0 \<or> \<not> is_checksum (uuChecksumSha256 rq)
         then throw (kerr 400 ''INVALID_ARGUMENT'' ''invalid upload request'')
         else
           let path = pTenantID p @ ''/'' @ uuModelId rq @ ''/'' @ uuVersion rq @ ''/'' @ uuFileName rq in
           andThen (mapErr (\<lambda>e. kerr 502 ''STORAGE_PROVIDER_ERROR'' (error_text E e))
             (lift (st_create_upload_url st
               \<lparr>lTenantID = pTenantID p, lObjectRef = path, lContentType = [],
                lSizeBytes = uuSizeBytes rq, lChecksumSHA256 = uuChecksumSha256 rq, lTTL = 0\<rparr>))) (\<lambda>u.
           andThen go_now (\<lambda>now.
             case validate_signed_url u now of
               Some e \<Rightarrow> throw (kerr 502 ''STORAGE_INVALID_URL'' (error_text E e))
             | None \<Rightarrow> ret \<lparr>muUploadUrl = nURL u, muStoragePath = path, muDocId = fresh,
                         muExpiresAt = nExpiresAt u\<rparr>)))"

section \<open>Imports\<close>

definition worker_missing :: "string \<Rightarrow> gerr" where
  "worker_missing m = kerr 503 ''WORKER_UNAVAILABLE'' m"

definition import_model_id :: "ext \<Rightarrow> service \<Rightarrow> string \<Rightarrow> string \<Rightarrow> string wop" where
  "import_model_id E sv tenant selector =
     (if selector = [] then ret []
      else (case x_uuid_parse E selector of
              Inr i \<Rightarrow> ret (x_uuid_string E i)
            | Inl _ \<Rightarrow> andThen (resolve_model E sv tenant selector) (\<lambda>m. ret (rID m))))"

definition handle_import_model ::
    "ext \<Rightarrow> service \<Rightarrow> string \<Rightarrow> uuid \<Rightarrow> (import_req, world, import_task_msg) handler" where
  "handle_import_model E sv fresh event_id ctx rq =
     andThen (authorize E ctx (imTenantId rq)) (\<lambda>p.
     andThen (unless_configured (sWork sv) (worker_missing ''import worker is not configured'')) (\<lambda>_.
     if imSource rq \<noteq> ''huggingface'' \<and> imSource rq \<noteq> ''modelscope''
     then throw (kerr 400 ''INVALID_ARGUMENT'' ''unsupported import source'')
     else if imRepoId rq = [] \<or> imIdempotencyKey rq = []
     then throw (kerr 400 ''INVALID_ARGUMENT'' ''repo_id and idempotency_key are required'')
     else andThen (import_model_id E sv (pTenantID p) (imModelId rq)) (\<lambda>model_id.
       if imModelVersionId rq \<noteq> [] \<and> isl (x_uuid_parse E (imModelVersionId rq))
       then throw (kerr 400 ''INVALID_ARGUMENT'' ''invalid model_version_id'')
       else andThen (mapErr (\<lambda>e. kerr 409 ''IMPORT_CONFLICT'' (error_text E e))
              (on_db (work_create E
                \<lparr>wTenantID = pTenantID p, wID = fresh, wLeaseOwner = [], wModelID = model_id,
                 wVersionID = imModelVersionId rq, wTaskType = imSource rq, wSource = imSource rq,
                 wRepoID = imRepoId rq, wRevision = imRevision rq,
                 wIdempotencyKey = imIdempotencyKey rq, wLeaseEpoch = 0, wStatus = TaskPending,
                 wLeaseUntil = 0, wAttemptCount = 0, wProgressPct = 0, wErrorMessage = [],
                 wCreatedAt = 0, wCompletedAt = 0\<rparr>))) (\<lambda>t.
            andThen (record_audit E sv event_id p ''model_import.create'' [] (wStatus t) (wID t)
              (wModelID t) (wVersionID t)) (\<lambda>_.
            andThen (notify sv) (\<lambda>_.
              ret \<lparr>mtTaskId = wID t, mtTaskType = imSource rq, mtStatus = wStatus t,
                   mtModelId = wModelID t, mtModelVersionId = wVersionID t,
                   mtAttemptCount = wrap32 (wAttemptCount t), mtProgressPct = 0,
                   mtErrorMessage = [], mtCreatedAt = None, mtCompletedAt = None\<rparr>))))))"

definition bundle_of_request :: "string \<Rightarrow> bundle_req \<Rightarrow> bundle_import" where
  "bundle_of_request tenant rq =
     (let m = (case brModel rq of None \<Rightarrow> \<lparr>bmName = [], bmDisplayName = [], bmDescription = [],
                bmCapabilities = [], bmExternalModelId = []\<rparr> | Some d \<Rightarrow> d);
          v = (case brVersion rq of None \<Rightarrow> \<lparr>bvVersion = [], bvFormat = [], bvEngineType = [],
                bvEngineImage = [], bvStartupCommand = [], bvRecommendedImageId = [],
                bvRecommendedImageScope = []\<rparr> | Some d \<Rightarrow> d);
          s = (case brSource rq of None \<Rightarrow> \<lparr>bsProvider = [], bsRepoId = [], bsRevision = []\<rparr>
               | Some d \<Rightarrow> d)
      in \<lparr>bTenantID = tenant, bIdempotencyKey = brIdempotencyKey rq, bName = bmName m,
          bDisplayName = bmDisplayName m, bDescription = bmDescription m,
          bExternalModelID = bmExternalModelId m, bCapabilities = bmCapabilities m,
          bVersion = bvVersion v, bFormat = bvFormat v, bEngineType = bvEngineType v,
          bEngineImage = bvEngineImage v, bStartupCommand = bvStartupCommand v,
          bProvider = bsProvider s, bRepoID = bsRepoId s, bRevision = bsRevision s,
          bRecommendedImageID = bvRecommendedImageId v,
          bRecommendedImageScope = bvRecommendedImageScope v\<rparr>)"

definition handle_import_model_bundle ::
    "ext \<Rightarrow> service \<Rightarrow> bundle_ids \<Rightarrow> uuid \<Rightarrow> (bundle_req, world, bundle_msg) handler" where
  "handle_import_model_bundle E sv ids event_id ctx rq =
     andThen (authorize E ctx (brTenantId rq)) (\<lambda>p.
     andThen (unless_configured (sBundleImporter sv)
       (kerr 503 ''MODEL_BUNDLE_IMPORT_UNAVAILABLE'' ''model bundle importer is not configured'')) (\<lambda>_.
     let b = bundle_of_request (pTenantID p) rq in
     case bundle_validate b of
       Some e \<Rightarrow> throw (kerr 400 ''INVALID_ARGUMENT'' (error_text E e))
     | None \<Rightarrow>
         andThen (mapErr (map_store E) (on_db (import_bundle E ids b))) (\<lambda>r.
         andThen (record_audit E sv event_id p ''model_import_bundle.create'' [] (uTaskStatus r)
           (uTaskID r) (rID (uModel r)) (vID (uVersion r))) (\<lambda>_.
         andThen (notify sv) (\<lambda>_.
           ret \<lparr>mbModel = to_proto_model E (uModel r), mbVersion = to_proto_version (uVersion r),
                mbTask = \<lparr>mtTaskId = uTaskID r, mtTaskType = uTaskType r, mtStatus = uTaskStatus r,
                  mtModelId = rID (uModel r), mtModelVersionId = vID (uVersion r),
                  mtAttemptCount = 0, mtProgressPct = 0, mtErrorMessage = [], mtCreatedAt = None,
                  mtCompletedAt = None\<rparr>\<rparr>)))))"

definition read_task :: "ext \<Rightarrow> principal \<Rightarrow> string \<Rightarrow> task wop" where
  "read_task E p task_id =
     andThen (mapErr (map_store E) (on_db (work_get E (pTenantID p) task_id))) (\<lambda>t.
       if wTenantID t \<noteq> [] \<and> wTenantID t \<noteq> pTenantID p
       then throw (map_identity E ErrTenantMismatch) else ret t)"

definition task_id_ok :: "ext \<Rightarrow> string \<Rightarrow> unit wop" where
  "task_id_ok E task_id =
     (case x_uuid_parse E task_id of
        Inl _ \<Rightarrow> throw (kerr 400 ''INVALID_ARGUMENT'' ''invalid task_id'') | Inr _ \<Rightarrow> ret ())"

text \<open>The task reader, or the work store where none was set.\<close>

definition task_reader :: "service \<Rightarrow> bool" where
  "task_reader sv \<longleftrightarrow> sTaskReader sv \<or> sWork sv"

definition handle_get_import_task ::
    "ext \<Rightarrow> service \<Rightarrow> (task_req, world, import_task_msg) handler" where
  "handle_get_import_task E sv ctx rq =
     andThen (authorize E ctx (tkTenantId rq)) (\<lambda>p.
     andThen (task_id_ok E (tkTaskId rq)) (\<lambda>_.
     andThen (unless_configured (task_reader sv) (worker_missing ''import task reader is not configured''))
       (\<lambda>_.
     andThen (read_task E p (tkTaskId rq)) (\<lambda>t. ret (to_proto_import_task t)))))"

definition handle_get_import_task_logs ::
    "ext \<Rightarrow> service \<Rightarrow> (task_req, world, logs_msg) handler" where
  "handle_get_import_task_logs E sv ctx rq =
     andThen (authorize E ctx (tkTenantId rq)) (\<lambda>p.
     andThen (task_id_ok E (tkTaskId rq)) (\<lambda>_.
     andThen (unless_configured (task_reader sv) (worker_missing ''import task reader is not configured''))
       (\<lambda>_.
     case sTaskLogs sv of
       None \<Rightarrow> throw (kerr 503 ''IMPORT_LOGS_UNAVAILABLE'' ''import task log reader is not configured'')
     | Some read_logs \<Rightarrow>
         if trim_space (sLogNamespace sv) = []
         then throw (kerr 503 ''IMPORT_LOGS_UNAVAILABLE'' ''import task log reader is not configured'')
         else andThen (read_task E p (tkTaskId rq)) (\<lambda>t.
           case read_logs (sLogNamespace sv) (import_job_name (wID t) (wAttemptCount t)) of
             Inl _ \<Rightarrow> throw (kerr 409 ''IMPORT_LOGS_UNAVAILABLE'' ''import task logs are no longer available'')
           | Inr logs \<Rightarrow> ret \<lparr>mlTaskId = wID t, mlStatus = wStatus t, mlLogs = logs,
                            mlAvailable = True\<rparr>))))"

definition handle_retry_import_task ::
    "ext \<Rightarrow> service \<Rightarrow> uuid \<Rightarrow> (task_req, world, import_task_msg) handler" where
  "handle_retry_import_task E sv event_id ctx rq =
     andThen (authorize E ctx (tkTenantId rq)) (\<lambda>p.
     andThen (task_id_ok E (tkTaskId rq)) (\<lambda>_.
     andThen (unless_configured (sTaskRetry sv \<or> sWork sv)
       (worker_missing ''import task retry is not configured'')) (\<lambda>_.
     andThen (mapErr (\<lambda>e. if err_is e ErrInvalidTransition
                then kerr 409 ''IMPORT_NOT_RETRYABLE'' (error_text E e) else map_store E e)
       (on_db (work_retry_failed E (pTenantID p) (tkTaskId rq)))) (\<lambda>t.
     if wTenantID t \<noteq> [] \<and> wTenantID t \<noteq> pTenantID p then throw (map_identity E ErrTenantMismatch)
     else andThen (record_audit E sv event_id p ''model_import.retry'' ''failed'' (wStatus t) (wID t)
            (wModelID t) (wVersionID t)) (\<lambda>_.
          andThen (notify sv) (\<lambda>_. ret (to_proto_import_task t)))))))"

end
