(* ===== verification/Facts.thy ===== *)
theory Facts
  imports Domain "HOL-Library.List_Lexorder" "HOL-Library.Char_ord"
begin

text \<open>
  The integrity checks on observed facts, \<open>api/model/v1/finetuning_facts.go\<close> and
  \<open>finetuning_layout.go\<close>: identifiers, digests and paths; JSON objects without repeated
  keys or deep nesting; and the layout of safetensors weights (one file, or the shards an
  index names), with what an accepted layout guarantees.
\<close>

section \<open>Identifiers, digests, paths\<close>

definition fixed_hex :: "nat \<Rightarrow> string \<Rightarrow> bool" where
  "fixed_hex n s \<longleftrightarrow> length s = n \<and> list_all is_lower_hex s"

definition facts_id :: "string \<Rightarrow> bool" where
  "facts_id s \<longleftrightarrow>
     (case split_on CHR ''-'' s of
        [a, b, c, d, e] \<Rightarrow> fixed_hex 8 a \<and> fixed_hex 4 b \<and> fixed_hex 4 c \<and> fixed_hex 4 d \<and> fixed_hex 12 e
      | _ \<Rightarrow> False)
     \<and> s \<noteq> ''00000000-0000-0000-0000-000000000000''"

definition facts_digest :: "string \<Rightarrow> bool" where
  "facts_digest s \<longleftrightarrow> length s = 64 \<and> trim_set ''0123456789abcdef'' s = []"

text \<open>\<open>utf8.Valid\<close>: the width of the encoded rune a string starts with, 0 if there is none.\<close>

definition byte_in :: "nat \<Rightarrow> nat \<Rightarrow> char \<Rightarrow> bool" where
  "byte_in lo hi c \<longleftrightarrow> lo \<le> of_char c \<and> of_char c \<le> hi"

definition bytes_match :: "(nat \<times> nat) list \<Rightarrow> string \<Rightarrow> bool" where
  "bytes_match ranges s \<longleftrightarrow> length ranges \<le> length s
     \<and> list_all2 (\<lambda>(lo, hi) c. byte_in lo hi c) ranges (take (length ranges) s)"

definition utf8_forms :: "(nat \<times> nat) list list" where
  "utf8_forms =
     [[(0, 0x7F)],
      [(0xC2, 0xDF), (0x80, 0xBF)],
      [(0xE0, 0xE0), (0xA0, 0xBF), (0x80, 0xBF)],
      [(0xE1, 0xEC), (0x80, 0xBF), (0x80, 0xBF)],
      [(0xED, 0xED), (0x80, 0x9F), (0x80, 0xBF)],
      [(0xEE, 0xEF), (0x80, 0xBF), (0x80, 0xBF)],
      [(0xF0, 0xF0), (0x90, 0xBF), (0x80, 0xBF), (0x80, 0xBF)],
      [(0xF1, 0xF3), (0x80, 0xBF), (0x80, 0xBF), (0x80, 0xBF)],
      [(0xF4, 0xF4), (0x80, 0x8F), (0x80, 0xBF), (0x80, 0xBF)]]"

definition rune_width :: "string \<Rightarrow> nat" where
  "rune_width s = (case List.find (\<lambda>f. bytes_match f s) utf8_forms of None \<Rightarrow> 0 | Some f \<Rightarrow> length f)"

function utf8_valid :: "string \<Rightarrow> bool" where
  "utf8_valid s \<longleftrightarrow> (if s = [] then True
     else if rune_width s = 0 then False else utf8_valid (drop (rune_width s) s))"
  by pat_completeness auto
termination
  by (relation "measure length") auto

declare utf8_valid.simps [simp del]

text \<open>
  \<open>path.Clean(value) = value\<close> for a relative path: no empty, \<open>.\<close> or \<open>..\<close> segment (a
  leading run of \<open>..\<close> apart, which the other conjuncts of the source exclude).
\<close>

definition facts_path :: "string \<Rightarrow> bool" where
  "facts_path s \<longleftrightarrow> s \<noteq> [] \<and> length s \<le> 1024 \<and> utf8_valid s
     \<and> list_all (\<lambda>seg. seg \<noteq> [] \<and> seg \<noteq> ''.'' \<and> seg \<noteq> ''..'') (split_on CHR ''/'' s)
     \<and> \<not> contains_any s [CHR 0x5C, CHR 0x00, CHR 0x0D, CHR 0x0A]
     \<and> list_all (\<lambda>c. 32 \<le> (of_char c :: nat) \<and> (of_char c :: nat) \<noteq> 127) s"

section \<open>JSON objects\<close>

text \<open>
  The tokens \<open>json.Decoder\<close> delivers for a text, up to its end or its first error:
  \<open>JScalar\<close> stands for the numbers, booleans and \<open>null\<close>. \<open>tokens_of\<close> gives them, with
  whether the text was read to its end.
\<close>

datatype jtoken = JOpen | JClose | JOpenList | JCloseList | JString string | JScalar

type_synonym tokenizer = "string \<Rightarrow> jtoken list \<times> bool"

text \<open>
  The recursive walk of \<open>factsJSONObject\<close>: \<open>json_value d ts\<close> reads one value at depth
  \<open>d\<close> and returns the tokens after it, \<open>json_fields\<close> the members of an object (with the
  names seen) and \<open>json_items\<close> the elements of an array. The fuel is the number of tokens
  read, so as many as there are tokens suffice.
\<close>

fun json_value :: "nat \<Rightarrow> nat \<Rightarrow> jtoken list \<Rightarrow> jtoken list option"
and json_fields :: "nat \<Rightarrow> nat \<Rightarrow> string list \<Rightarrow> jtoken list \<Rightarrow> jtoken list option"
and json_items :: "nat \<Rightarrow> nat \<Rightarrow> jtoken list \<Rightarrow> jtoken list option" where
  "json_value n d [] = None"
| "json_value 0 d (t # ts) = None"
| "json_value (Suc n) d (t # ts) =
     (if 64 < d then None
      else (case t of
              JOpen \<Rightarrow> json_fields n d [] ts
            | JOpenList \<Rightarrow> json_items n d ts
            | JString s \<Rightarrow> Some ts
            | JScalar \<Rightarrow> Some ts
            | _ \<Rightarrow> None))"
| "json_fields n d seen [] = None"
| "json_fields 0 d seen (t # ts) = None"
| "json_fields (Suc n) d seen (t # ts) =
     (case t of
        JClose \<Rightarrow> Some ts
      | JString name \<Rightarrow>
          if name \<in> set seen then None
          else (case json_value n (Suc d) ts of
                  None \<Rightarrow> None
                | Some rest \<Rightarrow> json_fields n d (name # seen) rest)
      | _ \<Rightarrow> None)"
| "json_items n d [] = None"
| "json_items 0 d (t # ts) = None"
| "json_items (Suc n) d (t # ts) =
     (if t = JCloseList then Some ts
      else (case json_value n (Suc d) (t # ts) of
              None \<Rightarrow> None
            | Some rest \<Rightarrow> json_items n d rest))"

definition facts_json_object :: "tokenizer \<Rightarrow> string \<Rightarrow> bool" where
  "facts_json_object tokens_of raw \<longleftrightarrow> utf8_valid raw \<and> raw \<noteq> [] \<and>
     (case tokens_of raw of (ts, complete) \<Rightarrow>
        ts \<noteq> [] \<and> hd ts = JOpen \<and> json_value (2 * length ts) 0 ts = Some [] \<and> complete)"

section \<open>The weight layout\<close>

record artifact_file =
  fPath :: string
  fSizeBytes :: int
  fSha256 :: string

definition MaxFinetuningModelFiles :: nat where "MaxFinetuningModelFiles = 1024"
definition MaxFinetuningConfigBytes :: nat where "MaxFinetuningConfigBytes = 8388608"

datatype layout = Single | Sharded "string list"

definition files_ok :: "artifact_file list \<Rightarrow> bool" where
  "files_ok files \<longleftrightarrow> files \<noteq> [] \<and> length files \<le> MaxFinetuningModelFiles
     \<and> distinct (map fPath files)
     \<and> list_all (\<lambda>f. facts_path (fPath f) \<and> 0 \<le> fSizeBytes f \<and> facts_digest (fSha256 f)) files"

definition file_at :: "artifact_file list \<Rightarrow> string \<Rightarrow> artifact_file option" where
  "file_at files p = List.find (\<lambda>f. fPath f = p) files"

definition is_weights :: "string \<Rightarrow> bool" where
  "is_weights p \<longleftrightarrow> has_suffix p ''.safetensors''"

definition weight_entry_ok :: "artifact_file list \<Rightarrow> string \<times> string \<Rightarrow> bool" where
  "weight_entry_ok files e \<longleftrightarrow> (case e of (tensor, reference) \<Rightarrow>
     tensor \<noteq> [] \<and> facts_path reference \<and> is_weights reference
     \<and> (case file_at files reference of None \<Rightarrow> False | Some f \<Rightarrow> 0 < fSizeBytes f))"

text \<open>
  \<open>weight_map\<close> is \<open>json.Unmarshal\<close> into \<open>{WeightMap map[string]string}\<close>: the entries of the
  map, \<open>None\<close> on an error. The iteration order of a Go map is not fixed; the outcome does
  not depend on it.
\<close>

definition inspect_weight_layout ::
    "ext \<Rightarrow> tokenizer \<Rightarrow> (string \<Rightarrow> (string \<times> string) list option) \<Rightarrow> artifact_file list \<Rightarrow> string \<Rightarrow>
     layout option" where
  "inspect_weight_layout E tokens_of weight_map files index_json =
     (if \<not> files_ok files then None
      else (case (file_at files ''model.safetensors'', file_at files ''model.safetensors.index.json'') of
        (None, None) \<Rightarrow> None
      | (Some _, Some _) \<Rightarrow> None
      | (Some single, None) \<Rightarrow>
          if fSizeBytes single \<le> 0 \<or> index_json \<noteq> [] then None
          else if list_ex (\<lambda>f. is_weights (fPath f) \<and> fPath f \<noteq> ''model.safetensors'') files then None
          else Some Single
      | (None, Some index) \<Rightarrow>
          if index_json = [] \<or> MaxFinetuningConfigBytes < length index_json
             \<or> \<not> facts_json_object tokens_of index_json then None
          else if fSizeBytes index \<noteq> int (length index_json) \<or> fSha256 index \<noteq> x_sha256 E index_json
          then None
          else (case weight_map index_json of
            None \<Rightarrow> None
          | Some entries \<Rightarrow>
              if entries = [] \<or> \<not> list_all (weight_entry_ok files) entries then None
              else
                let shards = map snd entries in
                if list_ex (\<lambda>f. is_weights (fPath f) \<and> fPath f \<notin> set shards) files then None
                else Some (Sharded (sorted_list_of_set (set shards))))))"

end
