(* ===== verification/TrainedService.thy ===== *)
theory TrainedService
  imports VersionService Facts
begin

text \<open>
  The trained-artifact handlers, \<open>internal/service/trained_artifact.go\<close> and
  \<open>trained_artifact_read.go\<close>, with the receipt validation of
  \<open>api/model/v1/trained_artifact_read.go\<close> and the identifier, digest and path checks of
  \<open>api/model/v1/finetuning_facts.go\<close> it uses. \<open>fuel\<close> bounds the recursion of the store's
  \<open>Prepare\<close>; \<open>None\<close> is a call that has not returned yet.
\<close>

section \<open>Messages\<close>

record prepare_req =
  prTenantId :: string
  prTargetModelId :: string
  prModelName :: string
  prDisplayName :: string
  prDescription :: string
  prCapabilities :: "string list"
  prSourceModelVersionId :: string
  prVersion :: string
  prFileName :: string
  prFormat :: string
  prSizeBytes :: int
  prChecksumSha256 :: string
  prExecutionId :: string
  prIdempotencyKey :: string
  prEngineType :: string
  prEngineImage :: string
  prStartupCommand :: string
  prRecommendedImageId :: string
  prRecommendedImageScope :: string

record ticket_msg =
  tmRegistrationId :: string
  tmUploadUrl :: string
  tmStoragePath :: string
  tmExpiresAt :: int

record complete_req =
  crTenantId :: string
  crRegistrationId :: string
  crIdempotencyKey :: string

record complete_msg =
  ccRegistrationId :: string
  ccModelId :: string
  ccModelVersionId :: string
  ccModelVersionStatus :: string
  ccStoragePath :: string
  ccSizeBytes :: int
  ccChecksumSha256 :: string

record abort_req =
  arTenantId :: string
  arRegistrationId :: string
  arReason :: string

record get_registration_req =
  grTenantId :: string
  grIdempotencyKey :: string
  grExpectedExecutionId :: string
  grVerifyUploadedObject :: bool
  grUnknown :: string

record get_ticket_req =
  gtTenantId :: string
  gtRegistrationId :: string
  gtIdempotencyKey :: string
  gtExpectedExecutionId :: string
  gtExpectedStoragePath :: string
  gtUnknown :: string

datatype observation_state =
  StateNotRequested | StateMissing | StateVerified | StateMismatch | StateUnavailable

record observation_msg =
  obState :: observation_state
  obSizeBytes :: int
  obSha256 :: string

record registration_msg =
  rmRegistrationId :: string
  rmIdempotencyKey :: string
  rmExecutionId :: string
  rmTargetModelId :: string
  rmModelName :: string
  rmDisplayName :: string
  rmDescription :: string
  rmCapabilities :: "string list"
  rmSourceModelVersionId :: string
  rmVersion :: string
  rmFileName :: string
  rmFormat :: string
  rmSizeBytes :: int
  rmChecksumSha256 :: string
  rmStoragePath :: string
  rmStatus :: string
  rmModelId :: string
  rmModelVersionId :: string
  rmEngineType :: string
  rmEngineImage :: string
  rmStartupCommand :: string
  rmRequestFingerprint :: string
  rmErrorMessage :: string

section \<open>Preparing an upload\<close>

definition trained_missing :: gerr where
  "trained_missing = kerr 503 ''MODEL_DEPENDENCY_UNAVAILABLE'' ''trained artifact registration is not configured''"

definition map_trained_registration :: "ext \<Rightarrow> gerr \<Rightarrow> gerr" where
  "map_trained_registration E e =
     (if err_is e ErrRegistrationNotFound then kerr 404 ''REGISTRATION_NOT_FOUND'' (error_text E e)
      else if err_is e ErrRegistrationConflict then kerr 409 ''REGISTRATION_CONFLICT'' (error_text E e)
      else if err_is e ErrRegistrationTerminal then kerr 409 ''REGISTRATION_TERMINAL'' (error_text E e)
      else map_store E e)"

definition invalid_argument :: "string \<Rightarrow> gerr" where
  "invalid_argument m = kerr 400 ''INVALID_ARGUMENT'' m"

text \<open>The guards of \<open>PrepareTrainedArtifact\<close> on the request alone, in their order.\<close>

definition prepare_rejects :: "prepare_req \<Rightarrow> gerr option" where
  "prepare_rejects rq =
     (if prIdempotencyKey rq = [] \<or> validate_key (prIdempotencyKey rq) \<noteq> None
      then Some (invalid_argument ''valid idempotency_key is required'')
      else if prVersion rq = [] \<or> contains_any (prVersion rq) crlf \<or> prFileName rq \<noteq> ''model.tar''
         \<or> prFormat rq \<noteq> ''safetensors'' \<or> prSizeBytes rq \<le> 0 \<or> \<not> is_checksum (prChecksumSha256 rq)
      then Some (invalid_argument ''model.tar, safetensors, size_bytes and checksum_sha256 are required'')
      else if prTargetModelId rq = [] \<and> validate_model_name (prModelName rq) \<noteq> None
      then Some (invalid_argument ''model_name is required for a new model'')
      else if prTargetModelId rq = []
         \<and> (trim_space (prDisplayName rq) = [] \<or> trim_space (prDescription rq) = [])
      then Some (invalid_argument ''display_name and description are required for a new model'')
      else if prTargetModelId rq = [] \<and> length (prCapabilities rq) = 0
      then Some (invalid_argument ''capabilities are required for a new model'')
      else if list_ex (\<lambda>c. trim_space c = []) (prCapabilities rq)
      then Some (invalid_argument ''capabilities cannot contain empty values'')
      else None)"

record runtime =
  uEngineType :: string
  uEngineImage :: string
  uStartupCommand :: string
  uImageID :: string
  uImageScope :: string

definition runtime_of_version :: "version \<Rightarrow> runtime" where
  "runtime_of_version v = \<lparr>uEngineType = vEngineType v, uEngineImage = vEngineImage v,
     uStartupCommand = vStartupCommand v, uImageID = vRecommendedImageID v,
     uImageScope = vRecommendedImageScope v\<rparr>"

definition runtime_of_request :: "prepare_req \<Rightarrow> runtime" where
  "runtime_of_request rq = \<lparr>uEngineType = prEngineType rq, uEngineImage = prEngineImage rq,
     uStartupCommand = prStartupCommand rq, uImageID = prRecommendedImageId rq,
     uImageScope = prRecommendedImageScope rq\<rparr>"

definition runtime_of_registration :: "registration \<Rightarrow> runtime" where
  "runtime_of_registration g = \<lparr>uEngineType = gEngineType g, uEngineImage = gEngineImage g,
     uStartupCommand = gStartupCommand g, uImageID = gRecommendedImageID g,
     uImageScope = gRecommendedImageScope g\<rparr>"

definition provided_count :: "prepare_req \<Rightarrow> nat" where
  "provided_count rq = length (filter (\<lambda>v. trim_space v \<noteq> [])
     [prEngineType rq, prEngineImage rq, prStartupCommand rq])"

text \<open>The source version to inherit from: none when the runtime is frozen or no source is named.\<close>

definition runtime_source ::
    "ext \<Rightarrow> service \<Rightarrow> string \<Rightarrow> prepare_req \<Rightarrow> registration option \<Rightarrow> runtime wop" where
  "runtime_source E sv tenant rq frozen =
     (if frozen = None \<and> prSourceModelVersionId rq \<noteq> [] then
        if \<not> sReader sv
        then throw (kerr 503 ''MODEL_STORE_UNAVAILABLE'' ''source model version lookup is not configured'')
        else andThen (mapErr (map_domain E) (on_db (get_version E tenant (prSourceModelVersionId rq)))) (\<lambda>v.
             if vStatus v \<noteq> VersionReady
             then throw (invalid_argument ''source_model_version_id is not ready'')
             else ret (runtime_of_version v))
      else ret \<lparr>uEngineType = [], uEngineImage = [], uStartupCommand = [], uImageID = [],
                uImageScope = []\<rparr>)"

definition resolve_trained_runtime ::
    "ext \<Rightarrow> service \<Rightarrow> string \<Rightarrow> prepare_req \<Rightarrow> registration option \<Rightarrow> runtime wop" where
  "resolve_trained_runtime E sv tenant rq frozen =
     (let provided = provided_count rq in
      if provided \<noteq> 0 \<and> provided \<noteq> 3
      then throw (invalid_argument ''complete inference runtime or source_model_version_id is required'')
      else if provided = 0 \<and> (prSourceModelVersionId rq = [] \<or> prRecommendedImageId rq \<noteq> [])
      then throw (invalid_argument ''catalog selection requires an explicit runtime or complete source inheritance'')
      else andThen (runtime_source E sv tenant rq frozen) (\<lambda>source.
        if provided = 3 then
          if validate_engine_defaults (prEngineType rq) (prEngineImage rq) (prStartupCommand rq) \<noteq> None
          then throw (invalid_argument ''invalid inference runtime'')
          else ret (runtime_of_request rq)
        else (case frozen of
          Some g \<Rightarrow> ret (runtime_of_registration g)
        | None \<Rightarrow>
            if validate_engine_defaults (uEngineType source) (uEngineImage source)
                 (uStartupCommand source) \<noteq> None
               \<or> validate_recommended_image (uImageID source) (uImageScope source) \<noteq> None
            then throw (invalid_argument ''source_model_version_id does not have a ready inference runtime'')
            else ret source)))"

text \<open>The struct whose JSON is fingerprinted, its fields in declaration order.\<close>

definition prepare_payload :: "string \<Rightarrow> prepare_req \<Rightarrow> runtime \<Rightarrow> string" where
  "prepare_payload target rq rt = json_object
     ([(''TargetModelID'', json_quote target), (''ModelName'', json_quote (prModelName rq)),
       (''DisplayName'', json_quote (prDisplayName rq)),
       (''Description'', json_quote (prDescription rq)),
       (''Version'', json_quote (prVersion rq)), (''Format'', json_quote (prFormat rq)),
       (''Checksum'', json_quote (prChecksumSha256 rq)),
       (''EngineType'', json_quote (uEngineType rt)),
       (''EngineImage'', json_quote (uEngineImage rt)),
       (''StartupCommand'', json_quote (uStartupCommand rt)),
       (''SourceVersion'', json_quote (prSourceModelVersionId rq)),
       (''ExecutionID'', json_quote (prExecutionId rq)),
       (''Capabilities'', json_array (prCapabilities rq)),
       (''SizeBytes'', int_dec (prSizeBytes rq))]
      @ omit_empty ''RecommendedImageID'' (uImageID rt)
      @ omit_empty ''RecommendedImageScope'' (uImageScope rt))"

definition requested_registration ::
    "ext \<Rightarrow> string \<Rightarrow> string \<Rightarrow> string \<Rightarrow> prepare_req \<Rightarrow> runtime \<Rightarrow> registration" where
  "requested_registration E tenant fresh target rq rt =
     \<lparr>gTenantID = tenant, gID = fresh, gIdempotencyKey = prIdempotencyKey rq,
      gRequestFingerprint = fingerprint E (prepare_payload target rq rt),
      gExecutionID = prExecutionId rq, gTargetModelID = target, gModelName = prModelName rq,
      gDisplayName = prDisplayName rq, gDescription = prDescription rq,
      gCapabilities = prCapabilities rq, gSourceModelVersionID = prSourceModelVersionId rq,
      gVersion = prVersion rq, gFileName = prFileName rq, gFormat = prFormat rq,
      gStoragePath = tenant @ ''/trained-artifacts/'' @ fresh @ ''/model.tar'',
      gChecksumSHA256 = prChecksumSha256 rq, gSizeBytes = prSizeBytes rq,
      gEngineType = uEngineType rt, gEngineImage = uEngineImage rt,
      gStartupCommand = uStartupCommand rt, gRecommendedImageID = uImageID rt,
      gRecommendedImageScope = uImageScope rt, gStatus = [], gErrorMessage = [], gModelID = [],
      gModelVersionID = [], gCreatedAt = 0, gUpdatedAt = 0\<rparr>"

definition tar_upload :: "string \<Rightarrow> registration \<Rightarrow> upload_request" where
  "tar_upload tenant g = \<lparr>lTenantID = tenant, lObjectRef = gStoragePath g,
     lContentType = ''application/x-tar'', lSizeBytes = gSizeBytes g,
     lChecksumSHA256 = gChecksumSHA256 g, lTTL = 0\<rparr>"

definition upload_ticket :: "ext \<Rightarrow> storage_port \<Rightarrow> string \<Rightarrow> registration \<Rightarrow> ticket_msg wop" where
  "upload_ticket E st tenant g =
     andThen (mapErr (\<lambda>e. kerr 502 ''STORAGE_PROVIDER_ERROR'' (error_text E e))
       (lift (st_create_upload_url st (tar_upload tenant g)))) (\<lambda>u.
     andThen go_now (\<lambda>now.
       case validate_signed_url u now of
         Some e \<Rightarrow> throw (kerr 502 ''STORAGE_INVALID_URL'' (error_text E e))
       | None \<Rightarrow> ret \<lparr>tmRegistrationId = gID g, tmUploadUrl = nURL u, tmStoragePath = gStoragePath g,
                   tmExpiresAt = nExpiresAt u\<rparr>))"

definition target_model_id :: "ext \<Rightarrow> service \<Rightarrow> string \<Rightarrow> prepare_req \<Rightarrow> string wop" where
  "target_model_id E sv tenant rq =
     (if prTargetModelId rq = [] then ret []
      else andThen (resolve_model E sv tenant (prTargetModelId rq)) (\<lambda>m. ret (rID m)))"

text \<open>The registration an earlier call with the same key stored, if any.\<close>

definition frozen_registration :: "ext \<Rightarrow> string \<Rightarrow> string \<Rightarrow> registration option wop" where
  "frozen_registration E tenant key =
     inspect (on_db (reg_get_by_key E tenant key)) (\<lambda>res.
       case res of
         Inr g \<Rightarrow> ret (Some g)
       | Inl e \<Rightarrow> if err_is e ErrRegistrationNotFound then ret None
                  else throw (map_trained_registration E e))"

definition handle_prepare_trained_artifact ::
    "nat \<Rightarrow> ext \<Rightarrow> service \<Rightarrow> string \<Rightarrow> (prepare_req, world, ticket_msg option) handler" where
  "handle_prepare_trained_artifact fuel E sv fresh ctx rq =
     andThen (authorize E ctx (prTenantId rq)) (\<lambda>p.
     case (sTrained sv, sStorage sv) of
       (True, Some st) \<Rightarrow>
         (case prepare_rejects rq of Some e \<Rightarrow> throw e | None \<Rightarrow>
          andThen (target_model_id E sv (pTenantID p) rq) (\<lambda>target.
          if validate_recommended_image (prRecommendedImageId rq) (prRecommendedImageScope rq) \<noteq> None
          then throw (invalid_argument ''recommended image id and scope must be supplied together'')
          else andThen (frozen_registration E (pTenantID p) (prIdempotencyKey rq)) (\<lambda>frozen.
               andThen (resolve_trained_runtime E sv (pTenantID p) rq frozen) (\<lambda>rt.
               andThen (mapErr (map_trained_registration E) (on_db (reg_prepare fuel E
                 (requested_registration E (pTenantID p) fresh target rq rt)))) (\<lambda>made.
               case made of
                 None \<Rightarrow> ret None
               | Some g \<Rightarrow> andThen (upload_ticket E st (pTenantID p) g) (\<lambda>tk. ret (Some tk)))))))
     | _ \<Rightarrow> throw trained_missing)"

section \<open>Completing and aborting\<close>

definition complete_response :: "registration_result \<Rightarrow> complete_msg" where
  "complete_response r =
     \<lparr>ccRegistrationId = hRegistrationID r, ccModelId = hModelID r,
      ccModelVersionId = hModelVersionID r, ccModelVersionStatus = hStatus r,
      ccStoragePath = hStoragePath r, ccSizeBytes = hSizeBytes r,
      ccChecksumSha256 = hChecksumSHA256 r\<rparr>"

text \<open>\<open>Fail\<close>, its error ignored, then the error of the handler.\<close>

definition fail_and_throw :: "ext \<Rightarrow> string \<Rightarrow> string \<Rightarrow> string \<Rightarrow> gerr \<Rightarrow> 'a wop" where
  "fail_and_throw E tenant i why e =
     inspect (on_db (reg_fail E tenant i why)) (\<lambda>_. throw e)"

definition check_object :: "ext \<Rightarrow> storage_port \<Rightarrow> string \<Rightarrow> registration \<Rightarrow> unit wop" where
  "check_object E st tenant g =
     (case st_object_exists st tenant (gStoragePath g) of
        Inl e \<Rightarrow> throw (kerr 502 ''STORAGE_PROVIDER_ERROR'' (error_text E e))
      | Inr False \<Rightarrow>
          fail_and_throw E tenant (gID g) ''uploaded object was not found''
            (kerr 404 ''STORAGE_OBJECT_NOT_FOUND'' ''uploaded object was not found'')
      | Inr True \<Rightarrow>
          (case st_verify_object st of
             None \<Rightarrow> throw (kerr 503 ''STORAGE_SIZE_VERIFICATION_UNAVAILABLE''
                       ''storage adapter does not support size and digest verification'')
           | Some verify \<Rightarrow>
               (case verify tenant (gStoragePath g) (gSizeBytes g) (gChecksumSHA256 g) of
                  Inl e \<Rightarrow> throw (kerr 502 ''STORAGE_PROVIDER_ERROR'' (error_text E e))
                | Inr k \<Rightarrow>
                    if \<not> kMatches k
                    then fail_and_throw E tenant (gID g) ''uploaded object size or checksum does not match''
                           (kerr 400 ''OBJECT_INTEGRITY_MISMATCH'' ''uploaded object size or checksum does not match'')
                    else ret ())))"

definition complete_session ::
    "ext \<Rightarrow> fresh_ids \<Rightarrow> storage_port \<Rightarrow> string \<Rightarrow> registration \<Rightarrow> complete_msg wop" where
  "complete_session E ids st tenant g =
     andThen (check_object E st tenant g) (\<lambda>_.
     andThen (mapErr (map_trained_registration E) (on_db (reg_mark_uploaded E tenant (gID g)))) (\<lambda>_.
     andThen (mapErr (map_trained_registration E) (on_db (reg_complete E ids tenant (gID g)))) (\<lambda>r.
       ret (complete_response r))))"

definition handle_complete_trained_artifact ::
    "ext \<Rightarrow> service \<Rightarrow> fresh_ids \<Rightarrow> (complete_req, world, complete_msg) handler" where
  "handle_complete_trained_artifact E sv ids ctx rq =
     andThen (authorize E ctx (crTenantId rq)) (\<lambda>p.
     case (sTrained sv, sStorage sv) of
       (True, Some st) \<Rightarrow>
         andThen (mapErr (map_trained_registration E)
           (on_db (reg_get E (pTenantID p) (crRegistrationId rq)))) (\<lambda>g.
         if crIdempotencyKey rq \<noteq> [] \<and> crIdempotencyKey rq \<noteq> gIdempotencyKey g
         then throw (kerr 409 ''IDEMPOTENCY_CONFLICT'' ''idempotency_key does not match registration'')
         else if gStatus g = RegistrationReady then ret (complete_response (registration_result_of g))
         else complete_session E ids st (pTenantID p) g)
     | _ \<Rightarrow> throw trained_missing)"

definition handle_abort_trained_artifact ::
    "ext \<Rightarrow> service \<Rightarrow> (abort_req, world, unit) handler" where
  "handle_abort_trained_artifact E sv ctx rq =
     andThen (authorize E ctx (arTenantId rq)) (\<lambda>p.
     andThen (unless_configured (sTrained sv) trained_missing) (\<lambda>_.
       mapErr (map_trained_registration E)
         (on_db (reg_abort E (pTenantID p) (arRegistrationId rq) (arReason rq)))))"

section \<open>Reading a registration\<close>

definition registration_proto :: "registration \<Rightarrow> registration_msg" where
  "registration_proto g =
     \<lparr>rmRegistrationId = gID g, rmIdempotencyKey = gIdempotencyKey g,
      rmExecutionId = gExecutionID g, rmTargetModelId = gTargetModelID g,
      rmModelName = gModelName g, rmDisplayName = gDisplayName g, rmDescription = gDescription g,
      rmCapabilities = gCapabilities g, rmSourceModelVersionId = gSourceModelVersionID g,
      rmVersion = gVersion g, rmFileName = gFileName g, rmFormat = gFormat g,
      rmSizeBytes = gSizeBytes g, rmChecksumSha256 = gChecksumSHA256 g,
      rmStoragePath = gStoragePath g, rmStatus = gStatus g, rmModelId = gModelID g,
      rmModelVersionId = gModelVersionID g, rmEngineType = gEngineType g,
      rmEngineImage = gEngineImage g, rmStartupCommand = gStartupCommand g,
      rmRequestFingerprint = gRequestFingerprint g, rmErrorMessage = gErrorMessage g\<rparr>"

definition observe_object :: "storage_port option \<Rightarrow> registration \<Rightarrow> observation_msg" where
  "observe_object port g =
     (let unavailable = \<lparr>obState = StateUnavailable, obSizeBytes = 0, obSha256 = []\<rparr> in
      case port of
        None \<Rightarrow> unavailable
      | Some st \<Rightarrow>
          (case st_object_exists st (gTenantID g) (gStoragePath g) of
             Inl _ \<Rightarrow> unavailable
           | Inr False \<Rightarrow> unavailable\<lparr>obState := StateMissing\<rparr>
           | Inr True \<Rightarrow>
               (case st_verify_object st of
                  None \<Rightarrow> unavailable
                | Some verify \<Rightarrow>
                    (case verify (gTenantID g) (gStoragePath g) (gSizeBytes g) (gChecksumSHA256 g) of
                       Inl _ \<Rightarrow> unavailable
                     | Inr k \<Rightarrow> \<lparr>obState = (if kMatches k then StateVerified else StateMismatch),
                                 obSizeBytes = kSizeBytes k, obSha256 = kSHA256 k\<rparr>))))"

text \<open>The receipt check: the registration part, then the observation part.\<close>

definition receipt_registration_ok ::
    "get_registration_req \<Rightarrow> registration_msg \<Rightarrow> bool" where
  "receipt_registration_ok rq r \<longleftrightarrow>
     facts_id (grTenantId rq) \<and> grIdempotencyKey rq \<noteq> [] \<and> grExpectedExecutionId rq \<noteq> []
     \<and> grUnknown rq = [] \<and> facts_id (rmRegistrationId r)
     \<and> rmIdempotencyKey r = grIdempotencyKey rq \<and> rmExecutionId r = grExpectedExecutionId rq
     \<and> 0 < rmSizeBytes r \<and> rmFormat r = ''safetensors'' \<and> rmFileName r = ''model.tar''
     \<and> facts_path (rmStoragePath r) \<and> has_prefix (rmStoragePath r) (grTenantId rq @ ''/'')
     \<and> rmVersion r \<noteq> []
     \<and> length (rmChecksumSha256 r) = 64 \<and> list_all is_hex (rmChecksumSha256 r)
     \<and> (rmStatus r \<in> {''pending'', ''uploaded'', ''failed'', ''aborted''}
        \<or> rmStatus r = ''ready'' \<and> facts_id (rmModelId r) \<and> facts_id (rmModelVersionId r))
     \<and> (if rmTargetModelId r \<noteq> [] then facts_id (rmTargetModelId r) else rmModelName r \<noteq> [])"

definition receipt_observation_ok :: "bool \<Rightarrow> registration_msg \<Rightarrow> observation_msg \<Rightarrow> bool" where
  "receipt_observation_ok verify r ob \<longleftrightarrow>
     (if \<not> verify then obState ob = StateNotRequested \<and> obSizeBytes ob = 0 \<and> obSha256 ob = []
      else (case obState ob of
              StateMissing \<Rightarrow> obSizeBytes ob = 0 \<and> obSha256 ob = []
            | StateUnavailable \<Rightarrow> obSizeBytes ob = 0 \<and> obSha256 ob = []
            | StateVerified \<Rightarrow> obSizeBytes ob = rmSizeBytes r
                 \<and> equal_fold (obSha256 ob) (rmChecksumSha256 r)
            | StateMismatch \<Rightarrow> 0 \<le> obSizeBytes ob \<and> facts_digest (obSha256 ob)
            | StateNotRequested \<Rightarrow> False))"

definition handle_get_trained_artifact_registration ::
    "ext \<Rightarrow> service \<Rightarrow>
     (get_registration_req, world, registration_msg \<times> observation_msg) handler" where
  "handle_get_trained_artifact_registration E sv ctx rq =
     andThen (authorize E ctx (grTenantId rq)) (\<lambda>p.
     if grUnknown rq \<noteq> [] \<or> validate_key (grIdempotencyKey rq) \<noteq> None \<or> grExpectedExecutionId rq = []
     then throw (invalid_argument ''original key and expected execution are required'')
     else if \<not> sTrained sv
     then throw (kerr 503 ''MODEL_DEPENDENCY_UNAVAILABLE'' ''registration reader is not configured'')
     else andThen (mapErr (map_trained_registration E)
            (on_db (reg_get_by_key E (pTenantID p) (grIdempotencyKey rq)))) (\<lambda>g.
          if gTenantID g \<noteq> pTenantID p \<or> gIdempotencyKey g \<noteq> grIdempotencyKey rq
             \<or> gExecutionID g \<noteq> grExpectedExecutionId rq
          then throw (kerr 409 ''IDEMPOTENCY_CONFLICT'' ''original registration scope differs'')
          else
            let ob = (if grVerifyUploadedObject rq then observe_object (sStorage sv) g
                      else \<lparr>obState = StateNotRequested, obSizeBytes = 0, obSha256 = []\<rparr>);
                r = registration_proto g
            in if receipt_registration_ok rq r
                  \<and> receipt_observation_ok (grVerifyUploadedObject rq) r ob
               then ret (r, ob)
               else throw (kerr 503 ''MODEL_DEPENDENCY_UNAVAILABLE''
                      ''original registration observation failed integrity validation'')))"

definition handle_get_trained_artifact_upload_url ::
    "ext \<Rightarrow> service \<Rightarrow> (get_ticket_req, world, ticket_msg) handler" where
  "handle_get_trained_artifact_upload_url E sv ctx rq =
     andThen (authorize E ctx (gtTenantId rq)) (\<lambda>p.
     if gtUnknown rq \<noteq> [] \<or> gtRegistrationId rq = [] \<or> validate_key (gtIdempotencyKey rq) \<noteq> None
        \<or> gtExpectedExecutionId rq = [] \<or> gtExpectedStoragePath rq = []
     then throw (invalid_argument ''original registration, key, execution and path are required'')
     else case (sTrained sv, sStorage sv) of
       (True, Some st) \<Rightarrow>
         andThen (mapErr (map_trained_registration E)
           (on_db (reg_get E (pTenantID p) (gtRegistrationId rq)))) (\<lambda>g.
         if gTenantID g \<noteq> pTenantID p \<or> gID g \<noteq> gtRegistrationId rq
            \<or> gIdempotencyKey g \<noteq> gtIdempotencyKey rq \<or> gExecutionID g \<noteq> gtExpectedExecutionId rq
            \<or> gStoragePath g \<noteq> gtExpectedStoragePath rq
         then throw (kerr 409 ''IDEMPOTENCY_CONFLICT'' ''original registration scope differs'')
         else if gStatus g \<noteq> RegistrationPending
         then throw (kerr 409 ''REGISTRATION_TERMINAL'' ''original upload window is not pending'')
         else andThen go_now (\<lambda>now.
           case st_create_upload_url st (tar_upload (pTenantID p) g) of
             Inl _ \<Rightarrow> throw (kerr 503 ''MODEL_DEPENDENCY_UNAVAILABLE'' ''original upload ticket is unavailable'')
           | Inr u \<Rightarrow>
               if validate_signed_url u now \<noteq> None
               then throw (kerr 503 ''MODEL_DEPENDENCY_UNAVAILABLE'' ''original upload ticket is unavailable'')
               else ret \<lparr>tmRegistrationId = gID g, tmUploadUrl = nURL u,
                         tmStoragePath = gStoragePath g, tmExpiresAt = nExpiresAt u\<rparr>))
     | _ \<Rightarrow> throw (kerr 503 ''MODEL_DEPENDENCY_UNAVAILABLE'' ''trained artifact dependency is not configured''))"

end
