(* ===== verification/FinetuningService.thy ===== *)
theory FinetuningService
  imports TrainedService
begin

text \<open>
  Fixed facts for fine-tuning: \<open>ResolveFinetuningFacts\<close> of
  \<open>internal/biz/model/finetuning.go\<close>, the RPC of \<open>internal/service/finetuning_facts.go\<close>
  and the response's \<open>ValidateFor\<close> of \<open>api/model/v1/finetuning_facts.go\<close>. \<open>contents\<close> is
  the storage adapter's \<open>InspectFinetuningArtifact\<close>; \<open>None\<close> is an adapter without it.
\<close>

record inventory =
  nvBucket :: string
  nvKey :: string
  nvVersionID :: string
  nvSha256 :: string
  nvSizeBytes :: int
  nvFiles :: "artifact_file list"
  nvConfigJSON :: string
  nvTokenizerConfigJSON :: string
  nvWeightIndexJSON :: string

type_synonym inspector = "string \<Rightarrow> string \<Rightarrow> int \<Rightarrow> string \<Rightarrow> gerr + inventory"

record facts =
  ffVersion :: version
  ffArtifact :: inventory
  ffTargetModelID :: string
  ffNewModelName :: string

section \<open>Resolution\<close>

definition eligible_source :: "string \<Rightarrow> string \<Rightarrow> version \<Rightarrow> bool" where
  "eligible_source tenant version_id v \<longleftrightarrow> vTenantID v = tenant \<and> vID v = version_id
     \<and> deployment_input v = None \<and> vFormat v = ''safetensors'' \<and> \<not> vIsEncrypted v \<and> 0 < vSizeBytes v"

definition live_model :: "string \<Rightarrow> string \<Rightarrow> model_record \<Rightarrow> bool" where
  "live_model tenant model_id r \<longleftrightarrow> rTenantID r = tenant \<and> rID r = model_id \<and> rStatus r \<noteq> ''deleted''"

definition owned_model :: "ext \<Rightarrow> string \<Rightarrow> string \<Rightarrow> unit dbop" where
  "owned_model E tenant model_id =
     andThen (catalog_get_model E tenant model_id) (\<lambda>r.
       if live_model tenant model_id r then ret () else throw ErrFinetuningFactsUnavailable)"

definition check_target :: "ext \<Rightarrow> string \<Rightarrow> string \<Rightarrow> string \<Rightarrow> unit dbop" where
  "check_target E tenant target_id new_name =
     (if target_id \<noteq> [] then owned_model E tenant target_id
      else if new_name \<noteq> [] then
        if validate_model_name new_name \<noteq> None then throw ErrInvalidModel
        else andThen (model_name_exists E tenant new_name) (\<lambda>exists.
             if exists then throw ErrFinetuningTargetConflict else ret ())
      else ret ())"

definition resolve_finetuning_facts ::
    "ext \<Rightarrow> bool \<Rightarrow> bool \<Rightarrow> inspector option \<Rightarrow> string \<Rightarrow> string \<Rightarrow> string \<Rightarrow> string \<Rightarrow> facts dbop" where
  "resolve_finetuning_facts E has_versions has_catalog contents tenant version_id target_id new_name =
     (case contents of
        None \<Rightarrow> throw ErrFinetuningFactsUnavailable
      | Some look \<Rightarrow>
          if \<not> has_versions \<or> \<not> has_catalog \<or> tenant = [] \<or> version_id = []
             \<or> target_id \<noteq> [] \<and> new_name \<noteq> []
          then throw ErrFinetuningFactsUnavailable
          else andThen (get_finetuning_source E tenant version_id) (\<lambda>v.
            if \<not> eligible_source tenant version_id v then throw ErrModelNotReady
            else andThen (owned_model E tenant (vModelID v)) (\<lambda>_.
                 andThen (check_target E tenant target_id new_name) (\<lambda>_.
                 andThen (lift (look tenant (vArtifactReference v) (vSizeBytes v)
                    (to_lower (vArtifactSHA256 v)))) (\<lambda>inv.
                   ret \<lparr>ffVersion = v, ffArtifact = inv, ffTargetModelID = target_id,
                        ffNewModelName = new_name\<rparr>)))))"

section \<open>The RPC\<close>

datatype target = NoTarget | TargetModelId string | NewModelName string

record facts_req =
  fqTenantId :: string
  fqBaseModelVersionId :: string
  fqTarget :: target
  fqUnknown :: string

record facts_msg =
  fmTenantId :: string
  fmModelId :: string
  fmModelVersionId :: string
  fmFormat :: string
  fmBucket :: string
  fmObjectKey :: string
  fmObjectVersionId :: string
  fmSizeBytes :: int
  fmSha256 :: string
  fmConfigJson :: string
  fmTokenizerConfigJson :: string
  fmWeightIndexJson :: string
  fmVerificationSource :: string
  fmTarget :: target
  fmFiles :: "artifact_file list"

definition FinetuningVerificationSource :: string where
  "FinetuningVerificationSource = ''ani.model.finetuning.archive-sha256.v1''"

definition target_agrees :: "target \<Rightarrow> target \<Rightarrow> bool" where
  "target_agrees asked answered \<longleftrightarrow>
     (case asked of
        NoTarget \<Rightarrow> answered = NoTarget
      | TargetModelId i \<Rightarrow> facts_id i \<and> answered = TargetModelId i
      | NewModelName n \<Rightarrow> n \<noteq> [] \<and> answered = NewModelName n)"

text \<open>The files in strictly increasing order of path, each well formed.\<close>

fun files_sorted :: "string \<Rightarrow> artifact_file list \<Rightarrow> bool" where
  "files_sorted previous [] \<longleftrightarrow> True"
| "files_sorted previous (f # fs) \<longleftrightarrow>
     facts_path (fPath f) \<and> previous < fPath f \<and> 0 \<le> fSizeBytes f \<and> facts_digest (fSha256 f)
     \<and> files_sorted (fPath f) fs"

definition file_is :: "ext \<Rightarrow> artifact_file list \<Rightarrow> string \<Rightarrow> string \<Rightarrow> bool" where
  "file_is E files name raw \<longleftrightarrow>
     (case file_at files name of
        None \<Rightarrow> False
      | Some f \<Rightarrow> fSizeBytes f = int (length raw) \<and> fSha256 f = x_sha256 E raw)"

definition config_ok :: "tokenizer \<Rightarrow> string \<Rightarrow> bool" where
  "config_ok tokens_of raw \<longleftrightarrow>
     raw \<noteq> [] \<and> length raw \<le> MaxFinetuningConfigBytes \<and> facts_json_object tokens_of raw"

type_synonym weight_reader = "string \<Rightarrow> (string \<times> string) list option"

definition facts_valid :: "ext \<Rightarrow> tokenizer \<Rightarrow> weight_reader \<Rightarrow> facts_req \<Rightarrow> facts_msg \<Rightarrow> bool" where
  "facts_valid E tokens_of weight_map rq r \<longleftrightarrow>
     fqUnknown rq = [] \<and> facts_id (fqTenantId rq) \<and> facts_id (fqBaseModelVersionId rq)
     \<and> fmTenantId r = fqTenantId rq \<and> fmModelVersionId r = fqBaseModelVersionId rq
     \<and> facts_id (fmModelId r) \<and> fmFormat r = ''safetensors''
     \<and> fmVerificationSource r = FinetuningVerificationSource \<and> fmBucket r \<noteq> []
     \<and> facts_path (fmObjectKey r) \<and> has_prefix (fmObjectKey r) (fmTenantId r @ ''/'')
     \<and> fmObjectVersionId r \<noteq> [] \<and> \<not> equal_fold (fmObjectVersionId r) ''null''
     \<and> \<not> contains_any (fmObjectVersionId r) [CHR 0x00, CHR 0x0D, CHR 0x0A]
     \<and> 0 < fmSizeBytes r \<and> facts_digest (fmSha256 r)
     \<and> target_agrees (fqTarget rq) (fmTarget r)
     \<and> fmFiles r \<noteq> [] \<and> length (fmFiles r) \<le> MaxFinetuningModelFiles
     \<and> config_ok tokens_of (fmConfigJson r) \<and> config_ok tokens_of (fmTokenizerConfigJson r)
     \<and> files_sorted [] (fmFiles r)
     \<and> file_is E (fmFiles r) ''config.json'' (fmConfigJson r)
     \<and> file_is E (fmFiles r) ''tokenizer_config.json'' (fmTokenizerConfigJson r)
     \<and> inspect_weight_layout E tokens_of weight_map (fmFiles r) (fmWeightIndexJson r) \<noteq> None"

definition map_facts_error :: "gerr \<Rightarrow> gerr" where
  "map_facts_error e =
     (case as_limit e of
        Some (reason, limit_name, actual, limit) \<Rightarrow>
          KError 422 reason ''model content or structure exceeds explicit bound''
            [(''kind'', ''base_model''), (''limit_name'', limit_name), (''actual'', int_dec actual),
             (''limit'', int_dec limit)]
      | None \<Rightarrow>
          if err_is e Canceled then kerr 499 ''CANCELED'' ''model facts read was canceled''
          else if err_is e DeadlineExceeded
          then kerr 504 ''DEADLINE_EXCEEDED'' ''model facts read deadline exceeded''
          else if err_is e ErrFinetuningSourceForbidden
          then kerr 403 ''MODEL_SOURCE_FORBIDDEN'' ''source access denied''
          else if err_is e ErrNoRows
          then kerr 404 ''MODEL_SOURCE_NOT_FOUND'' ''source version is not visible in the tenant catalogue''
          else if err_is e ErrFinetuningBaseInvalid
          then kerr 422 ''BASE_MODEL_INVALID'' ''model archive or weight layout is invalid''
          else if err_is e ErrFinetuningTargetConflict
          then kerr 409 ''MODEL_NAME_CONFLICT'' ''target model name is already used''
          else if err_is e ErrInvalidModel then kerr 400 ''INVALID_ARGUMENT'' ''invalid model name''
          else if err_is e ErrModelNotReady
          then kerr 409 ''MODEL_NOT_READY'' ''base version is not an eligible READY safetensors archive''
          else kerr 503 ''MODEL_DEPENDENCY_UNAVAILABLE'' ''fixed source and target facts could not be verified'')"

text \<open>The target of the request: its model identifier in canonical form, or its new name.\<close>

definition request_target :: "ext \<Rightarrow> target \<Rightarrow> gerr + target" where
  "request_target E t =
     (case t of
        NoTarget \<Rightarrow> Inr NoTarget
      | TargetModelId s \<Rightarrow>
          if s = [] then Inl (invalid_argument ''target model must not be empty'')
          else (case x_uuid_parse E s of
                  Inl _ \<Rightarrow> Inl (invalid_argument ''target must be an internal model UUID'')
                | Inr i \<Rightarrow> if i = 0 then Inl (invalid_argument ''target must be an internal model UUID'')
                           else Inr (TargetModelId (x_uuid_string E i)))
      | NewModelName n \<Rightarrow>
          if n = [] then Inl (invalid_argument ''new model name must not be empty'') else Inr t)"

definition facts_response :: "string \<Rightarrow> facts \<Rightarrow> facts_msg" where
  "facts_response tenant f =
     (let v = ffVersion f; a = ffArtifact f in
      \<lparr>fmTenantId = tenant, fmModelId = vModelID v, fmModelVersionId = vID v, fmFormat = vFormat v,
       fmBucket = nvBucket a, fmObjectKey = nvKey a, fmObjectVersionId = nvVersionID a,
       fmSizeBytes = nvSizeBytes a, fmSha256 = nvSha256 a, fmConfigJson = nvConfigJSON a,
       fmTokenizerConfigJson = nvTokenizerConfigJSON a, fmWeightIndexJson = nvWeightIndexJSON a,
       fmVerificationSource = FinetuningVerificationSource,
       fmTarget = (if ffTargetModelID f \<noteq> [] then TargetModelId (ffTargetModelID f)
                   else if ffNewModelName f \<noteq> [] then NewModelName (ffNewModelName f) else NoTarget),
       fmFiles = nvFiles a\<rparr>)"

definition handle_resolve_finetuning_facts ::
    "ext \<Rightarrow> service \<Rightarrow> inspector option \<Rightarrow> tokenizer \<Rightarrow> weight_reader \<Rightarrow>
     (facts_req, world, facts_msg) handler" where
  "handle_resolve_finetuning_facts E sv contents tokens_of weight_map ctx rq =
     andThen (authorize E ctx (fqTenantId rq)) (\<lambda>p.
     if fqUnknown rq \<noteq> [] then throw (invalid_argument ''unknown source request fields'')
     else case x_uuid_parse E (fqBaseModelVersionId rq) of
       Inl _ \<Rightarrow> throw (invalid_argument ''one fixed base version is required'')
     | Inr ver \<Rightarrow>
         if ver = 0 then throw (invalid_argument ''one fixed base version is required'')
         else andThen (lift (request_target E (fqTarget rq))) (\<lambda>tgt.
           let version_id = x_uuid_string E ver;
               target_id = (case tgt of TargetModelId i \<Rightarrow> i | _ \<Rightarrow> []);
               new_name = (case tgt of NewModelName n \<Rightarrow> n | _ \<Rightarrow> [])
           in andThen (mapErr map_facts_error (on_db (resolve_finetuning_facts E (sReader sv)
                (sCatalog sv) contents (pTenantID p) version_id target_id new_name))) (\<lambda>f.
              let out = facts_response (pTenantID p) f;
                  normalized = \<lparr>fqTenantId = pTenantID p, fqBaseModelVersionId = version_id,
                                fqTarget = tgt, fqUnknown = []\<rparr>
              in if facts_valid E tokens_of weight_map normalized out then ret out
                 else throw (kerr 422 ''BASE_MODEL_INVALID''
                        ''source archive members failed integrity validation''))))"

end
