(* ===== verification/StoreRuns.thy ===== *)
theory StoreRuns
  imports RegistrationFlow DeletionStore
begin

text \<open>
  Runs of the stores: \<open>tenant_step E a\<close> is one call, on behalf of tenant \<open>a\<close>, of a method
  that may write (each method of \<open>internal/data/postgres\<close> has its rule), \<open>store_step\<close> is a
  call of any tenant, a call that only reads, or time passing and the connection changing
  its mood. What holds of every step holds of every run, by rule induction.
\<close>

inductive tenant_step :: "ext \<Rightarrow> string \<Rightarrow> db \<Rightarrow> db \<Rightarrow> bool" for E a where
  task_created: "wTenantID t = a \<Longrightarrow> tenant_step E a s (snd (work_create E t s))"
| task_retried: "tenant_step E a s (snd (work_retry_failed E a b s))"
| task_claimed: "tenant_step E a s (snd (work_claim E a b owner lease s))"
| task_renewed: "tenant_step E a s (snd (work_renew E a b owner epoch lease s))"
| task_bound: "tenant_step E a s (snd (work_bind E a b owner epoch x y s))"
| task_completed: "tenant_step E a s (snd (work_complete E a b owner epoch s))"
| task_deferred: "tenant_step E a s (snd (work_retry E a b owner epoch after msg s))"
| task_failed: "tenant_step E a s (snd (work_fail E a b owner epoch msg s))"
| version_created: "tenant_step E a s (snd (create_version E (v\<lparr>vTenantID := a\<rparr>) s))"
| version_ready: "tenant_step E a s (snd (mark_ready E a b s))"
| version_error: "tenant_step E a s (snd (mark_error E a b msg s))"
| import_error: "tenant_step E a s (snd (mark_error_and_maybe_model E a tk b owner epoch msg s))"
| checksum_set: "tenant_step E a s (snd (set_checksum E a b chk sz s))"
| model_created: "tenant_step E a s (snd (catalog_create_model E a b n d ds src caps key s))"
| named_model_created:
    "tenant_step E a s (snd (catalog_create_model_with_external_id E a b x n d ds src caps key s))"
| artifact_created: "aTenantID art = a \<Longrightarrow> tenant_step E a s (snd (create_artifact E art s))"
| audited: "eTenantID e = a \<Longrightarrow> tenant_step E a s (snd (audit_insert E fresh e s))"
| bundle_imported: "bTenantID bn = a \<Longrightarrow> tenant_step E a s (snd (import_bundle E bids bn s))"
| reg_prepared: "gTenantID g = a \<Longrightarrow> tenant_step E a s (snd (reg_prepare n E g s))"
| reg_uploaded: "tenant_step E a s (snd (reg_mark_uploaded E a b s))"
| reg_completed: "tenant_step E a s (snd (reg_complete E ids a b s))"
| reg_failed: "tenant_step E a s (snd (reg_fail E a b msg s))"
| reg_aborted: "tenant_step E a s (snd (reg_abort E a b msg s))"
| model_deleted: "tenant_step E a s (snd (delete_model E a sel refs s))"
| version_deleted: "tenant_step E a s (snd (delete_version E a ver refs s))"

inductive store_step :: "ext \<Rightarrow> db \<Rightarrow> db \<Rightarrow> bool" for E where
  called: "tenant_step E a s t \<Longrightarrow> store_step E s t"
| passed: "clock s \<le> c \<Longrightarrow> store_step E s (s\<lparr>clock := c, script := l\<rparr>)"

inductive store_run :: "ext \<Rightarrow> db \<Rightarrow> db \<Rightarrow> bool" for E where
  here: "store_run E s s"
| onward: "store_run E s t \<Longrightarrow> store_step E t u \<Longrightarrow> store_run E s u"

inductive_cases store_stepE: "store_step E s t"

lemmas store_so = so_work so_version so_catalog so_bundle so_prepare so_registration so_deletion

lemma tenant_step_sound: "tenant_step E a s t \<Longrightarrow> sound s t"
  by (induction rule: tenant_step.induct) (use store_so in \<open>simp_all add: steps_in_def\<close>)

lemma store_step_sound: "store_step E s t \<Longrightarrow> sound s t"
  by (elim store_stepE) (auto intro: tenant_step_sound so.R_time)

lemma store_run_sound: "store_run E s t \<Longrightarrow> sound s t"
  by (induction rule: store_run.induct) (blast intro: so.R_refl so.R_trans store_step_sound)+

lemma fr_create_version:
  "x_uuid_parse E a = Inr tn \<Longrightarrow> frame tn s (snd (create_version E (v\<lparr>vTenantID := a\<rparr>) s))"
  using fr_version(2) by (simp add: steps_in_def)

lemma tenant_step_frame:
  assumes "x_uuid_parse E a = Inr tn" and "tenant_step E a s t"
  shows "frame tn s t"
  using assms(2)
  by (induction rule: tenant_step.induct)
     (use fr_work [OF assms(1)] fr_version [OF assms(1)] fr_catalog [OF assms(1)]
        fr_registration [OF assms(1)] fr_deletion [OF assms(1)] fr_bundle fr_prepare fr_artifact
        fr_audit assms(1) in \<open>simp_all add: steps_in_def\<close>)

lemma store_run_trans: "store_run E s t \<Longrightarrow> store_run E t u \<Longrightarrow> store_run E s u"
  by (rotate_tac, induction rule: store_run.induct) (blast intro: store_run.intros)+

lemma empty_tables_ok:
  "models s = [] \<Longrightarrow> versions s = [] \<Longrightarrow> artifacts s = [] \<Longrightarrow> tasks s = [] \<Longrightarrow> audits s = [] \<Longrightarrow>
   regs s = [] \<Longrightarrow> db_ok s"
  by (simp add: db_ok_def models_ok_def versions_ok_def artifacts_ok_def tasks_ok_def audits_ok_def
      regs_ok_def)

text \<open>The states a deployment can be in: those reached from empty tables.\<close>

definition fresh_db :: "db \<Rightarrow> bool" where
  "fresh_db s \<longleftrightarrow> models s = [] \<and> versions s = [] \<and> artifacts s = [] \<and> tasks s = [] \<and> audits s = []
     \<and> regs s = []"

definition reachable :: "ext \<Rightarrow> db \<Rightarrow> bool" where
  "reachable E t \<longleftrightarrow> (\<exists>s. fresh_db s \<and> store_run E s t)"

lemma reachable_ok: "reachable E t \<Longrightarrow> db_ok t"
  unfolding reachable_def fresh_db_def by (blast intro: empty_tables_ok sound_ok store_run_sound)

lemma reachable_run: "reachable E s \<Longrightarrow> store_run E s t \<Longrightarrow> reachable E t"
  unfolding reachable_def by (blast intro: store_run_trans)

lemma reachable_claim: "reachable E s \<Longrightarrow> reachable E (snd (work_claim E a b owner lease s))"
  by (rule reachable_run [OF _ onward [OF here called [OF task_claimed]]])

lemma run_evolves: "reachable E s \<Longrightarrow> store_run E s t \<Longrightarrow> evolves s t"
  using reachable_ok store_run_sound by (auto simp: sound_def)

lemma run_row:
  assumes "grows P xs ys" and "x \<in> set xs"
  obtains y where "y \<in> set ys" and "P x y"
proof -
  from assms(2) obtain k where "k < length xs" and "xs ! k = x"
    by (auto simp: in_set_conv_nth)
  with assms(1) have "k < length ys" and "P x (ys ! k)" by (auto simp: grows_def)
  then show ?thesis using that nth_mem by blast
qed

text \<open>Of two successful claims of a task, the later one has the higher epoch.\<close>

lemma later_claim_epoch:
  assumes reach: "reachable E s1" and E: "x_uuid_parse E a = Inr tn" "x_uuid_parse E b = Inr i"
    and c1: "work_claim E a b w1 l1 s = (Inr k1, s1)" and run: "store_run E s1 s2"
    and c2: "work_claim E a b w2 l2 s2 = (Inr k2, s3)"
  shows "wLeaseEpoch k1 < wLeaseEpoch k2"
proof -
  from c1 E obtain r where r: "claimed_row w1 (microseconds l1) (clock s1) r \<in> set (tasks s1)"
    "t_tenant_id r = tn" "t_id r = i" "wLeaseEpoch k1 = t_lease_epoch r + 1"
    by (rule work_claim_Inr)
  from c2 E obtain q where q: "q \<in> set (tasks s2)" "t_tenant_id q = tn" "t_id q = i"
    "wLeaseEpoch k2 = t_lease_epoch q + 1"
    by (rule work_claim_Inr)
  from run_evolves [OF reach run] have "grows task_evolves (tasks s1) (tasks s2)"
    by (simp add: evolves_def)
  then obtain p where p: "p \<in> set (tasks s2)"
    "task_evolves (claimed_row w1 (microseconds l1) (clock s1) r) p"
    using r(1) by (rule run_row)
  then have "task_key p = task_key q" and "wLeaseEpoch k1 \<le> t_lease_epoch p"
    using r q by (simp_all add: task_evolves_def claimed_row_def task_key_def)
  moreover have "distinct (map task_key (tasks s2))"
    using reachable_ok [OF reachable_run [OF reach run]] by (simp add: db_ok_def tasks_ok_def)
  ultimately show ?thesis
    using distinct_key_eq [of task_key] p(1) q(1,4) by (metis zle_add1_eq_le)
qed

section \<open>Sample runs\<close>

text \<open>A deployment that imported a bundle; one that registered a trained artifact; and the first
  with its import task claimed by a worker.\<close>

definition imported_db :: db where
  "imported_db = snd (import_bundle sample_ext sample_ids sample_bundle empty_db)"

definition ready_db :: db where
  "ready_db = snd (reg_complete sample_ext sample_fresh ''u1'' ''u11111''
     (snd (reg_prepare 1 sample_ext sample_registration empty_db)))"

definition sample_claim :: "string \<Rightarrow> db \<Rightarrow> (gerr + task) \<times> db" where
  "sample_claim w = work_claim sample_ext ''u1'' ''u111111111'' w 60000000000"

definition claimed_db :: db where
  "claimed_db = snd (sample_claim ''w1'' imported_db)"

definition expired_db :: db where
  "expired_db = claimed_db\<lparr>clock := 61000010, script := []\<rparr>"

lemma fresh_empty: "fresh_db empty_db"
  by (simp add: fresh_db_def empty_db_def)

lemma imported_reachable: "reachable sample_ext imported_db"
  unfolding reachable_def imported_db_def
  by (rule exI [of _ empty_db], rule conjI [OF fresh_empty],
      rule onward [OF here called [OF bundle_imported [of _ "''u1''"]]]) (simp add: sample_bundle_def)

lemma ready_reachable: "reachable sample_ext ready_db"
proof -
  have tenant: "gTenantID sample_registration = ''u1''" by code_simp
  show ?thesis
    unfolding reachable_def ready_db_def
    by (rule exI [of _ empty_db], rule conjI [OF fresh_empty],
        rule onward [OF onward [OF here called [OF reg_prepared [of _ "''u1''"]]] called [OF reg_completed]])
       (rule tenant)
qed

lemma sample_reg_id: "x_uuid_parse sample_ext ''u1'' = Inr 1" "x_uuid_parse sample_ext ''u111111111'' = Inr 9"
  by simp_all

lemma claimed_run: "store_run sample_ext imported_db claimed_db"
  unfolding claimed_db_def sample_claim_def by (rule onward [OF here called [OF task_claimed]])

lemma expired_run: "store_run sample_ext claimed_db expired_db"
proof -
  have "clock claimed_db \<le> 61000010" by code_simp
  then show ?thesis unfolding expired_db_def by (rule onward [OF here passed])
qed

lemma sample_claims:
  "\<not> isl (fst (sample_claim ''w1'' imported_db))" "\<not> isl (fst (sample_claim ''w2'' expired_db))"
  by code_simp+

end
