(* ===== verification/ServiceRuns.thy ===== *)
theory ServiceRuns
  imports FinetuningService StoreRuns
begin

text \<open>
  Every RPC handler is a sequence of store calls made for the tenant of its principal:
  \<open>tenant_run E a\<close> is such a sequence, and the locale \<open>world_relation\<close> carries a relation on
  the database through the steps a handler is built from. The read-only handlers are shown
  to leave every table as it is by the same rules over another relation.
\<close>

section \<open>Relations on the database, seen from a handler\<close>

definition lifted :: "(db \<Rightarrow> db \<Rightarrow> bool) \<Rightarrow> world \<Rightarrow> world \<Rightarrow> bool" where
  "lifted R w u \<longleftrightarrow> R (w_db w) (w_db u)"

locale world_relation = state_preorder R for R :: "db \<Rightarrow> db \<Rightarrow> bool"

sublocale world_relation \<subseteq> wd: state_preorder "lifted R"
  by unfold_locales (auto simp: lifted_def intro: R_refl R_trans)

context world_relation
begin

lemma steps_on_db: "steps_in R m \<Longrightarrow> steps_in (lifted R) (on_db m)"
  by (auto simp: steps_in_def lifted_def on_db_def split: prod.splits dest: spec [where P = "\<lambda>s. R s _"])
     (metis snd_conv)

lemma steps_go_now: "steps_in (lifted R) go_now"
  by (simp add: steps_in_def lifted_def go_now_def R_refl)

lemma steps_notify: "steps_in (lifted R) (notify sv)"
  by (simp add: steps_in_def lifted_def notify_def R_refl)

lemma steps_unless: "steps_in (lifted R) (unless_configured c e)"
  unfolding unless_configured_def by (intro steps_intros wd.steps_basic)

text \<open>What follows the authorization runs with the principal of the call.\<close>

lemma steps_authorized:
  assumes "\<And>p. c_principal ctx = Some p \<Longrightarrow> steps_in (lifted R) (f p)"
  shows "steps_in (lifted R) (andThen (authorize E ctx t) f)"
proof (rule steps_inI)
  fix w
  show "lifted R w (snd (andThen (authorize E ctx t) f w))"
  proof (cases "require_tenant ctx t")
    case (Inl e)
    then show ?thesis by (simp add: authorize_def andThen_def mapErr_def wd.R_refl)
  next
    case (Inr p)
    then have "c_principal ctx = Some p"
      by (auto simp: require_tenant_def from_context_def split: option.splits if_splits)
    then have "steps_in (lifted R) (f p)" by (rule assms)
    then show ?thesis using Inr by (simp add: authorize_def andThen_def mapErr_def steps_in_def)
  qed
qed

lemmas steps_handler = wd.steps_basic steps_go_now steps_notify steps_unless steps_authorized

end

section \<open>Reading\<close>

lemmas reading_defs = catalog_get_model_def catalog_get_model_by_external_id_def
  catalog_list_models_page_def store_get_model_def store_get_model_by_external_id_def
  store_list_models_page_def store_list_models_def store_count_models_def with_latest_versions_def
  get_version_def get_version_by_external_ref_def get_finetuning_source_def list_versions_page_def
  list_model_operations_def model_name_exists_def work_get_def reg_get_def reg_get_by_key_def
  sqlRegById_def sqlRegByKey_def

context db_relation
begin

lemma steps_reads:
  "steps_in R (catalog_get_model E a b)"
  "steps_in R (catalog_get_model_by_external_id E a x)"
  "steps_in R (catalog_list_models_page E a o1)"
  "steps_in R (get_version E a b)"
  "steps_in R (get_version_by_external_ref E a x ver)"
  "steps_in R (get_finetuning_source E a b)"
  "steps_in R (list_versions_page E a b o1)"
  "steps_in R (list_model_operations E a b oa)"
  "steps_in R (model_name_exists E a n)"
  "steps_in R (work_get E a b)"
  "steps_in R (reg_get E a b)"
  "steps_in R (reg_get_by_key E a key)"
  unfolding reading_defs Let_def
  by (intro steps_db sql_reads steps_intros)+

end

definition unchanged :: "db \<Rightarrow> db \<Rightarrow> bool" where
  "unchanged s t \<longleftrightarrow> same_tables s t \<and> clock s \<le> clock t"

interpretation un: db_relation unchanged
  by unfold_locales (auto simp: unchanged_def same_tables_def)

interpretation uw: world_relation unchanged
  by unfold_locales

section \<open>A tenant's calls\<close>

inductive tenant_run :: "ext \<Rightarrow> string \<Rightarrow> db \<Rightarrow> db \<Rightarrow> bool" for E a where
  idle: "tenant_run E a s s"
| moved: "tenant_run E a s t \<Longrightarrow> tenant_step E a t u \<Longrightarrow> tenant_run E a s u"
| waited: "tenant_run E a s t \<Longrightarrow> clock t \<le> c \<Longrightarrow> tenant_run E a s (t\<lparr>clock := c, script := l\<rparr>)"

lemma tenant_run_trans: "tenant_run E a s t \<Longrightarrow> tenant_run E a t u \<Longrightarrow> tenant_run E a s u"
  by (rotate_tac, induction rule: tenant_run.induct) (blast intro: tenant_run.intros)+

interpretation tr: world_relation "tenant_run E a"
  by unfold_locales (blast intro: idle tenant_run_trans)+

lemma tenant_run_store: "tenant_run E a s t \<Longrightarrow> store_run E s t"
  by (induction rule: tenant_run.induct) (blast intro: store_run.intros called passed)+

lemma tenant_run_frame:
  assumes "x_uuid_parse E a = Inr tn" and "tenant_run E a s t"
  shows "frame tn s t"
  using assms(2)
proof (induction rule: tenant_run.induct)
  case (idle s)
  show ?case by (rule fr.R_refl)
next
  case (moved s t u)
  then show ?case using tenant_step_frame [OF assms(1)] fr.R_trans by blast
next
  case (waited s t c l)
  then show ?case using fr.R_time fr.R_trans by blast
qed

lemma unchanged_run:
  assumes "unchanged s t"
  shows "tenant_run E a s t"
proof -
  from assms have "t = s\<lparr>clock := clock t, script := script t\<rparr>" and "clock s \<le> clock t"
    by (simp_all add: unchanged_def same_tables_def)
  then show ?thesis by (metis idle waited)
qed

lemma tr_unchanged: "steps_in unchanged m \<Longrightarrow> steps_in (tenant_run E a) m"
  by (simp add: steps_in_def unchanged_run)

lemma tr_step: "(\<And>s. tenant_step E a s (snd (m s))) \<Longrightarrow> steps_in (tenant_run E a) m"
  by (rule steps_inI) (blast intro: idle moved)

lemmas tr_reads = un.steps_reads [THEN tr_unchanged]

lemma tr_writes:
  "wTenantID t = a \<Longrightarrow> steps_in (tenant_run E a) (work_create E t)"
  "steps_in (tenant_run E a) (work_retry_failed E a b)"
  "vTenantID v = a \<Longrightarrow> steps_in (tenant_run E a) (create_version E v)"
  "steps_in (tenant_run E a) (mark_ready E a b)"
  "steps_in (tenant_run E a) (catalog_create_model_with_external_id E a b x n d ds src caps key)"
  "aTenantID art = a \<Longrightarrow> steps_in (tenant_run E a) (create_artifact E art)"
  "eTenantID e = a \<Longrightarrow> steps_in (tenant_run E a) (audit_insert E fresh e)"
  "bTenantID bn = a \<Longrightarrow> steps_in (tenant_run E a) (import_bundle E bids bn)"
  "gTenantID g = a \<Longrightarrow> steps_in (tenant_run E a) (reg_prepare fuel E g)"
  "steps_in (tenant_run E a) (reg_mark_uploaded E a b)"
  "steps_in (tenant_run E a) (reg_complete E ids a b)"
  "steps_in (tenant_run E a) (reg_fail E a b msg)"
  "steps_in (tenant_run E a) (reg_abort E a b msg)"
  "steps_in (tenant_run E a) (delete_model E a sel refs)"
  "steps_in (tenant_run E a) (delete_version E a ver refs)"
  using version_created [of E a _ v]
  by (auto intro!: tr_step intro: tenant_step.intros)

section \<open>The handlers\<close>

lemma tr_audit:
  "steps_in (lifted (tenant_run E (pTenantID p))) (record_audit E sv ev p ac bf af tk m1 v1)"
  unfolding record_audit_def
  by (intro steps_intros tr.steps_handler tr.steps_on_db tr_writes; simp)

lemma tr_resolve: "steps_in (lifted (tenant_run E a)) (resolve_model E sv a sel)"
  unfolding resolve_model_def
  by (intro steps_intros tr.steps_handler tr.steps_on_db tr_reads)

text \<open>The principal of the call, if it has one, is of tenant \<open>a\<close>.\<close>

definition acts_for :: "call \<Rightarrow> string \<Rightarrow> bool" where
  "acts_for ctx a \<longleftrightarrow> (case c_principal ctx of None \<Rightarrow> True | Some p \<Rightarrow> pTenantID p = a)"

lemma tr_authorized:
  assumes "acts_for ctx a" and "\<And>p. steps_in (lifted (tenant_run E (pTenantID p))) (f p)"
  shows "steps_in (lifted (tenant_run E a)) (andThen (authorize E ctx t) f)"
  by (rule tr.steps_authorized) (use assms in \<open>auto simp: acts_for_def\<close>)

lemmas handler_parts = finalize_upload_def audited_version_def
  import_model_id_def read_task_def task_id_ok_def upload_ticket_def
  target_model_id_def frozen_registration_def runtime_source_def resolve_trained_runtime_def
  check_object_def fail_and_throw_def complete_session_def

lemma requested_tenant [simp]:
  "vTenantID (requested_version rq9 a fresh m) = a"
  "bTenantID (bundle_of_request a rq13) = a"
  "gTenantID (requested_registration E a fresh target rq15 rt) = a"
  by (simp_all add: requested_version_def bundle_of_request_def requested_registration_def Let_def)

lemmas tr_intros = tr_authorized steps_intros tr.wd.steps_basic tr.steps_go_now tr.steps_notify
  tr.steps_unless tr.steps_on_db tr_reads tr_writes tr_audit tr_resolve

lemma tr_model_handlers:
  assumes "acts_for ctx a"
  shows "steps_in (lifted (tenant_run E a)) (handle_create_model E sv fresh ev ctx rq1)"
    and "steps_in (lifted (tenant_run E a)) (handle_get_model E sv ctx rq2)"
    and "steps_in (lifted (tenant_run E a)) (handle_list_models E sv ctx rq3)"
    and "steps_in (lifted (tenant_run E a)) (handle_search_external_models E sv ctx rq4)"
    and "steps_in (lifted (tenant_run E a)) (handle_delete_model E sv ctx rq2)"
    and "steps_in (lifted (tenant_run E a)) (handle_delete_model_version E sv ctx rq5)"
    and "steps_in (lifted (tenant_run E a)) (handle_list_model_operations E sv ctx rq6)"
  unfolding handle_create_model_def handle_get_model_def handle_list_models_def
    handle_search_external_models_def handle_delete_model_def handle_delete_model_version_def
    handle_list_model_operations_def Let_def
  by (intro tr_intros assms; simp)+

lemma select_version_reads:
  "select_version E a rq = Inr q \<Longrightarrow> steps_in unchanged q"
  by (auto simp: select_version_def un.steps_reads split: if_splits)

text \<open>\<open>GetModelVersion\<close> and \<open>GetModelDownloadURL\<close> change no table at all.\<close>

lemma un_resolve: "steps_in (lifted unchanged) (resolve_model E sv a sel)"
  unfolding resolve_model_def
  by (intro steps_intros uw.steps_handler uw.steps_on_db un.steps_reads)

lemma un_selected:
  "steps_in (lifted unchanged) (andThen (lift (select_version E a rq)) (\<lambda>q.
     andThen (mapErr h (on_db q)) (\<lambda>v. andThen (deployable E v) (f v))))"
  if "\<And>v x. steps_in (lifted unchanged) (f v x)"
proof (cases "select_version E a rq")
  case (Inl e)
  then show ?thesis by (simp add: steps_in_def andThen_def lifted_def un.R_refl)
next
  case (Inr q)
  then have "steps_in (lifted unchanged) (andThen (mapErr h (on_db q)) (\<lambda>v. andThen (deployable E v) (f v)))"
    unfolding deployable_def
    by (intro uw.steps_handler uw.steps_on_db steps_intros that select_version_reads)
  then show ?thesis using Inr by (simp add: steps_in_def andThen_def)
qed

lemma un_authorize: "steps_in (lifted unchanged) (authorize E ctx t)"
  unfolding authorize_def by (intro steps_intros uw.steps_handler)

lemma un_deployable: "steps_in (lifted unchanged) (deployable E v)"
  unfolding deployable_def by (intro steps_intros uw.steps_handler)

lemma un_handlers:
  "steps_in (lifted unchanged) (handle_get_model E sv ctx rq2)"
  "steps_in (lifted unchanged) (handle_get_model_version E sv ctx rq7)"
  "steps_in (lifted unchanged) (handle_get_model_download_url E sv ctx rq8)"
  unfolding handle_get_model_def handle_get_model_version_def handle_get_model_download_url_def
  by (intro un_selected un_authorize un_deployable uw.wd.steps_basic uw.steps_go_now
      uw.steps_unless uw.steps_on_db un.steps_reads un_resolve steps_intros)+

lemma tr_of_unchanged:
  "steps_in (lifted unchanged) m \<Longrightarrow> steps_in (lifted (tenant_run E a)) m"
  by (simp add: steps_in_def lifted_def unchanged_run)

lemma tr_version_handlers:
  assumes "acts_for ctx a"
  shows "steps_in (lifted (tenant_run E a)) (handle_create_model_version E sv fresh fa ev ctx rq9)"
    and "steps_in (lifted (tenant_run E a)) (handle_list_model_versions E sv ctx rq10)"
    and "steps_in (lifted (tenant_run E a)) (handle_get_upload_url E sv fresh ctx rq11)"
    and "steps_in (lifted (tenant_run E a)) (handle_import_model E sv fresh ev ctx rq12)"
    and "steps_in (lifted (tenant_run E a)) (handle_import_model_bundle E sv ids ev ctx rq13)"
    and "steps_in (lifted (tenant_run E a)) (handle_get_import_task E sv ctx rq14)"
    and "steps_in (lifted (tenant_run E a)) (handle_get_import_task_logs E sv ctx rq14)"
    and "steps_in (lifted (tenant_run E a)) (handle_retry_import_task E sv ev ctx rq14)"
  unfolding handle_create_model_version_def handle_list_model_versions_def
    handle_get_upload_url_def handle_import_model_def handle_import_model_bundle_def
    handle_get_import_task_def handle_get_import_task_logs_def handle_retry_import_task_def
    handler_parts Let_def
  by (intro tr_intros assms; simp)+

lemma un_facts: "steps_in unchanged (resolve_finetuning_facts E hv hc look tn ver tgt nm)"
  unfolding resolve_finetuning_facts_def owned_model_def check_target_def
  by (intro un.steps_basic un.steps_reads steps_intros)+

lemma tr_trained_handlers:
  assumes "acts_for ctx a"
  shows "steps_in (lifted (tenant_run E a)) (handle_prepare_trained_artifact n E sv fresh ctx rq15)"
    and "steps_in (lifted (tenant_run E a)) (handle_complete_trained_artifact E sv fids ctx rq16)"
    and "steps_in (lifted (tenant_run E a)) (handle_abort_trained_artifact E sv ctx rq17)"
    and "steps_in (lifted (tenant_run E a)) (handle_get_trained_artifact_registration E sv ctx rq18)"
    and "steps_in (lifted (tenant_run E a)) (handle_get_trained_artifact_upload_url E sv ctx rq19)"
    and "steps_in (lifted (tenant_run E a)) (handle_resolve_finetuning_facts E sv look tk wm ctx rq20)"
  unfolding handle_prepare_trained_artifact_def handle_complete_trained_artifact_def
    handle_abort_trained_artifact_def handle_get_trained_artifact_registration_def
    handle_get_trained_artifact_upload_url_def handle_resolve_finetuning_facts_def
    handler_parts Let_def
  by (intro tr_intros un_facts [THEN tr_unchanged] assms; simp)+

end
