(* ===== verification/VersionViews.thy ===== *)
theory VersionViews
  imports ServiceRuns
begin

text \<open>
  Which operations can add to or take from the versions with a given property: the locale
  \<open>version_view\<close> fixes a property of version rows and relates two states when the same
  versions have it. It is interpreted for encrypted versions, which no operation of the
  service touches, and for ready versions, which only the finishing steps of an upload
  change.
\<close>

locale version_view =
  fixes P :: "version_row \<Rightarrow> bool"
begin

definition kept :: "db \<Rightarrow> db \<Rightarrow> bool" where
  "kept s t \<longleftrightarrow> clock s \<le> clock t
     \<and> map version_key (filter P (versions t)) = map version_key (filter P (versions s))"

lemma kept_ins_version: "(\<And>c. \<not> P (mk c)) \<Longrightarrow> steps_in kept (ins_version mk)"
  by (rule steps_inI) (simp add: ins_version_def Let_def kept_def split: option.split)

lemma filter_upd_same:
  "(\<And>r. hit r \<Longrightarrow> P (f r) = P r \<and> version_key (f r) = version_key r) \<Longrightarrow>
   map version_key (filter P (upd_rows hit f rows)) = map version_key (filter P rows)"
  by (induction rows) (auto simp: upd_rows_def)

lemma kept_upd_versions:
  "(\<And>s c r. hit s r \<Longrightarrow> P (f c r) = P r \<and> version_key (f c r) = version_key r) \<Longrightarrow>
   steps_in kept (upd_versions hit f)"
  by (rule steps_inI) (simp add: upd_versions_def kept_def filter_upd_same)

lemma kept_other_tables:
  "steps_in kept (ins_model mk1)" "steps_in kept (ins_artifact mk2)" "steps_in kept (ins_task mk3)"
  "steps_in kept (ins_audit mk4)" "steps_in kept (ins_reg mk5)" "steps_in kept (upd_models bad1 hit1 f1)"
  "steps_in kept (upd_tasks bad2 hit2 f2)" "steps_in kept (upd_regs hit3 f3)"
  by (rule steps_inI; simp add: ins_model_def ins_artifact_def ins_task_def ins_audit_def ins_reg_def
      upd_models_def upd_tasks_def upd_regs_def Let_def kept_def split: option.split)+

end

sublocale version_view \<subseteq> kv: db_relation kept
  by unfold_locales (auto simp: kept_def)

sublocale version_view \<subseteq> kw: world_relation kept
  by unfold_locales

context version_view
begin

lemmas steps_kept = kv.steps_db kv.sql_reads kept_other_tables

lemma kept_inserts:
  assumes "\<And>v. v_status v = ''pending'' \<Longrightarrow> \<not> v_is_encrypted v \<Longrightarrow> \<not> P v"
  shows "steps_in kept (sqlCreateModelVersion E tn i mid ver fmt False algo hint sz chk eng img rid rs cmd args key fp)"
    and "steps_in kept (sqlCreateBundleVersion E tn i mid ver fmt eng img rid rs cmd args key fp)"
    and "steps_in kept (sqlInsertRegVersion tn i mid g)"
  unfolding sqlCreateModelVersion_def sqlCreateBundleVersion_def sqlInsertRegVersion_def
  by (intro kv.steps_db kept_ins_version assms; simp add: new_version_row_def)+

lemma kept_statements:
  "steps_in kept (sqlCreateModel E tn i x n d ds src caps key fp)"
  "steps_in kept (sqlCreateBundleModel E tn i x n d ds src repo caps key fp)"
  "steps_in kept (sqlCreateModelArtifact tn i vid pr refr fmt sz sha enc algo)"
  "steps_in kept (sqlInsertAuditEvent tn i a w rq tk ac b af cls m1 v1)"
  "steps_in kept (sqlCreateImportTask tn i m1 vid ty src repo rv key fp)"
  "steps_in kept (sqlCreateBundleTask tn i mid vid ty src repo rv key fp)"
  "steps_in kept (sqlSoftDeleteModel tn i)"
  "steps_in kept (sqlMarkModelErrorIfNoReady tn i msg)"
  "steps_in kept (sqlCompleteImportTask tn i owner epoch)"
  "steps_in kept (sqlRetryImportTask tn i owner epoch us msg)"
  "steps_in kept (sqlFailImportTask tn i owner epoch msg)"
  "steps_in kept (sqlRenewImportTaskLease tn i owner epoch us)"
  "steps_in kept (sqlBindImportTask tn i owner epoch mid vid)"
  "steps_in kept (sqlClaimImportTask tn i owner us)"
  "steps_in kept (sqlInsertReg E g tn i target source)"
  "steps_in kept (sqlMarkUploaded tn i)"
  "steps_in kept (sqlFailReg tn i msg)"
  "steps_in kept (sqlAbortReg tn i msg)"
  "steps_in kept (sqlRegByKey tn key)"
  "steps_in kept (sqlRegById tn i)"
  "steps_in kept (sqlInsertRegModel E tn mid g)"
  "steps_in kept (sqlLockRegModel tn mid)"
  "steps_in kept (sqlInsertRegArtifact tn aid vid g)"
  "steps_in kept (sqlAddModelSize tn mid sz)"
  "steps_in kept (sqlSetModelReady tn mid)"
  "steps_in kept (sqlSetRegReady tn i mid vid)"
  unfolding sqlCreateModel_def sqlCreateBundleModel_def sqlCreateModelArtifact_def
    sqlInsertAuditEvent_def sqlCreateImportTask_def sqlCreateBundleTask_def sqlSoftDeleteModel_def
    sqlMarkModelErrorIfNoReady_def sqlCompleteImportTask_def sqlRetryImportTask_def
    sqlFailImportTask_def sqlRenewImportTaskLease_def sqlBindImportTask_def sqlClaimImportTask_def
    sqlInsertReg_def sqlMarkUploaded_def sqlFailReg_def sqlAbortReg_def sqlRegByKey_def
    sqlRegById_def sqlInsertRegModel_def sqlLockRegModel_def sqlInsertRegArtifact_def
    sqlAddModelSize_def sqlSetModelReady_def sqlSetRegReady_def
  by (intro kv.steps_db kept_other_tables)+

lemmas kept_sql = kept_statements kv.sql_reads kv.deletion_reads

end

section \<open>Encrypted versions\<close>

interpretation enc: version_view v_is_encrypted .

lemma enc_updates:
  "steps_in enc.kept (sqlMarkModelVersionReady tn i)"
  "steps_in enc.kept (sqlMarkModelVersionError tn i msg)"
  "steps_in enc.kept (sqlMarkModelVersionErrorForTask tn i vid owner epoch msg)"
  "steps_in enc.kept (sqlSetModelVersionChecksum tn i chk sz)"
  "steps_in enc.kept (sqlRetryFailedImportTaskAndResetVersion tn i)"
  "steps_in enc.kept (sqlSetVersionReady tn i)"
  "steps_in enc.kept (sqlDeleteVersion tn i)"
  unfolding sqlMarkModelVersionReady_def sqlMarkModelVersionError_def
    sqlMarkModelVersionErrorForTask_def sqlSetModelVersionChecksum_def
    sqlRetryFailedImportTaskAndResetVersion_def sqlSetVersionReady_def sqlDeleteVersion_def
  by (intro enc.kv.steps_db enc.kept_other_tables enc.kept_upd_versions; simp add: version_key_def)+

lemmas enc_sql = enc.kept_sql enc.kept_inserts enc_updates

lemma enc_prepare: "steps_in enc.kept (reg_prepare fuel E g)"
proof (induction fuel)
  case (Suc n)
  then show ?case
    unfolding reg_prepare.simps by (intro enc.kv.steps_db enc_sql steps_intros)
qed (simp only: reg_prepare.simps enc.kv.steps_ret)

lemmas store_defs = work_defs version_defs catalog_defs bundle_defs one_row_def reg_get_def
  reg_mark_uploaded_def reg_fail_def reg_abort_def reg_complete_def complete_tx_def reg_publish_def
  reg_model_def delete_model_def delete_version_def delete_protected_def delete_version_tx_def
  delete_model_tx_def

lemma enc_store:
  "steps_in enc.kept (work_create E tk)"
  "steps_in enc.kept (work_retry_failed E a b)"
  "steps_in enc.kept (work_claim E a b owner lease)"
  "steps_in enc.kept (work_renew E a b owner epoch lease)"
  "steps_in enc.kept (work_bind E a b owner epoch x y)"
  "steps_in enc.kept (work_complete E a b owner epoch)"
  "steps_in enc.kept (work_retry E a b owner epoch after msg)"
  "steps_in enc.kept (work_fail E a b owner epoch msg)"
  "steps_in enc.kept (create_version E v)"
  "steps_in enc.kept (mark_ready E a b)"
  "steps_in enc.kept (mark_error E a b msg)"
  "steps_in enc.kept (mark_error_and_maybe_model E a c b owner epoch msg)"
  "steps_in enc.kept (set_checksum E a b chk sz)"
  "steps_in enc.kept (catalog_create_model E a b n d ds src caps key)"
  "steps_in enc.kept (catalog_create_model_with_external_id E a b x n d ds src caps key)"
  "steps_in enc.kept (create_artifact E art)"
  "steps_in enc.kept (audit_insert E fresh e)"
  "steps_in enc.kept (import_bundle E bids bn)"
  "steps_in enc.kept (reg_mark_uploaded E a b)"
  "steps_in enc.kept (reg_complete E ids a b)"
  "steps_in enc.kept (reg_fail E a b msg)"
  "steps_in enc.kept (reg_abort E a b msg)"
  "steps_in enc.kept (delete_model E a sel refs)"
  "steps_in enc.kept (delete_version E a ver refs)"
  unfolding store_defs Let_def by (intro enc.kv.steps_db enc_sql steps_intros; simp)+

lemma enc_run: "store_run E s t \<Longrightarrow> enc.kept s t"
proof (induction rule: store_run.induct)
  case (onward s t u)
  from onward(2) have "enc.kept t u"
  proof (cases rule: store_step.cases)
    case (called a)
    then show ?thesis
      by (cases rule: tenant_step.cases) (use enc_store enc_prepare in \<open>simp_all add: steps_in_def\<close>)
  next
    case (passed c l)
    then show ?thesis by (simp add: enc.kv.R_time)
  qed
  with onward.IH show ?case by (rule enc.kv.R_trans)
qed (rule enc.kv.R_refl)

text \<open>No version is ever stored as encrypted.\<close>

lemma none_encrypted: "reachable E t \<Longrightarrow> v \<in> set (versions t) \<Longrightarrow> \<not> v_is_encrypted v"
  by (auto simp: reachable_def fresh_db_def filter_empty_conv enc.kept_def dest!: enc_run)

end
