(* ===== verification/WorkerRuns.thy ===== *)
theory WorkerRuns
  imports Worker VersionViews
begin

text \<open>
  What the worker and its executions keep. \<open>on_site R\<close> relates two sites when the database
  moved along \<open>R\<close>, provided that what others do in the meantime is along \<open>R\<close> too. The locale
  \<open>worker_stores\<close> is what the worker relies on in the stores: each call it makes keeps \<open>R\<close>.
\<close>

definition others_keep :: "(db \<Rightarrow> db \<Rightarrow> bool) \<Rightarrow> 'k site \<Rightarrow> bool" where
  "others_keep R s \<longleftrightarrow> list_all (\<lambda>m. \<forall>d. R d (mo_db m d)) (g_moments s)"

definition on_site :: "(db \<Rightarrow> db \<Rightarrow> bool) \<Rightarrow> 'k site \<Rightarrow> 'k site \<Rightarrow> bool" where
  "on_site R s t \<longleftrightarrow> later s t \<and> (others_keep R s \<longrightarrow> R (g_db s) (g_db t))"

lemma others_keep_later: "later s t \<Longrightarrow> others_keep R s \<Longrightarrow> others_keep R t"
  by (auto simp: later_def others_keep_def list_all_iff) (blast dest: in_set_dropD)

lemma later_trans: "later s t \<Longrightarrow> later t u \<Longrightarrow> later s u"
  by (auto simp: later_def)

lemma later_refl: "g_moments t = g_moments s \<Longrightarrow> later s t"
  unfolding later_def by (rule exI [of _ 0]) simp

context db_relation
begin

lemma on_site_preorder: "state_preorder (on_site R :: 'k site \<Rightarrow> 'k site \<Rightarrow> bool)"
proof
  show "on_site R s s" for s :: "'k site"
    by (simp add: on_site_def R_refl later_refl)
  show "on_site R s u" if "on_site R s t" "on_site R t u" for s t u :: "'k site"
    using that R_trans unfolding on_site_def by (blast intro: later_trans others_keep_later)
qed

lemmas site_basic = state_preorder.steps_basic [OF on_site_preorder]
lemmas site_refl = state_preorder.R_refl [OF on_site_preorder]
lemmas site_trans = state_preorder.R_trans [OF on_site_preorder]

lemma steps_at_db:
  assumes "steps_in R m"
  shows "steps_in (on_site R) (at_db m)"
proof (rule steps_inI)
  fix s :: "'k site"
  have "R (g_db s) (g_db (snd (at_db m s)))"
    using assms by (simp add: at_db_def steps_in_def split: prod.split) (metis snd_conv)
  then show "on_site R s (snd (at_db m s))" by (simp add: on_site_def later_refl)
qed

lemma pass_keeps:
  assumes renew: "steps_in R renew" and "\<forall>d. R d (mo_db m d)"
  shows "R (g_db s) (g_db (pass renew m s))"
proof -
  let ?d = "(mo_db m (g_db s))\<lparr>clock := clock (mo_db m (g_db s)) + int (mo_after m)\<rparr>"
  have "R (mo_db m (g_db s)) (mo_db m (g_db s)\<lparr>clock := clock (mo_db m (g_db s)) + int (mo_after m),
      script := script (mo_db m (g_db s))\<rparr>)"
    by (rule R_time) simp
  then have d: "R (g_db s) ?d" using assms(2) by (auto intro: R_trans)
  have "R ?d (snd (renew ?d))" using renew by (simp add: steps_in_def)
  then have "R (g_db s) (snd (renew ?d))" by (rule R_trans [OF d])
  with d show ?thesis
    by (auto simp: pass_def renew_tick_def Let_def split: prod.split sum.split)
qed

lemma site_of_renewal:
  assumes "steps_in R renew"
  shows "site_relation (on_site R :: 'k site \<Rightarrow> 'k site \<Rightarrow> bool) renew"
proof (rule site_relation.intro [OF on_site_preorder], rule site_relation_axioms.intro)
  show "on_site R s (s\<lparr>g_kube := k\<rparr>)" for s :: "'k site" and k
    by (simp add: on_site_def later_refl R_refl)
  show "on_site R s (pass renew m (s\<lparr>g_moments := ms\<rparr>))" if "g_moments s = m # ms"
    for s :: "'k site" and m ms
  proof -
    from that have "later s (pass renew m (s\<lparr>g_moments := ms\<rparr>))"
      unfolding later_def by (intro exI [of _ 1]) simp
    moreover have "R (g_db s) (g_db (pass renew m (s\<lparr>g_moments := ms\<rparr>)))" if "others_keep R s"
      using pass_keeps [OF assms, of m "s\<lparr>g_moments := ms\<rparr>"] that \<open>g_moments s = m # ms\<close>
      by (simp add: others_keep_def)
    ultimately show ?thesis by (simp add: on_site_def)
  qed
qed

end

section \<open>The worker's use of the stores\<close>

locale worker_stores = db_relation R for R :: "db \<Rightarrow> db \<Rightarrow> bool" +
  fixes E :: ext
  assumes due_kept: "steps_in R (list_due E w)"
    and claim_kept: "steps_in R (work_claim E a b owner lease)"
    and renew_kept: "steps_in R (work_renew E a b owner epoch lease)"
    and bind_kept: "steps_in R (work_bind E a b owner epoch x y)"
    and complete_kept: "steps_in R (work_complete E a b owner epoch)"
    and retry_kept: "steps_in R (work_retry E a b owner epoch after msg)"
    and fail_kept: "steps_in R (work_fail E a b owner epoch msg)"
    and error_kept: "steps_in R (mark_error_and_maybe_model E a tk b owner epoch msg)"
    and binding_kept: "steps_in R (resolve_binding E resolve t)"
    and artifact_kept: "steps_in R (create_artifact E art)"
    and artifact_read: "steps_in R (get_artifact E a b)"
    and checksum_kept: "steps_in R (set_checksum E a b chk sz)"
begin

lemma steps_renewal: "steps_in R (renewal E w t)"
  unfolding renewal_def by (rule renew_kept)

lemma steps_give_up: "steps_in (on_site R) (give_up E w t e after)"
  unfolding give_up_def retry_or_fail_def
  by (intro site_basic steps_at_db steps_intros steps_basic error_kept fail_kept retry_kept)

lemma steps_bind_task: "steps_in (on_site R) (bind_task E w t)"
  unfolding bind_task_def
  by (intro site_basic steps_at_db steps_intros steps_give_up binding_kept bind_kept)

lemma steps_execute:
  assumes "steps_in R renew"
  shows "steps_in (on_site R) (execute E cf renew t)"
  by (rule site_relation.steps_execute [OF site_of_renewal [OF assms]],
      rule site_relation.steps_finalize [OF site_of_renewal [OF assms]])
     (intro steps_at_db artifact_kept artifact_read checksum_kept)+

lemma steps_supervised:
  assumes "steps_in (on_site R) (ex (renewal E w t) t)"
  shows "steps_in (on_site R) (supervised E w ex t)"
proof -
  have "steps_in (on_site R) fresh_renewal"
    by (simp add: steps_in_def fresh_renewal_def on_site_def later_refl R_refl)
  moreover have "steps_in (on_site R) lost_lease"
    by (rule steps_inI) (simp add: lost_lease_def site_refl split: option.split)
  ultimately show ?thesis
    unfolding supervised_def by (intro site_basic assms)
qed

lemma steps_process_claimed:
  assumes "steps_in (on_site R) (ex (renewal E w t) t)"
    and "\<And>s u. supervised E w ex t s = (Inr (), u) \<Longrightarrow> on_site R s (snd (finish_task E w t u))"
  shows "steps_in (on_site R) (process_claimed E w ex t)"
proof (rule steps_inI)
  fix s
  show "on_site R s (snd (process_claimed E w ex t s))"
  proof (cases "supervised E w ex t s")
    case (Pair r u)
    with steps_in_at [OF steps_supervised [of ex, OF assms(1)], of s] have su: "on_site R s u" by simp
    show ?thesis
    proof (cases r)
      case (Inl e)
      have "on_site R u (snd (give_up E w t e 1000000000 u))" by (rule steps_in_at [OF steps_give_up])
      with su Pair Inl show ?thesis
        by (simp add: process_claimed_def inspect_def) (rule site_trans)
    next
      case (Inr x)
      with Pair assms(2) [of s u] show ?thesis by (simp add: process_claimed_def inspect_def)
    qed
  qed
qed

lemma steps_process_task:
  assumes "\<And>t. steps_in (on_site R) (process_claimed E w ex t)"
  shows "steps_in (on_site R) (process_task E w ex t)"
  unfolding process_task_def
  by (intro site_basic steps_at_db steps_intros steps_bind_task claim_kept assms)

lemma steps_run_once:
  assumes "\<And>t. steps_in (on_site R) (process_claimed E w ex t)"
  shows "steps_in (on_site R) (run_once E w ex)"
proof -
  have "steps_in (on_site R) (process_tasks E w ex ts)" for ts
    by (induction ts) (simp_all only: process_tasks.simps, (intro site_basic steps_process_task assms | assumption)+)
  then show ?thesis unfolding run_once_def by (intro site_basic steps_at_db due_kept)
qed

lemma steps_health:
  "steps_in (on_site R) (report_health b)" "steps_in (on_site R) (take_wake a)"
  by (simp_all add: steps_in_def report_health_def take_wake_def on_site_def later_refl R_refl
      split: wakeup.split)

lemma steps_worker_run:
  assumes "\<And>t. steps_in (on_site R) (process_claimed E (with_defaults w) ex t)"
  shows "steps_in (on_site R) (worker_run E w ex arms)"
proof -
  have "steps_in (on_site R) (run_loop E (with_defaults w) ex as)" for as
    by (induction as)
      (simp_all only: run_loop.simps, (intro site_basic steps_intros steps_health steps_run_once assms | assumption)+)
  then show ?thesis unfolding worker_run_def by (intro site_basic steps_health)
qed

end

section \<open>Store runs\<close>

interpretation ru: db_relation "store_run E"
proof unfold_locales
  show "store_run E s s" for s by (rule here)
  show "store_run E s u" if "store_run E s t" "store_run E t u" for s t u
    using that by (rule store_run_trans)
  show "store_run E s (s\<lparr>clock := c, script := l\<rparr>)" if "clock s \<le> c" for s c l
    using that by (blast intro: here onward passed)
  show "clock s \<le> clock t" if "store_run E s t" for s t
    using store_run_sound [OF that] by (rule so.R_clock)
qed

lemma ru_tenant: "(\<And>s. tenant_step E a s (snd (m s))) \<Longrightarrow> steps_in (store_run E) m"
  by (rule steps_inI) (blast intro: here onward called)

lemma un_worker_reads:
  "steps_in unchanged (list_due E w)"
  "steps_in unchanged (resolve_binding E resolve t)"
  "steps_in unchanged (get_artifact E a b)"
  unfolding list_due_def work_list_due_def work_list_due_all_def resolve_binding_def get_artifact_def
  by (intro un.steps_basic un.sql_reads steps_intros)+

lemma ru_unchanged: "steps_in unchanged m \<Longrightarrow> steps_in (store_run E) m"
  unfolding steps_in_def using unchanged_run [THEN tenant_run_store] by blast

interpretation sw: worker_stores "store_run E" E
  by unfold_locales
    (auto intro: ru_unchanged un_worker_reads ru_tenant tenant_step.intros)

lemma ru_mark_ready: "steps_in (store_run E) (mark_ready E a b)"
  by (rule ru_tenant) (rule version_ready)

lemma ru_finish: "steps_in (on_site (store_run E)) (finish_task E w t)"
  unfolding finish_task_def
  by (intro ru.site_basic ru.steps_at_db steps_intros sw.steps_give_up sw.complete_kept ru_mark_ready)

lemma ru_worker: "steps_in (on_site (store_run E)) (worker_run E w (execute E cf) arms)"
proof (rule sw.steps_worker_run, rule sw.steps_process_claimed)
  fix t
  let ?w = "with_defaults w"
  show ex: "steps_in (on_site (store_run E)) (execute E cf (renewal E ?w t) t)"
    by (intro sw.steps_execute sw.steps_renewal)
  fix s u
  assume "supervised E ?w (execute E cf) t s = (Inr (), u)"
  from steps_inD [OF sw.steps_supervised this, OF ex] steps_in_at [OF ru_finish]
  show "on_site (store_run E) s (snd (finish_task E ?w t u))" by (rule ru.site_trans)
qed

section \<open>A finished execution\<close>

lemma via_Inr: "via renew (at_db m) s = (Inr x, u) \<Longrightarrow> \<exists>d. m d = (Inr x, g_db u)"
  by (auto simp: via_def at_db_def elim!: andThen_InrE split: prod.splits) blast

lemma call_pure_Inr:
  "call_kube renew (\<lambda>k. (f, k)) s = (Inr x, u) \<Longrightarrow> f = Inr x"
  by (auto simp: call_kube_def via_def andThen_Inr_iff at_kube_def)

text \<open>The storage confirmed an object of the tenant with the digest the job reported.\<close>

definition confirms :: "storage_port \<Rightarrow> string \<Rightarrow> import_result \<Rightarrow> bool" where
  "confirms port tenant r \<longleftrightarrow> st_object_exists port tenant (irObjectRef r) = Inr True
     \<and> st_verify_checksum port tenant (irObjectRef r) (irChecksumSHA256 r) = None"

lemma parsed_digest:
  "parse_import_result decode logs = Inr r \<Longrightarrow> length (irChecksumSHA256 r) = 64"
proof -
  have "last_result decode ls = Inr r \<Longrightarrow> length (irChecksumSHA256 r) = 64" for ls
    by (induction ls) (auto simp: Let_def split: if_splits sum.splits)
  then show "parse_import_result decode logs = Inr r \<Longrightarrow> length (irChecksumSHA256 r) = 64"
    by (simp add: parse_import_result_def)
qed

lemma finalized:
  fixes s u :: "'k site"
  assumes "finalize_job E cf c (\<lambda>_. port) renew t ns name s = (Inr (), u)" and "cfChecksums cf"
  shows "\<exists>r d. confirms port (wTenantID t) r \<and> length (irChecksumSHA256 r) = 64
    \<and> set_checksum E (wTenantID t) (wVersionID t) (irChecksumSHA256 r) (irSizeBytes r) d = (Inr (), g_db u)"
proof -
  from assms obtain logs r and s1 s2 s3 :: "'k site" where parsed: "parse_import_result (cfDecode cf) logs = Inr r"
    and verified: "verify_result (\<lambda>_. port) renew t r s1 = (Inr (), s2)"
    and stored: "via renew (at_db (set_checksum E (wTenantID t) (wVersionID t) (irChecksumSHA256 r)
        (irSizeBytes r))) s3 = (Inr (), u)"
    unfolding finalize_job_def by (auto elim!: andThen_InrE)
  from verified have "confirms port (wTenantID t) r"
    unfolding verify_result_def andThen_Inr_iff confirms_def
    by (auto simp: if_op_iff dest!: call_pure_Inr split: option.splits)
  with parsed_digest via_Inr [OF stored] parsed show ?thesis by blast
qed

context worker_stores
begin

lemma poll_finished:
  assumes "steps_in R renew" and "poll E cf c st renew t sp p n s = (Inr (), u)"
  shows "\<exists>v w. finalize_job E cf c st renew t (spNamespace sp) (spName sp) v = (Inr (), w)
    \<and> on_site R s v \<and> on_site R v w \<and> on_site R w u"
  using assms(2)
proof (induction "length (g_moments s)" arbitrary: n s rule: less_induct)
  case less
  note site = site_of_renewal [OF assms(1)]
  have finalize: "steps_in (on_site R) (finalize_job E cf c st renew t ns name)" for ns name
    by (rule site_relation.steps_finalize [OF site])
       (intro steps_at_db artifact_kept artifact_read checksum_kept)+
  note round = site_relation.steps_poll_round [OF site, of E cf c st t, OF finalize]
  obtain r y where pr: "poll_round E cf c st renew t sp p n s = (r, y)" by fastforce
  from steps_inD [OF round pr] have sy: "on_site R s y" .
  from less.prems pr obtain k where r: "r = Inr k"
    by (cases r) (auto simp: poll.simps [of _ _ _ _ _ _ _ _ _ s])
  show ?case
  proof (cases k)
    case (Some n2)
    with less.prems pr r have "poll E cf c st renew t sp p n2 y = (Inr (), u)"
      by (simp add: poll.simps [of _ _ _ _ _ _ _ _ _ s])
    moreover have "length (g_moments y) < length (g_moments s)"
      using pr r Some by (auto dest: poll_round_uses)
    ultimately show ?thesis using less.hyps sy by (blast intro: site_trans)
  next
    case None
    with less.prems pr r have yu: "y = u" by (simp add: poll.simps [of _ _ _ _ _ _ _ _ _ s])
    from pr r None have "poll_round E cf c st renew t sp p n s = (Inr None, y)" by simp
    then obtain js v where js: "call_kube renew (job_read_status c (spNamespace sp) (spName sp)) s = (Inr js, v)"
      and arm: "(case isPhase js of
         JobSucceeded \<Rightarrow>
           inspect (finalize_job E cf c st renew t (spNamespace sp) (spName sp)) (\<lambda>r.
           andThen (drop_attempt c renew sp p) (\<lambda>_. andThen (lift r) (\<lambda>_. ret None)))
       | JobFailed \<Rightarrow> fail_after (drop_attempt c renew sp p)
           (Plain (''import job failed: '' @ isReason js @ '': '' @ isMessage js))
       | _ \<Rightarrow>
           andThen site_now (\<lambda>now.
           andThen (if now < n then ret n
                    else andThen (refresh_upload_secret cf c st renew t sp) (\<lambda>_.
                         andThen site_now (\<lambda>later. ret (later + 30000000000)))) (\<lambda>n.
           andThen (pause renew) (\<lambda>_. ret (Some n))))) v = (Inr None, y)"
      unfolding poll_round_def by (rule andThen_InrE)
    then have rest: "inspect (finalize_job E cf c st renew t (spNamespace sp) (spName sp)) (\<lambda>r.
           andThen (drop_attempt c renew sp p) (\<lambda>_. andThen (lift r) (\<lambda>_. ret (None :: int option)))) v
         = (Inr None, y)"
      by (cases "isPhase js") (auto simp: fail_after_def elim!: andThen_InrE)
    from rest obtain w where "finalize_job E cf c st renew t (spNamespace sp) (spName sp) v = (Inr (), w)"
      and "snd (drop_attempt c renew sp p w) = y"
      by (auto simp: inspect_iff andThen_Inr_iff)
    moreover have "on_site R s v"
      by (rule steps_inD [OF site_relation.steps_call [OF site] js])
    moreover have "on_site R w (snd (drop_attempt c renew sp p w))"
      by (rule steps_in_at [OF site_relation.steps_attempt(4) [OF site]])
    ultimately show ?thesis using steps_inD [OF finalize] yu by blast
  qed
qed

lemma execute_finished:
  assumes "steps_in R renew" and "execute E cf renew t s = (Inr (), u)" and "cfStorage cf = Some (\<lambda>_. port)"
  shows "\<exists>c ns name v w. finalize_job E cf c (\<lambda>_. port) renew t ns name v = (Inr (), w)
    \<and> on_site R s v \<and> on_site R v w \<and> on_site R w u"
proof -
  note site = site_of_renewal [OF assms(1)]
  let ?prepare = "\<lambda>c sp p. inspect (call_kube renew (job_get c (spNamespace sp) (spName sp))) (\<lambda>got.
        case got of
          Inr _ \<Rightarrow> ret ()
        | Inl e \<Rightarrow> if kube_reason_is KubeNotFound e then start_job cf c (\<lambda>_. port) renew t sp p else throw e)"
  from assms obtain c where c: "cfJobs cf = Some c" by (auto simp: execute_def split: option.splits)
  let ?bucket = "case cfBuckets cf of None \<Rightarrow> ret () | Some ensure \<Rightarrow> call_kube renew (ensure (wTenantID t))"
  from assms c obtain s1 sp p where b: "?bucket s = (Inr (), s1)"
    and run: "run_attempt E cf c (\<lambda>_. port) renew t sp p s1 = (Inr (), u)"
    by (auto simp: execute_def andThen_Inr_iff)
  from run obtain q s2 s3 s4 now where e: "ensure_pvc c renew p s1 = (Inr q, s2)"
    and g: "?prepare c sp p s2 = (Inr (), s3)" and now: "site_now s3 = (Inr now, s4)"
    and poll: "poll E cf c (\<lambda>_. port) renew t sp p now s4 = (Inr (), u)"
    unfolding run_attempt_def by (auto elim!: andThen_InrE intro: that)
  have "on_site R s s1"
    by (rule steps_inD [where m = ?bucket, OF _ b]) (intro steps_intros site_relation.steps_call [OF site] site_basic)
  moreover have "on_site R s1 s2"
    by (rule steps_inD [OF site_relation.steps_attempt(1) [OF site] e])
  moreover have "on_site R s2 s3"
    by (rule steps_inD [where m = "?prepare c sp p", OF _ g])
       (intro steps_intros site_relation.steps_call [OF site] site_basic site_relation.steps_start [OF site])
  moreover have "on_site R s3 s4"
    by (rule steps_inD [OF site_relation.steps_site_now [OF site] now])
  ultimately have "on_site R s s4" by (blast intro: site_trans)
  with poll_finished [OF assms(1) poll] show ?thesis by (blast intro: site_trans)
qed

end

end
