(* ===== verification/Server.thy ===== *)
theory Server
  imports ServiceRuns
begin

text \<open>
  The RPC server: the methods of the \<open>ModelService\<close> of \<open>api/model/v1/model.proto\<close>, the
  dispatch of a request to its handler, and the whole call through the middleware chain of
  \<open>cmd/ani-model-service/app.go\<close>. The theorems are about whole calls: which calls reach a
  handler and as whom, what a call may change, and that every call keeps the stores within
  the states their own theorems cover.
\<close>

section \<open>Methods\<close>

datatype rpc_request =
    RqCreateModel create_model_req | RqGetModel model_selector_req | RqListModels list_models_req
  | RqSearchExternalModels search_req | RqDeleteModel model_selector_req
  | RqGetModelVersion get_version_req | RqListModelVersions list_versions_req
  | RqListModelOperations operations_req | RqDeleteModelVersion version_selector_req
  | RqCreateModelVersion create_version_req | RqGetUploadURL upload_url_req
  | RqImportModel import_req | RqImportModelBundle bundle_req | RqGetImportTask task_req
  | RqGetImportTaskLogs task_req | RqRetryImportTask task_req
  | RqGetModelDownloadURL download_url_req | RqPrepareTrainedArtifact prepare_req
  | RqCompleteTrainedArtifact complete_req | RqAbortTrainedArtifact abort_req
  | RqResolveFinetuningFacts facts_req
  | RqGetTrainedArtifactRegistration get_registration_req
  | RqGetTrainedArtifactUploadURL get_ticket_req

datatype rpc_response =
    RsModel model_msg | RsModels "model_msg list \<times> int" | RsCandidates "candidate_msg list \<times> bool"
  | RsEmpty | RsModelVersion "model_msg \<times> version_msg" | RsVersion version_msg
  | RsVersions "version_msg list \<times> int" | RsOperations "operation_msg list \<times> int"
  | RsUpload upload_msg | RsDownload download_msg | RsTask import_task_msg | RsBundle bundle_msg
  | RsLogs logs_msg | RsTicket "ticket_msg option" | RsComplete complete_msg | RsFacts facts_msg
  | RsRegistration "registration_msg \<times> observation_msg"

fun rpc_method :: "rpc_request \<Rightarrow> string" where
  "rpc_method (RqCreateModel rq) = ''CreateModel''"
| "rpc_method (RqGetModel rq) = ''GetModel''"
| "rpc_method (RqListModels rq) = ''ListModels''"
| "rpc_method (RqSearchExternalModels rq) = ''SearchExternalModels''"
| "rpc_method (RqDeleteModel rq) = ''DeleteModel''"
| "rpc_method (RqGetModelVersion rq) = ''GetModelVersion''"
| "rpc_method (RqListModelVersions rq) = ''ListModelVersions''"
| "rpc_method (RqListModelOperations rq) = ''ListModelOperations''"
| "rpc_method (RqDeleteModelVersion rq) = ''DeleteModelVersion''"
| "rpc_method (RqCreateModelVersion rq) = ''CreateModelVersion''"
| "rpc_method (RqGetUploadURL rq) = ''GetUploadURL''"
| "rpc_method (RqImportModel rq) = ''ImportModel''"
| "rpc_method (RqImportModelBundle rq) = ''ImportModelBundle''"
| "rpc_method (RqGetImportTask rq) = ''GetImportTask''"
| "rpc_method (RqGetImportTaskLogs rq) = ''GetImportTaskLogs''"
| "rpc_method (RqRetryImportTask rq) = ''RetryImportTask''"
| "rpc_method (RqGetModelDownloadURL rq) = ''GetModelDownloadURL''"
| "rpc_method (RqPrepareTrainedArtifact rq) = ''PrepareTrainedArtifact''"
| "rpc_method (RqCompleteTrainedArtifact rq) = ''CompleteTrainedArtifact''"
| "rpc_method (RqAbortTrainedArtifact rq) = ''AbortTrainedArtifact''"
| "rpc_method (RqResolveFinetuningFacts rq) = ''ResolveFinetuningFacts''"
| "rpc_method (RqGetTrainedArtifactRegistration rq) = ''GetTrainedArtifactRegistration''"
| "rpc_method (RqGetTrainedArtifactUploadURL rq) = ''GetTrainedArtifactUploadURL''"

definition rpc_operation :: "rpc_request \<Rightarrow> string" where
  "rpc_operation rq = ''/model.v1.ModelService/'' @ rpc_method rq"

text \<open>What a call draws at random, and what it finds outside the process.\<close>

record draws =
  drawId :: string
  drawArtifact :: string
  drawEvent :: uuid
  drawBundle :: bundle_ids
  drawComplete :: fresh_ids

record backend =
  bService :: service
  bInspector :: "inspector option"
  bTokens :: tokenizer
  bWeights :: weight_reader
  bFuel :: nat

definition reply :: "('a \<Rightarrow> rpc_response) \<Rightarrow> 'a wop \<Rightarrow> rpc_response wop" where
  "reply f m = andThen m (\<lambda>x. ret (f x))"

definition dispatch ::
    "ext \<Rightarrow> backend \<Rightarrow> draws \<Rightarrow> (rpc_request, world, rpc_response) handler" where
  "dispatch E bk d ctx request =
     (let sv = bService bk in
      case request of
        RqCreateModel rq \<Rightarrow> reply RsModel (handle_create_model E sv (drawId d) (drawEvent d) ctx rq)
      | RqGetModel rq \<Rightarrow> reply RsModel (handle_get_model E sv ctx rq)
      | RqListModels rq \<Rightarrow> reply RsModels (handle_list_models E sv ctx rq)
      | RqSearchExternalModels rq \<Rightarrow> reply RsCandidates (handle_search_external_models E sv ctx rq)
      | RqDeleteModel rq \<Rightarrow> reply (\<lambda>_. RsEmpty) (handle_delete_model E sv ctx rq)
      | RqGetModelVersion rq \<Rightarrow> reply RsModelVersion (handle_get_model_version E sv ctx rq)
      | RqListModelVersions rq \<Rightarrow> reply RsVersions (handle_list_model_versions E sv ctx rq)
      | RqListModelOperations rq \<Rightarrow> reply RsOperations (handle_list_model_operations E sv ctx rq)
      | RqDeleteModelVersion rq \<Rightarrow> reply (\<lambda>_. RsEmpty) (handle_delete_model_version E sv ctx rq)
      | RqCreateModelVersion rq \<Rightarrow> reply RsVersion
          (handle_create_model_version E sv (drawId d) (drawArtifact d) (drawEvent d) ctx rq)
      | RqGetUploadURL rq \<Rightarrow> reply RsUpload (handle_get_upload_url E sv (drawId d) ctx rq)
      | RqImportModel rq \<Rightarrow> reply RsTask (handle_import_model E sv (drawId d) (drawEvent d) ctx rq)
      | RqImportModelBundle rq \<Rightarrow> reply RsBundle
          (handle_import_model_bundle E sv (drawBundle d) (drawEvent d) ctx rq)
      | RqGetImportTask rq \<Rightarrow> reply RsTask (handle_get_import_task E sv ctx rq)
      | RqGetImportTaskLogs rq \<Rightarrow> reply RsLogs (handle_get_import_task_logs E sv ctx rq)
      | RqRetryImportTask rq \<Rightarrow> reply RsTask (handle_retry_import_task E sv (drawEvent d) ctx rq)
      | RqGetModelDownloadURL rq \<Rightarrow> reply RsDownload (handle_get_model_download_url E sv ctx rq)
      | RqPrepareTrainedArtifact rq \<Rightarrow> reply RsTicket
          (handle_prepare_trained_artifact (bFuel bk) E sv (drawId d) ctx rq)
      | RqCompleteTrainedArtifact rq \<Rightarrow> reply RsComplete
          (handle_complete_trained_artifact E sv (drawComplete d) ctx rq)
      | RqAbortTrainedArtifact rq \<Rightarrow> reply (\<lambda>_. RsEmpty) (handle_abort_trained_artifact E sv ctx rq)
      | RqResolveFinetuningFacts rq \<Rightarrow> reply RsFacts (handle_resolve_finetuning_facts E sv
          (bInspector bk) (bTokens bk) (bWeights bk) ctx rq)
      | RqGetTrainedArtifactRegistration rq \<Rightarrow> reply RsRegistration
          (handle_get_trained_artifact_registration E sv ctx rq)
      | RqGetTrainedArtifactUploadURL rq \<Rightarrow> reply (\<lambda>t. RsTicket (Some t))
          (handle_get_trained_artifact_upload_url E sv ctx rq))"

definition asks_verification :: "rpc_request \<Rightarrow> bool" where
  "asks_verification request \<longleftrightarrow>
     (case request of RqGetTrainedArtifactRegistration rq \<Rightarrow> grVerifyUploadedObject rq | _ \<Rightarrow> False)"

text \<open>A whole call, whose operation the transport names; \<open>short\<close> and \<open>resolution\<close> are the
  configured budgets.\<close>

definition rpc_call ::
    "ext \<Rightarrow> backend \<Rightarrow> draws \<Rightarrow> int \<Rightarrow> int \<Rightarrow> (rpc_request, world, rpc_response) handler" where
  "rpc_call E bk d short resolution ctx rq =
     andThen go_now (\<lambda>now.
       rpc_chain E asks_verification now short resolution (dispatch E bk d)
         (ctx\<lparr>c_operation := Some (rpc_operation rq)\<rparr>) rq)"

section \<open>Which calls reach a handler\<close>

text \<open>The context a call is handled in, as the caller's certificate and metadata establish it.\<close>

definition asserted_tenant :: "call \<Rightarrow> string \<Rightarrow> bool" where
  "asserted_tenant ctx a \<longleftrightarrow> (case c_metadata ctx of None \<Rightarrow> False | Some md \<Rightarrow>
     a \<noteq> [] \<and> (a \<in> trim_space ` set (md ''x-ani-tenant-id'') \<or> a \<in> trim_space ` set (md ''x-tenant-id'')))"

definition admitted :: "ext \<Rightarrow> string \<Rightarrow> call \<Rightarrow> call \<Rightarrow> bool" where
  "admitted E rpc ctx inner \<longleftrightarrow> (\<exists>client p. extract_client_identity E ctx = Inr client
     \<and> model_service_policy client rpc \<and> c_principal inner = Some p \<and> principal_valid p
     \<and> pWorkload p = client \<and> asserted_tenant ctx (pTenantID p))"

lemma single_value_asserted:
  assumes "single_metadata_value E md key required = Inr v" and "v \<noteq> []"
  shows "v \<in> trim_space ` set (md key)"
  using assms by (auto simp: single_metadata_value_def Let_def split: list.splits if_splits)

lemma required_value:
  assumes "single_metadata_value E md key True = Inr v"
  shows "v \<noteq> [] \<and> v \<in> trim_space ` set (md key)"
  using assms by (auto simp: single_metadata_value_def Let_def split: list.splits if_splits)

lemma consistent_value_asserted:
  assumes "consistent_values E md k v keys = Inr u"
  shows "u = v \<or> (\<exists>key \<in> set keys. u \<in> trim_space ` set (md key))"
  using assms
proof (induction keys arbitrary: v)
  case Nil
  then show ?case by simp
next
  case (Cons key keys)
  obtain w where w: "single_metadata_value E md key False = Inr w"
    using Cons.prems by (cases "single_metadata_value E md key False") auto
  show ?case
  proof (cases "w = []")
    case True
    then show ?thesis using Cons w by auto
  next
    case False
    then have "w \<in> trim_space ` set (md key)" by (rule single_value_asserted [OF w])
    then show ?thesis using Cons w False by (auto split: if_splits)
  qed
qed

lemma principals_asserted:
  "modeldev_principal E ctx = Inr p \<Longrightarrow>
     principal_valid p \<and> pWorkload p = modeldevClientIdentity \<and> asserted_tenant ctx (pTenantID p)"
  "governance_principal E ctx = Inr p \<Longrightarrow>
     principal_valid p \<and> pWorkload p = governanceClientIdentity \<and> asserted_tenant ctx (pTenantID p)"
  by (auto simp: modeldev_principal_def governance_principal_def asserted_tenant_def
      principal_valid_def modeldevClientIdentity_def governanceClientIdentity_def
      split: option.splits sum.splits if_splits
      dest!: required_value)

lemma inference_asserted:
  assumes "inference_principal E ctx = Inr p"
  shows "principal_valid p \<and> pWorkload p = inferenceClientIdentity \<and> asserted_tenant ctx (pTenantID p)"
proof -
  from assms obtain md where md: "c_metadata ctx = Some md"
    and t: "single_consistent_metadata_value E md [''x-ani-tenant-id'', ''x-tenant-id''] = Inr (pTenantID p)"
    and w: "pWorkload p = inferenceClientIdentity" "pActor p = ''inference:service''"
    by (auto simp: inference_principal_def split: option.splits sum.splits)
  from t have c: "consistent_values E md ''x-ani-tenant-id'' [] [''x-ani-tenant-id'', ''x-tenant-id'']
      = Inr (pTenantID p)" and "pTenantID p \<noteq> []"
    by (auto simp: single_consistent_metadata_value_def split: sum.splits if_splits
        simp del: consistent_values.simps)
  then show ?thesis
    using consistent_value_asserted [OF c] md w
    by (auto simp: asserted_tenant_def principal_valid_def inferenceClientIdentity_def)
qed

lemmas principal_asserted = principals_asserted inference_asserted

lemma bound_principal:
  assumes "model_principal_middleware E h ctx rq w = (r, u)"
    and "extract_client_identity E ctx = Inr client" and "model_service_policy client rpc"
    and "c_operation ctx = Some rpc" and "\<not> is_health rpc"
  shows "(\<exists>e. r = Inl e \<and> u = w)
    \<or> (\<exists>p. principal_valid p \<and> pWorkload p = client \<and> asserted_tenant ctx (pTenantID p)
         \<and> h (with_principal ctx p) rq w = (r, u))"
proof -
  have "client \<in> {inferenceClientIdentity, governanceClientIdentity, modeldevClientIdentity}"
    using assms(3)
    by (auto simp: model_service_policy_def validated_is_allowed_def expected_identities_def
        split: option.splits if_splits)
  with assms show ?thesis
    by (auto simp: model_principal_middleware_def bind_principal_def governanceClientIdentity_def
        modeldevClientIdentity_def inferenceClientIdentity_def
        split: sum.splits if_splits dest!: principal_asserted)
qed

lemma not_health: "\<not> is_health (rpc_operation rq)"
  by (simp add: is_health_def rpc_operation_def)

lemma with_timeout_keeps:
  "c_operation (with_timeout now c d) = c_operation c \<and> c_peer (with_timeout now c d) = c_peer c
   \<and> c_metadata (with_timeout now c d) = c_metadata c \<and> c_deadline (with_timeout now c d) \<noteq> None"
  by (simp add: with_timeout_def)

lemma budget_passes:
  "(\<exists>e. model_method_budget verifying now short resolution h c rq w = (Inl e, w))
   \<or> (\<exists>b. c_operation b = c_operation c \<and> c_peer b = c_peer c \<and> c_metadata b = c_metadata c
        \<and> c_deadline b \<noteq> None
        \<and> model_method_budget verifying now short resolution h c rq w = h b rq w)"
proof -
  have "(\<exists>e. model_method_budget verifying now short resolution h c rq w = (Inl e, w))
     \<or> c_deadline c \<noteq> None \<and> model_method_budget verifying now short resolution h c rq w = h c rq w
     \<or> (\<exists>d. model_method_budget verifying now short resolution h c rq w = h (with_timeout now c d) rq w)"
    by (cases "c_deadline c") (auto simp: model_method_budget_def Let_def)
  then show ?thesis using with_timeout_keeps [of _ c] by blast
qed

lemma no_resolver: "principal_middleware None h = h"
  by (intro ext) (simp add: principal_middleware_def)

lemma same_caller:
  "c_peer b = c_peer c \<Longrightarrow> extract_client_identity E b = extract_client_identity E c"
  "c_metadata b = c_metadata c \<Longrightarrow> asserted_tenant b a = asserted_tenant c a"
  by (simp_all add: extract_client_identity_def asserted_tenant_def)

lemma policy_passes:
  assumes "rpc_policy_middleware E model_service_policy h b rq w = (r, u)"
    and "c_operation b = Some rpc" and "\<not> is_health rpc"
  shows "(\<exists>e. r = Inl e \<and> u = w)
    \<or> (\<exists>client. extract_client_identity E b = Inr client \<and> model_service_policy client rpc
         \<and> h b rq w = (r, u))"
  using assms by (auto simp: rpc_policy_middleware_def split: sum.splits if_splits)

lemma rpc_admission:
  "(\<exists>e. rpc_call E bk d short resolution ctx rq w = (Inl e, w))
   \<or> (\<exists>inner. admitted E (rpc_operation rq) ctx inner \<and> c_deadline inner \<noteq> None
        \<and> rpc_call E bk d short resolution ctx rq w = dispatch E bk d inner rq w)"
proof -
  let ?c = "ctx\<lparr>c_operation := Some (rpc_operation rq)\<rparr>"
  let ?h = "rpc_policy_middleware E model_service_policy (model_principal_middleware E (dispatch E bk d))"
  obtain r u where ru: "rpc_call E bk d short resolution ctx rq w = (r, u)" by fastforce
  then have "model_method_budget asks_verification (clock (w_db w) * 1000) short resolution ?h ?c rq w
      = (r, u)"
    by (simp add: rpc_call_def rpc_chain_def no_resolver andThen_def go_now_def)
  with budget_passes [of asks_verification "clock (w_db w) * 1000" short resolution ?h ?c rq w]
  consider (refused) e where "r = Inl e" "u = w"
    | (passed) b where "c_operation b = Some (rpc_operation rq)" "c_peer b = c_peer ctx"
        "c_metadata b = c_metadata ctx" "c_deadline b \<noteq> None" "?h b rq w = (r, u)"
    by auto
  then show ?thesis
  proof cases
    case passed
    have admit: "admitted E (rpc_operation rq) ctx (with_principal b p)"
      if "extract_client_identity E b = Inr client" "model_service_policy client (rpc_operation rq)"
        "principal_valid p" "pWorkload p = client" "asserted_tenant b (pTenantID p)" for client p
      unfolding admitted_def
      using that same_caller(1) [OF passed(2), of E] same_caller(2) [OF passed(3)]
      by (auto simp: with_principal_def)
    have keep: "c_deadline (with_principal b p) \<noteq> None" for p
      using passed(4) by (simp add: with_principal_def)
    from policy_passes [OF passed(5,1) not_health]
    consider "\<exists>e. r = Inl e \<and> u = w"
      | (client) client where "extract_client_identity E b = Inr client"
        "model_service_policy client (rpc_operation rq)"
        "model_principal_middleware E (dispatch E bk d) b rq w = (r, u)" by blast
    then show ?thesis
    proof cases
      case client
      from bound_principal [OF client(3,1,2) passed(1) not_health] show ?thesis
        unfolding ru using admit [OF client(1,2)] keep by metis
    qed (use ru in blast)
  qed (use ru in blast)
qed

section \<open>What a call may change\<close>

lemma tr_reply: "steps_in (lifted (tenant_run E a)) m \<Longrightarrow> steps_in (lifted (tenant_run E a)) (reply f m)"
  unfolding reply_def by (intro tr.wd.steps_basic)

lemma un_reply: "steps_in (lifted unchanged) m \<Longrightarrow> steps_in (lifted unchanged) (reply f m)"
  unfolding reply_def by (intro uw.wd.steps_basic)

lemma tr_dispatch:
  assumes "acts_for ctx a"
  shows "steps_in (lifted (tenant_run E a)) (dispatch E bk d ctx rq)"
  unfolding dispatch_def Let_def
  by (cases rq; simp only: rpc_request.case;
      intro tr_reply tr_model_handlers tr_version_handlers tr_trained_handlers assms
        un_handlers [THEN tr_of_unchanged])

lemma rpc_call_run:
  obtains "snd (rpc_call E bk d short resolution ctx rq w) = w"
  | a where "asserted_tenant ctx a"
      and "tenant_run E a (w_db w) (w_db (snd (rpc_call E bk d short resolution ctx rq w)))"
proof -
  from rpc_admission [of E bk d short resolution ctx rq w] show ?thesis
  proof (elim disjE exE conjE)
    fix inner
    assume adm: "admitted E (rpc_operation rq) ctx inner"
      and call: "rpc_call E bk d short resolution ctx rq w = dispatch E bk d inner rq w"
    from adm obtain p where p: "c_principal inner = Some p" "asserted_tenant ctx (pTenantID p)"
      by (auto simp: admitted_def)
    then have "acts_for inner (pTenantID p)" by (simp add: acts_for_def)
    from tr_dispatch [OF this] have "lifted (tenant_run E (pTenantID p)) w (snd (dispatch E bk d inner rq w))"
      by (simp add: steps_in_def)
    with p(2) show ?thesis using that(2) call by (simp add: lifted_def)
  qed (use that(1) in simp)
qed

end
