(* ===== verification/ServiceErrors.thy ===== *)
theory ServiceErrors
  imports Server
begin

text \<open>
  What a caller can see of a failure: every error of an RPC is a status of the RPC layer or an
  error of a declared class with a declared reason. An error of a store, the storage or a
  parser that a handler forgot to map is none of these. The message of a mapped error may quote
  the error behind it. The facts are composed with \<open>fails_intros\<close> along the handlers.
\<close>

text \<open>The classes and reasons the service declares, by the status code of the class.\<close>

definition declared_reasons :: "(int \<times> string list) list" where
  "declared_reasons =
     [(400, [''INVALID_ARGUMENT'', ''CHECKSUM_MISMATCH'', ''OBJECT_INTEGRITY_MISMATCH'', ''CALLER_DEADLINE_REQUIRED'']),
      (401, [''UNAUTHENTICATED'', ''PRINCIPAL_INVALID'', ''PRINCIPAL_UNAVAILABLE'']),
      (403, [''TENANT_MISMATCH'', ''MODEL_SOURCE_FORBIDDEN'']),
      (404, [''MODEL_NOT_FOUND'', ''MODEL_SOURCE_NOT_FOUND'', ''REGISTRATION_NOT_FOUND'', ''STORAGE_OBJECT_NOT_FOUND'']),
      (409, [''CONFLICT'', ''IDEMPOTENCY_CONFLICT'', ''IMPORT_CONFLICT'', ''IMPORT_LOGS_UNAVAILABLE'',
             ''IMPORT_NOT_RETRYABLE'', ''MODEL_IN_USE'', ''MODEL_NAME_CONFLICT'', ''MODEL_NOT_READY'',
             ''REGISTRATION_CONFLICT'', ''REGISTRATION_TERMINAL'']),
      (412, [''MODEL_NOT_READY'']),
      (422, [''BASE_MODEL_INVALID'']),
      (499, [''CANCELED'']),
      (500, [''MODEL_STORE_ERROR'', ''AUDIT_UNAVAILABLE'']),
      (502, [''STORAGE_PROVIDER_ERROR'', ''STORAGE_INVALID_URL'', ''MODEL_PROVIDER_UNAVAILABLE'',
             ''MODEL_PROVIDER_INVALID_RESPONSE'']),
      (503, [''MODEL_STORE_UNAVAILABLE'', ''MODEL_DEPENDENCY_UNAVAILABLE'', ''AUDIT_UNAVAILABLE'',
             ''IMPORT_LOGS_UNAVAILABLE'', ''INFERENCE_REFERENCE_CHECK_UNAVAILABLE'',
             ''MODEL_BUNDLE_IMPORT_UNAVAILABLE'', ''MODEL_PROVIDER_UNAVAILABLE'',
             ''STORAGE_SIZE_VERIFICATION_UNAVAILABLE'', ''STORAGE_UNAVAILABLE'', ''WORKER_UNAVAILABLE'']),
      (504, [''DEADLINE_EXCEEDED''])]"

definition declared :: "int \<Rightarrow> string \<Rightarrow> bool" where
  "declared code reason \<longleftrightarrow> list_ex (\<lambda>(c, rs). c = code \<and> reason \<in> set rs) declared_reasons"

text \<open>
  A limit violation of the archive inspection keeps the reason the inspection gave and names
  the limit in its metadata.
\<close>

fun api_error :: "gerr \<Rightarrow> bool" where
  "api_error (KError code reason m md) \<longleftrightarrow>
     declared code reason
     \<or> code = 422 \<and> map fst md = [''kind'', ''limit_name'', ''actual'', ''limit'']"
| "api_error (GrpcStatus code m) \<longleftrightarrow> code \<in> {CodeUnauthenticated, CodePermissionDenied, CodeInternal}"
| "api_error _ \<longleftrightarrow> False"

lemmas declared_simps [simp] = declared_def declared_reasons_def

lemma mapped_api [simp]:
  "api_error (map_identity E e)" "api_error (map_domain E e)" "api_error (map_store E e)"
  "api_error (map_deletion E e)" "api_error (map_trained_registration E e)"
  "api_error (map_facts_error e)"
  by (simp_all add: map_identity_def map_domain_def map_store_def map_deletion_def
      map_trained_registration_def map_facts_error_def split: option.splits prod.splits)

lemma constant_api [simp]:
  "api_error store_missing" "api_error (worker_missing m)" "api_error trained_missing"
  "api_error (invalid_argument m)"
  by (simp_all add: store_missing_def worker_missing_def trained_missing_def invalid_argument_def)

lemma lifted_api [dest!]:
  "resolve_page page sz = Inl e \<Longrightarrow> api_error e"
  "select_version E a rq7 = Inl e \<Longrightarrow> api_error e"
  "verify_upload E st a rq9 = Inl e \<Longrightarrow> api_error e"
  "request_target E tg = Inl e \<Longrightarrow> api_error e"
  "prepare_rejects rq15 = Some e \<Longrightarrow> api_error e"
  by (auto simp: resolve_page_def select_version_def verify_upload_def request_target_def
      prepare_rejects_def Let_def split: if_splits sum.splits bool.splits target.splits option.splits)

lemmas handler_defs = handle_create_model_def handle_get_model_def handle_list_models_def
  handle_search_external_models_def handle_delete_model_def handle_delete_model_version_def
  handle_list_model_operations_def handle_get_model_version_def handle_create_model_version_def
  handle_list_model_versions_def handle_get_model_download_url_def handle_get_upload_url_def
  handle_import_model_def handle_import_model_bundle_def handle_get_import_task_def
  handle_get_import_task_logs_def handle_retry_import_task_def handle_prepare_trained_artifact_def
  handle_complete_trained_artifact_def handle_abort_trained_artifact_def
  handle_get_trained_artifact_registration_def handle_get_trained_artifact_upload_url_def
  handle_resolve_finetuning_facts_def

lemma fails_parts [fails_intros]:
  "fails_with api_error (authorize E ctx t)"
  "fails_with api_error (resolve_model E sv a sel)"
  "fails_with api_error (record_audit E sv ev p ac bf af tk m1 v1)"
  "fails_with api_error (notify sv)"
  "fails_with api_error go_now"
  "api_error e \<Longrightarrow> fails_with api_error (unless_configured c e)"
  "fails_with api_error (deployable E v)"
  "fails_with api_error (audited_version E sv ev p v)"
  by (auto intro!: fails_intros simp: authorize_def resolve_model_def record_audit_def
      unless_configured_def deployable_def audited_version_def)
     (simp_all add: fails_with_def notify_def go_now_def)

lemma fails_dispatch: "fails_with api_error (dispatch E bk d ctx rq)"
  unfolding dispatch_def reply_def Let_def
  by (cases rq; simp only: rpc_request.case handler_defs handler_parts Let_def;
      intro fails_intros; (auto)?)

end
