(* ===== verification/ServerProperties.thy ===== *)
theory ServerProperties
  imports ServiceErrors
begin

text \<open>
  The properties of whole RPC calls, and a sample deployment they are exercised on.
\<close>

section \<open>A sample call\<close>

text \<open>The governance service creates a model for tenant \<open>u1\<close>.\<close>

definition sample_metadata :: "string \<Rightarrow> string list" where
  "sample_metadata key =
     (if key = ''x-ani-tenant-id'' then [''u1''] else if key = ''x-ani-actor'' then [''governance:ann'']
      else if key = ''x-ani-request-id'' then [''r1''] else [])"

definition sample_caller :: "string \<Rightarrow> call" where
  "sample_caller client =
     (let leaf = Some \<lparr>dns_names = [client], san_uris = [], ip_addresses = [], email_addresses = []\<rparr>
      in \<lparr>c_operation = None,
          c_peer = Some (TlsConn \<lparr>tls_version = 772, verified_chains = [[leaf]], peer_certificates = [leaf]\<rparr>),
          c_metadata = Some sample_metadata, c_deadline = None, c_principal = None\<rparr>)"

definition sample_storage :: storage_port where
  "sample_storage = \<lparr>st_create_upload_url = (\<lambda>rq. Inr \<lparr>nURL = ''https'', nExpiresAt = 10 ^ 18\<rparr>),
     st_object_exists = (\<lambda>a x. Inr True), st_verify_checksum = (\<lambda>a x c. None),
     st_create_download_url = (\<lambda>rq. Inr \<lparr>nURL = ''https'', nExpiresAt = 10 ^ 18\<rparr>),
     st_verify_object = Some (\<lambda>a x n c. Inr \<lparr>kSizeBytes = n, kSHA256 = c, kMatches = True\<rparr>)\<rparr>"

definition sample_service :: service where
  "sample_service = \<lparr>sReader = True, sVersions = True, sCatalog = True,
     sStorage = Some sample_storage, sArtifacts = True, sWork = True, sTaskReader = True,
     sTaskLogs = Some (\<lambda>ns job. Inr ''log''), sLogNamespace = ''ani'', sTaskRetry = True,
     sAudit = True, sReferences = Some no_references, sNotifier = True,
     sSearcher = Some (\<lambda>rq. Inr \<lparr>pItems = [], pNextCursor = [], pHasMore = False\<rparr>),
     sBundleImporter = True, sTrained = True\<rparr>"

definition sample_backend :: backend where
  "sample_backend = \<lparr>bService = sample_service, bInspector = None, bTokens = (\<lambda>s. ([], True)),
     bWeights = (\<lambda>s. None), bFuel = 2\<rparr>"

definition sample_draws :: draws where
  "sample_draws = \<lparr>drawId = ''u1111111'', drawArtifact = ''u11111111'', drawEvent = 77,
     drawBundle = sample_ids, drawComplete = sample_fresh\<rparr>"

definition sample_create :: rpc_request where
  "sample_create = RqCreateModel \<lparr>cmTenantId = ''u1'', cmName = ''qwen'', cmDisplayName = ''Qwen'',
     cmDescription = [], cmCapabilities = [''chat''], cmIdempotencyKey = ''k'', cmModelId = []\<rparr>"

definition sample_world :: "db \<Rightarrow> world" where
  "sample_world s = \<lparr>w_db = s, w_wake = False\<rparr>"

definition sample_call_by :: "string \<Rightarrow> rpc_request \<Rightarrow> db \<Rightarrow> (gerr + rpc_response) \<times> world" where
  "sample_call_by client rq s =
     rpc_call sample_ext sample_backend sample_draws 5 9 (sample_caller client) rq (sample_world s)"

lemma sample_asserts: "asserted_tenant (sample_caller client) a \<longleftrightarrow> a = ''u1''"
proof -
  have "trim_space ''u1'' = ''u1''" by code_simp
  then show ?thesis
    by (auto simp: asserted_tenant_def sample_caller_def sample_metadata_def Let_def)
qed

lemma sample_create_works:
  "length (models (w_db (snd (sample_call_by governanceClientIdentity sample_create empty_db)))) = 1"
  by code_simp

lemma sample_client:
  "extract_client_identity sample_ext (sample_caller inferenceClientIdentity) = Inr inferenceClientIdentity"
  by code_simp

section \<open>Properties\<close>

text \<open>C1: Access control, deny by default. Whatever the request, certificate and metadata, a call
  either is refused with the state unchanged, or its handler runs for a client identity the
  policy allows this method, with a valid principal of that identity whose tenant the
  metadata asserts, and under a deadline.\<close>

theorem rpc_gate:
  "(\<exists>e. rpc_call E bk d short resolution ctx rq w = (Inl e, w))
   \<or> (\<exists>inner. admitted E (rpc_operation rq) ctx inner \<and> c_deadline inner \<noteq> None
        \<and> rpc_call E bk d short resolution ctx rq w = dispatch E bk d inner rq w)"
  by (rule rpc_admission)

text \<open>C2: Tenant isolation of the whole service. If every tenant value the metadata of a call
  carries names tenant \<open>tn\<close>, then whatever the method, the request body, the caller and the
  answers of storage and inference, the call leaves every row of every other tenant as it is.\<close>

theorem rpc_tenant_isolated:
  assumes asserted: "\<And>a. asserted_tenant ctx a \<Longrightarrow> x_uuid_parse E a = Inr tn"
    and after: "t = w_db (snd (rpc_call E bk d short resolution ctx rq w))"
  shows "filter (\<lambda>r. m_tenant_id r \<noteq> tn) (models t) = filter (\<lambda>r. m_tenant_id r \<noteq> tn) (models (w_db w))
    \<and> filter (\<lambda>r. v_tenant_id r \<noteq> tn) (versions t) = filter (\<lambda>r. v_tenant_id r \<noteq> tn) (versions (w_db w))
    \<and> filter (\<lambda>r. a_tenant_id r \<noteq> tn) (artifacts t) = filter (\<lambda>r. a_tenant_id r \<noteq> tn) (artifacts (w_db w))
    \<and> filter (\<lambda>r. t_tenant_id r \<noteq> tn) (tasks t) = filter (\<lambda>r. t_tenant_id r \<noteq> tn) (tasks (w_db w))
    \<and> filter (\<lambda>r. e_tenant_id r \<noteq> tn) (audits t) = filter (\<lambda>r. e_tenant_id r \<noteq> tn) (audits (w_db w))
    \<and> filter (\<lambda>r. r_tenant_id r \<noteq> tn) (regs t) = filter (\<lambda>r. r_tenant_id r \<noteq> tn) (regs (w_db w))"
proof (rule rpc_call_run [of E bk d short resolution ctx rq w])
  fix a
  assume "asserted_tenant ctx a"
    and "tenant_run E a (w_db w) (w_db (snd (rpc_call E bk d short resolution ctx rq w)))"
  with asserted have "frame tn (w_db w) t" unfolding after by (blast intro: tenant_run_frame)
  then show ?thesis by (simp add: frame_def)
qed (simp add: after)

lemma rpc_tenant_isolated_witness:
  "filter (\<lambda>r. m_tenant_id r \<noteq> 1) (models (w_db (snd (sample_call_by governanceClientIdentity
       sample_create held_db)))) = filter (\<lambda>r. m_tenant_id r \<noteq> 1) (models held_db)
   \<and> models held_db \<noteq> []"
proof -
  have "models held_db \<noteq> []" by code_simp
  moreover have "asserted_tenant (sample_caller governanceClientIdentity) a \<Longrightarrow>
      x_uuid_parse sample_ext a = Inr 1" for a
    by (simp add: sample_asserts)
  from rpc_tenant_isolated [OF this refl] have
    "filter (\<lambda>r. m_tenant_id r \<noteq> 1) (models (w_db (snd (sample_call_by governanceClientIdentity
       sample_create held_db)))) = filter (\<lambda>r. m_tenant_id r \<noteq> 1) (models held_db)"
    unfolding sample_call_by_def sample_world_def by (metis world.select_convs(1))
  ultimately show ?thesis by blast
qed

text \<open>C11: The inference service reads only: no call under its certificate changes a row of any
  table, whatever method it names.\<close>

theorem inference_reads_only:
  assumes "extract_client_identity E ctx = Inr inferenceClientIdentity"
  shows "same_tables (w_db w) (w_db (snd (rpc_call E bk d short resolution ctx rq w)))"
  using rpc_admission [of E bk d short resolution ctx rq w]
proof (elim disjE exE conjE)
  fix inner
  assume adm: "admitted E (rpc_operation rq) ctx inner"
    and call: "rpc_call E bk d short resolution ctx rq w = dispatch E bk d inner rq w"
  from adm assms have "model_service_policy inferenceClientIdentity (rpc_operation rq)"
    by (auto simp: admitted_def)
  then have "rpc_method rq \<in> {''GetModel'', ''GetModelVersion'', ''GetModelDownloadURL''}"
    by (auto simp: model_service_policy_def validated_is_allowed_def static_is_allowed_def
        expected_identities_def policy_table_def inferenceClientIdentity_def rpc_operation_def
        split: option.splits if_splits)
  then have "steps_in (lifted unchanged) (dispatch E bk d inner rq)"
    by (cases rq) (simp_all add: dispatch_def un_reply un_handlers)
  then show ?thesis using call by (simp add: steps_in_def lifted_def unchanged_def)
qed simp

lemma inference_reads_only_witness:
  "same_tables imported_db (w_db (snd (sample_call_by inferenceClientIdentity sample_create imported_db)))"
  using inference_reads_only [OF sample_client, of "sample_world imported_db"]
  by (simp add: sample_call_by_def sample_world_def)



end
