(* ===== verification/UploadProperties.thy ===== *)
theory UploadProperties
  imports VersionViews ServerProperties
begin

text \<open>
  Only verified bytes become deployable: what \<open>CreateModelVersion\<close> and
  \<open>CompleteTrainedArtifact\<close> require of the object storage before a version is ready, what a
  deployment is handed, and what becomes of the encryption a client declares.
\<close>

interpretation rdy: version_view "\<lambda>v. v_status v = VersionReady" .

lemma not_ready: "v_status v = ''pending'' \<Longrightarrow> \<not> v_is_encrypted v \<Longrightarrow> v_status v \<noteq> VersionReady"
  by (simp add: VersionReady_def)

lemmas rdy_sql = rdy.kept_sql rdy.kept_inserts [OF not_ready]

lemma rdy_store:
  "steps_in rdy.kept (create_version E v)"
  "steps_in rdy.kept (create_artifact E art)"
  "steps_in rdy.kept (audit_insert E fresh e)"
  "steps_in rdy.kept (reg_mark_uploaded E a b)"
  "steps_in rdy.kept (reg_fail E a b msg)"
  unfolding create_version_def insert_version_def create_artifact_def audit_insert_def
    reg_mark_uploaded_def reg_fail_def reg_get_def Let_def
  by (intro rdy.kv.steps_db rdy_sql steps_intros; simp)+

lemma rdy_parts:
  "steps_in (lifted rdy.kept) (authorize E ctx t)"
  "steps_in (lifted rdy.kept) (resolve_model E sv a sel)"
  "steps_in (lifted rdy.kept) (audited_version E sv ev p v)"
  unfolding authorize_def resolve_model_def audited_version_def record_audit_def
  by (intro steps_intros rdy.kw.wd.steps_basic rdy.kw.steps_on_db rdy.kv.steps_reads rdy_store)+

section \<open>Sample uploads\<close>

definition sample_context :: call where
  "sample_context = (sample_caller governanceClientIdentity)\<lparr>c_principal := Some
     \<lparr>pTenantID = ''u1'', pActor = ''ann'', pWorkload = ''governance'', pRequestID = ''r1'',
      pScopes = []\<rparr>\<rparr>"

definition sample_upload :: create_version_req where
  "sample_upload = \<lparr>cvTenantId = ''u1'', cvModelId = ''u11'', cvVersion = ''v2'',
     cvFormat = ''safetensors'', cvStoragePath = ''u1/m.tar'',
     cvChecksumSha256 = replicate 64 (CHR ''a''), cvSizeBytes = 12, cvIsEncrypted = True,
     cvEncryptAlgo = ''aes'', cvEncryptHint = ''h'', cvIdempotencyKey = ''k2'',
     cvEngineType = ''vllm'', cvStartupCommand = ''serve'', cvEngineImage = ''img'',
     cvRecommendedImageId = [], cvRecommendedImageScope = []\<rparr>"

definition sample_complete :: complete_req where
  "sample_complete =
     \<lparr>crTenantId = ''u1'', crRegistrationId = ''u11111'', crIdempotencyKey = ''rk''\<rparr>"

definition sample_download :: download_url_req where
  "sample_download = \<lparr>duTenantId = ''u1'', duModelVersionId = ''u1111111111111111111111'',
     duRequester = []\<rparr>"

abbreviation sample_create_version :: "create_version_req \<Rightarrow> db \<Rightarrow> (gerr + version_msg) \<times> world" where
  "sample_create_version rq s \<equiv>
     handle_create_model_version sample_ext sample_service ''u111111'' ''u1111111'' 77 sample_context rq
       (sample_world s)"

abbreviation sample_complete_on :: "db \<Rightarrow> (gerr + complete_msg) \<times> world" where
  "sample_complete_on s \<equiv>
     handle_complete_trained_artifact sample_ext sample_service sample_fresh sample_context
       sample_complete (sample_world s)"

lemma sample_context_principal:
  "c_principal sample_context = Some \<lparr>pTenantID = ''u1'', pActor = ''ann'', pWorkload = ''governance'',
      pRequestID = ''r1'', pScopes = []\<rparr>"
  by (simp add: sample_context_def)

section \<open>Direct uploads\<close>

definition upload_confirmed :: "service \<Rightarrow> string \<Rightarrow> create_version_req \<Rightarrow> bool" where
  "upload_confirmed sv tenant rq \<longleftrightarrow>
     (case sStorage sv of None \<Rightarrow> False
      | Some st \<Rightarrow> st_object_exists st tenant (cvStoragePath rq) = Inr True
          \<and> st_verify_checksum st tenant (cvStoragePath rq) (cvChecksumSha256 rq) = None)"

lemma finalize_unconfirmed:
  assumes "\<not> upload_confirmed sv tenant rq"
  shows "steps_in (lifted rdy.kept) (andThen (finalize_upload E sv fa tenant rq r) k)"
proof (rule steps_inI)
  fix w
  have "\<exists>e. finalize_upload E sv fa tenant rq r w = (Inl e, w)"
    using assms by (auto simp: upload_confirmed_def finalize_upload_def verify_upload_def andThen_def
        split: option.splits sum.splits bool.splits)
  then show "lifted rdy.kept w (snd (andThen (finalize_upload E sv fa tenant rq r) k w))"
    by (auto simp: andThen_def rdy.kw.wd.R_refl)
qed

lemma create_version_unconfirmed:
  assumes "\<And>p. c_principal ctx = Some p \<Longrightarrow> \<not> upload_confirmed sv (pTenantID p) rq"
  shows "steps_in (lifted rdy.kept) (handle_create_model_version E sv fresh fa ev ctx rq)"
  unfolding handle_create_model_version_def Let_def
  by (rule rdy.kw.steps_authorized)
     (intro finalize_unconfirmed assms steps_intros rdy.kw.wd.steps_basic rdy.kw.steps_unless
        rdy.kw.steps_on_db rdy_parts rdy_store; assumption)

definition newly_ready :: "version_row \<Rightarrow> db \<Rightarrow> db \<Rightarrow> bool" where
  "newly_ready v s t \<longleftrightarrow> v \<in> set (versions t) \<and> v_status v = VersionReady
     \<and> list_all (\<lambda>q. version_key q = version_key v \<longrightarrow> v_status q \<noteq> VersionReady) (versions s)"

lemma newly_ready_not_kept: "newly_ready v s t \<Longrightarrow> \<not> rdy.kept s t"
proof
  assume new: "newly_ready v s t" and "rdy.kept s t"
  moreover from new
  have "version_key v \<in> set (map version_key (filter (\<lambda>v. v_status v = VersionReady) (versions t)))"
    by (auto simp: newly_ready_def)
  ultimately
  have "version_key v \<in> set (map version_key (filter (\<lambda>v. v_status v = VersionReady) (versions s)))"
    by (simp only: rdy.kept_def)
  with new show False by (auto simp: newly_ready_def list_all_iff)
qed

lemma ready_upload_confirmed:
  assumes "c_principal ctx = Some p"
    and "newly_ready v (w_db w) (w_db (snd (handle_create_model_version E sv fresh fa ev ctx rq w)))"
  shows "upload_confirmed sv (pTenantID p) rq"
proof (rule ccontr)
  assume "\<not> ?thesis"
  then have "\<And>q. c_principal ctx = Some q \<Longrightarrow> \<not> upload_confirmed sv (pTenantID q) rq"
    using assms(1) by simp
  from create_version_unconfirmed [OF this]
  have "rdy.kept (w_db w) (w_db (snd (handle_create_model_version E sv fresh fa ev ctx rq w)))"
    by (simp add: steps_in_def lifted_def)
  with newly_ready_not_kept [OF assms(2)] show False by blast
qed

text \<open>C6: A version becomes ready through \<open>CreateModelVersion\<close> only when the object storage
  confirmed, for the tenant of the caller, that the object exists and has the requested digest.\<close>

theorem upload_verified:
  assumes "c_principal ctx = Some p"
    and "newly_ready v (w_db w) (w_db (snd (handle_create_model_version E sv fresh fa ev ctx rq w)))"
  shows "\<exists>st. sStorage sv = Some st
    \<and> st_object_exists st (pTenantID p) (cvStoragePath rq) = Inr True
    \<and> st_verify_checksum st (pTenantID p) (cvStoragePath rq) (cvChecksumSha256 rq) = None"
  using ready_upload_confirmed [OF assms] by (simp add: upload_confirmed_def split: option.splits)

lemma upload_verified_witness:
  "newly_ready (last (versions (w_db (snd (sample_create_version sample_upload sample_db))))) sample_db
       (w_db (snd (sample_create_version sample_upload sample_db)))
   \<and> (\<exists>st. sStorage sample_service = Some st
        \<and> st_object_exists st ''u1'' ''u1/m.tar'' = Inr True)"
proof -
  have new: "newly_ready (last (versions (w_db (snd (sample_create_version sample_upload sample_db)))))
      (w_db (sample_world sample_db)) (w_db (snd (sample_create_version sample_upload sample_db)))"
    by code_simp
  from upload_verified [OF sample_context_principal new] new show ?thesis
    by (auto simp: sample_upload_def sample_world_def)
qed

section \<open>Trained artifacts\<close>

definition object_confirmed :: "storage_port \<Rightarrow> string \<Rightarrow> registration \<Rightarrow> bool" where
  "object_confirmed st tenant g \<longleftrightarrow> st_object_exists st tenant (gStoragePath g) = Inr True
     \<and> (case st_verify_object st of None \<Rightarrow> False
        | Some verify \<Rightarrow>
            (case verify tenant (gStoragePath g) (gSizeBytes g) (gChecksumSHA256 g) of
               Inl _ \<Rightarrow> False | Inr k \<Rightarrow> kMatches k))"

lemma rdy_check_object: "steps_in (lifted rdy.kept) (check_object E st a g)"
  unfolding check_object_def fail_and_throw_def
  by (intro steps_intros rdy.kw.wd.steps_basic rdy.kw.steps_on_db rdy_store)

lemma check_unconfirmed:
  "\<not> object_confirmed st a g \<Longrightarrow> isl (fst (check_object E st a g w))"
  by (auto simp: object_confirmed_def check_object_def fail_and_throw_def inspect_def
      split: option.splits sum.splits bool.splits prod.splits)

lemma andThen_stops: "isl (fst (m w)) \<Longrightarrow> snd (andThen m f w) = snd (m w)"
  by (auto simp: andThen_def isl_def split: prod.splits)

lemma session_unconfirmed:
  "\<not> object_confirmed st a g \<Longrightarrow> lifted rdy.kept w (snd (complete_session E ids st a g w))"
  using rdy_check_object [of E st a g]
  by (simp add: complete_session_def andThen_stops check_unconfirmed steps_in_def)

lemma authorize_Inr: "authorize E ctx t w = (Inr p, u) \<Longrightarrow> c_principal ctx = Some p \<and> u = w"
  by (auto simp: authorize_def mapErr_def require_tenant_def from_context_def
      split: sum.splits option.splits if_splits)

lemma on_db_Inr:
  "mapErr h (on_db m) w = (Inr x, u) \<Longrightarrow> fst (m (w_db w)) = Inr x"
  by (auto simp: mapErr_def on_db_def split: sum.splits prod.splits)

lemma complete_unconfirmed:
  assumes "c_principal ctx = Some p"
    and "\<And>st g. sStorage sv = Some st \<Longrightarrow>
        fst (reg_get E (pTenantID p) (crRegistrationId rq) (w_db w)) = Inr g \<Longrightarrow>
        \<not> object_confirmed st (pTenantID p) g"
  shows "lifted rdy.kept w (snd (handle_complete_trained_artifact E sv ids ctx rq w))"
  unfolding handle_complete_trained_artifact_def
proof (rule rdy.kw.wd.at_andThen)
  show "lifted rdy.kept w (snd (authorize E ctx (crTenantId rq) w))"
    using rdy_parts(1) by (simp add: steps_in_def)
next
  fix q u
  assume "authorize E ctx (crTenantId rq) w = (Inr q, u)"
  with assms(1) have qu: "q = p" "u = w" by (auto dest: authorize_Inr)
  show "lifted rdy.kept u (snd ((case (sTrained sv, sStorage sv) of
       (True, Some st) \<Rightarrow>
         andThen (mapErr (map_trained_registration E)
           (on_db (reg_get E (pTenantID q) (crRegistrationId rq)))) (\<lambda>g.
         if crIdempotencyKey rq \<noteq> [] \<and> crIdempotencyKey rq \<noteq> gIdempotencyKey g
         then throw (kerr 409 ''IDEMPOTENCY_CONFLICT'' ''idempotency_key does not match registration'')
         else if gStatus g = RegistrationReady then ret (complete_response (registration_result_of g))
         else complete_session E ids st (pTenantID q) g)
     | _ \<Rightarrow> throw trained_missing) u))"
  proof (cases "sTrained sv \<and> sStorage sv \<noteq> None")
    case True
    then obtain st where st: "sStorage sv = Some st" and "sTrained sv" by blast
    have "lifted rdy.kept w (snd (mapErr (map_trained_registration E)
        (on_db (reg_get E (pTenantID p) (crRegistrationId rq))) w))"
      using rdy.kw.steps_on_db [OF rdy.kv.steps_reads(11)] by (simp add: steps_in_def)
    moreover have "\<not> object_confirmed st (pTenantID p) g"
      if "mapErr (map_trained_registration E) (on_db (reg_get E (pTenantID p) (crRegistrationId rq))) w
        = (Inr g, t)" for g t
      using assms(2) [OF st on_db_Inr [OF that]] .
    ultimately show ?thesis
      unfolding qu using st \<open>sTrained sv\<close>
      by (auto intro!: rdy.kw.wd.at_andThen session_unconfirmed rdy.kw.wd.R_refl)
  qed (auto simp: rdy.kw.wd.R_refl split: option.splits bool.splits)
qed

text \<open>C7: Completing a trained artifact makes a version ready only when the object storage
  confirmed that the registered object exists and that its size and digest match the
  registration.\<close>

theorem trained_upload_verified:
  assumes "c_principal ctx = Some p"
    and "newly_ready v (w_db w) (w_db (snd (handle_complete_trained_artifact E sv ids ctx rq w)))"
  shows "\<exists>st g verify k. sStorage sv = Some st
    \<and> fst (reg_get E (pTenantID p) (crRegistrationId rq) (w_db w)) = Inr g
    \<and> st_object_exists st (pTenantID p) (gStoragePath g) = Inr True
    \<and> st_verify_object st = Some verify
    \<and> verify (pTenantID p) (gStoragePath g) (gSizeBytes g) (gChecksumSHA256 g) = Inr k \<and> kMatches k"
proof (rule ccontr)
  assume none: "\<not> ?thesis"
  have "lifted rdy.kept w (snd (handle_complete_trained_artifact E sv ids ctx rq w))"
    by (rule complete_unconfirmed [OF assms(1)])
       (use none in \<open>auto simp: object_confirmed_def split: option.splits sum.splits\<close>)
  then show False using newly_ready_not_kept [OF assms(2)] by (simp add: lifted_def)
qed

lemma trained_upload_verified_witness:
  "newly_ready (last (versions (w_db (snd (sample_complete_on uploaded_db))))) uploaded_db
       (w_db (snd (sample_complete_on uploaded_db)))
   \<and> (\<exists>st (g :: registration). sStorage sample_service = Some st
        \<and> st_object_exists st ''u1'' (gStoragePath g) = Inr True)"
proof -
  have new: "newly_ready (last (versions (w_db (snd (sample_complete_on uploaded_db)))))
      (w_db (sample_world uploaded_db)) (w_db (snd (sample_complete_on uploaded_db)))"
    by code_simp
  have "w_db (sample_world uploaded_db) = uploaded_db" by (simp add: sample_world_def)
  with trained_upload_verified [OF sample_context_principal new] new show ?thesis
    by auto
qed

section \<open>What is handed out\<close>

text \<open>C13: \<open>GetModelDownloadURL\<close> hands out a URL only for a version that is deployable (ready, with
  an artifact of well-formed digest), the URL is the one the storage issued for that artifact
  on behalf of the caller's tenant, and it has not expired.\<close>

theorem download_is_deployable:
  assumes "handle_get_model_download_url E sv ctx rq w = (Inr m, u)"
  shows "\<exists>p st v url d. c_principal ctx = Some p \<and> sStorage sv = Some st
    \<and> fst (get_version E (pTenantID p) (duModelVersionId rq) (w_db w)) = Inr v
    \<and> vStatus v = VersionReady \<and> is_checksum (vArtifactSHA256 v)
    \<and> dTenantID d = pTenantID p \<and> dObjectRef d = vArtifactReference v
    \<and> st_create_download_url st d = Inr url
    \<and> mdDownloadUrl m = nURL url \<and> mdStoragePath m = vArtifactReference v
    \<and> clock (w_db u) * 1000 < mdExpiresAt m"
proof -
  from assms obtain p w1 where p: "authorize E ctx (duTenantId rq) w = (Inr p, w1)"
    by (auto simp: handle_get_model_download_url_def andThen_Inr_iff)
  from authorize_Inr [OF p] have pw: "c_principal ctx = Some p" "w1 = w" by auto
  from assms p pw(2) obtain st v t where st: "sStorage sv = Some st"
    and v: "mapErr (map_domain E) (on_db (get_version E (pTenantID p) (duModelVersionId rq))) w = (Inr v, t)"
    and rest: "andThen (deployable E v) (\<lambda>_.
           andThen (mapErr (\<lambda>e. kerr 502 ''STORAGE_PROVIDER_ERROR'' (error_text E e))
             (lift (st_create_download_url st
               \<lparr>dTenantID = pTenantID p, dObjectRef = vArtifactReference v,
                dRequester = (if duRequester rq = [] then pActor p else duRequester rq),
                dTTL = 300000000000\<rparr>))) (\<lambda>u.
           andThen go_now (\<lambda>now.
             case validate_signed_url u now of
               Some e \<Rightarrow> throw (kerr 502 ''STORAGE_INVALID_URL'' (error_text E e))
             | None \<Rightarrow> ret \<lparr>mdDownloadUrl = nURL u, mdStoragePath = vArtifactReference v,
                         mdExpiresAt = nExpiresAt u\<rparr>))) t = (Inr m, u)"
    by (auto simp: handle_get_model_download_url_def andThen_Inr_iff split: bool.splits option.splits)
  from rest have dep: "deployment_input v = None"
    by (auto simp: andThen_Inr_iff deployable_def split: option.splits)
  with rest obtain url where url: "st_create_download_url st
       \<lparr>dTenantID = pTenantID p, dObjectRef = vArtifactReference v,
        dRequester = (if duRequester rq = [] then pActor p else duRequester rq),
        dTTL = 300000000000\<rparr> = Inr url"
    and "validate_signed_url url (clock (w_db u) * 1000) = None"
    and m: "m = \<lparr>mdDownloadUrl = nURL url, mdStoragePath = vArtifactReference v, mdExpiresAt = nExpiresAt url\<rparr>"
    by (auto simp: andThen_Inr_iff deployable_def mapErr_Inr_iff go_now_def split: option.splits)
  then show ?thesis
    using pw(1) st on_db_Inr [OF v] dep
    by (intro exI conjI) (auto simp: deployment_input_def validate_signed_url_def split: option.splits if_splits)
qed

lemma download_is_deployable_witness:
  "\<exists>d url. st_create_download_url sample_storage d = Inr url
     \<and> nURL url = mdDownloadUrl (projr (fst (handle_get_model_download_url sample_ext sample_service
         sample_context sample_download (sample_world ready_db))))"
proof -
  let ?p = "handle_get_model_download_url sample_ext sample_service sample_context sample_download
      (sample_world ready_db)"
  have "\<not> isl (fst ?p)" by code_simp
  from succeeded [OF this] have "?p = (Inr (projr (fst ?p)), snd ?p)" .
  from download_is_deployable [OF this] show ?thesis
    by (metis option.inject sample_service_def service.select_convs(4))
qed

section \<open>Encryption\<close>

text \<open>C15: No version is ever stored as encrypted: whatever \<open>is_encrypted\<close> a client declares for an
  upload, every reachable state has it unset on every version.\<close>

theorem encryption_not_stored:
  assumes "reachable E t" and "v \<in> set (versions t)"
  shows "\<not> v_is_encrypted v"
  using assms by (rule none_encrypted)

lemma encryption_not_stored_witness: "\<not> v_is_encrypted (hd (versions imported_db))"
proof -
  have "versions imported_db \<noteq> []" by code_simp
  then have "hd (versions imported_db) \<in> set (versions imported_db)" by simp
  from encryption_not_stored [OF imported_reachable this] show ?thesis .
qed

end
