(* ===== verification/ImportProperties.thy ===== *)
theory ImportProperties
  imports WorkerRuns UploadProperties
begin

text \<open>
  What the import worker guarantees: it makes a version ready only after the object storage confirmed the imported object, and what it asks of the
  cluster is well formed.
\<close>

section \<open>A sample site\<close>

definition sample_pod :: pod_spec where
  "sample_pod = \<lparr>psLabels = Map.empty, psRestartPolicy = ''Never'', psServiceAccountName = ''sa'',
     psVolumes = [], psRunAsNonRoot = True, psRunAsUser = 65532, psRunAsGroup = 65532,
     psFSGroup = 65532, psFSGroupChangePolicy = ''OnRootMismatch'', psContainers = []\<rparr>"

definition sample_job :: job where
  "sample_job = \<lparr>jbNamespace = ''ani'', jbName = ''j'', jbLabels = Map.empty, jbAnnotations = Map.empty,
     jbBackoffLimit = Some 0, jbActiveDeadlineSeconds = None, jbTTLSecondsAfterFinished = None,
     jbPod = sample_pod, jbActive = 0, jbSucceeded = 1, jbFailed = 0, jbStartTime = None,
     jbCompletionTime = None,
     jbConditions = [\<lparr>cnType = ''Complete'', cnStatus = ''True'', cnReason = [], cnMessage = []\<rparr>]\<rparr>"

text \<open>A cluster on which every job has completed.\<close>

definition sample_kube :: "unit kube" where
  "sample_kube = \<lparr>kl_create_job = (\<lambda>ns j. ret j), kl_get_job = (\<lambda>ns n. ret sample_job),
     kl_delete_job = (\<lambda>ns n p. ret ()), kl_create_pvc = (\<lambda>ns p. ret p),
     kl_get_pvc = (\<lambda>ns n. ret \<lparr>pvNamespace = ns, pvName = n, pvLabels = Map.empty,
        pvAnnotations = Map.empty, pvStorageClass = None, pvSize = ''11Gi''\<rparr>),
     kl_delete_pvc = (\<lambda>ns n. ret ()), kl_create_secret = (\<lambda>ns x. ret x),
     kl_get_secret = (\<lambda>ns n. throw (KubeError KubeNotFound ''secret'')),
     kl_update_secret = (\<lambda>ns x. ret x), kl_delete_secret = (\<lambda>ns n. ret ()),
     kl_list_pods = (\<lambda>ns sel. ret [''pod'']),
     kl_pod_logs = (\<lambda>ns p c n. ret ''ANI_IMPORT_RESULT {}'')\<rparr>"

definition sample_executor :: "unit executor" where
  "sample_executor = \<lparr>cfJobs = Some (Some sample_kube), cfStorage = Some (\<lambda>_. sample_storage),
     cfBuckets = None, cfArtifacts = True, cfChecksums = True,
     cfProviders = Some (\<lambda>_. Some (Some (\<lambda>repo rev. Inr [\<lparr>ifPath = ''m'', ifSize = 12\<rparr>]))),
     cfNamespace = ''ani'', cfImage = ''img'', cfProviderSecretName = [], cfCAConfigMapName = [],
     cfCAConfigMapKey = [], cfStorageClass = [], cfStorageCAConfigMap = [], cfUploadTTL = 0,
     cfDecode = (\<lambda>s. Inr \<lparr>irObjectRef = ''imports/m.tar'', irFormat = [],
        irChecksumSHA256 = replicate 64 (CHR ''a''), irSizeBytes = 12\<rparr>),
     cfQuantity = Inr, cfFormatTime = (\<lambda>n. ''t''), cfParseTime = (\<lambda>s. None)\<rparr>"

definition sample_worker :: worker where
  "sample_worker = \<lparr>kTenantID = [], kOwner = ''w1'', kLease = 0, kBatch = 0, kMaxAttempts = 0,
     kBinder = None, kFinalizer = True, kAllTenants = True\<rparr>"

definition sample_site :: "db \<Rightarrow> unit site" where
  "sample_site s = \<lparr>g_db = s, g_kube = (), g_moments = [], g_renewal = None, g_wake = False,
     g_ready = False\<rparr>"

abbreviation sample_run :: "db \<Rightarrow> unit site" where
  "sample_run s \<equiv> snd (worker_run sample_ext sample_worker (execute sample_ext sample_executor)
     [ContextDone] (sample_site s))"

section \<open>Imported versions\<close>

interpretation vk: version_view "\<lambda>v. v_status v = VersionReady \<and> version_key v = K" for K .

lemma vk_not_ready:
  "v_status v = ''pending'' \<Longrightarrow> \<not> v_is_encrypted v \<Longrightarrow> \<not> (v_status v = VersionReady \<and> version_key v = K)"
  by (simp add: VersionReady_def)

lemmas vk_sql = vk.kept_sql vk.kept_inserts [OF vk_not_ready]

lemma vk_updates:
  "steps_in (vk.kept K) (sqlMarkModelVersionErrorForTask tn i vid owner epoch msg)"
  "steps_in (vk.kept K) (sqlSetModelVersionChecksum tn i chk sz)"
  "K \<noteq> (tn, i) \<Longrightarrow> steps_in (vk.kept K) (sqlMarkModelVersionReady tn i)"
  unfolding sqlMarkModelVersionErrorForTask_def sqlSetModelVersionChecksum_def sqlMarkModelVersionReady_def
  by (intro vk.kv.steps_db vk.kept_other_tables vk.kept_upd_versions;
      auto simp: version_key_def unfinished_def markable_ready_def version_statuses)+

lemma vk_store:
  "steps_in (vk.kept K) (list_due E w)"
  "steps_in (vk.kept K) (work_claim E a b owner lease)"
  "steps_in (vk.kept K) (work_renew E a b owner epoch lease)"
  "steps_in (vk.kept K) (work_bind E a b owner epoch x y)"
  "steps_in (vk.kept K) (work_complete E a b owner epoch)"
  "steps_in (vk.kept K) (work_retry E a b owner epoch after msg)"
  "steps_in (vk.kept K) (work_fail E a b owner epoch msg)"
  "steps_in (vk.kept K) (mark_error_and_maybe_model E a tk b owner epoch msg)"
  "steps_in (vk.kept K) (resolve_binding E resolve t)"
  "steps_in (vk.kept K) (create_artifact E art)"
  "steps_in (vk.kept K) (get_artifact E a b)"
  "steps_in (vk.kept K) (set_checksum E a b chk sz)"
  unfolding list_due_def work_list_due_all_def resolve_binding_def get_artifact_def store_defs Let_def
  by (intro vk.kv.steps_db vk_sql vk_updates steps_intros; simp)+

lemma vk_mark_ready:
  assumes "\<And>tn i. parse_model_ids E a b = Inr (tn, i) \<Longrightarrow> K \<noteq> (tn, i)"
  shows "steps_in (vk.kept K) (mark_ready E a b)"
proof (cases "parse_model_ids E a b")
  case (Inr p)
  moreover obtain tn i where "p = (tn, i)" by fastforce
  ultimately have "steps_in (vk.kept K) (sqlMarkModelVersionReady tn i)"
    and "mark_ready E a b = andThen (sqlMarkModelVersionReady tn i) (\<lambda>n.
       if n \<noteq> 1 then inspect (get_version E a b) (\<lambda>res.
           case res of Inr _ \<Rightarrow> ret () | Inl _ \<Rightarrow> throw ErrNoRows)
       else ret ())"
    using assms vk_updates(3) by (auto simp: mark_ready_def lift_def andThen_def ret_def)
  then show ?thesis
    unfolding get_version_def by (simp only:) (intro vk.kv.steps_db vk_sql steps_intros; simp)
qed (simp add: mark_ready_def lift_def andThen_def throw_def steps_in_def vk.kv.R_refl)

text \<open>A ready version under a key, and a version whose recorded digest the storage confirmed.\<close>

definition ready_at :: "uuid \<times> uuid \<Rightarrow> db \<Rightarrow> bool" where
  "ready_at K s \<longleftrightarrow> list_ex (\<lambda>v. v_status v = VersionReady \<and> version_key v = K) (versions s)"

definition spares :: "ext \<Rightarrow> uuid \<times> uuid \<Rightarrow> db \<Rightarrow> db \<Rightarrow> bool" where
  "spares E K s t \<longleftrightarrow> store_run E s t \<and> (ready_at K t \<longrightarrow> ready_at K s)"

definition backed_at :: "ext \<Rightarrow> storage_port \<Rightarrow> uuid \<times> uuid \<Rightarrow> db \<Rightarrow> bool" where
  "backed_at E port K s \<longleftrightarrow> (\<exists>tenant r v. x_uuid_parse E tenant = Inr (fst K) \<and> confirms port tenant r
     \<and> irChecksumSHA256 r \<noteq> [] \<and> v \<in> set (versions s) \<and> version_key v = K
     \<and> v_checksum_sha256 v = irChecksumSHA256 r)"

definition watched :: "ext \<Rightarrow> storage_port \<Rightarrow> uuid \<times> uuid \<Rightarrow> db \<Rightarrow> db \<Rightarrow> bool" where
  "watched E port K s t \<longleftrightarrow> store_run E s t
     \<and> (reachable E s \<longrightarrow> (ready_at K t \<longrightarrow> ready_at K s) \<or> backed_at E port K t)"

lemma kept_ready_at: "vk.kept K s t \<Longrightarrow> ready_at K t = ready_at K s"
proof -
  have "ready_at K s \<longleftrightarrow> map version_key (filter (\<lambda>v. v_status v = VersionReady \<and> version_key v = K) (versions s)) \<noteq> []"
    for s by (auto simp: ready_at_def list_ex_iff filter_empty_conv)
  then show "vk.kept K s t \<Longrightarrow> ready_at K t = ready_at K s"
    by (simp only: vk.kept_def)
qed

lemma backed_later:
  assumes "reachable E s" and "store_run E s t" and "backed_at E port K s"
  shows "backed_at E port K t"
proof -
  from assms(3) obtain tenant r v where v: "x_uuid_parse E tenant = Inr (fst K)" "confirms port tenant r"
    "irChecksumSHA256 r \<noteq> []" "v \<in> set (versions s)" "version_key v = K"
    "v_checksum_sha256 v = irChecksumSHA256 r" unfolding backed_at_def by blast
  have "grows version_evolves (versions s) (versions t)"
    using run_evolves [OF assms(1,2)] by (simp add: evolves_def)
  then obtain w where "w \<in> set (versions t)" "version_evolves v w" using v(4) by (rule run_row)
  with v show ?thesis unfolding backed_at_def version_evolves_def by metis
qed

interpretation wt: db_relation "watched E port K"
proof unfold_locales
  show "watched E port K s s" for s by (simp add: watched_def ru.R_refl)
  show "watched E port K s u" if "watched E port K s t" "watched E port K t u" for s t u
    using that unfolding watched_def by (meson backed_later reachable_run store_run_trans)
  show "watched E port K s (s\<lparr>clock := c, script := l\<rparr>)" if "clock s \<le> c" for s c l
    using ru.R_time [OF that] by (simp add: watched_def ready_at_def)
  show "clock s \<le> clock t" if "watched E port K s t" for s t
    using that ru.R_clock unfolding watched_def by blast
qed

lemma watched_step:
  "steps_in (store_run E) m \<Longrightarrow> steps_in (vk.kept K) m \<Longrightarrow> steps_in (watched E port K) m"
  by (auto simp: steps_in_def watched_def dest: kept_ready_at)

lemmas sw_calls = sw.due_kept sw.claim_kept sw.renew_kept sw.bind_kept sw.complete_kept sw.retry_kept
  sw.fail_kept sw.error_kept sw.binding_kept sw.artifact_kept sw.artifact_read sw.checksum_kept

interpretation ww: worker_stores "watched E port K" E
  by unfold_locales (rule watched_step; rule sw_calls vk_store)+

lemma one_row_hit:
  assumes "rows_affected (upd_versions hit f) s = (Inr 1, t)"
  shows "\<exists>v \<in> set (versions s). hit s v \<and> f (clock s) v \<in> set (versions t)"
proof -
  from assms have "filter (hit s) (versions s) \<noteq> []" and t: "versions t = upd_rows (hit s) (f (clock s)) (versions s)"
    by (auto simp: rows_affected_def andThen_Inr_iff upd_versions_def)
  then show ?thesis unfolding t by (force simp: upd_rows_def filter_empty_conv)
qed

lemma checksum_backs:
  assumes "set_checksum E a b (irChecksumSHA256 r) sz s = (Inr (), t)"
    and "parse_model_ids E a b = Inr K" and "confirms port a r" and "irChecksumSHA256 r \<noteq> []"
  shows "backed_at E port K t"
proof -
  obtain tn i where K: "K = (tn, i)" by (cases K)
  with assms(1,2) have "sqlSetModelVersionChecksum tn i (irChecksumSHA256 r) sz s = (Inr 1, t)"
    by (auto simp: set_checksum_def andThen_Inr_iff split: if_splits)
  then obtain v where "v \<in> set (versions t)" "version_key v = (tn, i)"
    "v_checksum_sha256 v = irChecksumSHA256 r"
    unfolding sqlSetModelVersionChecksum_def
    by (elim stmt_Inr) (auto simp: version_key_def dest!: one_row_hit)
  moreover from assms(2) K have "x_uuid_parse E a = Inr tn"
    by (auto simp: parse_model_ids_def parse_field_def split: sum.splits)
  ultimately show ?thesis
    using assms(3,4) K unfolding backed_at_def by (metis fst_conv)
qed

lemma execution_backs:
  assumes "cfStorage cf = Some (\<lambda>_. port)" and "cfChecksums cf"
    and "supervised E w (execute E cf) t s = (Inr (), u)" and "parse_model_ids E (wTenantID t) (wVersionID t) = Inr K"
    and "others_keep (watched E port K) s" and "reachable E (g_db s)"
  shows "backed_at E port K (g_db u)"
proof -
  let ?s = "s\<lparr>g_renewal := None\<rparr>"
  have "execute E cf (renewal E w t) t ?s = (Inr (), u)"
    using assms(3) by (auto simp: supervised_def fresh_renewal_def lost_lease_def andThen_Inr_iff split: option.splits)
  from ww.execute_finished [OF ww.steps_renewal this assms(1), of port K]
  obtain c ns name x y where fin: "finalize_job E cf c (\<lambda>_. port) (renewal E w t) t ns name x = (Inr (), y)"
    and sites: "on_site (watched E port K) ?s x" "on_site (watched E port K) x y" "on_site (watched E port K) y u"
    by blast
  from finalized [OF fin assms(2)] obtain r d where r: "confirms port (wTenantID t) r"
    "length (irChecksumSHA256 r) = 64"
    "set_checksum E (wTenantID t) (wVersionID t) (irChecksumSHA256 r) (irSizeBytes r) d = (Inr (), g_db y)"
    by blast
  then have backed: "backed_at E port K (g_db y)"
    by (intro checksum_backs [OF r(3) assms(4) r(1)]) auto
  have o: "others_keep (watched E port K) ?s" using assms(5) by (simp add: others_keep_def)
  have sy: "on_site (watched E port K) ?s y" using sites(1,2) by (rule wt.site_trans)
  with o have "store_run E (g_db s) (g_db y)" by (simp add: on_site_def watched_def)
  moreover from o sy have "others_keep (watched E port K) y"
    unfolding on_site_def by (blast intro: others_keep_later)
  with sites(3) have "store_run E (g_db y) (g_db u)" by (simp add: on_site_def watched_def)
  ultimately show ?thesis using backed assms(6) backed_later reachable_run by blast
qed

lemma watched_finish:
  assumes "cfStorage cf = Some (\<lambda>_. port)" and "cfChecksums cf"
    and "supervised E w (execute E cf) t s = (Inr (), u)"
  shows "on_site (watched E port K) s (snd (finish_task E w t u))" (is "on_site _ s ?end")
proof -
  have su: "on_site (watched E port K) s u"
    by (rule steps_inD [OF ww.steps_supervised assms(3), OF ww.steps_execute [OF ww.steps_renewal]])
  show ?thesis
  proof (cases "parse_model_ids E (wTenantID t) (wVersionID t) = Inr K")
    case False
    have "steps_in (watched E port K) (mark_ready E (wTenantID t) (wVersionID t))"
      using False by (intro watched_step ru_mark_ready vk_mark_ready) auto
    then have "steps_in (on_site (watched E port K)) (finish_task E w t)"
      unfolding finish_task_def
      by (intro wt.site_basic wt.steps_at_db steps_intros ww.steps_give_up ww.complete_kept)
    from steps_in_at [OF this] show ?thesis by (rule wt.site_trans [OF su])
  next
    case True
    have ue: "on_site (store_run E) u ?end" by (rule steps_in_at [OF ru_finish])
    have "watched E port K (g_db s) (g_db ?end)" if o: "others_keep (watched E port K) s"
    proof -
      from o su have "others_keep (watched E port K) u" and run: "store_run E (g_db s) (g_db u)"
        unfolding on_site_def watched_def by (blast intro: others_keep_later)+
      then have "others_keep (store_run E) u" by (auto simp: others_keep_def watched_def list_all_iff)
      with ue have ur: "store_run E (g_db u) (g_db ?end)" by (simp add: on_site_def)
      have "backed_at E port K (g_db ?end)" if "reachable E (g_db s)"
        using execution_backs [OF assms True o that] backed_later ur reachable_run [OF that run] by blast
      with run ur show ?thesis unfolding watched_def by (blast intro: store_run_trans)
    qed
    moreover have "later s ?end" using su ue by (auto simp: on_site_def intro: later_trans)
    ultimately show ?thesis by (simp add: on_site_def)
  qed
qed

lemma watched_worker:
  assumes "cfStorage cf = Some (\<lambda>_. port)" and "cfChecksums cf"
  shows "steps_in (on_site (watched E port K)) (worker_run E w (execute E cf) arms)"
  by (intro ww.steps_worker_run ww.steps_process_claimed ww.steps_execute ww.steps_renewal
      watched_finish [OF assms])

lemma import_confirmed:
  assumes "cfStorage cf = Some (\<lambda>_. port)" and "cfChecksums cf" and "reachable E (g_db s)"
    and "others_keep (spares E (version_key v)) s"
    and "newly_ready v (g_db s) (g_db (snd (worker_run E w (execute E cf) arms s)))"
  shows "\<exists>tenant r. x_uuid_parse E tenant = Inr (v_tenant_id v) \<and> confirms port tenant r
    \<and> irChecksumSHA256 r = v_checksum_sha256 v"
proof -
  let ?t = "g_db (snd (worker_run E w (execute E cf) arms s))" and ?K = "version_key v"
  from assms(4) have "others_keep (watched E port ?K) s"
    by (auto simp: others_keep_def spares_def watched_def list_all_iff)
  moreover have "on_site (watched E port ?K) s (snd (worker_run E w (execute E cf) arms s))"
    by (rule steps_in_at [OF watched_worker [OF assms(1,2)]])
  ultimately have st: "watched E port ?K (g_db s) ?t" by (simp add: on_site_def)
  moreover from assms(5) have v: "v \<in> set (versions ?t)" and "ready_at ?K ?t" and "\<not> ready_at ?K (g_db s)"
    by (auto simp: newly_ready_def ready_at_def list_ex_iff list_all_iff)
  ultimately obtain tenant r q where q: "x_uuid_parse E tenant = Inr (fst ?K)" "confirms port tenant r"
    "q \<in> set (versions ?t)" "version_key q = ?K" "v_checksum_sha256 q = irChecksumSHA256 r"
    using assms(3) unfolding watched_def backed_at_def by blast
  have "db_ok ?t" using st assms(3) by (blast intro: reachable_ok reachable_run dest: watched_def [THEN iffD1])
  then have "q = v"
    using q(3,4) v by (intro distinct_key_eq [of version_key]) (simp_all add: db_ok_def versions_ok_def)
  with q show ?thesis by (auto simp: version_key_def)
qed

text \<open>C8: The import worker makes a version ready only when the object storage confirmed, for the
  tenant of the version, that an imported object exists and has the digest the version carries,
  whatever the cluster reports and whatever other processes do meanwhile, as long as none of
  them makes the version ready itself.\<close>

theorem import_verified:
  assumes "cfStorage cf = Some (\<lambda>_. port)" and "cfChecksums cf" and "reachable E (g_db s)"
    and "others_keep (spares E (version_key v)) s"
    and "newly_ready v (g_db s) (g_db (snd (worker_run E w (execute E cf) arms s)))"
  shows "\<exists>tenant ref. x_uuid_parse E tenant = Inr (v_tenant_id v)
    \<and> st_object_exists port tenant ref = Inr True
    \<and> st_verify_checksum port tenant ref (v_checksum_sha256 v) = None"
  using import_confirmed [OF assms] unfolding confirms_def by metis

lemma import_verified_witness:
  "newly_ready (hd (versions (g_db (sample_run imported_db)))) imported_db (g_db (sample_run imported_db))
   \<and> (\<exists>ref. st_verify_checksum sample_storage ''u1'' ref
          (v_checksum_sha256 (hd (versions (g_db (sample_run imported_db))))) = None)"
proof -
  have new: "newly_ready (hd (versions (g_db (sample_run imported_db)))) (g_db (sample_site imported_db))
      (g_db (sample_run imported_db))"
    by code_simp
  have site: "g_db (sample_site imported_db) = imported_db" by (simp add: sample_site_def)
  have "cfStorage sample_executor = Some (\<lambda>_. sample_storage)" "cfChecksums sample_executor"
    by (simp_all add: sample_executor_def)
  from import_verified [OF this _ _ new] new site show ?thesis
    by (auto simp: imported_reachable others_keep_def sample_site_def sample_storage_def)
qed

section \<open>The staging volume\<close>

definition wanted_files :: "task \<Rightarrow> import_file list \<Rightarrow> import_file list" where
  "wanted_files t fs =
     (case snd (cut (CHR ''#'') (wRepoID t)) of
        None \<Rightarrow> fs
      | Some file \<Rightarrow> (if trim_set ''/'' file = [] then fs
                    else filter (\<lambda>f. ifPath f = trim_set ''/'' file) fs))"

lemma sum_sizes_Some:
  "sum_sizes wanted acc fs = Some n \<Longrightarrow> 0 \<le> acc \<Longrightarrow> acc \<le> max_int64 \<Longrightarrow>
   n = acc + sum_list (map ifSize (filter (\<lambda>f. wanted = [] \<or> ifPath f = wanted) fs)) \<and> 0 \<le> n \<and> n \<le> max_int64"
proof (induction fs arbitrary: acc)
  case (Cons f fs)
  show ?case
  proof (cases "wanted = [] \<or> ifPath f = wanted")
    case True
    with Cons.prems have size_ok: "0 \<le> ifSize f" "acc \<le> max_int64 - ifSize f"
      and rest: "sum_sizes wanted (wrap64 (acc + ifSize f)) fs = Some n"
      by (auto split: if_splits)
    then have "wrap64 (acc + ifSize f) = acc + ifSize f"
      using Cons.prems(2) by (intro wrap64_id) (simp add: in_int64_def max_int64_def)
    with rest Cons.IH [of "acc + ifSize f"] size_ok Cons.prems(2) True show ?thesis by simp
  next
    case False
    with Cons show ?thesis by simp
  qed
qed simp

lemma estimate_Some:
  assumes "estimate_manifest_size source t = Some n"
  shows "\<exists>fs total. source (wRepoID t) (wRevision t) = Inr fs
    \<and> total = sum_list (map ifSize (wanted_files t fs)) \<and> 0 < total
    \<and> n = total + max (total div 5) minImportHeadroomBytes \<and> n \<le> max_int64"
proof -
  let ?w = "case snd (cut (CHR ''#'') (wRepoID t)) of None \<Rightarrow> [] | Some file \<Rightarrow> trim_set ''/'' file"
  from assms obtain fs total where fs: "source (wRepoID t) (wRevision t) = Inr fs"
    and total: "sum_sizes ?w 0 fs = Some total" and n: "with_headroom total = Some n"
    unfolding estimate_manifest_size_def by (auto split: sum.splits list.splits option.splits)
  have "filter (\<lambda>f. ?w = [] \<or> ifPath f = ?w) fs = wanted_files t fs"
    by (simp add: wanted_files_def split: option.split)
  with sum_sizes_Some [OF total] have sum: "total = sum_list (map ifSize (wanted_files t fs))"
    by (simp add: max_int64_def)
  from n have pos: "0 < total" and fits: "total + max (total div 5) minImportHeadroomBytes \<le> max_int64"
    and "n = wrap64 (total + max (total div 5) minImportHeadroomBytes)"
    by (auto simp: with_headroom_def Let_def split: if_splits)
  moreover have "0 \<le> max (total div 5) minImportHeadroomBytes" by (simp add: minImportHeadroomBytes_def)
  with pos fits have "wrap64 (total + max (total div 5) minImportHeadroomBytes)
      = total + max (total div 5) minImportHeadroomBytes"
    by (intro wrap64_id) (simp add: in_int64_def max_int64_def)
  ultimately show ?thesis using fs sum by simp
qed

lemma wrap64_twice: "wrap64 (wrap64 a - 1) = wrap64 (a - 1)"
  using mod_diff_left_eq [of "a + 9223372036854775808" 18446744073709551616 1]
  by (simp add: wrap64_def algebra_simps)

lemma wrap64_over:
  assumes "in_int64 (a - 18446744073709551616)"
  shows "wrap64 a = a - 18446744073709551616"
proof -
  have "wrap64 a = wrap64 (a - 18446744073709551616)"
    using minus_mod_self2 [of "a + 9223372036854775808" 18446744073709551616]
    by (simp add: wrap64_def algebra_simps)
  with wrap64_id [OF assms] show ?thesis by simp
qed

lemma storage_units_exact:
  assumes "0 < n" and "n \<le> max_int64 - giBytes + 1"
  shows "storage_units n = (n + giBytes - 1) div giBytes"
proof -
  have "wrap64 (wrap64 (n + giBytes) - 1) = n + giBytes - 1"
    using assms unfolding wrap64_twice
    by (intro wrap64_id) (simp add: in_int64_def giBytes_def max_int64_def)
  then show ?thesis using assms by (simp add: storage_units_def trunc_div_nonneg giBytes_def)
qed

text \<open>C38: An estimate for the staging volume of an import is exactly the sum of the files the
  task selects from the provider's manifest plus a headroom of a fifth, at least ten gibibytes,
  and lies within 64 bits: none of the additions that led to it wrapped. As long as it is at
  least a gibibyte below the largest 64-bit integer, the gibibytes requested hold it.\<close>

theorem staging_volume_covers:
  assumes "estimate_manifest_size source t = Some n"
  shows "\<exists>fs total. source (wRepoID t) (wRevision t) = Inr fs
    \<and> total = sum_list (map ifSize (wanted_files t fs)) \<and> 0 < total
    \<and> n = total + max (total div 5) minImportHeadroomBytes \<and> n \<le> max_int64
    \<and> (n \<le> max_int64 - giBytes + 1 \<longrightarrow> n \<le> storage_units n * giBytes)"
proof -
  from estimate_Some [OF assms] obtain fs total where e: "source (wRepoID t) (wRevision t) = Inr fs"
    "total = sum_list (map ifSize (wanted_files t fs))" "0 < total"
    "n = total + max (total div 5) minImportHeadroomBytes" "n \<le> max_int64" by blast
  then have "0 < n" by (simp add: minImportHeadroomBytes_def)
  from storage_units_exact [OF this] have "n \<le> max_int64 - giBytes + 1 \<Longrightarrow> n \<le> storage_units n * giBytes"
    by (simp add: giBytes_def)
  with e show ?thesis by blast
qed

definition sample_task :: task where
  "sample_task = (task_from_row sample_ext sample_task_row)\<lparr>wAttemptCount := 1\<rparr>"

definition sample_source :: manifest_source where
  "sample_source = (\<lambda>repo rev. Inr [\<lparr>ifPath = ''m'', ifSize = 12\<rparr>])"

lemma sample_estimate: "estimate_manifest_size sample_source sample_task = Some 10737418252"
  by code_simp

lemma staging_volume_covers_witness:
  "\<exists>total > 0. 10737418252 = total + max (total div 5) minImportHeadroomBytes
     \<and> 10737418252 \<le> storage_units 10737418252 * giBytes"
  using staging_volume_covers [OF sample_estimate] by (auto simp: max_int64_def giBytes_def)

text \<open>C39: The number of gibibytes requested for an estimate is the least that holds it, as long as
  the addition stays within 64 bits; for the estimates above that it is negative.\<close>

theorem storage_units_least:
  assumes "0 < n" and "n \<le> max_int64"
  shows "if n \<le> max_int64 - giBytes + 1
    then n \<le> storage_units n * giBytes \<and> (\<forall>k. n \<le> k * giBytes \<longrightarrow> storage_units n \<le> k)
    else storage_units n < 0"
proof (cases "n \<le> max_int64 - giBytes + 1")
  case True
  have "(n + giBytes - 1) div giBytes \<le> k" if "n \<le> k * giBytes" for k
    using that by (simp add: giBytes_def)
  with True show ?thesis
    using storage_units_exact [OF assms(1)] by (simp add: giBytes_def)
next
  case False
  then have "wrap64 (wrap64 (n + giBytes) - 1) = n + giBytes - 1 - 18446744073709551616" (is "_ = ?m")
    using assms unfolding wrap64_twice
    by (intro wrap64_over) (simp add: in_int64_def giBytes_def max_int64_def)
  moreover have "?m \<le> - giBytes" using assms(2) by (simp add: giBytes_def max_int64_def)
  then have "?m < 0" and "0 < \<bar>?m\<bar> div \<bar>giBytes\<bar>"
    by (simp_all add: giBytes_def)
  ultimately show ?thesis
    using False by (simp add: storage_units_def trunc_div_def giBytes_def)
qed

lemma storage_units_least_witness:
  "12 \<le> storage_units 12 * giBytes \<and> storage_units 9223372036854775807 < 0"
  using storage_units_least [of 12] storage_units_least [of 9223372036854775807]
  by (simp add: max_int64_def giBytes_def)

end
