(* ===== verification/UploadReplay.thy ===== *)
theory UploadReplay
  imports ImportProperties
begin

text \<open>
  What a repeated \<open>CreateModelVersion\<close> does: a version that already has its artifact is never
  made ready by it, and a version that is ready is answered with the path of the request.
  The bounds of the pages the list methods ask for.
\<close>

section \<open>Versions that have their artifact\<close>

definition artifact_at :: "uuid \<times> uuid \<Rightarrow> db \<Rightarrow> bool" where
  "artifact_at K s \<longleftrightarrow> list_ex (\<lambda>a. (a_tenant_id a, a_model_version_id a) = K) (artifacts s)"

definition art_grow :: "db \<Rightarrow> db \<Rightarrow> bool" where
  "art_grow s t \<longleftrightarrow> clock s \<le> clock t \<and> set (artifacts s) \<subseteq> set (artifacts t)"

interpretation ag: db_relation art_grow
  by unfold_locales (auto simp: art_grow_def)

lemma ag_ops:
  "steps_in art_grow (ins_version mk1)" "steps_in art_grow (ins_artifact mk2)"
  "steps_in art_grow (ins_audit mk3)" "steps_in art_grow (upd_versions hit1 f1)"
  "steps_in art_grow (upd_models bad hit2 f2)"
  by (rule steps_inI; auto simp: ins_version_def ins_artifact_def ins_audit_def upd_versions_def
      upd_models_def Let_def art_grow_def split: option.split)+

lemma ag_store:
  "steps_in art_grow (create_version E v)"
  "steps_in art_grow (create_artifact E art)"
  "steps_in art_grow (audit_insert E fresh e)"
  "steps_in art_grow (mark_ready E a b)"
  unfolding create_version_def insert_version_def create_artifact_def audit_insert_def mark_ready_def
    get_version_def sqlCreateModelVersion_def sqlCreateModelArtifact_def sqlInsertAuditEvent_def
    sqlMarkModelVersionReady_def Let_def
  by (intro ag.steps_db ag.sql_reads ag_ops steps_intros; simp)+

definition stuck :: "uuid \<times> uuid \<Rightarrow> db \<Rightarrow> db \<Rightarrow> bool" where
  "stuck K s t \<longleftrightarrow> (artifact_at K s \<longrightarrow> artifact_at K t \<and> (ready_at K t \<longrightarrow> ready_at K s))"

interpretation stk: world_relation "stuck K"
  by unfold_locales (auto simp: stuck_def)

lemma stuck_step:
  assumes "steps_in (vk.kept K) m" and "steps_in art_grow m"
  shows "steps_in (stuck K) m"
proof (rule steps_inI)
  fix s
  from steps_in_at [OF assms(1)] have "ready_at K (snd (m s)) = ready_at K s" by (rule kept_ready_at)
  moreover from steps_in_at [OF assms(2), of s] have "artifact_at K s \<Longrightarrow> artifact_at K (snd (m s))"
    by (auto simp: art_grow_def artifact_at_def list_ex_iff)
  ultimately show "stuck K s (snd (m s))" by (simp add: stuck_def)
qed

lemma stuck_unchanged: "steps_in (lifted unchanged) m \<Longrightarrow> steps_in (lifted (stuck K)) m"
  by (auto simp: steps_in_def lifted_def unchanged_def same_tables_def stuck_def artifact_at_def ready_at_def)

lemma vk_writes:
  "steps_in (vk.kept K) (create_version E v)"
  "steps_in (vk.kept K) (audit_insert E fresh e)"
  unfolding create_version_def insert_version_def audit_insert_def Let_def
  by (intro vk.kv.steps_db vk_sql steps_intros; simp)+

lemmas stuck_store = stuck_step [OF vk_writes(1) ag_store(1)] stuck_step [OF vk_writes(2) ag_store(3)]
  stuck_step [OF vk_store(10) ag_store(2)]

lemma stuck_audited: "steps_in (lifted (stuck K)) (audited_version E sv ev p v)"
  unfolding audited_version_def record_audit_def
  by (intro stk.wd.steps_basic stk.steps_on_db steps_intros stuck_store)

text \<open>A second artifact of a version is refused.\<close>

lemma create_artifact_fresh:
  assumes "create_artifact E art s = (Inr x, t)" and "parse_model_ids E (aTenantID art) (aModelVersionID art) = Inr K"
  shows "\<not> artifact_at K s"
  using assms
  by (auto simp: create_artifact_def andThen_Inr_iff parse_model_ids_def parse_field_def artifact_at_def
      sqlCreateModelArtifact_def ins_artifact_def reject_def Let_def artifact_clash_def list_ex_iff
      split: sum.splits option.splits if_splits elim!: stmt_Inr)

lemma stuck_record:
  assumes "aTenantID art = tenant" and "aModelVersionID art = ver"
    and "\<And>x. steps_in (lifted (stuck K)) (k x)"
  shows "steps_in (lifted (stuck K)) (andThen (mapErr h (on_db (create_artifact E art)))
    (\<lambda>_. andThen (mapErr h (on_db (mark_ready E tenant ver))) k))" (is "steps_in _ ?m")
proof (cases "parse_model_ids E tenant ver = Inr K")
  case False
  then have "steps_in (stuck K) (mark_ready E tenant ver)"
    by (intro stuck_step vk_mark_ready ag_store) auto
  then show ?thesis
    by (intro stk.wd.steps_basic stk.steps_on_db steps_intros stuck_store assms(3))
next
  case True
  show ?thesis
  proof (rule steps_inI)
    fix w
    show "lifted (stuck K) w (snd (?m w))"
    proof (cases "artifact_at K (w_db w)")
      case there: True
      have "isl (fst (mapErr h (on_db (create_artifact E art)) w))"
        using there True assms(1,2) create_artifact_fresh [of E art "w_db w" _ _ K]
        by (auto simp: mapErr_def on_db_def split: prod.split sum.split)
      moreover have "lifted (stuck K) w (snd (mapErr h (on_db (create_artifact E art)) w))"
        using stk.steps_on_db [OF stuck_store(3)] by (simp add: steps_in_def)
      ultimately show ?thesis by (simp add: andThen_stops)
    qed (simp add: lifted_def stuck_def)
  qed
qed

lemma stuck_finalize: "steps_in (lifted (stuck K)) (finalize_upload E sv fa tenant rq r)"
  unfolding finalize_upload_def
  by (intro stk.wd.steps_basic steps_intros stuck_record; simp)

lemma stuck_create_version: "steps_in (lifted (stuck K)) (handle_create_model_version E sv fresh fa ev ctx rq)"
  unfolding handle_create_model_version_def Let_def
  by (intro stk.steps_authorized stk.wd.steps_basic stk.steps_unless stk.steps_on_db steps_intros
      stuck_unchanged [OF un_resolve] stuck_store stuck_finalize stuck_audited)

text \<open>C30: \<open>CreateModelVersion\<close> never makes ready a version that already has its artifact: an upload
  that stopped between recording its artifact and marking the version ready cannot be
  finished by repeating the request.\<close>

theorem recorded_upload_stuck:
  assumes "newly_ready v (w_db w) (w_db (snd (handle_create_model_version E sv fresh fa ev ctx rq w)))"
  shows "\<not> artifact_at (version_key v) (w_db w)"
proof
  assume "artifact_at (version_key v) (w_db w)"
  moreover have "stuck (version_key v) (w_db w)
      (w_db (snd (handle_create_model_version E sv fresh fa ev ctx rq w)))"
    using steps_in_at [OF stuck_create_version] by (auto simp: lifted_def)
  ultimately show False
    using assms by (auto simp: stuck_def newly_ready_def ready_at_def list_ex_iff list_all_iff)
qed

lemma recorded_upload_stuck_witness:
  "\<not> artifact_at (version_key (last (versions (w_db (snd (sample_create_version sample_upload sample_db))))))
     sample_db"
proof -
  have new: "newly_ready (last (versions (w_db (snd (sample_create_version sample_upload sample_db)))))
      (w_db (sample_world sample_db)) (w_db (snd (sample_create_version sample_upload sample_db)))"
    by code_simp
  from recorded_upload_stuck [OF new] show ?thesis by (simp add: sample_world_def)
qed

lemma audited_Inr: "audited_version E sv ev p v w = (Inr m, u) \<Longrightarrow> m = to_proto_version v"
  by (auto simp: audited_version_def elim: andThen_InrE)

lemma finalize_Inr:
  "finalize_upload E sv fa tenant rq r w = (Inr v, u) \<Longrightarrow> vArtifactReference v = cvStoragePath rq"
  by (auto simp: finalize_upload_def as_upload_def elim!: andThen_InrE split: option.splits bool.splits)

text \<open>C40: A successful \<open>CreateModelVersion\<close> for an upload answers with the storage path of the
  request, also when it repeats a finished upload that was stored under another path.\<close>

theorem response_path_requested:
  assumes "handle_create_model_version E sv fresh fa ev ctx rq w = (Inr m, u)" and "cvStoragePath rq \<noteq> []"
  shows "mvStoragePath m = cvStoragePath rq"
  using assms(1) unfolding handle_create_model_version_def Let_def
  by (elim andThen_InrE)
     (auto simp: assms(2) to_proto_version_def as_upload_def split: if_splits
        elim!: andThen_InrE dest!: audited_Inr finalize_Inr)

definition other_upload :: create_version_req where
  "other_upload = sample_upload\<lparr>cvStoragePath := ''u1/other.tar''\<rparr>"

lemma response_path_requested_witness:
  "mvStoragePath (projr (fst (sample_create_version other_upload
      (w_db (snd (sample_create_version sample_upload sample_db)))))) = ''u1/other.tar''"
proof -
  let ?p = "sample_create_version other_upload (w_db (snd (sample_create_version sample_upload sample_db)))"
  have "\<not> isl (fst ?p)" by code_simp
  from response_path_requested [OF succeeded [OF this]] show ?thesis by (simp add: other_upload_def)
qed

section \<open>Pages\<close>

lemma page_fits:
  assumes "1 \<le> k" and "1 \<le> p" and "p - 1 \<le> trunc_div max_int32 k"
  shows "0 \<le> (p - 1) * k \<and> (p - 1) * k \<le> max_int32"
proof -
  have "(p - 1) * k \<le> max_int32 div k * k"
    using assms by (intro mult_right_mono) (simp_all add: trunc_div_nonneg max_int32_def)
  also have "\<dots> \<le> max_int32"
    using div_mult_mod_eq [of max_int32 k] pos_mod_sign [of k max_int32] assms(1) by linarith
  finally show ?thesis using assms by simp
qed

text \<open>C34: A page the list methods accept has a limit between 1 and 100 and an offset that is the
  product of the pages before it and the limit, within 32 bits; every other request is refused
  as an invalid argument.\<close>

theorem resolve_page_bounds:
  "case resolve_page pn sz of
     Inr o1 \<Rightarrow> 1 \<le> oLimit o1 \<and> oLimit o1 \<le> 100 \<and> 0 \<le> oOffset o1 \<and> oOffset o1 \<le> max_int32
       \<and> oOffset o1 = (case pn of None \<Rightarrow> 0 | Some p \<Rightarrow> (p - 1) * oLimit o1)
       \<and> oLimit o1 = (case sz of None \<Rightarrow> 20 | Some n \<Rightarrow> n)
   | Inl e \<Rightarrow> \<exists>m. e = kerr 400 ''INVALID_ARGUMENT'' m"
proof -
  let ?p = "case pn of None \<Rightarrow> 1 | Some n \<Rightarrow> n" and ?size = "case sz of None \<Rightarrow> 20 | Some n \<Rightarrow> n"
  show ?thesis
  proof (cases "?p < 1 \<or> ?size < 1 \<or> 100 < ?size \<or> trunc_div max_int32 ?size < ?p - 1")
    case True
    then show ?thesis by (auto simp: resolve_page_def Let_def)
  next
    case False
    then have "0 \<le> (?p - 1) * ?size \<and> (?p - 1) * ?size \<le> max_int32" by (intro page_fits) auto
    moreover from this have "wrap64 ((?p - 1) * ?size) = (?p - 1) * ?size"
      by (intro wrap64_id) (simp add: in_int64_def max_int32_def)
    moreover have "wrap32 ?size = ?size"
      using False by (intro wrap32_id) (simp add: in_int32_def)
    ultimately show ?thesis
      using False by (simp add: resolve_page_def Let_def) (simp split: option.split)
  qed
qed

end
