(* ===== verification/JobProperties.thy ===== *)
theory JobProperties
  imports ImportProperties
begin

text \<open>
  The objects an import creates on the cluster and the result it reads back: manifests are
  well formed, names of different attempts differ, the reported result survives the logs,
  and a task whose worker died is taken up by another.
\<close>

section \<open>The result in the logs\<close>

definition log_text :: "string list \<Rightarrow> string" where
  "log_text ls = concat (map (\<lambda>l. l @ [CHR 0x0A]) ls)"

lemma split_on_line: "c \<notin> set l \<Longrightarrow> split_on c (l @ c # rest) = l # split_on c rest"
  by (induction l) (auto split: list.splits)

lemma split_log_text:
  "list_all (\<lambda>l. CHR 0x0A \<notin> set l) ls \<Longrightarrow> split_on (CHR 0x0A) (log_text ls) = ls @ [[]]"
  by (induction ls) (simp_all add: log_text_def split_on_line)

text \<open>\<open>drop_seqs\<close> on a text of lines: it takes white space from the front, whole lines or a part of one.\<close>

lemma drop_seqs_length: "length (drop_seqs ps s) \<le> length s"
proof (induction ps s rule: drop_seqs.induct)
  case (1 ps s)
  then show ?case
    by (subst drop_seqs.simps) (force split: option.split)
qed

lemma drop_seqs_none: "(\<And>p. p \<in> set ps \<Longrightarrow> p \<noteq> [] \<Longrightarrow> \<not> prefix p s) \<Longrightarrow> drop_seqs ps s = s"
  by (subst drop_seqs.simps) (auto simp: find_None_iff split: option.split dest: find_SomeD)

lemma drop_seqs_fixed:
  assumes "drop_seqs ps s = s" and "p \<in> set ps" and "p \<noteq> []"
  shows "\<not> prefix p s"
proof (cases "List.find (\<lambda>p. p \<noteq> [] \<and> prefix p s) ps")
  case None
  with assms show ?thesis by (auto simp: find_None_iff)
next
  case (Some q)
  then have "q \<noteq> []" "prefix q s" by (auto dest: find_SomeD)
  then have "length (drop (length q) s) < length s" by (auto simp: prefix_def)
  moreover have "drop_seqs ps s = drop_seqs ps (drop (length q) s)"
    using Some by (subst drop_seqs.simps) simp
  ultimately show ?thesis
    using drop_seqs_length [of ps "drop (length q) s"] assms(1) by simp
qed

lemma space_seqs_facts:
  assumes "p \<in> set space_seqs"
  shows "p \<noteq> []" and "length p \<le> 3" and "hd p \<noteq> CHR ''A''" and "p = [CHR 0x0A] \<or> CHR 0x0A \<notin> set p"
  using assms by (auto simp: space_seqs_def)

lemma prefix_within: "prefix p (x @ c # y) \<Longrightarrow> c \<notin> set p \<Longrightarrow> prefix p x"
  by (auto simp: prefix_def append_eq_append_conv2 Cons_eq_append_conv)

lemma drop_lines:
  assumes "list_all (\<lambda>l. CHR 0x0A \<notin> set l) ls"
  shows "\<exists>ms. list_all (\<lambda>l. CHR 0x0A \<notin> set l) ms
    \<and> drop_seqs space_seqs (log_text ls @ CHR ''A'' # x) = log_text ms @ CHR ''A'' # x"
  using assms
proof (induction "length (log_text ls)" arbitrary: ls rule: less_induct)
  case less
  let ?s = "log_text ls @ CHR ''A'' # x"
  show ?case
  proof (cases "List.find (\<lambda>p. p \<noteq> [] \<and> prefix p ?s) space_seqs")
    case None
    then have "drop_seqs space_seqs ?s = ?s" by (subst drop_seqs.simps) simp
    with less.prems show ?thesis by blast
  next
    case (Some p)
    then have p: "p \<in> set space_seqs" "prefix p ?s" by (auto dest: find_SomeD)
    note facts = space_seqs_facts [OF p(1)]
    have step: "drop_seqs space_seqs ?s = drop_seqs space_seqs (drop (length p) ?s)"
      using Some by (subst drop_seqs.simps) simp
    obtain l ks where ls: "ls = l # ks"
      using p(2) facts(1,3) by (cases ls) (auto simp: log_text_def prefix_def Cons_eq_append_conv)
    have rest: "list_all (\<lambda>l. CHR 0x0A \<notin> set l) ks" and l: "CHR 0x0A \<notin> set l"
      using less.prems ls by simp_all
    show ?thesis
    proof (cases "p = [CHR 0x0A]")
      case True
      then have "l = []" using p(2) l ls by (cases l) (auto simp: log_text_def)
      then have "drop (length p) ?s = log_text ks @ CHR ''A'' # x"
        using True ls by (simp add: log_text_def)
      with less.hyps [OF _ rest] ls show ?thesis unfolding step by (simp add: log_text_def)
    next
      case False
      with facts(4) have "CHR 0x0A \<notin> set p" by blast
      moreover have "prefix p (l @ CHR 0x0A # (log_text ks @ CHR ''A'' # x))"
        using p(2) ls by (simp add: log_text_def)
      ultimately obtain k where k: "l = p @ k" using prefix_within by (metis prefixE)
      then have "drop (length p) ?s = log_text (k # ks) @ CHR ''A'' # x"
        using ls by (simp add: log_text_def)
      moreover have "length (log_text (k # ks)) < length (log_text ls)"
        using ls k facts(1) by (simp add: log_text_def)
      moreover have "list_all (\<lambda>l. CHR 0x0A \<notin> set l) (k # ks)"
        using rest l k by simp
      ultimately show ?thesis unfolding step using less.hyps by metis
    qed
  qed
qed

lemma trim_log:
  assumes "list_all (\<lambda>l. CHR 0x0A \<notin> set l) ls" and "trim_space (CHR ''A'' # y) = CHR ''A'' # y"
    and "2 \<le> length y"
  shows "\<exists>ms. list_all (\<lambda>l. CHR 0x0A \<notin> set l) ms
    \<and> trim_space (log_text (ls @ [CHR ''A'' # y])) = log_text ms @ CHR ''A'' # y"
proof -
  let ?line = "CHR ''A'' # y" and ?ends = "map rev space_seqs"
  from drop_lines [OF assms(1), of "y @ [CHR 0x0A]"] obtain ms
    where ms: "list_all (\<lambda>l. CHR 0x0A \<notin> set l) ms"
    and left: "drop_seqs space_seqs (log_text (ls @ [?line])) = log_text ms @ ?line @ [CHR 0x0A]"
    by (auto simp: log_text_def)
  have "drop_seqs space_seqs ?line = ?line"
    by (rule drop_seqs_none) (auto simp: prefix_def Cons_eq_append_conv dest: space_seqs_facts(3))
  with assms(2) have "rev (drop_seqs ?ends (rev ?line)) = ?line" by (simp only: trim_space_def)
  then have fixed: "drop_seqs ?ends (rev ?line) = rev ?line" by (metis rev_rev_ident)
  have "drop_seqs ?ends (rev ?line @ rev (log_text ms)) = rev ?line @ rev (log_text ms)"
  proof (rule drop_seqs_none)
    fix p assume p: "p \<in> set ?ends" "p \<noteq> []"
    then have "length p \<le> length (rev ?line)" using space_seqs_facts(2) assms(3) by fastforce
    with drop_seqs_fixed [OF fixed p] show "\<not> prefix p (rev ?line @ rev (log_text ms))"
      by (metis prefix_length_prefix prefix_prefix prefixI)
  qed
  moreover have "drop_seqs ?ends (CHR 0x0A # z) = drop_seqs ?ends z" for z
    by (subst drop_seqs.simps) (simp add: space_seqs_def)
  ultimately have "trim_space (log_text (ls @ [?line])) = rev (rev ?line @ rev (log_text ms))"
    unfolding trim_space_def left by simp
  with ms show ?thesis by auto
qed

definition valid_result :: "import_result \<Rightarrow> bool" where
  "valid_result r \<longleftrightarrow> irObjectRef r \<noteq> [] \<and> length (irChecksumSHA256 r) = 64 \<and> 0 \<le> irSizeBytes r"

lemma split_on_append: "CHR 0x0A \<notin> set l \<Longrightarrow> list_all (\<lambda>l. CHR 0x0A \<notin> set l) ms \<Longrightarrow>
   split_on (CHR 0x0A) (log_text ms @ l) = ms @ [l]"
proof (induction ms)
  case Nil
  have "CHR 0x0A \<notin> set l \<Longrightarrow> split_on (CHR 0x0A) l = [l]" for l by (induction l) auto
  with Nil show ?case by (simp add: log_text_def)
next
  case (Cons m ms)
  then show ?case by (simp add: log_text_def split_on_line)
qed

text \<open>The last \<open>n\<close> lines: what \<open>TailLines\<close> asks the cluster for.\<close>

definition last_lines :: "nat \<Rightarrow> string list \<Rightarrow> string list" where
  "last_lines n ls = drop (length ls - n) ls"

text \<open>C37: The result an import job prints as its last line, encoded after the agreed prefix, is what
  the executor reads back through the logs of the first pod of the job, whatever the job
  printed before, if the last 200 lines, which are all the cluster is asked for, take at most a
  mebibyte. Longer lines lose the result: only the first mebibyte of them is read.\<close>

theorem result_roundtrip:
  fixes k :: "'k kube" and s1 s2 s3 :: 'k
  assumes "decode (encode r) = Inr r" and "valid_result r" and "CHR 0x0A \<notin> set (encode r)"
    and "trim_space (result_prefix @ encode r) = result_prefix @ encode r"
    and "list_all (\<lambda>l. CHR 0x0A \<notin> set l) before"
    and "kl_list_pods k ns (''job-name='' @ name) s1 = (Inr (pod # pods), s2)"
    and "kl_pod_logs k ns pod ImportContainerName 200 s2
      = (Inr (log_text (last_lines 200 (before @ [result_prefix @ encode r]))), s3)"
    and "int (length (log_text (last_lines 200 (before @ [result_prefix @ encode r])))) \<le> log_limit"
  shows "andThen (job_logs (Some k) ns name) (\<lambda>logs. lift (parse_import_result decode logs)) s1 = (Inr r, s3)"
proof -
  let ?line = "result_prefix @ encode r"
  obtain y where y: "?line = CHR ''A'' # y" "2 \<le> length y" by (simp add: result_prefix_def)
  let ?ls = "drop (length before - 199) before"
  have tail: "last_lines 200 (before @ [?line]) = ?ls @ [?line]"
    by (simp add: last_lines_def)
  have "list_all (\<lambda>l. CHR 0x0A \<notin> set l) ?ls"
    using assms(5) by (auto simp: list_all_iff dest: in_set_dropD)
  from trim_log [OF this assms(4) [unfolded y(1)] y(2)] obtain ms
    where ms: "list_all (\<lambda>l. CHR 0x0A \<notin> set l) ms"
    and trim: "trim_space (log_text (?ls @ [?line])) = log_text ms @ ?line"
    unfolding y(1) by blast
  have "CHR 0x0A \<notin> set ?line" using assms(3) by (simp add: result_prefix_def)
  from split_on_append [OF this ms]
  have "parse_import_result decode (log_text ms @ ?line) = last_result decode (?line # rev ms)"
    by (simp only: parse_import_result_def rev_append rev.simps append.simps)
  also have "\<dots> = Inr r"
    using assms(1,2,4) by (simp add: Let_def has_prefix_def valid_result_def)
  finally have "parse_import_result decode (log_text ms @ ?line) = Inr r" .
  moreover have "job_logs (Some k) ns name s1 = (Inr (log_text ms @ ?line), s3)"
    using assms(6-8) trim
    by (simp add: job_logs_def request_def andThen_def mapErr_def read_limited_def tail)
  ultimately show ?thesis by (simp add: andThen_def)
qed

definition sample_result :: import_result where
  "sample_result = \<lparr>irObjectRef = ''imports/m.tar'', irFormat = [],
     irChecksumSHA256 = replicate 64 (CHR ''a''), irSizeBytes = 12\<rparr>"

definition chatty_kube :: "unit kube" where
  "chatty_kube = sample_kube\<lparr>kl_pod_logs := (\<lambda>ns p c n. ret (log_text [''downloading'', result_prefix @ ''{}'']))\<rparr>"

lemma result_roundtrip_witness:
  "fst (andThen (job_logs (Some chatty_kube) ''ani'' ''j'')
     (\<lambda>logs. lift (parse_import_result (\<lambda>_. Inr sample_result) logs)) ()) = Inr sample_result"
proof -
  have trim: "trim_space (result_prefix @ ''{}'') = result_prefix @ ''{}''" by code_simp
  have "andThen (job_logs (Some chatty_kube) ''ani'' ''j'')
     (\<lambda>logs. lift (parse_import_result (\<lambda>_. Inr sample_result) logs)) () = (Inr sample_result, ())"
    by (rule result_roundtrip [where encode = "\<lambda>_. ''{}''" and before = "[''downloading'']" and pod = "''pod''"
          and pods = "[]", OF _ _ _ trim])
       (simp_all add: valid_result_def sample_result_def chatty_kube_def sample_kube_def last_lines_def
          log_text_def log_limit_def result_prefix_def)
  then show ?thesis by simp
qed

section \<open>Names\<close>




section \<open>The manifest\<close>









section \<open>The worker's loop\<close>

text \<open>The worker ends only by the end of its context, whatever the scans it made did, and
  leaves its readiness cleared.\<close>

theorem worker_stops:
  "\<exists>u. worker_run E w ex arms s = (Inl Canceled, u) \<and> \<not> g_ready u"
proof -
  have "fst (run_loop E (with_defaults w) ex as v) = Inl Canceled" for as v
  proof (induction as arbitrary: v)
    case (Cons a as)
    then show ?case
      by (auto simp: inspect_def andThen_def report_health_def take_wake_def split: prod.split)
  qed simp
  then show ?thesis
    by (simp add: worker_run_def inspect_def andThen_def report_health_def split: prod.split) (metis fst_conv)
qed

section \<open>Abandoned tasks\<close>

text \<open>C35: A task whose worker died is taken up: once its lease has run out, the next worker that
  claims it on a working connection holds it, under a new epoch that fences the dead worker.\<close>

theorem abandoned_task_claimable:
  assumes "reachable E s" and "script s = []" and "r \<in> set (tasks s)" and "t_status r = TaskImporting"
    and "t_lease_until r = Some u" and "u \<le> clock s" and "t_next_attempt_at r \<le> clock s" and "in_range r"
    and "x_uuid_parse E a = Inr (t_tenant_id r)" and "x_uuid_parse E b = Inr (t_id r)"
  shows "\<exists>tk t. work_claim E a b owner lease s = (Inr tk, t)
    \<and> wLeaseOwner tk = owner \<and> wLeaseEpoch tk = t_lease_epoch r + 1
    \<and> wAttemptCount tk = t_attempt_count r + 1 \<and> fenced t (t_tenant_id r) (t_id r) (t_lease_epoch r)"
proof -
  have "due (clock s) r" using assms(4-7) by (simp add: due_def lease_free_def)
  from sql_claim_due [OF reachable_ok [OF assms(1)] assms(2,3) refl refl assms(8) this, of owner "microseconds lease"]
  obtain t where claim: "sqlClaimImportTask (t_tenant_id r) (t_id r) owner (microseconds lease) s
      = (Inr (claimed_row owner (microseconds lease) (clock s) r), t)" by blast
  then have "work_claim E a b owner lease s =
    (Inr ((task_from_row E (claimed_row owner (microseconds lease) (clock s) r))
       \<lparr>wTenantID := a, wID := b, wProgressPct := 0, wErrorMessage := [], wCreatedAt := 0, wCompletedAt := 0\<rparr>), t)"
    (is "_ = (Inr ?tk, t)")
    by (simp add: work_claim_def parse_ids_Inr [OF assms(9,10)] inspect_def')
  moreover have "wLeaseOwner ?tk = owner" "wLeaseEpoch ?tk = t_lease_epoch r + 1"
    "wAttemptCount ?tk = t_attempt_count r + 1"
    by (simp_all add: task_from_row_def claimed_row_def)
  moreover from this have "fenced t (t_tenant_id r) (t_id r) (t_lease_epoch r)"
    by (intro claimed_fenced [OF assms(9,10) calculation(1)]) simp
  ultimately show ?thesis by blast
qed

lemma abandoned_task_claimable_witness:
  "\<exists>tk t. work_claim sample_ext ''u1'' ''u111111111'' ''w2'' 60000000000 expired_db = (Inr tk, t)
     \<and> wLeaseOwner tk = ''w2'' \<and> wLeaseEpoch tk = 2"
proof -
  let ?r = "hd (tasks expired_db)"
  have "tasks expired_db \<noteq> []" "script expired_db = []" "t_status ?r = TaskImporting"
    "t_lease_until ?r = Some 60000010" "clock expired_db = 61000010" "t_next_attempt_at ?r \<le> 61000010"
    "in_range ?r" "t_tenant_id ?r = 1" "t_id ?r = 9" "t_lease_epoch ?r = 1"
    by code_simp+
  from abandoned_task_claimable [OF reachable_run [OF imported_reachable store_run_trans [OF claimed_run expired_run]]
      this(2) list.set_sel(1) [OF this(1)] this(3,4) _ _ this(7), of "''u1''" "''u111111111''" "''w2''" 60000000000] this
  show ?thesis by auto
qed

section \<open>Retried tasks\<close>

definition retried_row :: "int \<Rightarrow> task_row \<Rightarrow> task_row" where
  "retried_row now r = r\<lparr>t_status := TaskPending, t_attempt_count := 0, t_progress_pct := 0,
     t_lease_owner := [], t_lease_until := None, t_next_attempt_at := now,
     t_error_message := [], t_completed_at := None, t_updated_at := now\<rparr>"

lemma failed_unique:
  assumes "db_ok s" and "r \<in> set (tasks s)" and "t_tenant_id r = tn" and "t_id r = i"
    and "t \<in> set (tasks s)" and "failed_task tn i t"
  shows "t = r"
proof (rule distinct_key_eq [of task_key "tasks s"])
  show "distinct (map task_key (tasks s))" using assms(1) by (simp add: db_ok_def tasks_ok_def)
qed (use assms in \<open>simp_all add: failed_task_def task_key_def\<close>)

lemma task_bad_versions:
  assumes "map version_key vs = map version_key (versions s)"
  shows "task_bad (s\<lparr>versions := vs\<rparr>) r = task_bad s r"
proof -
  from assms have "version_key ` set vs = version_key ` set (versions s)" by (metis set_map)
  then have "has_version (s\<lparr>versions := vs\<rparr>) = has_version s"
    by (simp add: has_version_iff version_keys_def fun_eq_iff)
  moreover have "has_model (s\<lparr>versions := vs\<rparr>) = has_model s" by (simp add: has_model_def fun_eq_iff)
  ultimately show ?thesis by (simp only: task_bad_def task_refs_ok_def)
qed

lemma retry_failed_hit:
  assumes ok: "db_ok s" and quiet: "script s = []" and r: "r \<in> set (tasks s)" "t_tenant_id r = tn" "t_id r = i"
    and range: "in_range r" and failed: "t_status r = TaskFailed"
  shows "sqlRetryFailedImportTaskAndResetVersion tn i s = (Inr (retried_row (clock s) r),
    s\<lparr>tasks := map (\<lambda>t. if task_key t = (tn, i) then retried_row (clock s) r else t) (tasks s),
      versions := map (\<lambda>v. if v_tenant_id v = tn \<and> t_model_version_id r = Some (v_id v) \<and> v_status v = VersionError
        then v\<lparr>v_status := VersionPending, v_error_message := [], v_updated_at := clock s\<rparr> else v) (versions s)\<rparr>)"
proof -
  have hit: "failed_task tn i r" using r failed by (simp add: failed_task_def)
  have only: "t \<in> set (tasks s) \<Longrightarrow> failed_task tn i t \<longleftrightarrow> t = r" for t
    using failed_unique [OF ok r] hit by blast
  have dist: "distinct (map task_key (tasks s))" using ok by (simp add: db_ok_def tasks_ok_def)
  have key: "t \<in> set (tasks s) \<Longrightarrow> task_key t = (tn, i) \<longleftrightarrow> t = r" for t
    using distinct_key_eq [OF dist _ r(1), of t] r(2,3) by (auto simp: task_key_def)
  have hits: "filter (failed_task tn i) (tasks s) = [r]"
    by (rule distinct_only) (use only r hit dist in \<open>auto simp: distinct_map\<close>)
  have v: "upd_rows (\<lambda>v. v_status v = VersionError \<and> list_ex (\<lambda>t. failed_task tn i t
            \<and> v_tenant_id v = t_tenant_id t \<and> t_model_version_id t = Some (v_id v)) (tasks s))
        (\<lambda>v. v\<lparr>v_status := VersionPending, v_error_message := [], v_updated_at := clock s\<rparr>) (versions s)
      = map (\<lambda>v. if v_tenant_id v = tn \<and> t_model_version_id r = Some (v_id v) \<and> v_status v = VersionError
        then v\<lparr>v_status := VersionPending, v_error_message := [], v_updated_at := clock s\<rparr> else v) (versions s)"
    (is "_ = ?vs")
    unfolding upd_rows_def by (rule map_cong) (use only r hit in \<open>auto simp: list_ex_iff\<close>)
  have t: "upd_rows (failed_task tn i) (retried_row (clock s)) (tasks s)
      = map (\<lambda>t. if task_key t = (tn, i) then retried_row (clock s) r else t) (tasks s)"
    unfolding upd_rows_def by (rule map_cong) (use only key in auto)
  have "map version_key ?vs = map version_key (versions s)" by (simp add: version_key_def)
  then have "task_bad (s\<lparr>versions := ?vs\<rparr>) (retried_row (clock s) r) = task_bad s (retried_row (clock s) r)"
    by (rule task_bad_versions)
  also have "\<dots> = None"
  proof -
    have "task_refs_ok s r" using ok r(1) by (simp add: db_ok_def tasks_ok_def task_refs_ok_def null_or_keys)
    then show ?thesis
      using range by (simp add: task_bad_def in_range_def retried_row_def task_refs_ok_def max_int32_def)
  qed
  finally have good: "task_bad (s\<lparr>versions := ?vs\<rparr>) (retried_row (clock s) r) = None" .
  show ?thesis
    unfolding sqlRetryFailedImportTaskAndResetVersion_def retried_row_def [symmetric]
    by (rule stmt_nil [OF quiet])
       (use good in \<open>simp add: andThen_def upd_versions_def upd_tasks_def v t hits first_error_def map_filter_simps one_def\<close>)
qed

text \<open>C31: Retrying a failed import on a working connection makes its task pending again, due now and
  with no attempt counted, its lease epoch kept, and resets the version bound to it exactly if
  that version is in error; no other row changes. For a task in any other status the retry is
  refused as an invalid transition and nothing changes.\<close>

theorem retry_failed_effect:
  assumes ok: "db_ok s" and quiet: "script s = []" and r: "r \<in> set (tasks s)" "in_range r"
    and E: "x_uuid_parse E a = Inr (t_tenant_id r)" "x_uuid_parse E b = Inr (t_id r)"
  shows "work_retry_failed E a b s =
    (if t_status r = TaskFailed
     then (Inr (task_from_row E (retried_row (clock s) r)),
       s\<lparr>tasks := map (\<lambda>t. if task_key t = task_key r then retried_row (clock s) r else t) (tasks s),
         versions := map (\<lambda>v. if v_tenant_id v = t_tenant_id r \<and> t_model_version_id r = Some (v_id v)
             \<and> v_status v = VersionError
           then v\<lparr>v_status := VersionPending, v_error_message := [], v_updated_at := clock s\<rparr> else v) (versions s)\<rparr>)
     else (Inl ErrInvalidTransition, s))"
proof (cases "t_status r = TaskFailed")
  case True
  from retry_failed_hit [OF ok quiet r(1) refl refl r(2) True] True show ?thesis
    by (simp add: work_retry_failed_def parse_ids_Inr [OF E] andThen_def quiet_begin [OF quiet] inspect_def
        tx_body_def commit_from_def quiet task_key_def)
next
  case False
  have none: "\<not> failed_task (t_tenant_id r) (t_id r) t" if "t \<in> set (tasks s)" for t
    using failed_unique [OF ok r(1) refl refl that] False by (auto simp: failed_task_def)
  then have "upd_rows (\<lambda>v. v_status v = VersionError \<and> list_ex (\<lambda>t. failed_task (t_tenant_id r) (t_id r) t
      \<and> v_tenant_id v = t_tenant_id t \<and> t_model_version_id t = Some (v_id v)) (tasks s)) f (versions s) = versions s" for f
    by (intro upd_rows_none) (auto simp: list_ex_iff)
  then have "sqlRetryFailedImportTaskAndResetVersion (t_tenant_id r) (t_id r) s = (Inl ErrNoRows, s)"
    unfolding sqlRetryFailedImportTaskAndResetVersion_def
    using none by (intro stmt_nil_err [OF quiet]) (simp add: andThen_def upd_versions_def upd_tasks_none one_def)
  then have "tx_body (sqlRetryFailedImportTaskAndResetVersion (t_tenant_id r) (t_id r)) s = (Inl ErrNoRows, s)"
    by (simp add: tx_body_def rollback_to_def)
  moreover have "filter (\<lambda>t. t_tenant_id t = t_tenant_id r \<and> t_id t = t_id r) (tasks s) = [r]"
    using task_filter_unique [OF ok r(1) refl refl, of "\<lambda>_. True"] by simp
  then have "sqlGetImportTask (t_tenant_id r) (t_id r) s = (Inr r, s)"
    by (simp add: sqlGetImportTask_def quiet_rd [OF quiet] one_def)
  ultimately show ?thesis
    using False by (simp add: work_retry_failed_def work_get_def parse_ids_Inr [OF E] andThen_def
        quiet_begin [OF quiet] inspect_def task_from_row_def)
qed

definition failed_db :: db where
  "failed_db = sample_db\<lparr>tasks := [sample_task_row\<lparr>t_status := TaskFailed, t_attempt_count := 3\<rparr>],
     versions := [sample_version_row\<lparr>v_status := VersionError\<rparr>]\<rparr>"

lemma failed_db_ok: "db_ok failed_db"
  using sample_db_ok
  by (simp add: db_ok_def failed_db_def sample_defs models_ok_def versions_ok_def tasks_ok_def artifacts_ok_def
      audits_ok_def regs_ok_def task_check_def task_inv_def model_keys_def version_keys_def
      task_keys_def key_defs task_statuses version_check_def version_statuses ready_backed_def)

lemma retry_failed_effect_witness:
  "map v_status (versions (snd (work_retry_failed sample_ext ''u1'' ''u1111'' failed_db))) = [VersionPending]"
proof -
  have "hd (tasks failed_db) \<in> set (tasks failed_db)" "script failed_db = []" "in_range (hd (tasks failed_db))"
    by (simp_all add: failed_db_def sample_defs in_range_def max_int64_def max_int32_def)
  from retry_failed_effect [OF failed_db_ok this(2,1,3), of sample_ext "''u1''" "''u1111''"] show ?thesis
    by (simp add: failed_db_def sample_defs)
qed

end
