(* ===== verification/StoredBytes.thy ===== *)
theory StoredBytes
  imports Minio UploadReplay JobProperties
begin

text \<open>
  The handlers and the worker over the MinIO adapter: objects of different tenants never
  meet, and a version becomes ready only over bytes that lie among the objects of its own
  tenant and have its digest.
\<close>

definition own_object :: "string \<Rightarrow> string \<Rightarrow> bool" where
  "own_object tenant key \<longleftrightarrow> key = tenant_name tenant \<or> has_prefix key (tenant_name tenant @ ''/'')"

lemma object_at_own: "object_at E ad tenant r = Inr (b, key) \<Longrightarrow> own_object tenant key"
  by (auto simp: object_at_def own_object_def dest: tenant_key_own(3) split: sum.splits)

text \<open>C5: Two tenants never address the same object, whatever references they give and whether the
  adapter keeps one bucket for all or one per tenant.\<close>

theorem tenant_objects_disjoint:
  assumes "object_at E ad t1 r1 = Inr obj" and "object_at E ad t2 r2 = Inr obj"
  shows "tenant_name t1 = tenant_name t2"
proof -
  obtain b key where obj: "obj = (b, key)" by fastforce
  with assms have "tenant_key E t1 r1 = Inr key" and "tenant_key E t2 r2 = Inr key"
    by (auto simp: object_at_def split: sum.splits)
  from this [THEN tenant_key_own(1)] show ?thesis by simp
qed

definition sample_adapter :: minio_adapter where
  "sample_adapter = \<lparr>maBucket = ''models'', maTenantBuckets = False, maContentLimit = 0\<rparr>"

lemma tenant_objects_disjoint_witness:
  "object_at sample_ext sample_adapter ''u1'' ''u1/m.tar'' = Inr (''models'', ''u1/m.tar'')
   \<and> tenant_name ''u1'' = tenant_name '' u1/''"
proof -
  have one: "object_at sample_ext sample_adapter ''u1'' ''u1/m.tar'' = Inr (''models'', ''u1/m.tar'')"
    and two: "object_at sample_ext sample_adapter '' u1/'' ''u1/m.tar'' = Inr (''models'', ''u1/m.tar'')"
    by code_simp+
  from one tenant_objects_disjoint [OF one two] show ?thesis ..
qed

text \<open>A digest function under which the sample bytes have the digest the samples declare, and a
  client all of whose objects are these bytes.\<close>

definition digest_ext :: ext where
  "digest_ext = sample_ext\<lparr>x_sha256 :=
     (\<lambda>s. if s = ''model'' then replicate 64 (CHR ''a'') else CHR ''#'' # s)\<rparr>"

definition sample_objects :: minio_client where
  "sample_objects =
     \<lparr>mc_stat = (\<lambda>b k. Inr \<lparr>oiSize = 5, oiVersionID = ''1''\<rparr>),
      mc_get = (\<lambda>b k v. Inr (Inr ''model'')), mc_presign_put = (\<lambda>b k n. Inr ''https''),
      mc_presign_get = (\<lambda>b k n. Inr ''https'')\<rparr>"

definition minio_service :: service where
  "minio_service = sample_service\<lparr>sStorage := Some (minio_port digest_ext sample_adapter sample_objects 0)\<rparr>"

definition minio_executor :: "unit executor" where
  "minio_executor = sample_executor\<lparr>cfStorage := Some (\<lambda>_. minio_port digest_ext sample_adapter sample_objects 0),
     cfDecode := (\<lambda>s. Inr \<lparr>irObjectRef = ''u1/m.tar'', irFormat = [],
        irChecksumSHA256 = replicate 64 (CHR ''a''), irSizeBytes = 5\<rparr>)\<rparr>"

abbreviation minio_create :: "(gerr + version_msg) \<times> world" where
  "minio_create \<equiv> handle_create_model_version digest_ext minio_service ''u111111'' ''u1111111'' 77
     sample_context sample_upload (sample_world sample_db)"

definition bundled_db :: db where
  "bundled_db = snd (import_bundle digest_ext sample_ids sample_bundle empty_db)"

abbreviation minio_run :: "unit site" where
  "minio_run \<equiv> snd (worker_run digest_ext sample_worker (execute digest_ext minio_executor)
     [ContextDone] (sample_site bundled_db))"

lemma bundled_reachable: "reachable digest_ext bundled_db"
  unfolding reachable_def bundled_db_def
  by (rule exI [of _ empty_db], rule conjI [OF fresh_empty],
      rule onward [OF here called [OF bundle_imported [of _ "''u1''"]]]) (simp add: sample_bundle_def)

text \<open>C4: Over the MinIO adapter, a version becomes ready through \<open>CreateModelVersion\<close> only when the
  bytes stored at the requested path, among the objects of the caller's tenant, have the
  requested digest.\<close>

theorem upload_bytes_stored:
  assumes "sStorage sv = Some (minio_port E ad mc now)" and "c_principal ctx = Some p"
    and "newly_ready v (w_db w) (w_db (snd (handle_create_model_version E sv fresh fa ev ctx rq w)))"
  shows "\<exists>b key body. object_at E ad (pTenantID p) (cvStoragePath rq) = Inr (b, key)
    \<and> own_object (pTenantID p) key \<and> mc_get mc b key [] = Inr (Inr body)
    \<and> equal_fold (x_sha256 E body) (cvChecksumSha256 rq)"
proof -
  have "minio_verify_checksum E ad mc (pTenantID p) (cvStoragePath rq) (cvChecksumSha256 rq) = None"
    using ready_upload_confirmed [OF assms(2,3)] assms(1) by (simp add: upload_confirmed_def minio_port_def)
  from verify_checksum_None [OF this] show ?thesis using object_at_own by blast
qed

lemma upload_bytes_stored_witness:
  "newly_ready (last (versions (w_db (snd minio_create)))) sample_db (w_db (snd minio_create))
   \<and> (\<exists>key. own_object ''u1'' key \<and> object_at digest_ext sample_adapter ''u1'' ''u1/m.tar'' = Inr (''models'', key))"
proof -
  have new: "newly_ready (last (versions (w_db (snd minio_create)))) (w_db (sample_world sample_db))
      (w_db (snd minio_create))"
    by code_simp
  have "sStorage minio_service = Some (minio_port digest_ext sample_adapter sample_objects 0)"
    by (simp add: minio_service_def)
  from upload_bytes_stored [OF this sample_context_principal new]
  obtain b key where "object_at digest_ext sample_adapter ''u1'' ''u1/m.tar'' = Inr (b, key)" "own_object ''u1'' key"
    by (auto simp: sample_upload_def)
  moreover have "object_at digest_ext sample_adapter ''u1'' ''u1/m.tar'' = Inr (''models'', ''u1/m.tar'')"
    by code_simp
  ultimately show ?thesis using new by (simp add: sample_world_def)
qed

text \<open>C3: Over the MinIO adapter, the import worker makes a version ready only when the bytes of an
  object of the version's own tenant have the digest the version carries.\<close>

theorem import_bytes_stored:
  assumes "cfStorage cf = Some (\<lambda>_. minio_port E ad mc now)" and "cfChecksums cf" and "reachable E (g_db s)"
    and "others_keep (spares E (version_key v)) s"
    and "newly_ready v (g_db s) (g_db (snd (worker_run E w (execute E cf) arms s)))"
  shows "\<exists>tenant ref b key body. x_uuid_parse E tenant = Inr (v_tenant_id v)
    \<and> object_at E ad tenant ref = Inr (b, key) \<and> own_object tenant key
    \<and> mc_get mc b key [] = Inr (Inr body) \<and> equal_fold (x_sha256 E body) (v_checksum_sha256 v)"
proof -
  from import_confirmed [OF assms] obtain tenant r where t: "x_uuid_parse E tenant = Inr (v_tenant_id v)"
    and "confirms (minio_port E ad mc now) tenant r" and r: "irChecksumSHA256 r = v_checksum_sha256 v"
    by blast
  then have "minio_verify_checksum E ad mc tenant (irObjectRef r) (v_checksum_sha256 v) = None"
    by (simp add: confirms_def minio_port_def)
  from verify_checksum_None [OF this] t show ?thesis using object_at_own by blast
qed

lemma import_bytes_stored_witness:
  "newly_ready (hd (versions (g_db minio_run))) bundled_db (g_db minio_run)
   \<and> equal_fold (x_sha256 digest_ext ''model'') (v_checksum_sha256 (hd (versions (g_db minio_run))))"
proof -
  have new: "newly_ready (hd (versions (g_db minio_run))) (g_db (sample_site bundled_db)) (g_db minio_run)"
    by code_simp
  have site: "g_db (sample_site bundled_db) = bundled_db" "g_moments (sample_site bundled_db) = []"
    by (simp_all add: sample_site_def)
  have "cfStorage minio_executor = Some (\<lambda>_. minio_port digest_ext sample_adapter sample_objects 0)"
    "cfChecksums minio_executor"
    by (simp_all add: minio_executor_def sample_executor_def)
  from import_bytes_stored [OF this _ _ new] new site show ?thesis
    by (auto simp: bundled_reachable others_keep_def sample_objects_def)
qed

end
