(* ===== verification/Archive.thy ===== *)
theory Archive
  imports "HOL-Library.Multiset" Minio FinetuningService
begin

text \<open>
  The inspection of a model archive (\<open>internal/data/storage/finetuning_facts.go\<close>): every member
  of the tar file is named, measured and hashed under fixed limits, and the whole must be the
  frozen object. \<open>archive/tar\<close> and the readers under it are an argument: a \<open>tar_scan\<close> is what
  \<open>tar.Reader\<close> delivered for the bytes of an object, member by member.
\<close>

text \<open>
  A read that failed: the error, whether it is an end of file, the state of the context and
  the error of the source at that moment, and the bytes counted until then.
\<close>

record tar_fault =
  tfError :: gerr
  tfEOF :: bool
  tfContext :: "gerr option"
  tfSource :: "gerr option"
  tfRead :: int

text \<open>A member: its header, the bytes counted when the header was delivered, and its content.\<close>

record tar_member =
  tmName :: string
  tmDir :: bool
  tmRegular :: bool
  tmLink :: string
  tmSize :: int
  tmPax :: "string list"
  tmRead :: int
  tmContent :: string
  tmFault :: "tar_fault option"

text \<open>\<open>tsPadding\<close> is what follows the end of the archive, \<open>tsBytes\<close> all bytes that were read.\<close>

record tar_scan =
  tsMembers :: "tar_member list"
  tsFault :: "tar_fault option"
  tsPadding :: string
  tsPaddingFault :: "tar_fault option"
  tsBytes :: string

definition maxFinetuningMetadataBytes :: int where "maxFinetuningMetadataBytes = 16777216"
definition maxFinetuningEntries :: nat where "maxFinetuningEntries = 4096"
definition maxFinetuningRelativePathBytes :: nat where "maxFinetuningRelativePathBytes = 1024"

definition finetuningTarOverhead :: int where
  "finetuningTarOverhead = 512 * int maxFinetuningEntries + 511 * int MaxFinetuningModelFiles
     + maxFinetuningMetadataBytes + 1024"

definition limit_ok :: "int \<Rightarrow> bool" where
  "limit_ok limit \<longleftrightarrow> 0 < limit \<and> limit \<le> max_int64 - finetuningTarOverhead"

definition configure_content_limit :: "minio_adapter option \<Rightarrow> int \<Rightarrow> gerr + minio_adapter" where
  "configure_content_limit ad limit =
     (case ad of
        None \<Rightarrow> Inl ErrFinetuningFactsUnavailable
      | Some a \<Rightarrow> if limit_ok limit then Inr (a\<lparr>maContentLimit := limit\<rparr>) else Inl ErrFinetuningFactsUnavailable)"

definition structure_limit :: "string \<Rightarrow> int \<Rightarrow> int \<Rightarrow> gerr" where
  "structure_limit n actual limit = FinetuningLimitViolation ''STRUCTURE_LIMIT_EXCEEDED'' n actual limit"

definition archive_read_bound_exceeded :: "int \<Rightarrow> int \<Rightarrow> gerr" where
  "archive_read_bound_exceeded actual limit =
     structure_limit ''tar_read_bound'' actual (limit + finetuningTarOverhead)"

definition archive_overhead_exceeded :: "int \<Rightarrow> gerr" where
  "archive_overhead_exceeded actual =
     structure_limit ''max_archive_overhead_bytes'' actual finetuningTarOverhead"

definition archive_read_error :: "int \<Rightarrow> tar_fault \<Rightarrow> gerr" where
  "archive_read_error len f =
     (case tfContext f of
        Some e \<Rightarrow> e
      | None \<Rightarrow>
          (case tfSource f of
             Some e \<Rightarrow> Joined ErrFinetuningFactsUnavailable ''source read'' e
           | None \<Rightarrow>
               if tfRead f < len \<and> tfEOF f
               then Joined ErrFinetuningFactsUnavailable ''source read'' (tfError f)
               else Joined ErrFinetuningBaseInvalid ''invalid archive'' (tfError f)))"

section \<open>Members\<close>

record intake =
  inSeen :: "string list"
  inFiles :: "artifact_file list"
  inExpanded :: int
  inConfig :: string
  inTokenizer :: string
  inIndex :: string

definition member_name :: "tar_member \<Rightarrow> string" where
  "member_name m = (if tmDir m \<and> has_suffix (tmName m) ''/'' then butlast (tmName m) else tmName m)"

text \<open>The name is a clean relative path, new, and no link.\<close>

definition name_ok :: "intake \<Rightarrow> tar_member \<Rightarrow> bool" where
  "name_ok a m \<longleftrightarrow> facts_path (member_name m) \<and> member_name m \<notin> set (inSeen a) \<and> tmLink m = []"

definition name_limits :: "intake \<Rightarrow> tar_member \<Rightarrow> gerr option" where
  "name_limits a m =
     (if finetuningTarOverhead < tmRead m - inExpanded a
      then Some (archive_overhead_exceeded (tmRead m - inExpanded a))
      else if maxFinetuningEntries \<le> length (inSeen a)
      then Some (structure_limit ''max_archive_entries'' (int (length (inSeen a)) + 1) (int maxFinetuningEntries))
      else if maxFinetuningRelativePathBytes < length (member_name m)
      then Some (structure_limit ''max_relative_path_bytes'' (int (length (member_name m)))
             (int maxFinetuningRelativePathBytes))
      else if \<not> name_ok a m then Some ErrFinetuningBaseInvalid
      else None)"

definition content_limits :: "int \<Rightarrow> intake \<Rightarrow> tar_member \<Rightarrow> gerr option" where
  "content_limits limit a m =
     (if list_ex (\<lambda>k. has_prefix k ''GNU.sparse'') (tmPax m) then Some ErrFinetuningBaseInvalid
      else if max_int64 - inExpanded a < tmSize m then Some ErrFinetuningBaseInvalid
      else if limit - inExpanded a < tmSize m
      then Some (FinetuningLimitViolation ''CONTENT_LIMIT_EXCEEDED'' ''max_content_bytes''
             (inExpanded a + tmSize m) limit)
      else if MaxFinetuningModelFiles \<le> length (inFiles a)
      then Some (structure_limit ''max_model_files'' (int (length (inFiles a)) + 1) (int MaxFinetuningModelFiles))
      else if \<not> tmRegular m \<or> tmSize m < 0 then Some ErrFinetuningBaseInvalid
      else None)"

definition captured :: "string \<Rightarrow> bool" where
  "captured n \<longleftrightarrow> n = ''config.json'' \<or> n = ''tokenizer_config.json'' \<or> n = ''model.safetensors.index.json''"

definition with_capture :: "string \<Rightarrow> string \<Rightarrow> intake \<Rightarrow> intake" where
  "with_capture n body a =
     (if n = ''config.json'' then a\<lparr>inConfig := body\<rparr>
      else if n = ''tokenizer_config.json'' then a\<lparr>inTokenizer := body\<rparr>
      else if n = ''model.safetensors.index.json'' then a\<lparr>inIndex := body\<rparr>
      else a)"

text \<open>The content of a regular member, hashed; \<open>json_valid\<close> is \<open>json.Valid\<close>.\<close>

definition take_content ::
    "ext \<Rightarrow> (string \<Rightarrow> bool) \<Rightarrow> int \<Rightarrow> intake \<Rightarrow> tar_member \<Rightarrow> gerr + intake" where
  "take_content E json_valid len a m =
     (let n = member_name m; body = tmContent m in
      if captured n \<and> int MaxFinetuningConfigBytes < tmSize m
      then Inl (structure_limit ''max_model_config_bytes'' (tmSize m) (int MaxFinetuningConfigBytes))
      else (case tmFault m of
        Some f \<Rightarrow> Inl (archive_read_error len f)
      | None \<Rightarrow>
          if int (length body) \<noteq> tmSize m then Inl ErrFinetuningBaseInvalid
          else if captured n \<and> \<not> (utf8_valid body \<and> json_valid body) then Inl ErrFinetuningBaseInvalid
          else Inr (with_capture n body (a\<lparr>inExpanded := inExpanded a + tmSize m,
                 inFiles := inFiles a @ [\<lparr>fPath = n, fSizeBytes = int (length body), fSha256 = x_sha256 E body\<rparr>]\<rparr>))))"

definition take_member ::
    "ext \<Rightarrow> (string \<Rightarrow> bool) \<Rightarrow> int \<Rightarrow> int \<Rightarrow> intake \<Rightarrow> tar_member \<Rightarrow> gerr + intake" where
  "take_member E json_valid limit len a m =
     (case name_limits a m of
        Some e \<Rightarrow> Inl e
      | None \<Rightarrow>
          let b = a\<lparr>inSeen := member_name m # inSeen a\<rparr> in
          if tmDir m \<and> tmSize m = 0 then Inr b
          else (case content_limits limit b m of
                  Some e \<Rightarrow> Inl e
                | None \<Rightarrow> take_content E json_valid len b m))"

fun take_members ::
    "ext \<Rightarrow> (string \<Rightarrow> bool) \<Rightarrow> int \<Rightarrow> int \<Rightarrow> intake \<Rightarrow> tar_member list \<Rightarrow> gerr + intake" where
  "take_members E json_valid limit len a [] = Inr a"
| "take_members E json_valid limit len a (m # ms) =
     (case take_member E json_valid limit len a m of
        Inl e \<Rightarrow> Inl e
      | Inr b \<Rightarrow> take_members E json_valid limit len b ms)"

section \<open>The archive\<close>

definition no_intake :: intake where
  "no_intake = \<lparr>inSeen = [], inFiles = [], inExpanded = 0, inConfig = [], inTokenizer = [], inIndex = []\<rparr>"

definition check_rest :: "int \<Rightarrow> int \<Rightarrow> tar_scan \<Rightarrow> gerr option" where
  "check_rest len expanded sc =
     (let count = int (length (tsBytes sc)) in
      if list_ex (\<lambda>c. c \<noteq> CHR 0x00) (tsPadding sc) then Some ErrFinetuningBaseInvalid
      else (case tsPaddingFault sc of
        Some f \<Rightarrow> Some (archive_read_error len f)
      | None \<Rightarrow>
          if finetuningTarOverhead < count - expanded then Some (archive_overhead_exceeded (count - expanded))
          else if count \<noteq> len
          then Some (Noted ErrFinetuningFactsUnavailable ''original object size was not observed'')
          else None))"

text \<open>\<open>scan\<close> reads at most as many bytes as it is told: one more than the object should have.\<close>

definition inspect_finetuning_archive ::
    "ext \<Rightarrow> (string \<Rightarrow> bool) \<Rightarrow> tokenizer \<Rightarrow> (string \<Rightarrow> (string \<times> string) list option) \<Rightarrow> gerr option \<Rightarrow>
     (int \<Rightarrow> tar_scan) \<Rightarrow> int \<Rightarrow> string \<Rightarrow> int \<Rightarrow> gerr + inventory" where
  "inspect_finetuning_archive E json_valid tokens_of weight_map ctx scan len digest limit =
     (case ctx of Some e \<Rightarrow> Inl e | None \<Rightarrow>
      if \<not> limit_ok limit \<or> len \<le> 0 then Inl ErrFinetuningFactsUnavailable
      else if limit + finetuningTarOverhead < len then Inl (archive_read_bound_exceeded len limit)
      else
        let sc = scan (if len < max_int64 then len + 1 else len) in
        case take_members E json_valid limit len no_intake (tsMembers sc) of
          Inl e \<Rightarrow> Inl e
        | Inr a \<Rightarrow>
            (case tsFault sc of Some f \<Rightarrow> Inl (archive_read_error len f) | None \<Rightarrow>
            (case check_rest len (inExpanded a) sc of Some e \<Rightarrow> Inl e | None \<Rightarrow>
              if x_sha256 E (tsBytes sc) \<noteq> digest \<or> inConfig a = [] \<or> inTokenizer a = []
              then Inl ErrFinetuningBaseInvalid
              else if inspect_weight_layout E tokens_of weight_map (inFiles a) (inIndex a) = None
              then Inl ErrFinetuningBaseInvalid
              else Inr \<lparr>nvBucket = [], nvKey = [], nvVersionID = [], nvSha256 = digest, nvSizeBytes = len,
                     nvFiles = sort_key fPath (inFiles a), nvConfigJSON = inConfig a,
                     nvTokenizerConfigJSON = inTokenizer a, nvWeightIndexJSON = inIndex a\<rparr>)))"

section \<open>The object\<close>

text \<open>
  \<open>ac_open\<close> starts the request for a version of the object and reads its first byte; it
  answers with what the response says of the object, and with its body.
\<close>

record 'b archive_client =
  ac_stat :: "string \<Rightarrow> string \<Rightarrow> minio_error + object_info"
  ac_open :: "string \<Rightarrow> string \<Rightarrow> string \<Rightarrow> minio_error + object_info \<times> 'b"
  ac_scan :: "'b \<Rightarrow> int \<Rightarrow> tar_scan"

definition finetuning_provider_error :: "gerr option \<Rightarrow> minio_error \<Rightarrow> gerr" where
  "finetuning_provider_error late e = (case late of Some c \<Rightarrow> c | None \<Rightarrow> provider_error e)"

definition pinned :: "int \<Rightarrow> object_info \<Rightarrow> bool" where
  "pinned len info \<longleftrightarrow> oiSize info = len \<and> oiVersionID info \<noteq> [] \<and> \<not> equal_fold (oiVersionID info) ''null''"

text \<open>\<open>ctx\<close> is the context's error when the inspection starts, \<open>late\<close> when a request fails.\<close>

definition inspect_finetuning_artifact ::
    "ext \<Rightarrow> (string \<Rightarrow> bool) \<Rightarrow> tokenizer \<Rightarrow> (string \<Rightarrow> (string \<times> string) list option) \<Rightarrow>
     gerr option \<Rightarrow> gerr option \<Rightarrow> minio_adapter \<Rightarrow> 'b archive_client \<Rightarrow> inspector" where
  "inspect_finetuning_artifact E json_valid tokens_of weight_map ctx late ad cl tenant reference len digest =
     (case ctx of Some e \<Rightarrow> Inl e | None \<Rightarrow>
      if len \<le> 0 \<or> \<not> limit_ok (maContentLimit ad) \<or> \<not> facts_digest digest
      then Inl ErrFinetuningFactsUnavailable
      else if maContentLimit ad + finetuningTarOverhead < len
      then Inl (archive_read_bound_exceeded len (maContentLimit ad))
      else (case object_at E ad tenant reference of
        Inl e \<Rightarrow> Inl e
      | Inr (b, key) \<Rightarrow>
          (case ac_stat cl b key of
             Inl e \<Rightarrow> Inl (finetuning_provider_error late e)
           | Inr info \<Rightarrow>
               if \<not> pinned len info then Inl ErrFinetuningFactsUnavailable
               else (case ac_open cl b key (oiVersionID info) of
                 Inl e \<Rightarrow> Inl (finetuning_provider_error late e)
               | Inr (actual, body) \<Rightarrow>
                   if oiVersionID actual \<noteq> oiVersionID info \<or> oiSize actual \<noteq> len
                   then Inl ErrFinetuningFactsUnavailable
                   else (case inspect_finetuning_archive E json_valid tokens_of weight_map None
                             (ac_scan cl body) len digest (maContentLimit ad) of
                     Inl e \<Rightarrow> Inl e
                   | Inr found \<Rightarrow> Inr (found\<lparr>nvBucket := b, nvKey := key, nvVersionID := oiVersionID info\<rparr>))))))"

section \<open>What an inventory says\<close>

text \<open>The intake so far: no path twice, the sizes within the limit, the captured texts are files.\<close>

definition kept :: "ext \<Rightarrow> artifact_file list \<Rightarrow> string \<Rightarrow> string \<Rightarrow> bool" where
  "kept E files n body \<longleftrightarrow> body = [] \<or> file_is E files n body"

definition intake_ok :: "ext \<Rightarrow> int \<Rightarrow> intake \<Rightarrow> bool" where
  "intake_ok E limit a \<longleftrightarrow>
     distinct (map fPath (inFiles a)) \<and> fPath ` set (inFiles a) \<subseteq> set (inSeen a)
     \<and> (\<Sum>f\<leftarrow>inFiles a. fSizeBytes f) = inExpanded a \<and> inExpanded a \<le> limit
     \<and> kept E (inFiles a) ''config.json'' (inConfig a)
     \<and> kept E (inFiles a) ''tokenizer_config.json'' (inTokenizer a)"

lemma file_at_append:
  "file_at (fs @ [f]) p = (case file_at fs p of Some g \<Rightarrow> Some g | None \<Rightarrow> if fPath f = p then Some f else None)"
  by (induction fs) (auto simp: file_at_def)

lemma file_at_None: "p \<notin> fPath ` set fs \<Longrightarrow> file_at fs p = None"
  by (force simp: file_at_def find_None_iff)

lemma file_at_distinct:
  "distinct (map fPath fs) \<Longrightarrow> file_at fs p = Some f \<longleftrightarrow> f \<in> set fs \<and> fPath f = p"
  by (induction fs) (auto simp: file_at_def)

lemma kept_append: "kept E fs n body \<Longrightarrow> kept E (fs @ [f]) n body"
  by (auto simp: kept_def file_is_def file_at_append split: option.splits)

lemma kept_new:
  "n \<notin> fPath ` set fs \<Longrightarrow> kept E (fs @ [\<lparr>fPath = n, fSizeBytes = int (length body), fSha256 = x_sha256 E body\<rparr>]) n body"
  by (simp add: kept_def file_is_def file_at_append file_at_None)

lemma intake_ok_none: "0 \<le> limit \<Longrightarrow> intake_ok E limit no_intake"
  by (simp add: intake_ok_def no_intake_def kept_def)

lemma with_capture_fields:
  "inFiles (with_capture n body a) = inFiles a" "inSeen (with_capture n body a) = inSeen a"
  "inExpanded (with_capture n body a) = inExpanded a"
  "inConfig (with_capture n body a) = (if n = ''config.json'' then body else inConfig a)"
  "inTokenizer (with_capture n body a) = (if n = ''tokenizer_config.json'' then body else inTokenizer a)"
  by (simp_all add: with_capture_def)

lemma intake_ok_capture:
  assumes "intake_ok E limit a" "n \<notin> fPath ` set (inFiles a)" "n \<in> set (inSeen a)"
    "inExpanded a + int (length body) \<le> limit"
  shows "intake_ok E limit (with_capture n body (a\<lparr>inExpanded := inExpanded a + int (length body),
    inFiles := inFiles a @ [\<lparr>fPath = n, fSizeBytes = int (length body), fSha256 = x_sha256 E body\<rparr>]\<rparr>))"
  using assms kept_new [OF assms(2)]
  by (auto simp: intake_ok_def with_capture_fields kept_append)

lemma take_content_Inr:
  assumes "take_content E valid len a m = Inr b"
  shows "tmSize m = int (length (tmContent m)) \<and>
    b = with_capture (member_name m) (tmContent m) (a\<lparr>inExpanded := inExpanded a + tmSize m,
      inFiles := inFiles a @ [\<lparr>fPath = member_name m, fSizeBytes = int (length (tmContent m)),
        fSha256 = x_sha256 E (tmContent m)\<rparr>]\<rparr>)"
proof (cases "tmFault m")
  case None
  have "int (length (tmContent m)) = tmSize m"
    using assms None by (simp add: take_content_def Let_def split: if_split_asm)
  then show ?thesis
    using assms None by (simp add: take_content_def Let_def split: if_split_asm)
next
  case (Some f)
  then show ?thesis
    using assms by (simp add: take_content_def Let_def split: if_split_asm)
qed

lemma take_content_ok:
  assumes "take_content E valid len a m = Inr b" "intake_ok E limit a" "inExpanded a + tmSize m \<le> limit"
    "member_name m \<notin> fPath ` set (inFiles a)" "member_name m \<in> set (inSeen a)"
  shows "intake_ok E limit b"
  using take_content_Inr [OF assms(1)] assms(2-5) by (simp add: intake_ok_capture)

text \<open>The file a member becomes; empty directories become none.\<close>

definition member_file :: "ext \<Rightarrow> tar_member \<Rightarrow> artifact_file" where
  "member_file E m = \<lparr>fPath = member_name m, fSizeBytes = int (length (tmContent m)),
     fSha256 = x_sha256 E (tmContent m)\<rparr>"

definition has_content :: "tar_member \<Rightarrow> bool" where
  "has_content m \<longleftrightarrow> \<not> (tmDir m \<and> tmSize m = 0)"

lemma take_member_files:
  assumes "take_member E valid limit len a m = Inr b"
  shows "inFiles b = inFiles a @ (if has_content m then [member_file E m] else [])
    \<and> (has_content m \<longrightarrow> tmRegular m \<and> tmSize m = int (length (tmContent m)))"
proof (cases "has_content m")
  case True
  let ?a = "a\<lparr>inSeen := member_name m # inSeen a\<rparr>"
  from assms True have c: "content_limits limit ?a m = None" and t: "take_content E valid len ?a m = Inr b"
    by (auto simp: take_member_def has_content_def Let_def split: option.splits)
  have "tmRegular m" using c by (auto simp: content_limits_def split: if_splits)
  with take_content_Inr [OF t] True show ?thesis
    by (simp add: with_capture_fields member_file_def)
next
  case False
  with assms show ?thesis
    by (auto simp: take_member_def has_content_def Let_def split: option.splits)
qed

lemma take_members_files:
  "take_members E valid limit len a ms = Inr b \<Longrightarrow>
   inFiles b = inFiles a @ map (member_file E) (filter has_content ms)
   \<and> (\<forall>m \<in> set ms. has_content m \<longrightarrow> tmRegular m \<and> tmSize m = int (length (tmContent m)))"
proof (induction ms arbitrary: a)
  case (Cons m ms)
  then obtain c where "take_member E valid limit len a m = Inr c" and "take_members E valid limit len c ms = Inr b"
    by (auto split: sum.splits)
  with Cons.IH take_member_files [of E valid limit len a m c] show ?case by auto
qed simp

lemma take_member_ok:
  assumes "take_member E valid limit len a m = Inr b" "intake_ok E limit a"
  shows "intake_ok E limit b"
proof -
  let ?a = "a\<lparr>inSeen := member_name m # inSeen a\<rparr>"
  have n: "member_name m \<notin> fPath ` set (inFiles a)" if "name_limits a m = None"
    using that assms(2) by (auto simp: name_limits_def name_ok_def intake_ok_def split: if_splits)
  have c: "inExpanded a + tmSize m \<le> limit" if "content_limits limit ?a m = None"
    using that by (auto simp: content_limits_def split: if_splits)
  have "intake_ok E limit ?a"
    using assms(2) by (auto simp: intake_ok_def)
  with n c assms(1) show ?thesis
    by (auto simp: take_member_def Let_def split: option.splits if_splits elim!: take_content_ok)
qed

lemma take_members_ok:
  "take_members E valid limit len a ms = Inr b \<Longrightarrow> intake_ok E limit a \<Longrightarrow> intake_ok E limit b"
  by (induction ms arbitrary: a) (auto split: sum.splits intro: take_member_ok)

subsection \<open>The order of the files does not matter to the layout\<close>

lemma file_at_sorted:
  assumes "distinct (map fPath fs)"
  shows "file_at (sort_key fPath fs) p = file_at fs p"
proof -
  have "distinct (map fPath (sort_key fPath fs))"
    using assms by (simp add: distinct_map)
  then have "file_at (sort_key fPath fs) p = Some f \<longleftrightarrow> file_at fs p = Some f" for f
    using assms by (simp add: file_at_distinct)
  then show ?thesis
    by (metis not_None_eq)
qed

lemma files_ok_distinct: "files_ok fs \<Longrightarrow> distinct (map fPath fs)"
  by (simp add: files_ok_def)

lemma files_ok_sorted: "files_ok (sort_key fPath fs) \<longleftrightarrow> files_ok fs"
proof -
  have "sort_key fPath fs = [] \<longleftrightarrow> fs = []"
    by (metis length_0_conv length_sort)
  then show ?thesis
    by (simp add: files_ok_def distinct_map list_all_iff)
qed

lemma weight_layout_sorted:
  assumes "files_ok fs"
  shows "inspect_weight_layout E tk wm (sort_key fPath fs) i = inspect_weight_layout E tk wm fs i"
proof -
  have "weight_entry_ok (sort_key fPath fs) = weight_entry_ok fs"
    by (rule ext) (simp add: weight_entry_ok_def file_at_sorted [OF files_ok_distinct [OF assms]])
  moreover have "list_ex P (sort_key fPath fs) = list_ex P fs" for P
    by (simp add: list_ex_iff)
  ultimately show ?thesis
    unfolding inspect_weight_layout_def files_ok_sorted file_at_sorted [OF files_ok_distinct [OF assms]]
    by (simp only:)
qed

lemma sorted_paths:
  assumes "sorted (map fPath fs)" "distinct (map fPath fs)" "\<forall>f \<in> set fs. p < fPath f"
    "list_all (\<lambda>f. facts_path (fPath f) \<and> 0 \<le> fSizeBytes f \<and> facts_digest (fSha256 f)) fs"
  shows "files_sorted p fs"
  using assms by (induction fs arbitrary: p) (force simp: order_le_less)+

lemma files_ok_files_sorted:
  assumes "files_ok fs"
  shows "files_sorted [] (sort_key fPath fs)"
proof (rule sorted_paths)
  have s: "files_ok (sort_key fPath fs)"
    using assms by (simp add: files_ok_sorted)
  then show "distinct (map fPath (sort_key fPath fs))" and
    "list_all (\<lambda>f. facts_path (fPath f) \<and> 0 \<le> fSizeBytes f \<and> facts_digest (fSha256 f)) (sort_key fPath fs)"
    by (simp_all add: files_ok_def)
  have "[] < fPath f" if "f \<in> set fs" for f
    using assms that by (cases "fPath f") (auto simp: files_ok_def facts_path_def list_all_iff)
  then show "\<forall>f \<in> set (sort_key fPath fs). [] < fPath f"
    by simp
qed simp

lemma inspect_archive_Inr:
  assumes "inspect_finetuning_archive E valid tk wm ctx scan len digest limit = Inr found"
    and "sc = scan (if len < max_int64 then len + 1 else len)"
  obtains a where "0 < limit" "take_members E valid limit len no_intake (tsMembers sc) = Inr a"
    "check_rest len (inExpanded a) sc = None" "x_sha256 E (tsBytes sc) = digest"
    "inConfig a \<noteq> []" "inTokenizer a \<noteq> []"
    "inspect_weight_layout E tk wm (inFiles a) (inIndex a) \<noteq> None"
    "nvFiles found = sort_key fPath (inFiles a)" "nvConfigJSON found = inConfig a"
    "nvTokenizerConfigJSON found = inTokenizer a" "nvWeightIndexJSON found = inIndex a"
    "nvSha256 found = digest" "nvSizeBytes found = len"
  using assms
  by (auto simp: inspect_finetuning_archive_def Let_def limit_ok_def
      split: option.splits if_splits sum.splits)

lemma file_is_sorted:
  "files_ok fs \<Longrightarrow> file_is E (sort_key fPath fs) n body = file_is E fs n body"
  by (simp add: file_is_def file_at_sorted files_ok_distinct)

lemma sum_list_sorted:
  fixes g :: "'a \<Rightarrow> int"
  shows "(\<Sum>f\<leftarrow>sort_key k fs. g f) = (\<Sum>f\<leftarrow>fs. g f)"
  by (metis mset_map mset_sort sum_mset_sum_list)

text \<open>C14: An inventory the archive inspection returns describes the bytes that were read and is
  what the facts validator asks for. The whole object hashes to the frozen digest and has the
  frozen size. The files are exactly the members that are not empty directories, each a regular
  file listed with the size and the digest of the content read for it, in strictly increasing
  order of clean paths. Their sizes add up to at most the content limit, the configuration and
  tokenizer texts are the files of those names, and the weight layout is accepted.\<close>

theorem archive_inventory_sound:
  assumes "inspect_finetuning_archive E valid tk wm ctx scan len digest limit = Inr found"
    and "sc = scan (if len < max_int64 then len + 1 else len)"
  shows "x_sha256 E (tsBytes sc) = digest \<and> int (length (tsBytes sc)) = len
    \<and> nvSha256 found = digest \<and> nvSizeBytes found = len
    \<and> nvFiles found = sort_key fPath (map (member_file E) (filter has_content (tsMembers sc)))
    \<and> (\<forall>m \<in> set (tsMembers sc). has_content m \<longrightarrow> tmRegular m \<and> tmSize m = int (length (tmContent m)))
    \<and> files_sorted [] (nvFiles found) \<and> (\<Sum>f\<leftarrow>nvFiles found. fSizeBytes f) \<le> limit
    \<and> file_is E (nvFiles found) ''config.json'' (nvConfigJSON found)
    \<and> file_is E (nvFiles found) ''tokenizer_config.json'' (nvTokenizerConfigJSON found)
    \<and> inspect_weight_layout E tk wm (nvFiles found) (nvWeightIndexJSON found) \<noteq> None"
  using assms
proof (cases rule: inspect_archive_Inr)
  case (1 a)
  from 1(1,2) have a: "intake_ok E limit a"
    by (metis take_members_ok intake_ok_none order_less_imp_le)
  from take_members_files [OF 1(2)] have files: "inFiles a = map (member_file E) (filter has_content (tsMembers sc))"
    and regular: "\<forall>m \<in> set (tsMembers sc). has_content m \<longrightarrow> tmRegular m \<and> tmSize m = int (length (tmContent m))"
    by (simp_all add: no_intake_def)
  from 1(7) have o: "files_ok (inFiles a)"
    by (auto simp: inspect_weight_layout_def split: if_splits)
  from 1(3) have size_read: "int (length (tsBytes sc)) = len"
    by (auto simp: check_rest_def Let_def split: if_splits option.splits)
  have "file_is E (inFiles a) ''config.json'' (inConfig a)" "file_is E (inFiles a) ''tokenizer_config.json'' (inTokenizer a)"
    "(\<Sum>f\<leftarrow>inFiles a. fSizeBytes f) \<le> limit"
    using a 1(5,6) by (simp_all add: intake_ok_def kept_def)
  then show ?thesis
    unfolding 1(8-13) files [symmetric] sum_list_sorted file_is_sorted [OF o] weight_layout_sorted [OF o]
    using files_ok_files_sorted [OF o] size_read regular 1(4,7) by blast
qed

lemma limits_as_int [code_unfold]:
  "int maxFinetuningEntries = 4096" "int MaxFinetuningModelFiles = 1024"
  "int MaxFinetuningConfigBytes = 8388608" "int maxFinetuningRelativePathBytes = 1024"
  by (simp_all add: maxFinetuningEntries_def MaxFinetuningModelFiles_def MaxFinetuningConfigBytes_def
      maxFinetuningRelativePathBytes_def)

definition archive_ext :: ext where
  "archive_ext = sample_ext\<lparr>x_sha256 := (\<lambda>s. replicate 64 (CHR ''a''))\<rparr>"

definition sample_member :: "string \<Rightarrow> string \<Rightarrow> tar_member" where
  "sample_member n body = \<lparr>tmName = n, tmDir = False, tmRegular = True, tmLink = [],
     tmSize = int (length body), tmPax = [], tmRead = 512, tmContent = body, tmFault = None\<rparr>"

text \<open>The sizes of a real archive are scaled down: only their differences are tested.\<close>

definition sample_scan :: tar_scan where
  "sample_scan = \<lparr>tsMembers = [sample_member ''tokenizer_config.json'' ''{}'',
       (sample_member ''weights/'' [])\<lparr>tmDir := True, tmRegular := False\<rparr>,
       sample_member ''model.safetensors'' ''www'', sample_member ''config.json'' ''{1}''],
     tsFault = None, tsPadding = [CHR 0x00], tsPaddingFault = None, tsBytes = ''the archive''\<rparr>"

abbreviation sample_inspection :: "gerr + inventory" where
  "sample_inspection \<equiv> inspect_finetuning_archive archive_ext (\<lambda>_. True) (\<lambda>_. ([], True)) (\<lambda>_. None) None
     (\<lambda>_. sample_scan) 11 (replicate 64 (CHR ''a'')) 100"

lemma case_Inr_D: "(case x of Inl _ \<Rightarrow> False | Inr y \<Rightarrow> P y) \<Longrightarrow> \<exists>y. x = Inr y \<and> P y"
  by (cases x) simp_all

lemma archive_inventory_sound_witness:
  "\<exists>found. sample_inspection = Inr found
    \<and> map fPath (nvFiles found) = [''config.json'', ''model.safetensors'', ''tokenizer_config.json'']
    \<and> (\<Sum>f\<leftarrow>nvFiles found. fSizeBytes f) \<le> 100"
proof -
  have "(case sample_inspection of Inl _ \<Rightarrow> False
     | Inr found \<Rightarrow> map fPath (nvFiles found) = [''config.json'', ''model.safetensors'', ''tokenizer_config.json''])"
    by code_simp
  from case_Inr_D [OF this] obtain found where run: "sample_inspection = Inr found"
    and files: "map fPath (nvFiles found) = [''config.json'', ''model.safetensors'', ''tokenizer_config.json'']"
    by (elim exE conjE) (rule that)
  have "(\<Sum>f\<leftarrow>nvFiles found. fSizeBytes f) \<le> 100"
    using archive_inventory_sound [OF run refl] by (elim conjE)
  with run files show ?thesis by (intro exI conjI)
qed

end
