(* ===== verification/Spec2Isabelle.thy ===== *)
theory Spec2Isabelle
  imports StoredBytes Archive
begin

text \<open>
  A model of the model-management service of the ANI platform, with the theorems that make it
  correct. The service is a gRPC server and an import worker in one Go process: the server
  keeps a catalogue of models and their versions for many tenants, the worker brings the
  files of imported models into object storage with one Kubernetes job per attempt, and both
  work on the same PostgreSQL tables, where lease epochs and row conditions order them.

  \<^bold>\<open>The parts and how they interact.\<close> A call passes the client-certificate identity, the RPC
  policy, the principal taken from the metadata and the deadline of its method
  (\<open>internal/identity\<close>; the policy and the principal in \<open>rpc_policy.go\<close>, the
  budget in \<open>grpc_tls.go\<close> of \<open>cmd/ani-model-service\<close>) before its handler
  (\<open>internal/service\<close>) calls the stores (\<open>internal/data/postgres\<close>), the object storage
  (\<open>internal/data/storage\<close>) and, for deletions, the inference service. The worker
  (\<open>internal/worker\<close>) claims due tasks from the task store, runs each through a job
  (\<open>internal/data/kubernetes\<close>) and publishes the result through the stores.

  \<^bold>\<open>The theories\<close>, in the order of the code's layers; the names of definitions follow the
  functions they model.

  \<^item> \<open>Prelude\<close>: Go string and integer operations; operations \<open>'s \<Rightarrow> (error + 'a) \<times> 's\<close> with
    \<open>andThen\<close>, \<open>mapErr\<close> and \<open>lift\<close>; the locale \<open>state_preorder\<close> with the rules that carry a relation
    between states through such operations, collected in the \<open>named_theorems\<close>.
  \<^item> \<open>Errors\<close>: the error values of all packages, wrapping, and the record \<open>ext\<close> of
    functions that are not in the repository (UUID parsing and printing, SHA-256, JSONB).
  \<^item> \<open>Domain\<close>, \<open>Task\<close>, \<open>Facts\<close>: \<open>internal/biz\<close> and the validators of \<open>api/model/v1\<close>: records of
    models, versions, artifacts and registrations with their \<open>Validate\<close>; the task with
    \<open>Claim\<close>, \<open>Complete\<close>, \<open>Fail\<close>; the checks of paths, JSON objects and weight layouts.
  \<^item> \<open>Tables\<close>, \<open>Rules\<close>, \<open>Statements\<close>, \<open>StatementRules\<close>, \<open>Samples\<close>: the tables of \<open>migrations\<close>
    as lists of rows in a record with the clock and the failures to come; transactions; every
    statement of \<open>model.sql.go\<close>, its WHERE clause and constraints written out; the
    relations each keeps. The locale \<open>db_relation\<close> is the interface between statements and
    the theorems on the stores, interpreted for row evolution (\<open>ev\<close>), tenant frames
    (\<open>fr\<close>), the database invariant (\<open>ok\<close>), their union (\<open>so\<close>) and others.
  \<^item> \<open>WorkStore\<close>, \<open>LeaseProtocol\<close>, \<open>VersionStore\<close>, \<open>CatalogStore\<close>, \<open>BundleStore\<close>,
    \<open>DeletionStore\<close>, \<open>RegistrationStore\<close> with \<open>RegistrationRules\<close> and \<open>RegistrationFlow\<close>:
    every method of the stores, one definition each, and what it keeps and achieves.
    \<open>StoreRuns\<close>: the step relation of store calls, runs and reachable states.
  \<^item> \<open>Access\<close>, \<open>Messages\<close>, \<open>Service\<close>, \<open>VersionService\<close>, \<open>TrainedService\<close>, \<open>FinetuningService\<close>,
    \<open>Server\<close>: identity, policy and principal; requests and responses; the 23 handlers;
    the dispatch of a call. \<open>ServiceRuns\<close>, \<open>ServiceErrors\<close>, \<open>ServerProperties\<close>,
    \<open>VersionViews\<close>, \<open>UploadProperties\<close>, \<open>UploadReplay\<close>: handlers as runs of the stores,
    their errors, and the properties of calls. Locale \<open>world_relation\<close> lifts a
    \<open>db_relation\<close> to handlers; \<open>version_view\<close> tracks the versions with a given property.
  \<^item> \<open>KubeJobs\<close>, \<open>ImportExecutor\<close>, \<open>Worker\<close>: \<open>import_job.go\<close>, \<open>kubernetes_executor.go\<close> and
    \<open>import_worker.go\<close>, over a state that joins the database, the cluster and what other
    processes do between two calls (\<open>g_moments\<close>). \<open>WorkerRuns\<close>, \<open>ImportProperties\<close>,
    \<open>JobProperties\<close>: what the worker keeps and achieves. Locale \<open>worker_stores\<close> lists what the
    worker needs of the stores; it is interpreted for runs of the stores (\<open>sw\<close>) and for
    watched versions (\<open>ww\<close>).
  \<^item> \<open>Minio\<close>, \<open>StoredBytes\<close>, \<open>Archive\<close>: the MinIO adapter as provider of the storage port, the
    handlers and the worker over it, and the inspection of model archives.

  \<^bold>\<open>What the theorems show.\<close> Access: no handler runs unless identity, policy, principal and
  deadline allow it, and a call leaves other tenants' rows and objects alone. Publication: a version
  becomes ready only over bytes the storage confirmed, on each of the three paths
  (upload, trained artifact, import), and in every reachable state a ready version has its
  artifact. Leases: a worker that lost its lease changes nothing, a claim is exclusive, an
  abandoned task is claimed again, a failed one can be retried, and the SQL statements implement
  the transitions of \<open>Task\<close>, with the differences \<open>claim_refines\<close> spells out.
  Atomicity: bundle imports and registrations change everything or nothing, whatever statement
  or commit fails, and repeating them returns the first result. History: statuses, epochs
  and checksums only move forward. Errors: every error has a declared class and reason. The
  cluster gets well-formed jobs with enough staging space, and the result on the last log line
  is read back while the logs stay within the bound of the client. Deletion asks the inference
  service about every version, and the batches in which it asks do not change the answer.

  \<^bold>\<open>Bounds and fuel.\<close> Integers of 64 bits that the code can overflow are written with their
  wrap-around (\<open>wrap64\<close>); the others are \<open>int\<close> with the code's own guards. \<open>reg_prepare\<close> takes
  fuel for its recursion after a unique violation; \<open>prepare_returns\<close> shows how much is
  enough. The walk of \<open>json_value\<close> has twice the number of tokens as fuel, each call reading
  one. The polling of a job and the loop of the worker recurse on the list of moments
  and of events they are given.

  \<^bold>\<open>Parameters.\<close> PostgreSQL is modelled by the tables and statements; which statement or commit
  fails, and with which error, is chosen freely by the state. The \<open>ext\<close> functions, the Kubernetes API
  (\<open>kube\<close>), the MinIO client (\<open>minio_client\<close>), \<open>archive/tar\<close> (\<open>tar_scan\<close>), the tokens of
  \<open>encoding/json\<close>, the inference service and fresh random identifiers are arguments. The
  only law assumed of them is that the canonical text of a UUID parses back
  (\<open>uuid_roundtrip\<close>); a theorem that needs more of a parameter, such as the tail of the logs a
  cluster returns, states it.

  \<^bold>\<open>Not modelled.\<close> The HTTP clients of Hugging Face and ModelScope (\<open>http_source.go\<close>), the
  gRPC storage and inference clients (conversions around calls to other services), process
  wiring and configuration (\<open>cmd/ani-model-service\<close>), TLS files, metrics, health endpoints
  and the goroutine supervisor, the separate provisioning command (\<open>cmd/minio-provision\<close>),
  the in-process importer \<open>ImportExecutor.Execute\<close>, which the service does not install, and
  generated protobuf code. Logging, and the text of log lines, is left out everywhere. Two
  statements of one transaction run without another transaction between them; interleaving
  is modelled between transactions, and for the worker between the calls of one execution, not
  between the end of an execution and the calls that finish its task. The chain of a call
  leaves out the middleware for request metadata and for \<open>Validate\<close>, which no request
  implements.
\<close>

section \<open>Properties of every run of the stores\<close>

text \<open>C9: In every state a deployment can reach, a version offered as ready has a stored artifact
  whose SHA-256 digest is well formed and equal to the version's checksum.\<close>

theorem reachable_ready_backed:
  assumes "reachable E t" and "v \<in> set (versions t)" and "v_status v = VersionReady"
  shows "\<exists>a \<in> set (artifacts t). a_tenant_id a = v_tenant_id v \<and> a_model_version_id a = v_id v
    \<and> a_sha256 a = v_checksum_sha256 v \<and> is_checksum (a_sha256 a)"
  using reachable_ok [OF assms(1)] assms(2,3)
  unfolding db_ok_def versions_ok_def ready_backed_def backed_def list_ex_iff by blast

lemma reachable_ready_backed_witness:
  "v_status (hd (versions ready_db)) = VersionReady
   \<and> (\<exists>a \<in> set (artifacts ready_db). a_tenant_id a = v_tenant_id (hd (versions ready_db))
        \<and> a_model_version_id a = v_id (hd (versions ready_db))
        \<and> a_sha256 a = v_checksum_sha256 (hd (versions ready_db)) \<and> is_checksum (a_sha256 a))"
proof -
  have "versions ready_db \<noteq> []" and st: "v_status (hd (versions ready_db)) = VersionReady"
    by code_simp+
  then have "hd (versions ready_db) \<in> set (versions ready_db)" by simp
  from st reachable_ready_backed [OF ready_reachable this st] show ?thesis ..
qed

text \<open>C17: A call of one tenant leaves the rows of every other tenant as they are, in every table.\<close>

theorem tenants_isolated:
  assumes "tenant_step E a s t" and "x_uuid_parse E a = Inr tn"
  shows "filter (\<lambda>r. m_tenant_id r \<noteq> tn) (models t) = filter (\<lambda>r. m_tenant_id r \<noteq> tn) (models s)
    \<and> filter (\<lambda>r. v_tenant_id r \<noteq> tn) (versions t) = filter (\<lambda>r. v_tenant_id r \<noteq> tn) (versions s)
    \<and> filter (\<lambda>r. a_tenant_id r \<noteq> tn) (artifacts t) = filter (\<lambda>r. a_tenant_id r \<noteq> tn) (artifacts s)
    \<and> filter (\<lambda>r. t_tenant_id r \<noteq> tn) (tasks t) = filter (\<lambda>r. t_tenant_id r \<noteq> tn) (tasks s)
    \<and> filter (\<lambda>r. e_tenant_id r \<noteq> tn) (audits t) = filter (\<lambda>r. e_tenant_id r \<noteq> tn) (audits s)
    \<and> filter (\<lambda>r. r_tenant_id r \<noteq> tn) (regs t) = filter (\<lambda>r. r_tenant_id r \<noteq> tn) (regs s)"
  using tenant_step_frame [OF assms(2,1)] by (simp add: frame_def)

lemma tenants_isolated_witness:
  "filter (\<lambda>r. t_tenant_id r \<noteq> 3) (tasks (snd (delete_model sample_ext ''u111'' ''u11'' (Some no_references)
      (snd (work_fail sample_ext ''u111'' ''u1111'' ''w'' 1 ''why'' held_db)))))
   = filter (\<lambda>r. t_tenant_id r \<noteq> 3) (tasks held_db)"
proof -
  have "x_uuid_parse sample_ext ''u111'' = Inr 3" by simp
  from tenants_isolated [OF task_failed this] tenants_isolated [OF model_deleted this]
  show ?thesis by metis
qed

text \<open>C18: Along every run a version keeps its identity, model, name and format, its checksum is
  written at most once, a deleted version stays deleted and a ready one is afterwards ready or
  deleted, with the size it had.\<close>

theorem version_history:
  assumes "reachable E s" and "store_run E s t" and "v \<in> set (versions s)"
  shows "\<exists>w \<in> set (versions t). version_key w = version_key v \<and> v_model_id w = v_model_id v
    \<and> v_version w = v_version v \<and> v_format w = v_format v
    \<and> (v_checksum_sha256 v \<noteq> [] \<longrightarrow> v_checksum_sha256 w = v_checksum_sha256 v)
    \<and> (v_status v = VersionDeleted \<longrightarrow> v_status w = VersionDeleted)
    \<and> (v_status v = VersionReady \<longrightarrow>
         v_status w \<in> {VersionReady, VersionDeleted} \<and> v_size_bytes w = v_size_bytes v)"
proof -
  from run_evolves [OF assms(1,2)] have "grows version_evolves (versions s) (versions t)"
    by (simp add: evolves_def)
  then obtain w where "w \<in> set (versions t)" and "version_evolves v w"
    using assms(3) by (rule run_row)
  then show ?thesis
    unfolding version_evolves_def status_step_def by (intro bexI [of _ w]) auto
qed

lemma version_history_witness:
  "\<exists>w \<in> set (versions expired_db). version_key w = version_key (hd (versions imported_db))
     \<and> v_version w = v_version (hd (versions imported_db))"
proof -
  have "versions imported_db \<noteq> []" by code_simp
  then have "hd (versions imported_db) \<in> set (versions imported_db)" by simp
  from version_history [OF imported_reachable store_run_trans [OF claimed_run expired_run] this]
  show ?thesis by blast
qed

text \<open>C19: Along every run the lease epoch of a task never decreases, a completed task never
  changes, and a task stays under one epoch with one owner while it is importing.\<close>

theorem task_history:
  assumes "reachable E s" and "store_run E s t" and "k \<in> set (tasks s)"
  shows "\<exists>l \<in> set (tasks t). task_key l = task_key k \<and> t_lease_epoch k \<le> t_lease_epoch l
    \<and> (t_status k = TaskCompleted \<longrightarrow> l = k)
    \<and> (t_lease_epoch l = t_lease_epoch k \<and> t_status l = TaskImporting \<longrightarrow>
         t_status k = TaskImporting \<and> t_lease_owner l = t_lease_owner k)"
proof -
  from run_evolves [OF assms(1,2)] have "grows task_evolves (tasks s) (tasks t)"
    by (simp add: evolves_def)
  then obtain l where "l \<in> set (tasks t)" and "task_evolves k l"
    using assms(3) by (rule run_row)
  then show ?thesis
    unfolding task_evolves_def by blast
qed

lemma task_history_witness:
  "\<exists>l \<in> set (tasks claimed_db). task_key l = task_key (hd (tasks imported_db))
     \<and> t_lease_epoch (hd (tasks imported_db)) \<le> t_lease_epoch l"
proof -
  have "tasks imported_db \<noteq> []" by code_simp
  then have "hd (tasks imported_db) \<in> set (tasks imported_db)" by simp
  from task_history [OF imported_reachable claimed_run this] show ?thesis by blast
qed

text \<open>C20: Along every run a registration that is ready, failed or aborted never changes again,
  and one that left \<open>pending\<close> never returns to it.\<close>

theorem registration_history:
  assumes "reachable E s" and "store_run E s t" and "r \<in> set (regs s)"
  shows "\<exists>q \<in> set (regs t). reg_key q = reg_key r \<and> r_checksum_sha256 q = r_checksum_sha256 r
    \<and> (r_status r \<in> {RegistrationReady, RegistrationFailed, RegistrationAborted} \<longrightarrow> q = r)
    \<and> (r_status r \<noteq> RegistrationPending \<longrightarrow> r_status q \<noteq> RegistrationPending)"
proof -
  from run_evolves [OF assms(1,2)] have "grows reg_evolves (regs s) (regs t)"
    by (simp add: evolves_def)
  then obtain q where "q \<in> set (regs t)" and "reg_evolves r q"
    using assms(3) by (rule run_row)
  then show ?thesis
    unfolding reg_evolves_def terminal_reg_def by blast
qed

lemma registration_history_witness:
  "hd (regs ready_db) \<in> set (regs (snd (reg_abort sample_ext ''u1'' ''u11111'' ''late'' ready_db)))"
proof -
  have "regs ready_db \<noteq> []" and "r_status (hd (regs ready_db)) = RegistrationReady" by code_simp+
  moreover from this have "hd (regs ready_db) \<in> set (regs ready_db)" by simp
  note registration_history [OF ready_reachable onward [OF here called [OF reg_aborted]] this]
  ultimately show ?thesis by (metis insertCI)
qed

text \<open>C10: Once a later claim of the task succeeded, the worker that held it before is fenced for
  ever: whatever happens in between and afterwards, its completion, failure, retry and renewal
  are rejected and change nothing.\<close>

theorem stale_worker_fenced:
  assumes r: "reachable E s" and E: "x_uuid_parse E a = Inr tn" "x_uuid_parse E b = Inr i"
    and c1: "work_claim E a b w1 l1 s = (Inr k1, s1)" and r1: "store_run E s1 s2"
    and c2: "work_claim E a b w2 l2 s2 = (Inr k2, s3)" and r3: "store_run E s3 s4"
  shows "rejects (work_complete E a b w1 (wLeaseEpoch k1)) s4
    \<and> rejects (work_fail E a b w1 (wLeaseEpoch k1) msg) s4
    \<and> rejects (work_retry E a b w1 (wLeaseEpoch k1) after msg) s4
    \<and> rejects (work_renew E a b w1 (wLeaseEpoch k1) lease) s4"
proof -
  from r have "reachable E s1" using reachable_claim [of E s a b w1 l1] c1 by simp
  note reach2 = reachable_run [OF this r1]
  then have reach3: "reachable E s3" using reachable_claim [of E s2 a b w2 l2] c2 by simp
  have "wLeaseEpoch k1 < wLeaseEpoch k2"
    by (rule later_claim_epoch [OF \<open>reachable E s1\<close> E c1 r1 c2])
  then have "fenced s3 tn i (wLeaseEpoch k1)"
    by (rule claimed_fenced [OF E c2])
  then have "fenced s4 tn i (wLeaseEpoch k1)"
    using fenced_sound [OF store_run_sound [OF r3] reachable_ok [OF reach3]] by blast
  from fenced_rejects(1-4) [OF reachable_ok [OF reachable_run [OF reach3 r3]] this E]
  show ?thesis by (intro conjI)
qed

lemma stale_worker_fenced_witness:
  "rejects (work_complete sample_ext ''u1'' ''u111111111'' ''w1''
       (wLeaseEpoch (projr (fst (sample_claim ''w1'' imported_db)))))
     (snd (sample_claim ''w2'' expired_db))"
  using stale_worker_fenced [OF imported_reachable sample_reg_id
      succeeded [OF sample_claims(1), unfolded sample_claim_def]
      expired_run [unfolded claimed_db_def sample_claim_def]
      succeeded [OF sample_claims(2), unfolded sample_claim_def] here]
  unfolding sample_claim_def by blast

text \<open>C16: A worker that gave its task back, by completing, failing or deferring it, cannot act on
  it again under that lease, whatever happens afterwards.\<close>

theorem released_worker_fenced:
  assumes r: "reachable E s" and E: "x_uuid_parse E a = Inr tn" "x_uuid_parse E b = Inr i"
    and fin: "work_complete E a b w e s = (Inr x, t) \<or> work_fail E a b w e why s = (Inr x, t)
      \<or> work_retry E a b w e after why s = (Inr x, t)"
    and run: "store_run E t u"
  shows "rejects (work_complete E a b w2 e) u \<and> rejects (work_fail E a b w2 e msg) u
    \<and> rejects (work_retry E a b w2 e delay msg) u \<and> rejects (work_renew E a b w2 e lease) u"
proof -
  have "store_step E s t"
    using fin by (metis called snd_conv task_completed task_deferred task_failed)
  then have reach: "reachable E t" by (rule reachable_run [OF r onward [OF here]])
  have "fenced u tn i e"
    using fenced_sound [OF store_run_sound [OF run] reachable_ok [OF reach]]
      released_fenced [OF E fin] by blast
  from fenced_rejects(1-4) [OF reachable_ok [OF reachable_run [OF reach run]] this E]
  show ?thesis by (intro conjI)
qed

lemma released_worker_fenced_witness:
  "rejects (work_fail sample_ext ''u1'' ''u111111111'' ''w1'' 1 ''again'')
     (snd (work_complete sample_ext ''u1'' ''u111111111'' ''w1'' 1 claimed_db))"
proof -
  let ?p = "work_complete sample_ext ''u1'' ''u111111111'' ''w1'' 1 claimed_db"
  have "\<not> isl (fst ?p)" by code_simp
  from succeeded [OF this] have fin: "?p = (Inr (projr (fst ?p)), snd ?p)" .
  have "reachable sample_ext claimed_db"
    by (rule reachable_run [OF imported_reachable claimed_run])
  from released_worker_fenced [OF this sample_reg_id disjI1 [OF fin] here] show ?thesis by blast
qed

end
